(* ===== verification/Prelude.thy ===== *)
theory Prelude
  imports Main "HOL-Library.Char_ord" "HOL-Library.List_Lexorder"
begin

text \<open>
  Shared vocabulary of the development: the parts of Go's \<open>strings\<close> and
  \<open>slices\<close> packages the sources use, on byte strings (a Go \<open>string\<close> is
  a byte sequence, an Isabelle \<open>string\<close> is a list of 8-bit characters), results
  with errors, and the list lemmas the components share.
\<close>

subsection \<open>Bytes\<close>

abbreviation byte :: "char \<Rightarrow> nat" where
  "byte c \<equiv> of_char c"

definition in_range :: "char \<Rightarrow> nat \<Rightarrow> nat \<Rightarrow> bool" where
  "in_range c lo hi \<longleftrightarrow> lo \<le> byte c \<and> byte c \<le> hi"

subsection \<open>Go's strings package\<close>

text \<open>
  \<open>strings.TrimSpace\<close> removes leading and trailing Unicode white space. On bytes
  a white space rune is one of the six ASCII ones or the UTF-8 encoding of U+0085,
  U+00A0, U+1680, U+2000 to U+200A, U+2028, U+2029, U+202F, U+205F or U+3000.
\<close>

definition ascii_space :: "char \<Rightarrow> bool" where
  "ascii_space c \<longleftrightarrow> byte c = 32 \<or> in_range c 9 13"

definition space2 :: "nat \<Rightarrow> nat \<Rightarrow> bool" where
  "space2 a b \<longleftrightarrow> a = 194 \<and> (b = 133 \<or> b = 160)"

definition space3 :: "nat \<Rightarrow> nat \<Rightarrow> nat \<Rightarrow> bool" where
  "space3 a b c \<longleftrightarrow>
     (a = 225 \<and> b = 154 \<and> c = 128) \<or>
     (a = 226 \<and> b = 128 \<and> ((128 \<le> c \<and> c \<le> 138) \<or> c = 168 \<or> c = 169 \<or> c = 175)) \<or>
     (a = 226 \<and> b = 129 \<and> c = 159) \<or>
     (a = 227 \<and> b = 128 \<and> c = 128)"

fun trim_left :: "string \<Rightarrow> string" where
  "trim_left (a # b # c # s) =
     (if ascii_space a then trim_left (b # c # s)
      else if space2 (byte a) (byte b) then trim_left (c # s)
      else if space3 (byte a) (byte b) (byte c) then trim_left s
      else a # b # c # s)"
| "trim_left [a, b] =
     (if ascii_space a then trim_left [b]
      else if space2 (byte a) (byte b) then [] else [a, b])"
| "trim_left [a] = (if ascii_space a then [] else [a])"
| "trim_left [] = []"

text \<open>The trailing side works on the reversed string.\<close>

fun trim_right_rev :: "string \<Rightarrow> string" where
  "trim_right_rev (c # b # a # s) =
     (if ascii_space c then trim_right_rev (b # a # s)
      else if space2 (byte b) (byte c) then trim_right_rev (a # s)
      else if space3 (byte a) (byte b) (byte c) then trim_right_rev s
      else c # b # a # s)"
| "trim_right_rev [c, b] =
     (if ascii_space c then trim_right_rev [b]
      else if space2 (byte b) (byte c) then [] else [c, b])"
| "trim_right_rev [c] = (if ascii_space c then [] else [c])"
| "trim_right_rev [] = []"

definition TrimSpace :: "string \<Rightarrow> string" where
  "TrimSpace s = rev (trim_right_rev (rev (trim_left s)))"

fun split_on :: "char \<Rightarrow> string \<Rightarrow> string list" where
  "split_on d [] = [[]]"
| "split_on d (c # s) =
     (if c = d then [] # split_on d s
      else case split_on d s of [] \<Rightarrow> [[c]] | p # ps \<Rightarrow> (c # p) # ps)"

fun join :: "string \<Rightarrow> string list \<Rightarrow> string" where
  "join sep [] = []"
| "join sep [p] = p"
| "join sep (p # q # ps) = p @ sep @ join sep (q # ps)"

fun HasPrefix :: "string \<Rightarrow> string \<Rightarrow> bool" where
  "HasPrefix s [] = True"
| "HasPrefix [] (p # ps) = False"
| "HasPrefix (c # s) (p # ps) = (c = p \<and> HasPrefix s ps)"

fun Contains :: "string \<Rightarrow> string \<Rightarrow> bool" where
  "Contains [] sub = (sub = [])"
| "Contains (c # s) sub = (HasPrefix (c # s) sub \<or> Contains s sub)"

definition ToLower_byte :: "char \<Rightarrow> char" where
  "ToLower_byte c = (if in_range c 65 90 then char_of (byte c + 32) else c)"

subsection \<open>Results\<close>

text \<open>
  A Go function that returns \<open>(T, error)\<close> is modelled with the sum type: \<open>Inl e\<close>
  for a non-nil error, \<open>Inr v\<close> otherwise. A function that returns only an
  \<open>error\<close> is modelled with \<open>option\<close>: \<open>None\<close> is nil.
\<close>

definition bindE :: "'e + 'a \<Rightarrow> ('a \<Rightarrow> 'e + 'b) \<Rightarrow> 'e + 'b" where
  "bindE r f = (case r of Inl e \<Rightarrow> Inl e | Inr x \<Rightarrow> f x)"

lemma bindE_simps [simp]:
  "bindE (Inl e) f = Inl e"
  "bindE (Inr x) f = f x"
  by (simp_all add: bindE_def)

lemma bindE_Inr_iff: "bindE r f = Inr y \<longleftrightarrow> (\<exists>x. r = Inr x \<and> f x = Inr y)"
  by (cases r) simp_all

text \<open>The loop \<open>for _, v := range xs { if err := f(v); err != nil { return err } }\<close>.\<close>

fun first_error :: "('a \<Rightarrow> 'e option) \<Rightarrow> 'a list \<Rightarrow> 'e option" where
  "first_error f [] = None"
| "first_error f (x # xs) = (case f x of Some e \<Rightarrow> Some e | None \<Rightarrow> first_error f xs)"

lemma first_error_None [simp]: "first_error f xs = None \<longleftrightarrow> (\<forall>x\<in>set xs. f x = None)"
  by (induction xs) (auto split: option.splits)

lemma first_error_SomeD: "first_error f xs = Some e \<Longrightarrow> \<exists>x\<in>set xs. f x = Some e"
  by (induction xs) (auto split: option.splits)

subsection \<open>Shared list lemmas\<close>

lemma map_eq_self_iff: "map f xs = xs \<longleftrightarrow> (\<forall>x\<in>set xs. f x = x)"
  by (induction xs) auto

lemma split_on_not_Nil [simp]: "split_on d s \<noteq> []"
  by (induction s) (auto split: list.splits)

lemma set_split_on: "set s \<subseteq> insert d (\<Union>p\<in>set (split_on d s). set p)"
proof (induction s)
  case (Cons c s)
  show ?case
  proof (cases "split_on d s")
    case Nil
    then show ?thesis by simp
  next
    case (Cons p ps)
    then show ?thesis using Cons.IH by auto
  qed
qed simp

lemma takeWhile_all_append:
  "(\<forall>c\<in>set t. P c) \<Longrightarrow> (rest = [] \<or> \<not> P (hd rest)) \<Longrightarrow>
     takeWhile P (t @ rest) = t \<and> dropWhile P (t @ rest) = rest"
  by (induction t) (cases rest; auto)+

lemma sum_case_Inr [simp]: "(case r of Inl e \<Rightarrow> Inl e | Inr x \<Rightarrow> Inr x) = r"
  by (cases r) simp_all

lemma HasPrefix_append [simp]: "HasPrefix (p @ s) p"
  by (induction p) simp_all

lemma HasPrefixD: "HasPrefix s p \<Longrightarrow> \<exists>t. s = p @ t"
  by (induction s p rule: HasPrefix.induct) auto

end
