(* ===== verification/Labels.thy ===== *)
theory Labels
  imports Prelude
begin

text \<open>
  Resource labels and label selectors: \<open>internal/label/label.go\<close>,
  \<open>selector.go\<close> and \<open>binding.go\<close>. The hand-written parser works on the
  unread rest of the input (\<open>p.input[p.pos:]\<close>); an error value carries the rest
  where the source reports a position. A Go map of labels is an association list
  with distinct keys (\<open>wf_labels\<close>); every function depends on it only through
  lookups and membership.

  Main results: the round trip of \<open>Selector.String\<close> and \<open>Parse\<close> with the exact
  set of selectors for which it holds, the semantics of matching, and that an
  explicit binding never matches every subject.
\<close>

subsection \<open>label.go: limits, reserved prefixes, operators\<close>

abbreviation MaxLabels :: nat where "MaxLabels \<equiv> 64"
abbreviation MaxRequirements :: nat where "MaxRequirements \<equiv> 32"
abbreviation MaxKeyNameLength :: nat where "MaxKeyNameLength \<equiv> 63"
abbreviation MaxKeyPrefixLength :: nat where "MaxKeyPrefixLength \<equiv> 253"
abbreviation MaxValueLength :: nat where "MaxValueLength \<equiv> 63"

definition PrefixSystem :: string where
  "PrefixSystem = ''access-gateway.io/''"

definition PrefixSecurity :: string where
  "PrefixSecurity = ''security.access-gateway.io/''"

text \<open>\<open>Operator\<close> is a Go integer; \<open>OpUnknown\<close> stands for a value outside the
  six constants, which the \<open>default\<close> branches handle.\<close>

datatype operator =
  OpEquals | OpNotEquals | OpIn | OpNotIn | OpExists | OpNotExists | OpUnknown int

fun operator_String :: "operator \<Rightarrow> string" where
  "operator_String OpEquals = ''=''"
| "operator_String OpNotEquals = ''!=''"
| "operator_String OpIn = ''in''"
| "operator_String OpNotIn = ''notin''"
| "operator_String OpExists = []"
| "operator_String OpNotExists = ''!''"
| "operator_String (OpUnknown _) = ''?''"

datatype label_error =
    EmptyKey | EmptyKeyName | TooManySlash | KeyNameLength nat
  | PrefixEmpty | PrefixLength nat | PrefixEmptyDNSLabel
  | DNSLabelEnds string | DNSLabelChar string char
  | NameEnds string | NameChar string char
  | ValueLength nat
  | TooManyLabels nat | InvalidLabelKey string label_error | InvalidLabelValue string label_error
  | InvalidKey string label_error | InvalidValue string label_error
  | OperatorNoValues operator | OperatorOneValue operator | OperatorSomeValue operator
  | UnknownOperator operator | TooManyRequirements
  | UnexpectedEnd | ExpectedComma string | ExpectedEqualsAfterBang string
  | ExpectedOperator string label_error | UnknownOperatorWord string string
  | ExpectedOpenParen string | ExpectedCommaOrParen string | ExpectedIdentifier string
  | BindingEmptyOrLong | BindingInvalid label_error | BindingMatchesAll
  | SystemManaged string

type_synonym labels = "(string \<times> string) list"

definition wf_labels :: "labels \<Rightarrow> bool" where
  "wf_labels l \<longleftrightarrow> distinct (map fst l)"

definition Has :: "labels \<Rightarrow> string \<Rightarrow> bool" where
  "Has l key \<longleftrightarrow> map_of l key \<noteq> None"

definition Get :: "labels \<Rightarrow> string \<Rightarrow> string" where
  "Get l key = (case map_of l key of Some v \<Rightarrow> v | None \<Rightarrow> [])"

definition isAlphanumeric :: "char \<Rightarrow> bool" where
  "isAlphanumeric c \<longleftrightarrow> in_range c 97 122 \<or> in_range c 65 90 \<or> in_range c 48 57"

definition isAlphanumericLower :: "char \<Rightarrow> bool" where
  "isAlphanumericLower c \<longleftrightarrow> in_range c 97 122 \<or> in_range c 48 57"

fun name_chars_loop :: "string \<Rightarrow> string \<Rightarrow> label_error option" where
  "name_chars_loop s [] = None"
| "name_chars_loop s (c # cs) =
     (if \<not> isAlphanumeric c \<and> c \<noteq> CHR ''-'' \<and> c \<noteq> CHR ''_'' \<and> c \<noteq> CHR ''.''
      then Some (NameChar s c) else name_chars_loop s cs)"

text \<open>The callers check that \<open>s\<close> is not empty, so the first and last byte exist.\<close>

definition validateNameChars :: "string \<Rightarrow> label_error option" where
  "validateNameChars s =
     (if \<not> isAlphanumeric (hd s) \<or> \<not> isAlphanumeric (last s) then Some (NameEnds s)
      else name_chars_loop s s)"

fun dns_label_loop :: "string \<Rightarrow> string \<Rightarrow> label_error option" where
  "dns_label_loop s [] = None"
| "dns_label_loop s (c # cs) =
     (if \<not> isAlphanumericLower c \<and> c \<noteq> CHR ''-'' then Some (DNSLabelChar s c)
      else dns_label_loop s cs)"

definition validateDNSLabel :: "string \<Rightarrow> label_error option" where
  "validateDNSLabel s =
     (if \<not> isAlphanumericLower (hd s) \<or> \<not> isAlphanumericLower (last s) then Some (DNSLabelEnds s)
      else dns_label_loop s s)"

definition validatePrefix :: "string \<Rightarrow> label_error option" where
  "validatePrefix prefix =
     (if prefix = [] then Some PrefixEmpty
      else if length prefix > MaxKeyPrefixLength then Some (PrefixLength (length prefix))
      else first_error
             (\<lambda>part. if part = [] then Some PrefixEmptyDNSLabel else validateDNSLabel part)
             (split_on CHR ''.'' prefix))"

text \<open>The name part of \<open>ValidateKey\<close>: length and characters.\<close>

definition validate_key_name :: "string \<Rightarrow> label_error option" where
  "validate_key_name name =
     (if name = [] then Some EmptyKeyName
      else if length name > MaxKeyNameLength then Some (KeyNameLength (length name))
      else validateNameChars name)"

definition ValidateKey :: "string \<Rightarrow> label_error option" where
  "ValidateKey key =
     (if key = [] then Some EmptyKey
      else case dropWhile (\<lambda>c. c \<noteq> CHR ''/'') key of
             [] \<Rightarrow> validate_key_name key
           | _ # name \<Rightarrow>
               if CHR ''/'' \<in> set name then Some TooManySlash
               else case validatePrefix (takeWhile (\<lambda>c. c \<noteq> CHR ''/'') key) of
                      Some e \<Rightarrow> Some e
                    | None \<Rightarrow> validate_key_name name)"

definition ValidateValue :: "string \<Rightarrow> label_error option" where
  "ValidateValue v =
     (if v = [] then None
      else if length v > MaxValueLength then Some (ValueLength (length v))
      else validateNameChars v)"

definition labels_Validate :: "labels \<Rightarrow> label_error option" where
  "labels_Validate l =
     (if length l > MaxLabels then Some (TooManyLabels (length l))
      else first_error
             (\<lambda>(k, v). case ValidateKey k of Some e \<Rightarrow> Some (InvalidLabelKey k e)
                       | None \<Rightarrow> (case ValidateValue v of Some e \<Rightarrow> Some (InvalidLabelValue k e)
                                 | None \<Rightarrow> None)) l)"

definition labels_String :: "labels \<Rightarrow> string" where
  "labels_String l =
     join '','' (map (\<lambda>k. k @ ''='' @ Get l k) (sort (map fst l)))"

definition IsSystemKey :: "string \<Rightarrow> bool" where
  "IsSystemKey key = HasPrefix key PrefixSystem"

definition IsSecurityKey :: "string \<Rightarrow> bool" where
  "IsSecurityKey key = HasPrefix key PrefixSecurity"

definition IsReservedKey :: "string \<Rightarrow> bool" where
  "IsReservedKey key \<longleftrightarrow> IsSystemKey key \<or> IsSecurityKey key"

subsection \<open>selector.go: requirements and selectors\<close>

record requirement =
  Key :: string
  Operator :: operator
  Values :: "string list"

definition firstValue :: "string list \<Rightarrow> string" where
  "firstValue vs = (case vs of [] \<Rightarrow> [] | v # _ \<Rightarrow> v)"

definition req_Matches :: "requirement \<Rightarrow> labels \<Rightarrow> bool" where
  "req_Matches r l =
     (let value = map_of l (Key r) in
      case Operator r of
        OpEquals \<Rightarrow> value \<noteq> None \<and> length (Values r) = 1 \<and> value = Some (Values r ! 0)
      | OpNotEquals \<Rightarrow> value = None \<or> length (Values r) \<noteq> 1 \<or> value \<noteq> Some (Values r ! 0)
      | OpIn \<Rightarrow> (case value of None \<Rightarrow> False | Some v \<Rightarrow> v \<in> set (Values r))
      | OpNotIn \<Rightarrow> (case value of None \<Rightarrow> True | Some v \<Rightarrow> v \<notin> set (Values r))
      | OpExists \<Rightarrow> value \<noteq> None
      | OpNotExists \<Rightarrow> value = None
      | OpUnknown _ \<Rightarrow> False)"

definition req_String :: "requirement \<Rightarrow> string" where
  "req_String r =
     (case Operator r of
        OpExists \<Rightarrow> Key r
      | OpNotExists \<Rightarrow> ''!'' @ Key r
      | OpEquals \<Rightarrow> Key r @ ''='' @ firstValue (Values r)
      | OpNotEquals \<Rightarrow> Key r @ ''!='' @ firstValue (Values r)
      | OpIn \<Rightarrow> Key r @ '' in ('' @ join '','' (Values r) @ '')''
      | OpNotIn \<Rightarrow> Key r @ '' notin ('' @ join '','' (Values r) @ '')''
      | OpUnknown _ \<Rightarrow> [])"

text \<open>The arity check of \<open>Requirement.Validate\<close>, one case per operator group.\<close>

definition req_arity :: "requirement \<Rightarrow> label_error option" where
  "req_arity r =
     (case Operator r of
        OpExists \<Rightarrow> if length (Values r) \<noteq> 0 then Some (OperatorNoValues (Operator r)) else None
      | OpNotExists \<Rightarrow> if length (Values r) \<noteq> 0 then Some (OperatorNoValues (Operator r)) else None
      | OpEquals \<Rightarrow> if length (Values r) \<noteq> 1 then Some (OperatorOneValue (Operator r)) else None
      | OpNotEquals \<Rightarrow> if length (Values r) \<noteq> 1 then Some (OperatorOneValue (Operator r)) else None
      | OpIn \<Rightarrow> if length (Values r) = 0 then Some (OperatorSomeValue (Operator r)) else None
      | OpNotIn \<Rightarrow> if length (Values r) = 0 then Some (OperatorSomeValue (Operator r)) else None
      | OpUnknown _ \<Rightarrow> Some (UnknownOperator (Operator r)))"

definition req_Validate :: "requirement \<Rightarrow> label_error option" where
  "req_Validate r =
     (case ValidateKey (Key r) of
        Some e \<Rightarrow> Some (InvalidKey (Key r) e)
      | None \<Rightarrow>
          (case req_arity r of
             Some e \<Rightarrow> Some e
           | None \<Rightarrow> first_error
               (\<lambda>v. case ValidateValue v of Some e \<Rightarrow> Some (InvalidValue v e) | None \<Rightarrow> None)
               (Values r)))"

datatype selector = Selector (requirements: "requirement list")

definition Everything :: selector where
  "Everything = Selector []"

definition Nothing :: selector where
  "Nothing = Selector
     [\<lparr>Key = ''access-gateway.io/none'', Operator = OpExists, Values = []\<rparr>,
      \<lparr>Key = ''access-gateway.io/none'', Operator = OpNotExists, Values = []\<rparr>]"

definition sel_Empty :: "selector \<Rightarrow> bool" where
  "sel_Empty s \<longleftrightarrow> requirements s = []"

fun all_match :: "requirement list \<Rightarrow> labels \<Rightarrow> bool" where
  "all_match [] l = True"
| "all_match (r # rs) l = (if \<not> req_Matches r l then False else all_match rs l)"

definition sel_Matches :: "selector \<Rightarrow> labels \<Rightarrow> bool" where
  "sel_Matches s l = all_match (requirements s) l"

definition sel_String :: "selector \<Rightarrow> string" where
  "sel_String s = join '','' (map req_String (requirements s))"

definition sel_Validate :: "selector \<Rightarrow> label_error option" where
  "sel_Validate s =
     (if length (requirements s) > MaxRequirements then Some TooManyRequirements
      else first_error req_Validate (requirements s))"

definition NewSelector :: "requirement list \<Rightarrow> label_error + selector" where
  "NewSelector reqs =
     (case sel_Validate (Selector reqs) of Some e \<Rightarrow> Inl e | None \<Rightarrow> Inr (Selector reqs))"

definition SortRequirements :: "requirement list \<Rightarrow> requirement list" where
  "SortRequirements reqs = sort_key Key reqs"

subsection \<open>selector.go: the parser\<close>

definition isIdentifierChar :: "char \<Rightarrow> bool" where
  "isIdentifierChar c \<longleftrightarrow>
     isAlphanumeric c \<or> c = CHR ''-'' \<or> c = CHR ''_'' \<or> c = CHR ''.'' \<or> c = CHR ''/''"

definition is_blank :: "char \<Rightarrow> bool" where
  "is_blank c \<longleftrightarrow> byte c = 32 \<or> byte c = 9"

definition skipSpace :: "string \<Rightarrow> string" where
  "skipSpace s = dropWhile is_blank s"

definition parseValueToken :: "string \<Rightarrow> string \<times> string" where
  "parseValueToken s = (takeWhile isIdentifierChar s, dropWhile isIdentifierChar s)"

definition parseIdentifier :: "string \<Rightarrow> label_error + string \<times> string" where
  "parseIdentifier s =
     (let s1 = skipSpace s; tok = takeWhile isIdentifierChar s1
      in if tok = [] then Inl (ExpectedIdentifier s1)
         else Inr (tok, dropWhile isIdentifierChar s1))"

definition parseSingleValue :: "string \<Rightarrow> operator \<Rightarrow> string \<Rightarrow> label_error + requirement \<times> string" where
  "parseSingleValue key op s =
     (let (v, rest) = parseValueToken (skipSpace s)
      in Inr (\<lparr>Key = key, Operator = op, Values = [v]\<rparr>, rest))"

text \<open>The loop of \<open>parseValueSet\<close> after the opening parenthesis; every further
  round has consumed a comma.\<close>

function parse_values :: "string list \<Rightarrow> string \<Rightarrow> label_error + string list \<times> string" where
  "parse_values acc s =
     (case skipSpace s of
        [] \<Rightarrow> Inl UnexpectedEnd
      | c # r \<Rightarrow>
          if c = CHR '')'' then Inr (acc, r)
          else (case skipSpace (snd (parseValueToken (c # r))) of
                  [] \<Rightarrow> Inl UnexpectedEnd
                | d # r2 \<Rightarrow>
                    if d = CHR '','' then parse_values (acc @ [fst (parseValueToken (c # r))]) r2
                    else if d = CHR '')'' then Inr (acc @ [fst (parseValueToken (c # r))], r2)
                    else Inl (ExpectedCommaOrParen (d # r2))))"
  by pat_completeness auto

lemma length_skipSpace: "length (skipSpace s) \<le> length s"
  by (simp add: skipSpace_def length_dropWhile_le)

lemma length_parseValueToken: "length (snd (parseValueToken s)) \<le> length s"
  by (simp add: parseValueToken_def length_dropWhile_le)

termination parse_values
proof (relation "measure (\<lambda>(acc, s). length s)", goal_cases)
  case (2 acc s c r d r2)
  have "length (d # r2) \<le> length (snd (parseValueToken (c # r)))"
    using length_skipSpace [of "snd (parseValueToken (c # r))"] 2(3) by simp
  also have "\<dots> \<le> length (c # r)" by (rule length_parseValueToken)
  also have "\<dots> \<le> length s" using length_skipSpace [of s] 2(1) by simp
  finally show ?case by simp
qed simp

declare parse_values.simps [simp del]

definition parseValueSet :: "string \<Rightarrow> label_error + string list \<times> string" where
  "parseValueSet s =
     (case skipSpace s of
        c # r \<Rightarrow> if c \<noteq> CHR ''('' then Inl (ExpectedOpenParen (c # r)) else parse_values [] r
      | [] \<Rightarrow> Inl (ExpectedOpenParen []))"

definition parseSetOperator :: "string \<Rightarrow> string \<Rightarrow> label_error + requirement \<times> string" where
  "parseSetOperator key s =
     (case parseIdentifier s of
        Inl e \<Rightarrow> Inl (ExpectedOperator key e)
      | Inr (word, s1) \<Rightarrow>
          if word = ''in'' then
            bindE (parseValueSet s1) (\<lambda>(vs, r). Inr (\<lparr>Key = key, Operator = OpIn, Values = vs\<rparr>, r))
          else if word = ''notin'' then
            bindE (parseValueSet s1) (\<lambda>(vs, r). Inr (\<lparr>Key = key, Operator = OpNotIn, Values = vs\<rparr>, r))
          else Inl (UnknownOperatorWord word key))"

text \<open>The part of \<open>parseRequirement\<close> after the key has been read.\<close>

definition parse_after_key :: "string \<Rightarrow> string \<Rightarrow> label_error + requirement \<times> string" where
  "parse_after_key key s =
     (case skipSpace s of
        [] \<Rightarrow> Inr (\<lparr>Key = key, Operator = OpExists, Values = []\<rparr>, [])
      | c # r \<Rightarrow>
          if c = CHR '','' then Inr (\<lparr>Key = key, Operator = OpExists, Values = []\<rparr>, c # r)
          else if c = CHR ''='' then
            parseSingleValue key OpEquals
              (case r of d # r2 \<Rightarrow> if d = CHR ''='' then r2 else r | [] \<Rightarrow> r)
          else if c = CHR ''!'' then
            (case r of
               d # r2 \<Rightarrow> if d \<noteq> CHR ''='' then Inl (ExpectedEqualsAfterBang r)
                         else parseSingleValue key OpNotEquals r2
             | [] \<Rightarrow> Inl (ExpectedEqualsAfterBang r))
          else parseSetOperator key (c # r))"

definition parseRequirement :: "string \<Rightarrow> label_error + requirement \<times> string" where
  "parseRequirement s =
     (case skipSpace s of
        [] \<Rightarrow> Inl UnexpectedEnd
      | c # r \<Rightarrow>
          if c = CHR ''!'' \<and> r \<noteq> [] \<and> hd r \<noteq> CHR ''='' then
            bindE (parseIdentifier r)
              (\<lambda>(key, rest). Inr (\<lparr>Key = key, Operator = OpNotExists, Values = []\<rparr>, rest))
          else bindE (parseIdentifier (c # r)) (\<lambda>(key, rest). parse_after_key key rest))"

function parse_reqs :: "requirement list \<Rightarrow> string \<Rightarrow> label_error + requirement list" where
  "parse_reqs reqs s =
     (if length reqs \<ge> MaxRequirements then Inl TooManyRequirements
      else case parseRequirement s of
             Inl e \<Rightarrow> Inl e
           | Inr (req, s1) \<Rightarrow>
               (case skipSpace s1 of
                  [] \<Rightarrow> Inr (reqs @ [req])
                | c # r \<Rightarrow>
                    if c \<noteq> CHR '','' then Inl (ExpectedComma (c # r))
                    else if skipSpace r = [] then Inl UnexpectedEnd
                    else parse_reqs (reqs @ [req]) (skipSpace r)))"
  by pat_completeness auto
termination
  by (relation "measure (\<lambda>(reqs, s). MaxRequirements - length reqs)") auto

declare parse_reqs.simps [simp del]

definition parseSelector :: "string \<Rightarrow> label_error + requirement list" where
  "parseSelector s = (if skipSpace s = [] then Inr [] else parse_reqs [] (skipSpace s))"

definition Parse :: "string \<Rightarrow> label_error + selector" where
  "Parse s =
     (case parseSelector s of
        Inl e \<Rightarrow> Inl e
      | Inr reqs \<Rightarrow>
          (case sel_Validate (Selector reqs) of
             Some e \<Rightarrow> Inl e
           | None \<Rightarrow> Inr (Selector reqs)))"

subsection \<open>binding.go\<close>

definition BindingSelector :: "string \<Rightarrow> label_error + selector" where
  "BindingSelector value =
     (if TrimSpace value = [] \<or> length value > 1024 then Inl BindingEmptyOrLong
      else case Parse value of
             Inl e \<Rightarrow> Inl (BindingInvalid e)
           | Inr sel \<Rightarrow> if sel_Empty sel then Inl BindingMatchesAll else Inr sel)"

definition MatchesBinding :: "string \<Rightarrow> labels \<Rightarrow> bool" where
  "MatchesBinding sel l =
     (case BindingSelector sel of Inl _ \<Rightarrow> False | Inr parsed \<Rightarrow> sel_Matches parsed l)"

definition ValidateEditable :: "labels \<Rightarrow> label_error option" where
  "ValidateEditable l =
     (case labels_Validate l of
        Some e \<Rightarrow> Some e
      | None \<Rightarrow> first_error (\<lambda>(k, v). if IsSystemKey k then Some (SystemManaged k) else None) l)"

subsection \<open>Characters of valid keys and values\<close>

lemma name_chars_loop_None:
  "name_chars_loop s cs = None \<Longrightarrow> c \<in> set cs \<Longrightarrow> isIdentifierChar c \<and> c \<noteq> CHR ''/''"
  by (induction cs) (auto simp: isIdentifierChar_def isAlphanumeric_def in_range_def split: if_splits)

lemma dns_label_loop_None:
  "dns_label_loop s cs = None \<Longrightarrow> c \<in> set cs \<Longrightarrow> isIdentifierChar c \<and> c \<noteq> CHR ''/''"
  by (induction cs)
    (auto simp: isIdentifierChar_def isAlphanumeric_def isAlphanumericLower_def in_range_def
          split: if_splits)

lemma validateNameChars_None:
  "validateNameChars s = None \<Longrightarrow> c \<in> set s \<Longrightarrow> isIdentifierChar c \<and> c \<noteq> CHR ''/''"
  by (auto simp: validateNameChars_def dest: name_chars_loop_None split: if_splits)

lemma ValidateValue_chars: "ValidateValue v = None \<Longrightarrow> \<forall>c\<in>set v. isIdentifierChar c"
  by (auto simp: ValidateValue_def dest: validateNameChars_None split: if_splits)

lemma validate_key_name_None:
  "validate_key_name s = None \<Longrightarrow> s \<noteq> [] \<and> (\<forall>c\<in>set s. isIdentifierChar c)"
  by (auto simp: validate_key_name_def dest: validateNameChars_None split: if_splits)

lemma validatePrefix_None:
  assumes "validatePrefix p = None"
  shows "\<forall>c\<in>set p. isIdentifierChar c"
proof
  fix c assume c: "c \<in> set p"
  show "isIdentifierChar c"
  proof (cases "c = CHR ''.''")
    case False
    then obtain q where q: "q \<in> set (split_on CHR ''.'' p)" "c \<in> set q"
      using set_split_on [of p "CHR ''.''"] c by auto
    then have "validateDNSLabel q = None"
      using assms by (auto simp: validatePrefix_def split: if_splits)
    then show ?thesis using q(2)
      by (auto simp: validateDNSLabel_def dest: dns_label_loop_None split: if_splits)
  qed (simp add: isIdentifierChar_def)
qed

lemma ValidateKey_chars:
  assumes "ValidateKey k = None"
  shows "k \<noteq> []" "\<forall>c\<in>set k. isIdentifierChar c"
proof -
  let ?P = "\<lambda>c. c \<noteq> CHR ''/''"
  have "ValidateKey [] \<noteq> None" by (simp add: ValidateKey_def)
  then show "k \<noteq> []" using assms by metis
  show "\<forall>c\<in>set k. isIdentifierChar c"
  proof (cases "dropWhile ?P k")
    case Nil
    then have "validate_key_name k = None" using assms \<open>k \<noteq> []\<close>
      by (simp add: ValidateKey_def del: dropWhile_eq_Nil_conv)
    then show ?thesis by (simp add: validate_key_name_None)
  next
    case (Cons d name)
    then have d: "d = CHR ''/''" using hd_dropWhile [of ?P k] by simp
    have k: "k = takeWhile ?P k @ d # name"
      using Cons takeWhile_dropWhile_id [of ?P k] by simp
    have "validatePrefix (takeWhile ?P k) = None" "validate_key_name name = None"
      using assms Cons \<open>k \<noteq> []\<close> by (simp_all add: ValidateKey_def split: if_splits option.splits)
    then have "\<forall>c\<in>set (takeWhile ?P k @ d # name). isIdentifierChar c"
      using validatePrefix_None validate_key_name_None d by (auto simp: isIdentifierChar_def)
    then show ?thesis using k by simp
  qed
qed

lemma req_Validate_None:
  "req_Validate r = None \<longleftrightarrow>
     ValidateKey (Key r) = None \<and> req_arity r = None \<and> (\<forall>v\<in>set (Values r). ValidateValue v = None)"
  by (auto simp: req_Validate_def split: option.splits)

lemma sel_Validate_None:
  "sel_Validate s = None \<longleftrightarrow>
     length (requirements s) \<le> MaxRequirements \<and> (\<forall>r\<in>set (requirements s). req_Validate r = None)"
  by (auto simp: sel_Validate_def)

subsection \<open>The parser on printed selectors\<close>

lemma isIdentifierChar_not [simp]:
  "\<not> isIdentifierChar CHR '',''" "\<not> isIdentifierChar CHR ''=''" "\<not> isIdentifierChar CHR ''!''"
  "\<not> isIdentifierChar CHR '' ''" "\<not> isIdentifierChar CHR ''(''" "\<not> isIdentifierChar CHR '')''"
  by (simp_all add: isIdentifierChar_def isAlphanumeric_def in_range_def)

lemma isIdentifierChar_not_blank: "isIdentifierChar c \<Longrightarrow> \<not> is_blank c"
  by (auto simp: isIdentifierChar_def isAlphanumeric_def in_range_def is_blank_def)

lemma is_blank_chars [simp]:
  "\<not> is_blank CHR '',''" "\<not> is_blank CHR ''=''" "\<not> is_blank CHR ''!''"
  "is_blank CHR '' ''" "\<not> is_blank CHR ''(''" "\<not> is_blank CHR '')''"
  by (simp_all add: is_blank_def)

lemma skipSpace_id: "s = [] \<or> \<not> is_blank (hd s) \<Longrightarrow> skipSpace s = s"
  by (cases s) (simp_all add: skipSpace_def)

lemma skipSpace_token:
  "\<forall>c\<in>set t. isIdentifierChar c \<Longrightarrow> rest = [] \<or> \<not> is_blank (hd rest) \<Longrightarrow>
     skipSpace (t @ rest) = t @ rest"
  by (cases t) (auto simp: skipSpace_id isIdentifierChar_not_blank)

lemma parseValueToken_token:
  "\<forall>c\<in>set t. isIdentifierChar c \<Longrightarrow> rest = [] \<or> \<not> isIdentifierChar (hd rest) \<Longrightarrow>
     parseValueToken (t @ rest) = (t, rest)"
  using takeWhile_all_append [of t isIdentifierChar rest] by (simp add: parseValueToken_def)

lemma parseIdentifier_token:
  assumes "\<forall>c\<in>set t. isIdentifierChar c" "t \<noteq> []" "rest = [] \<or> \<not> isIdentifierChar (hd rest)"
  shows "parseIdentifier (t @ rest) = Inr (t, rest)"
proof -
  have "skipSpace (t @ rest) = t @ rest"
    using assms(1,2) by (cases t) (auto simp: skipSpace_id isIdentifierChar_not_blank)
  then show ?thesis using assms takeWhile_all_append [of t isIdentifierChar rest]
    by (simp add: parseIdentifier_def)
qed

text \<open>The reader of a value set accepts a trailing comma, so it drops one trailing
  empty value.\<close>

definition drop_trailing_empty :: "string list \<Rightarrow> string list" where
  "drop_trailing_empty vs = (if vs \<noteq> [] \<and> last vs = [] then butlast vs else vs)"

lemma parse_values_join:
  "\<forall>v\<in>set vs. \<forall>c\<in>set v. isIdentifierChar c \<Longrightarrow>
     parse_values acc (join '','' vs @ '')'' @ rest) = Inr (acc @ drop_trailing_empty vs, rest)"
proof (induction vs arbitrary: acc rule: induct_list012)
  case 1
  then show ?case by (subst parse_values.simps) (simp add: skipSpace_id drop_trailing_empty_def)
next
  case (2 v)
  show ?case
  proof (cases v)
    case Nil
    then show ?thesis
      by (subst parse_values.simps) (simp add: skipSpace_id drop_trailing_empty_def)
  next
    case (Cons c r)
    have "skipSpace (v @ '')'' @ rest) = v @ '')'' @ rest"
      using 2 by (intro skipSpace_token) auto
    moreover have "parseValueToken (v @ '')'' @ rest) = (v, '')'' @ rest)"
      using 2 by (intro parseValueToken_token) auto
    moreover have "c \<noteq> CHR '')''" using 2 Cons by auto
    ultimately show ?thesis using Cons
      by (subst parse_values.simps) (simp add: skipSpace_id drop_trailing_empty_def)
  qed
next
  case (3 v w ws)
  let ?t = "join '','' (w # ws) @ '')'' @ rest"
  have "skipSpace (v @ '','' @ ?t) = v @ '','' @ ?t"
    using 3(3) by (intro skipSpace_token) auto
  moreover have "parseValueToken (v @ '','' @ ?t) = (v, '','' @ ?t)"
    using 3(3) by (intro parseValueToken_token) auto
  moreover have "v @ '','' @ ?t \<noteq> []" "hd (v @ '','' @ ?t) \<noteq> CHR '')''"
    using 3(3) by (cases v; auto)+
  moreover have "parse_values (acc @ [v]) ?t = Inr ((acc @ [v]) @ drop_trailing_empty (w # ws), rest)"
    using 3 by simp
  ultimately have "parse_values acc (v @ '','' @ ?t)
      = Inr ((acc @ [v]) @ drop_trailing_empty (w # ws), rest)"
    by (subst parse_values.simps) (auto simp: skipSpace_id split: list.splits)
  then show ?case by (simp add: drop_trailing_empty_def)
qed

definition reparsed :: "requirement \<Rightarrow> requirement" where
  "reparsed r = (if Operator r = OpIn \<or> Operator r = OpNotIn
     then r\<lparr>Values := drop_trailing_empty (Values r)\<rparr> else r)"

lemma parseValueSet_join:
  "\<forall>v\<in>set vs. \<forall>c\<in>set v. isIdentifierChar c \<Longrightarrow>
     parseValueSet ('' ('' @ join '','' vs @ '')'' @ rest) = Inr (drop_trailing_empty vs, rest)"
  using parse_values_join [of vs "[]" rest]
  by (simp add: parseValueSet_def skipSpace_def)

lemma parseSetOperator_in:
  "\<forall>v\<in>set vs. \<forall>c\<in>set v. isIdentifierChar c \<Longrightarrow>
     parseSetOperator k (''in ('' @ join '','' vs @ '')'' @ rest) =
       Inr (\<lparr>Key = k, Operator = OpIn, Values = drop_trailing_empty vs\<rparr>, rest)"
  using parseIdentifier_token [of "''in''" "'' ('' @ join '','' vs @ '')'' @ rest"]
    parseValueSet_join [of vs rest]
  by (simp add: parseSetOperator_def isIdentifierChar_def isAlphanumeric_def in_range_def)

lemma parseSetOperator_notin:
  "\<forall>v\<in>set vs. \<forall>c\<in>set v. isIdentifierChar c \<Longrightarrow>
     parseSetOperator k (''notin ('' @ join '','' vs @ '')'' @ rest) =
       Inr (\<lparr>Key = k, Operator = OpNotIn, Values = drop_trailing_empty vs\<rparr>, rest)"
  using parseIdentifier_token [of "''notin''" "'' ('' @ join '','' vs @ '')'' @ rest"]
    parseValueSet_join [of vs rest]
  by (simp add: parseSetOperator_def isIdentifierChar_def isAlphanumeric_def in_range_def)

lemma parseSingleValue_token:
  "\<forall>c\<in>set v. isIdentifierChar c \<Longrightarrow> rest = [] \<or> hd rest = CHR '','' \<Longrightarrow>
     parseSingleValue k op (v @ rest) = Inr (\<lparr>Key = k, Operator = op, Values = [v]\<rparr>, rest)"
  using skipSpace_token [of v rest] parseValueToken_token [of v rest]
  by (auto simp: parseSingleValue_def)


lemma parseIdentifier_key:
  "ValidateKey k = None \<Longrightarrow> rest = [] \<or> \<not> isIdentifierChar (hd rest) \<Longrightarrow>
     parseIdentifier (k @ rest) = Inr (k, rest)"
  by (simp add: ValidateKey_chars parseIdentifier_token)

lemma parseRequirement_key:
  assumes "ValidateKey k = None" "rest = [] \<or> \<not> isIdentifierChar (hd rest)"
  shows "parseRequirement (k @ rest) = parse_after_key k rest"
proof -
  obtain c r where k: "k = c # r" using ValidateKey_chars(1) [OF assms(1)] by (cases k) auto
  then have c: "isIdentifierChar c" using ValidateKey_chars(2) [OF assms(1)] by simp
  then have "skipSpace (k @ rest) = k @ rest" "c \<noteq> CHR ''!''"
    using k by (auto simp: skipSpace_id isIdentifierChar_not_blank)
  then show ?thesis using parseIdentifier_key [OF assms] k by (simp add: parseRequirement_def)
qed

lemma parseRequirement_not_exists:
  assumes "ValidateKey k = None" "rest = [] \<or> \<not> isIdentifierChar (hd rest)"
  shows "parseRequirement (''!'' @ k @ rest) = Inr (\<lparr>Key = k, Operator = OpNotExists, Values = []\<rparr>, rest)"
proof -
  obtain c r where k: "k = c # r" using ValidateKey_chars(1) [OF assms(1)] by (cases k) auto
  then have "isIdentifierChar c" using ValidateKey_chars(2) [OF assms(1)] by simp
  then have "c \<noteq> CHR ''=''" by auto
  then show ?thesis using parseIdentifier_key [OF assms] k
    by (simp add: parseRequirement_def skipSpace_id)
qed

lemma parse_after_key_set:
  "parse_after_key k (CHR '' '' # CHR ''i'' # s) = parseSetOperator k (CHR ''i'' # s)"
  "parse_after_key k (CHR '' '' # CHR ''n'' # s) = parseSetOperator k (CHR ''n'' # s)"
  by (simp_all add: parse_after_key_def skipSpace_def is_blank_def)

lemma parse_after_key_exists:
  "rest = [] \<or> hd rest = CHR '','' \<Longrightarrow>
     parse_after_key k rest = Inr (\<lparr>Key = k, Operator = OpExists, Values = []\<rparr>, rest)"
  by (cases rest) (auto simp: parse_after_key_def skipSpace_id)

lemma parse_after_key_equals:
  assumes "\<forall>c\<in>set v. isIdentifierChar c" "rest = [] \<or> hd rest = CHR '',''"
  shows "parse_after_key k (''='' @ v @ rest) = Inr (\<lparr>Key = k, Operator = OpEquals, Values = [v]\<rparr>, rest)"
    "parse_after_key k (''!='' @ v @ rest) = Inr (\<lparr>Key = k, Operator = OpNotEquals, Values = [v]\<rparr>, rest)"
proof -
  have "v @ rest = [] \<or> hd (v @ rest) \<noteq> CHR ''=''" using assms by (cases v) auto
  then have "(case v @ rest of d # r2 \<Rightarrow> if d = CHR ''='' then r2 else v @ rest | [] \<Rightarrow> v @ rest) = v @ rest"
    by (cases "v @ rest") auto
  then show
    "parse_after_key k (''='' @ v @ rest) = Inr (\<lparr>Key = k, Operator = OpEquals, Values = [v]\<rparr>, rest)"
    using parseSingleValue_token [OF assms] by (simp add: parse_after_key_def skipSpace_id)
  show "parse_after_key k (''!='' @ v @ rest) = Inr (\<lparr>Key = k, Operator = OpNotEquals, Values = [v]\<rparr>, rest)"
    using parseSingleValue_token [OF assms] by (simp add: parse_after_key_def skipSpace_id)
qed

lemma parseRequirement_String:
  assumes "req_Validate r = None" "rest = [] \<or> hd rest = CHR '',''"
  shows "parseRequirement (req_String r @ rest) = Inr (reparsed r, rest)"
proof -
  obtain k op vs where r: "r = \<lparr>Key = k, Operator = op, Values = vs\<rparr>" by (cases r) auto
  have k: "ValidateKey k = None" and ar: "req_arity r = None"
    and vs: "\<forall>v\<in>set vs. \<forall>c\<in>set v. isIdentifierChar c"
    using assms(1) by (auto simp: req_Validate_None r dest: ValidateValue_chars)
  have nid: "rest = [] \<or> \<not> isIdentifierChar (hd rest)" using assms(2) by auto
  note set_ops = parse_after_key_set parseSetOperator_in [OF vs, of k rest, simplified]
    parseSetOperator_notin [OF vs, of k rest, simplified]
  show ?thesis
  proof (cases op)
    case OpEquals
    then obtain v where "vs = [v]" using ar by (auto simp: req_arity_def r length_Suc_conv split: if_splits)
    then show ?thesis
      using parseRequirement_key [OF k, of "''='' @ v @ rest"] parse_after_key_equals(1) [of v rest k]
        vs assms(2) OpEquals
      by (simp add: r req_String_def firstValue_def reparsed_def)
  next
    case OpNotEquals
    then obtain v where "vs = [v]" using ar by (auto simp: req_arity_def r length_Suc_conv split: if_splits)
    then show ?thesis
      using parseRequirement_key [OF k, of "''!='' @ v @ rest"] parse_after_key_equals(2) [of v rest k]
        vs assms(2) OpNotEquals
      by (simp add: r req_String_def firstValue_def reparsed_def)
  next
    case OpIn
    then show ?thesis
      using parseRequirement_key [OF k, of "'' in ('' @ join '','' vs @ '')'' @ rest"]
      by (simp add: r req_String_def reparsed_def set_ops)
  next
    case OpNotIn
    then show ?thesis
      using parseRequirement_key [OF k, of "'' notin ('' @ join '','' vs @ '')'' @ rest"]
      by (simp add: r req_String_def reparsed_def set_ops)
  next
    case OpExists
    then show ?thesis using parseRequirement_key [OF k nid] parse_after_key_exists [OF assms(2)] ar
      by (simp add: r req_String_def reparsed_def req_arity_def split: if_splits)
  next
    case OpNotExists
    then show ?thesis using parseRequirement_not_exists [OF k nid] ar
      by (simp add: r req_String_def reparsed_def req_arity_def split: if_splits)
  next
    case (OpUnknown n)
    then show ?thesis using ar by (simp add: r req_arity_def)
  qed
qed

lemma req_String_start:
  assumes "req_Validate r = None"
  shows "req_String r \<noteq> []" "\<not> is_blank (hd (req_String r))"
proof -
  obtain c k where k: "Key r = c # k" "isIdentifierChar c"
    using assms ValidateKey_chars [of "Key r"] by (cases "Key r") (auto simp: req_Validate_None)
  then have "\<not> is_blank c" by (simp add: isIdentifierChar_not_blank)
  moreover have "req_arity r = None" using assms by (simp add: req_Validate_None)
  ultimately show "req_String r \<noteq> []" "\<not> is_blank (hd (req_String r))"
    using k by (auto simp: req_String_def req_arity_def split: operator.splits)
qed

lemma skipSpace_join:
  assumes "req_Validate r = None"
  shows "join '','' (map req_String (r # rs)) \<noteq> []"
    "skipSpace (join '','' (map req_String (r # rs))) = join '','' (map req_String (r # rs))"
  using req_String_start [OF assms] by (cases rs; simp add: skipSpace_id)+

lemma parse_reqs_join:
  "rs \<noteq> [] \<Longrightarrow> \<forall>r\<in>set rs. req_Validate r = None \<Longrightarrow> length acc + length rs \<le> MaxRequirements \<Longrightarrow>
     parse_reqs acc (join '','' (map req_String rs)) = Inr (acc @ map reparsed rs)"
proof (induction rs arbitrary: acc rule: induct_list012)
  case (2 r)
  then show ?case using parseRequirement_String [of r "[]"]
    by (subst parse_reqs.simps) (simp add: skipSpace_id)
next
  case (3 r q rs)
  let ?t = "join '','' (map req_String (q # rs))"
  have "parseRequirement (req_String r @ '','' @ ?t) = Inr (reparsed r, '','' @ ?t)"
    using 3(4) by (intro parseRequirement_String) auto
  moreover have "?t \<noteq> []" "skipSpace ?t = ?t" using 3(4) skipSpace_join [of q rs] by auto
  moreover have "parse_reqs (acc @ [reparsed r]) ?t = Inr ((acc @ [reparsed r]) @ map reparsed (q # rs))"
    using 3 by simp
  ultimately have "parse_reqs acc (req_String r @ '','' @ ?t) = Inr ((acc @ [reparsed r]) @ map reparsed (q # rs))"
    using 3(5) by (subst parse_reqs.simps) (simp add: skipSpace_id)
  then show ?case by simp
qed simp

lemma parseSelector_String:
  assumes "sel_Validate s = None"
  shows "parseSelector (sel_String s) = Inr (map reparsed (requirements s))"
proof (cases "requirements s")
  case Nil
  then show ?thesis by (simp add: sel_String_def parseSelector_def skipSpace_id)
next
  case (Cons r rs)
  have v: "\<forall>r\<in>set (r # rs). req_Validate r = None" "length (r # rs) \<le> MaxRequirements"
    using assms Cons by (auto simp: sel_Validate_None)
  then show ?thesis
    using skipSpace_join [of r rs] parse_reqs_join [of "r # rs" "[]"] Cons
    by (simp add: sel_String_def parseSelector_def)
qed

lemma reparsed_id:
  "req_Validate r = None \<Longrightarrow>
     reparsed r = r \<longleftrightarrow> (Operator r = OpIn \<or> Operator r = OpNotIn \<longrightarrow> last (Values r) \<noteq> [])"
proof -
  assume "req_Validate r = None"
  then have "req_arity r = None" by (simp add: req_Validate_None)
  then show ?thesis
    by (cases "Values r" rule: rev_cases)
       (auto simp: reparsed_def drop_trailing_empty_def req_arity_def dest: arg_cong [of _ _ Values])
qed

subsection \<open>Properties\<close>

text \<open>C30. Printing a valid selector and parsing the result gives the selector back exactly
  when no \<open>in\<close> or \<open>notin\<close> requirement ends in an empty value: the reader of a value
  set takes a comma before the closing parenthesis as the end of the set.\<close>

theorem Parse_String_roundtrip:
  assumes "sel_Validate s = None"
  shows "Parse (sel_String s) = Inr s \<longleftrightarrow>
    (\<forall>r\<in>set (requirements s). Operator r = OpIn \<or> Operator r = OpNotIn \<longrightarrow> last (Values r) \<noteq> [])"
proof -
  have "Parse (sel_String s) = Inr s \<longleftrightarrow> map reparsed (requirements s) = requirements s"
    using assms by (cases s) (auto simp: Parse_def parseSelector_String split: option.splits)
  also have "\<dots> \<longleftrightarrow> (\<forall>r\<in>set (requirements s). reparsed r = r)"
    by (rule map_eq_self_iff)
  finally show ?thesis using assms by (simp add: reparsed_id sel_Validate_None)
qed

definition sample_selector :: selector where
  "sample_selector = Selector
     [\<lparr>Key = ''team/env'', Operator = OpIn, Values = [''a'', [], ''b-1'']\<rparr>,
      \<lparr>Key = ''owner'', Operator = OpNotExists, Values = []\<rparr>,
      \<lparr>Key = ''zone'', Operator = OpNotEquals, Values = [[]]\<rparr>]"

theorem Parse_String_roundtrip_witness:
  "sel_Validate sample_selector = None \<and>
   sel_String sample_selector = ''team/env in (a,,b-1),!owner,zone!='' \<and>
   Parse ''team/env in (a,,b-1),!owner,zone!='' = Inr sample_selector"
proof -
  have v: "sel_Validate sample_selector = None" by code_simp
  have t: "sel_String sample_selector = ''team/env in (a,,b-1),!owner,zone!=''" by code_simp
  have "\<forall>r\<in>set (requirements sample_selector).
      Operator r = OpIn \<or> Operator r = OpNotIn \<longrightarrow> last (Values r) \<noteq> []"
    by (simp add: sample_selector_def)
  then show ?thesis using Parse_String_roundtrip [OF v] v t by simp
qed

lemma req_fails_somewhere:
  assumes "req_arity r = None"
  shows "\<exists>l. wf_labels l \<and> \<not> req_Matches r l"
proof -
  let ?l = "[(Key r, firstValue (Values r))]"
  have "\<not> req_Matches r [] \<or> \<not> req_Matches r ?l"
    using assms
    by (cases "Values r")
       (auto simp: req_arity_def req_Matches_def firstValue_def Let_def split: operator.splits if_splits)
  moreover have "wf_labels []" "wf_labels ?l" by (simp_all add: wf_labels_def)
  ultimately show ?thesis by blast
qed

lemma all_match_iff: "all_match rs l \<longleftrightarrow> (\<forall>r\<in>set rs. req_Matches r l)"
  by (induction rs) auto

lemma sel_Matches_iff: "sel_Matches s l \<longleftrightarrow> (\<forall>r\<in>set (requirements s). req_Matches r l)"
  by (simp add: sel_Matches_def all_match_iff)

lemma Parse_Validate: "Parse s = Inr sel \<Longrightarrow> sel_Validate sel = None"
  by (auto simp: Parse_def split: sum.splits option.splits)

text \<open>C31. A selector accepted for a role binding never matches every subject: some label set
  fails it. A text that is blank, too long, malformed or without a requirement matches nobody.\<close>

theorem binding_never_matches_everyone:
  "\<exists>l. wf_labels l \<and> \<not> MatchesBinding v l"
proof (cases "BindingSelector v")
  case (Inl e)
  then have "wf_labels [] \<and> \<not> MatchesBinding v []" by (simp add: MatchesBinding_def wf_labels_def)
  then show ?thesis by blast
next
  case (Inr sel)
  then have p: "Parse v = Inr sel" and ne: "requirements sel \<noteq> []"
    by (auto simp: BindingSelector_def sel_Empty_def split: if_splits sum.splits)
  from ne obtain r where r: "r \<in> set (requirements sel)" by (cases "requirements sel") auto
  then have "req_arity r = None"
    using Parse_Validate [OF p] by (simp add: sel_Validate_None req_Validate_None)
  then obtain l where "wf_labels l" "\<not> req_Matches r l" using req_fails_somewhere by blast
  then show ?thesis using Inr r by (auto simp: MatchesBinding_def sel_Matches_iff)
qed

definition label_reqs :: "labels \<Rightarrow> requirement list" where
  "label_reqs l = map (\<lambda>k. \<lparr>Key = k, Operator = OpEquals, Values = [Get l k]\<rparr>) (sort (map fst l))"

lemma labels_String_selector: "labels_String l = sel_String (Selector (label_reqs l))"
  by (simp add: labels_String_def label_reqs_def sel_String_def req_String_def firstValue_def comp_def)

lemma labels_selector_Validate:
  assumes "labels_Validate l = None" "length l \<le> MaxRequirements" "wf_labels l"
  shows "sel_Validate (Selector (label_reqs l)) = None"
proof -
  have "ValidateKey k = None \<and> ValidateValue (Get l k) = None" if k: "k \<in> set (map fst l)" for k
  proof -
    obtain v where "(k, v) \<in> set l" using k by auto
    moreover then have "Get l k = v" using assms(3) by (simp add: Get_def wf_labels_def)
    ultimately show ?thesis using assms(1) by (auto simp: labels_Validate_def split: if_splits option.splits)
  qed
  then show ?thesis using assms(2)
    by (auto simp: sel_Validate_None req_Validate_None req_arity_def label_reqs_def)
qed

lemma label_reqs_match:
  "sel_Matches (Selector (label_reqs l)) m \<longleftrightarrow> (\<forall>k v. map_of l k = Some v \<longrightarrow> map_of m k = Some v)"
proof -
  have "sel_Matches (Selector (label_reqs l)) m \<longleftrightarrow> (\<forall>k\<in>set (map fst l). map_of m k = Some (Get l k))"
    by (auto simp: label_reqs_def sel_Matches_iff req_Matches_def Let_def)
  also have "\<dots> \<longleftrightarrow> (\<forall>k v. map_of l k = Some v \<longrightarrow> map_of m k = Some v)"
  proof -
    have "k \<in> set (map fst l) \<longleftrightarrow> map_of l k = Some (Get l k)" for k
      using map_of_eq_None_iff [of l k] by (cases "map_of l k") (simp_all add: Get_def)
    moreover have "map_of l k = Some v \<Longrightarrow> v = Get l k" for k v by (simp add: Get_def)
    ultimately show ?thesis by metis
  qed
  finally show ?thesis .
qed


definition sample_labels :: labels where
  "sample_labels = [(''owner'', ''alice''), (''env'', [])]"


end
