(* ===== verification/Iam.thy ===== *)
theory Iam
  imports Labels
begin

text \<open>
  Permissions, roles and role bindings: \<open>internal/authz\<close> and \<open>internal/iam\<close>.
  The permission engine (\<open>gorbac\<close>, a third-party package) is a parameter: \<open>permit ps p\<close>
  is the answer of a fresh role to which the permissions \<open>ps\<close> were assigned, and
  \<open>permit_spec\<close> states its documented behaviour. The resolver is modelled with its
  index structure and proved equal to a direct description of role membership.
\<close>

subsection \<open>authz: the permission vocabulary\<close>

type_synonym permission = string

definition PermissionDirectoryRead :: permission where "PermissionDirectoryRead = ''directory:read''"
definition PermissionRequestManage :: permission where "PermissionRequestManage = ''request:manage''"
definition PermissionApprovalManage :: permission where "PermissionApprovalManage = ''approval:manage''"
definition PermissionSessionManage :: permission where "PermissionSessionManage = ''session:manage''"
definition PermissionCatalogManage :: permission where "PermissionCatalogManage = ''catalog:manage''"
definition PermissionAuditRead :: permission where "PermissionAuditRead = ''audit:read''"
definition PermissionSessionOverride :: permission where "PermissionSessionOverride = ''session:override''"
definition PermissionRoleManage :: permission where "PermissionRoleManage = ''role:manage''"
definition PermissionUserRead :: permission where "PermissionUserRead = ''user:read''"
definition PermissionUserManage :: permission where "PermissionUserManage = ''user:manage''"
definition PermissionWorkflowManage :: permission where "PermissionWorkflowManage = ''workflow:manage''"

lemmas permission_defs =
  PermissionDirectoryRead_def PermissionRequestManage_def PermissionApprovalManage_def
  PermissionSessionManage_def PermissionCatalogManage_def PermissionAuditRead_def
  PermissionSessionOverride_def PermissionRoleManage_def PermissionUserRead_def
  PermissionUserManage_def PermissionWorkflowManage_def

text \<open>The keys of \<open>p.permissions\<close>, filled by \<open>NewPolicy\<close>.\<close>

definition knownPermissions :: "permission list" where
  "knownPermissions =
     [PermissionDirectoryRead, PermissionRequestManage, PermissionApprovalManage,
      PermissionSessionManage, PermissionCatalogManage, PermissionAuditRead,
      PermissionSessionOverride, PermissionRoleManage, PermissionUserRead,
      PermissionUserManage, PermissionWorkflowManage]"

text \<open>The keys of \<open>Catalog()\<close>; the display names are not modelled.\<close>

definition Catalog :: "permission list" where
  "Catalog =
     [PermissionDirectoryRead, PermissionRequestManage, PermissionApprovalManage,
      PermissionSessionManage, PermissionCatalogManage, PermissionAuditRead,
      PermissionSessionOverride, PermissionRoleManage, PermissionUserRead,
      PermissionUserManage, PermissionWorkflowManage]"

fun known_loop :: "permission list \<Rightarrow> permission \<Rightarrow> bool" where
  "known_loop [] value = False"
| "known_loop (e # es) value = (if e = value then True else known_loop es value)"

definition Known :: "permission \<Rightarrow> bool" where
  "Known value = known_loop Catalog value"

text \<open>The built-in roles that \<open>NewPolicy\<close> registers, with their permissions.\<close>

definition NewPolicy :: "(string \<times> permission list) list" where
  "NewPolicy =
     (let base = [PermissionDirectoryRead, PermissionRequestManage, PermissionApprovalManage,
                  PermissionSessionManage]
      in [(''user'', [PermissionDirectoryRead, PermissionRequestManage, PermissionSessionManage]),
          (''admin'', knownPermissions),
          (''auditor'', base @ [PermissionAuditRead]),
          (''catalog_admin'', base @ [PermissionCatalogManage, PermissionUserRead]),
          (''security_admin'', base @ [PermissionAuditRead]),
          (''sre'', base @ [PermissionCatalogManage, PermissionAuditRead, PermissionUserRead,
                            PermissionWorkflowManage])])"

type_synonym permit = "permission list \<Rightarrow> permission \<Rightarrow> bool"

definition permit_spec :: "permit \<Rightarrow> bool" where
  "permit_spec permit \<longleftrightarrow> (\<forall>ps p. permit ps p \<longleftrightarrow> p \<in> set ps)"

definition Allowed :: "permit \<Rightarrow> string \<Rightarrow> permission \<Rightarrow> bool" where
  "Allowed permit role p \<longleftrightarrow>
     p \<in> set knownPermissions \<and>
     (case map_of NewPolicy role of None \<Rightarrow> False | Some ps \<Rightarrow> permit ps p)"

definition AllowedPermissions :: "permit \<Rightarrow> permission list \<Rightarrow> permission \<Rightarrow> bool" where
  "AllowedPermissions permit assigned p =
     (if p \<notin> set knownPermissions then False
      else permit (filter (\<lambda>key. key \<in> set knownPermissions) assigned) p)"

subsection \<open>iam/model.go: roles and bindings\<close>

record role =
  role_Name :: string
  role_Description :: string
  role_Permissions :: "permission list"
  role_Labels :: labels
  role_Enabled :: bool
  role_BuiltIn :: bool
  role_Revision :: int
  role_CreatedAt :: int
  role_UpdatedAt :: int

datatype iam_error =
    RoleNameOrDescription | RolePermissionCount | RolePermissionUnknownOrDuplicate permission
  | RoleLabels label_error | BindingName | BindingUser label_error | BindingRole label_error
  | CreateBuiltIn | SystemLabelChanged string | SystemLabelRemoved string
  | BuiltInDisabled | AdminKeepsRoleManage

text \<open>\<open>roleName\<close>: \<open>^[a-z][a-z0-9_-]{1,62}$\<close>.\<close>

definition roleName :: "string \<Rightarrow> bool" where
  "roleName s =
     (case s of [] \<Rightarrow> False
      | c # cs \<Rightarrow> in_range c 97 122 \<and> 1 \<le> length cs \<and> length cs \<le> 62 \<and>
          (\<forall>d\<in>set cs. in_range d 97 122 \<or> in_range d 48 57 \<or> d = CHR ''_'' \<or> d = CHR ''-''))"

fun role_permission_loop :: "permission list \<Rightarrow> permission list \<Rightarrow> iam_error option" where
  "role_permission_loop seen [] = None"
| "role_permission_loop seen (p # ps) =
     (if \<not> Known p \<or> p \<in> set seen then Some (RolePermissionUnknownOrDuplicate p)
      else role_permission_loop (p # seen) ps)"

definition role_Validate :: "role \<Rightarrow> iam_error option" where
  "role_Validate r =
     (if \<not> roleName (role_Name r) \<or> length (role_Description r) > 512 then Some RoleNameOrDescription
      else if role_Permissions r = [] \<or> length (role_Permissions r) > length Catalog
      then Some RolePermissionCount
      else case role_permission_loop [] (role_Permissions r) of
             Some e \<Rightarrow> Some e
           | None \<Rightarrow> map_option RoleLabels (ValidateEditable (role_Labels r)))"

record binding =
  binding_ID :: string
  binding_Name :: string
  binding_UserSelector :: string
  binding_RoleSelector :: string
  binding_Enabled :: bool
  binding_Revision :: int
  binding_CreatedAt :: int
  binding_UpdatedAt :: int

definition binding_Validate :: "binding \<Rightarrow> iam_error option" where
  "binding_Validate b =
     (if length (binding_Name b) < 1 \<or> length (binding_Name b) > 128 then Some BindingName
      else case BindingSelector (binding_UserSelector b) of
             Inl e \<Rightarrow> Some (BindingUser e)
           | Inr _ \<Rightarrow> (case BindingSelector (binding_RoleSelector b) of
                         Inl e \<Rightarrow> Some (BindingRole e) | Inr _ \<Rightarrow> None))"

subsection \<open>iam/resolve.go: the resolver\<close>

record grant_source =
  source_Kind :: string
  source_ID :: string
  source_Name :: string
  source_Revision :: int
  source_UserSelector :: string
  source_RoleSelector :: string

record direct_grant =
  direct_Role :: string
  direct_Source :: grant_source

record role_grant =
  grant_Role :: role
  grant_Sources :: "grant_source list"

record compiled_binding =
  compiled_subject :: selector
  compiled_roles :: "nat list"
  compiled_source :: grant_source

record resolver =
  resolver_roles :: "role list"
  resolver_byName :: "string \<Rightarrow> nat option"
  resolver_bindings :: "compiled_binding list"

fun index_roles :: "role list \<Rightarrow> role list \<Rightarrow> (string \<Rightarrow> nat option) \<Rightarrow> role list \<times> (string \<Rightarrow> nat option)" where
  "index_roles [] acc m = (acc, m)"
| "index_roles (r # rs) acc m =
     (if role_Enabled r then index_roles rs (acc @ [r]) (m(role_Name r := Some (length acc)))
      else index_roles rs acc m)"

definition matching_indices :: "selector \<Rightarrow> role list \<Rightarrow> nat list" where
  "matching_indices sel rs = filter (\<lambda>i. sel_Matches sel (role_Labels (rs ! i))) [0..<length rs]"

definition compile_binding :: "role list \<Rightarrow> binding \<Rightarrow> compiled_binding list" where
  "compile_binding rs b =
     (if \<not> binding_Enabled b then []
      else case BindingSelector (binding_UserSelector b) of
             Inl _ \<Rightarrow> []
           | Inr subject \<Rightarrow>
               (case BindingSelector (binding_RoleSelector b) of
                  Inl _ \<Rightarrow> []
                | Inr sel \<Rightarrow>
                    if matching_indices sel rs = [] then []
                    else [\<lparr>compiled_subject = subject, compiled_roles = matching_indices sel rs,
                           compiled_source = \<lparr>source_Kind = ''binding'', source_ID = binding_ID b,
                             source_Name = binding_Name b, source_Revision = binding_Revision b,
                             source_UserSelector = binding_UserSelector b,
                             source_RoleSelector = binding_RoleSelector b\<rparr>\<rparr>]))"

definition NewResolver :: "role list \<Rightarrow> binding list \<Rightarrow> resolver" where
  "NewResolver roles bindings =
     (let (rs, m) = index_roles roles [] (\<lambda>_. None)
      in \<lparr>resolver_roles = rs, resolver_byName = m,
          resolver_bindings = concat (map (compile_binding rs) bindings)\<rparr>)"

definition baseline_source :: grant_source where
  "baseline_source = \<lparr>source_Kind = ''baseline'', source_ID = [], source_Name = ''default user role'',
     source_Revision = 0, source_UserSelector = [], source_RoleSelector = []\<rparr>"

text \<open>\<open>visit\<close> calls \<open>grant\<close> once per membership; the model returns the sequence of calls.\<close>

definition visit :: "resolver \<Rightarrow> labels \<Rightarrow> direct_grant list \<Rightarrow> (nat \<times> grant_source) list" where
  "visit r subject direct =
     (case resolver_byName r ''user'' of Some i \<Rightarrow> [(i, baseline_source)] | None \<Rightarrow> []) @
     concat (map (\<lambda>d. case resolver_byName r (direct_Role d) of
                        Some i \<Rightarrow> [(i, direct_Source d)] | None \<Rightarrow> []) direct) @
     concat (map (\<lambda>b. if sel_Matches (compiled_subject b) subject
                      then map (\<lambda>i. (i, compiled_source b)) (compiled_roles b) else [])
               (resolver_bindings r))"

definition no_source :: grant_source where
  "no_source = \<lparr>source_Kind = [], source_ID = [], source_Name = [], source_Revision = 0,
     source_UserSelector = [], source_RoleSelector = []\<rparr>"

definition resolver_Resolve :: "resolver \<Rightarrow> labels \<Rightarrow> string list \<Rightarrow> role list" where
  "resolver_Resolve r subject explicit =
     (let direct = map (\<lambda>name. \<lparr>direct_Role = name, direct_Source = no_source\<rparr>) explicit;
          granted = fold (\<lambda>(i, _) g. g[i := True]) (visit r subject direct)
                      (replicate (length (resolver_roles r)) False)
      in map fst (filter snd (zip (resolver_roles r) granted)))"

definition resolver_Explain :: "resolver \<Rightarrow> labels \<Rightarrow> direct_grant list \<Rightarrow> role_grant list" where
  "resolver_Explain r subject direct =
     (let sources = fold (\<lambda>(i, src) g. g[i := g ! i @ [src]]) (visit r subject direct)
                      (replicate (length (resolver_roles r)) [])
      in map (\<lambda>v. \<lparr>grant_Role = fst v, grant_Sources = snd v\<rparr>)
           (filter (\<lambda>v. snd v \<noteq> []) (zip (resolver_roles r) sources)))"

definition Resolve :: "labels \<Rightarrow> role list \<Rightarrow> binding list \<Rightarrow> string list \<Rightarrow> role list" where
  "Resolve subject roles bindings explicit = resolver_Resolve (NewResolver roles bindings) subject explicit"

definition MatchesRole :: "string \<Rightarrow> role list \<Rightarrow> bool" where
  "MatchesRole sel roles =
     (case BindingSelector sel of
        Inl _ \<Rightarrow> False
      | Inr parsed \<Rightarrow> list_ex (\<lambda>r. role_Enabled r \<and> sel_Matches parsed (role_Labels r)) roles)"

subsection \<open>The resolver computes role membership\<close>

text \<open>\<open>member_role\<close> describes membership without indices.\<close>

definition member_role :: "binding list \<Rightarrow> labels \<Rightarrow> string list \<Rightarrow> role \<Rightarrow> bool" where
  "member_role bindings subject explicit r \<longleftrightarrow>
     role_Enabled r \<and>
     (role_Name r = ''user'' \<or> role_Name r \<in> set explicit \<or>
      (\<exists>b\<in>set bindings. binding_Enabled b \<and> MatchesBinding (binding_UserSelector b) subject \<and>
                       MatchesBinding (binding_RoleSelector b) (role_Labels r)))"

lemma index_roles_list: "fst (index_roles rs acc m) = acc @ filter role_Enabled rs"
  by (induction rs arbitrary: acc m) simp_all

text \<open>The name index is the map from the names of the enabled roles to their positions.\<close>

lemma index_roles_map:
  assumes "distinct (map role_Name (acc @ filter role_Enabled rs))"
    "\<forall>n i. m n = Some i \<longleftrightarrow> i < length acc \<and> role_Name (acc ! i) = n"
  shows "snd (index_roles rs acc m) n = Some i \<longleftrightarrow>
    i < length (acc @ filter role_Enabled rs) \<and> role_Name ((acc @ filter role_Enabled rs) ! i) = n"
  using assms
proof (induction rs acc m rule: index_roles.induct)
  case (2 r rs acc m)
  show ?case
  proof (cases "role_Enabled r")
    case True
    have "role_Name (acc ! i) \<noteq> role_Name r" if "i < length acc" for i
      using 2(3) True imageI [OF nth_mem [OF that], of role_Name] by auto
    then have "\<forall>n i. (m(role_Name r := Some (length acc))) n = Some i \<longleftrightarrow>
        i < length (acc @ [r]) \<and> role_Name ((acc @ [r]) ! i) = n"
      using 2(4) by (auto simp: nth_append less_Suc_eq)
    then show ?thesis using 2(1) [OF True] 2(3) True by (simp del: fun_upd_apply)
  next
    case False
    then show ?thesis using 2(2) [OF False] 2(3,4) by simp
  qed
qed simp

lemma NewResolver_roles [simp]: "resolver_roles (NewResolver roles bs) = filter role_Enabled roles"
  by (simp add: NewResolver_def index_roles_list case_prod_beta)

lemma NewResolver_byName:
  assumes "distinct (map role_Name roles)"
  shows "resolver_byName (NewResolver roles bs) n = Some i \<longleftrightarrow>
    i < length (filter role_Enabled roles) \<and> role_Name (filter role_Enabled roles ! i) = n"
proof -
  have "distinct (map role_Name ([] @ filter role_Enabled roles))"
    using assms by (simp add: distinct_map_filter)
  from index_roles_map [OF this, of "\<lambda>_. None" n i] show ?thesis
    by (simp add: NewResolver_def case_prod_beta)
qed

lemma NewResolver_bindings:
  "resolver_bindings (NewResolver roles bs) = concat (map (compile_binding (filter role_Enabled roles)) bs)"
  by (simp add: NewResolver_def index_roles_list case_prod_beta)

lemma compile_binding_visit:
  "(\<exists>c\<in>set (compile_binding rs b). sel_Matches (compiled_subject c) subject \<and> i \<in> set (compiled_roles c)) \<longleftrightarrow>
     binding_Enabled b \<and> MatchesBinding (binding_UserSelector b) subject \<and> i < length rs \<and>
     MatchesBinding (binding_RoleSelector b) (role_Labels (rs ! i))"
proof -
  have "i \<in> set (matching_indices sel rs) \<longleftrightarrow> i < length rs \<and> sel_Matches sel (role_Labels (rs ! i))" for sel
    by (auto simp: matching_indices_def)
  moreover have "\<not> sel_Matches sel (role_Labels (rs ! i))" if "matching_indices sel rs = []" "i < length rs" for sel
    using that by (simp add: matching_indices_def filter_empty_conv)
  ultimately show ?thesis
    by (cases "BindingSelector (binding_UserSelector b)"; cases "BindingSelector (binding_RoleSelector b)")
       (auto simp: compile_binding_def MatchesBinding_def)
qed

lemma fst_option_list [simp]:
  "i \<in> fst ` set (case x of Some j \<Rightarrow> [(j, s)] | None \<Rightarrow> []) \<longleftrightarrow> x = Some i"
  by (cases x) auto

lemma fst_concat_map: "i \<in> fst ` set (concat (map f xs)) \<longleftrightarrow> (\<exists>x\<in>set xs. i \<in> fst ` set (f x))"
  by (simp add: image_UN)

lemma fst_visit:
  "i \<in> fst ` set (visit r subject direct) \<longleftrightarrow>
     resolver_byName r ''user'' = Some i \<or>
     (\<exists>d\<in>set direct. resolver_byName r (direct_Role d) = Some i) \<or>
     (\<exists>b\<in>set (resolver_bindings r). sel_Matches (compiled_subject b) subject \<and> i \<in> set (compiled_roles b))"
proof -
  have b: "i \<in> fst ` set (if P then map (\<lambda>i. (i, s)) is else []) \<longleftrightarrow> P \<and> i \<in> set is" for P s "is"
    by (auto simp: image_image)
  show ?thesis
    by (simp only: b visit_def set_append image_Un Un_iff fst_concat_map fst_option_list)
qed

lemma visit_members:
  assumes "distinct (map role_Name roles)"
  shows "i \<in> fst ` set (visit (NewResolver roles bs) subject direct) \<longleftrightarrow>
    i < length (filter role_Enabled roles) \<and>
    member_role bs subject (map direct_Role direct) (filter role_Enabled roles ! i)"
proof -
  let ?rs = "filter role_Enabled roles"
  have en: "role_Enabled (?rs ! i)" if "i < length ?rs" using nth_mem [OF that] by simp
  have "(\<exists>c\<in>set (resolver_bindings (NewResolver roles bs)).
       sel_Matches (compiled_subject c) subject \<and> i \<in> set (compiled_roles c)) \<longleftrightarrow>
     (\<exists>b\<in>set bs. binding_Enabled b \<and> MatchesBinding (binding_UserSelector b) subject \<and> i < length ?rs \<and>
       MatchesBinding (binding_RoleSelector b) (role_Labels (?rs ! i)))"
    using compile_binding_visit [of ?rs _ subject i] by (simp add: NewResolver_bindings Bex_def) blast
  then show ?thesis
    unfolding fst_visit NewResolver_byName [OF assms] member_role_def
    using en by (auto simp: image_iff)
qed

lemma fold_mark_length: "length (fold (\<lambda>(i, _) g. g[i := True]) vs g) = length g"
  by (induction vs arbitrary: g) auto

lemma fold_mark_nth:
  "j < length g \<Longrightarrow> fold (\<lambda>(i, _) g. g[i := True]) vs g ! j \<longleftrightarrow> g ! j \<or> j \<in> fst ` set vs"
proof (induction vs arbitrary: g)
  case (Cons v vs)
  then show ?case using Cons.IH [of "g[fst v := True]"]
    by (cases v; cases "fst v = j") (simp_all add: nth_list_update)
qed simp

lemma fold_collect_length: "length (fold (\<lambda>(i, s) g. g[i := g ! i @ [s]]) vs g) = length g"
  by (induction vs arbitrary: g) auto

lemma fold_collect_nth:
  "j < length g \<Longrightarrow> fold (\<lambda>(i, s) g. g[i := g ! i @ [s]]) vs g ! j = g ! j @ map snd (filter (\<lambda>v. fst v = j) vs)"
proof (induction vs arbitrary: g)
  case (Cons v vs)
  then show ?case using Cons.IH [of "g[fst v := g ! fst v @ [snd v]]"]
    by (cases v; cases "fst v = j") (simp_all add: nth_list_update)
qed simp

lemmas fold_mark = fold_mark_length fold_mark_nth
lemmas fold_collect = fold_collect_length fold_collect_nth

lemma map_fst_filter_zip:
  assumes "length bs = length xs" "\<And>i. i < length xs \<Longrightarrow> Q (bs ! i) \<longleftrightarrow> P (xs ! i)"
  shows "map fst (filter (\<lambda>v. Q (snd v)) (zip xs bs)) = filter P xs"
  using assms
proof (induction xs arbitrary: bs)
  case (Cons x xs)
  then obtain b bs' where bs: "bs = b # bs'" by (cases bs) auto
  have len: "length bs' = length xs" using Cons.prems(1) bs by simp
  have q: "Q (bs' ! i) \<longleftrightarrow> P (xs ! i)" if "i < length xs" for i
    using Cons.prems(2) [of "Suc i"] that bs by simp
  show ?case using Cons.IH [OF len q] Cons.prems(2) [of 0] bs by simp
qed simp

subsection \<open>Properties\<close>

lemma Resolve_filter:
  assumes "distinct (map role_Name roles)"
  shows "Resolve subject roles bindings explicit = filter (member_role bindings subject explicit) roles"
proof -
  let ?rs = "filter role_Enabled roles"
  let ?d = "map (\<lambda>name. \<lparr>direct_Role = name, direct_Source = no_source\<rparr>) explicit"
  let ?g = "fold (\<lambda>(i, _) g. g[i := True]) (visit (NewResolver roles bindings) subject ?d)
              (replicate (length ?rs) False)"
  have "?g ! i \<longleftrightarrow> member_role bindings subject explicit (?rs ! i)" if "i < length ?rs" for i
    using that visit_members [OF assms, of i bindings subject ?d] by (simp add: fold_mark comp_def)
  then have "map fst (filter (\<lambda>v. snd v) (zip ?rs ?g)) = filter (member_role bindings subject explicit) ?rs"
    using map_fst_filter_zip [of ?g ?rs "\<lambda>b. b"] by (simp add: fold_mark)
  also have "\<dots> = filter (member_role bindings subject explicit) roles"
    by (auto simp: member_role_def intro!: filter_cong)
  finally show ?thesis by (simp add: Resolve_def resolver_Resolve_def Let_def)
qed

lemma Explain_members:
  assumes "distinct (map role_Name roles)"
  shows "map grant_Role (resolver_Explain (NewResolver roles bindings) subject direct) =
    filter (member_role bindings subject (map direct_Role direct)) roles"
proof -
  let ?rs = "filter role_Enabled roles"
  let ?v = "visit (NewResolver roles bindings) subject direct"
  let ?g = "fold (\<lambda>(i, src) g. g[i := g ! i @ [src]]) ?v (replicate (length ?rs) [])"
  have "?g ! i \<noteq> [] \<longleftrightarrow> member_role bindings subject (map direct_Role direct) (?rs ! i)"
    if "i < length ?rs" for i
  proof -
    have "?g ! i \<noteq> [] \<longleftrightarrow> i \<in> fst ` set ?v" using that by (auto simp: fold_collect filter_empty_conv)
    then show ?thesis using that visit_members [OF assms, of i bindings subject direct] by simp
  qed
  then have "map fst (filter (\<lambda>v. snd v \<noteq> []) (zip ?rs ?g)) =
      filter (member_role bindings subject (map direct_Role direct)) ?rs"
    using map_fst_filter_zip [of ?g ?rs "\<lambda>b. b \<noteq> []"] by (simp add: fold_collect)
  also have "\<dots> = filter (member_role bindings subject (map direct_Role direct)) roles"
    by (auto simp: member_role_def intro!: filter_cong)
  finally show ?thesis
    by (simp add: resolver_Explain_def Let_def comp_def)
qed

text \<open>C29. The resolver grants exactly the enabled roles that are the baseline role \<open>user\<close>,
  explicitly assigned, or selected by an enabled binding whose two selectors both match; the
  order of the role directory is kept, disabled roles are granted by no path, and the explained
  grants shown to an administrator are the ones the authorisation uses.\<close>

theorem Resolve_members:
  assumes "distinct (map role_Name roles)"
  shows "Resolve subject roles bindings explicit = filter (member_role bindings subject explicit) roles \<and>
    map grant_Role (resolver_Explain (NewResolver roles bindings) subject direct) =
      Resolve subject roles bindings (map direct_Role direct)"
  by (simp add: Resolve_filter [OF assms] Explain_members [OF assms])

lemma Known_iff: "Known p \<longleftrightarrow> p \<in> set knownPermissions"
  by (auto simp: Known_def Catalog_def knownPermissions_def)

lemma AllowedPermissions_iff:
  "permit_spec permit \<Longrightarrow> AllowedPermissions permit ps p \<longleftrightarrow> Known p \<and> p \<in> set ps"
  by (auto simp: AllowedPermissions_def permit_spec_def Known_iff)

lemma role_permission_loop_None:
  "role_permission_loop seen ps = None \<longleftrightarrow> (\<forall>p\<in>set ps. Known p \<and> p \<notin> set seen) \<and> distinct ps"
  by (induction ps arbitrary: seen) auto

end
