(* ===== verification/Approvalflow.thy ===== *)
theory Approvalflow
  imports Iam
begin

text \<open>
  Approval definitions and request snapshots: \<open>internal/approvalflow/model.go\<close>. Times are
  integers (nanoseconds), a \<open>*time.Time\<close> is an \<open>int option\<close>.
\<close>

record step =
  step_Name :: string
  step_Kind :: string
  step_Mode :: string
  step_Selector :: string

record flow_definition =
  def_ID :: string
  def_Name :: string
  def_Description :: string
  def_Labels :: labels
  def_Enabled :: bool
  def_BuiltIn :: bool
  def_Revision :: int
  def_AssetSelector :: string
  def_TimeoutSeconds :: int
  def_Steps :: "step list"
  def_CreatedAt :: int
  def_UpdatedAt :: int

record asset_policy =
  policy_DefaultsOnly :: bool
  policy_AssetID :: string
  policy_Labels :: labels
  policy_Revision :: int
  policy_UpdatedAt :: int

record candidate =
  candidate_UserID :: string
  candidate_Name :: string

record resolved_step =
  resolved_Step :: step
  resolved_Level :: int
  resolved_Required :: int
  resolved_Candidates :: "candidate list"

record snapshot =
  snap_WorkflowID :: string
  snap_Name :: string
  snap_Revision :: int
  snap_AssetPolicyRevision :: int
  snap_AssetLabels :: labels
  snap_Steps :: "resolved_step list"

datatype flow_error =
    FlowNameOrDescription | FlowTimeout | FlowAssetSelector label_error | FlowLabels label_error
  | FlowStepCount | StepNameOrMode | OwnersStepSelector | StepSelector label_error | StepUnknownKind
  | OwnershipName | OwnershipAsset label_error | OwnershipUser label_error

text \<open>The body of the loop over the steps in \<open>Definition.Validate\<close>.\<close>

definition step_Validate :: "step \<Rightarrow> flow_error option" where
  "step_Validate s =
     (if TrimSpace (step_Name s) = [] \<or> length (step_Name s) > 128 \<or>
         (step_Mode s \<noteq> ''any'' \<and> step_Mode s \<noteq> ''all'') then Some StepNameOrMode
      else if step_Kind s = ''owners'' then
        (if step_Selector s \<noteq> [] then Some OwnersStepSelector else None)
      else if step_Kind s = ''user_selector'' \<or> step_Kind s = ''role_selector'' then
        (case BindingSelector (step_Selector s) of Inl e \<Rightarrow> Some (StepSelector e) | Inr _ \<Rightarrow> None)
      else Some StepUnknownKind)"

definition definition_Validate :: "flow_definition \<Rightarrow> flow_error option" where
  "definition_Validate v =
     (if TrimSpace (def_Name v) = [] \<or> length (def_Name v) > 128 \<or> length (def_Description v) > 512
      then Some FlowNameOrDescription
      else if def_TimeoutSeconds v < 60 \<or> def_TimeoutSeconds v > 604800 then Some FlowTimeout
      else case (if TrimSpace (def_AssetSelector v) \<noteq> []
                 then (case BindingSelector (def_AssetSelector v) of
                         Inl e \<Rightarrow> Some (FlowAssetSelector e) | Inr _ \<Rightarrow> None)
                 else None) of
             Some e \<Rightarrow> Some e
           | None \<Rightarrow>
               (case ValidateEditable (def_Labels v) of
                  Some e \<Rightarrow> Some (FlowLabels e)
                | None \<Rightarrow>
                    if length (def_Steps v) < 1 \<or> length (def_Steps v) > 10 then Some FlowStepCount
                    else first_error step_Validate (def_Steps v)))"

record ownership =
  own_ID :: string
  own_Name :: string
  own_AssetSelector :: string
  own_UserSelector :: string
  own_Enabled :: bool
  own_Revision :: int
  own_CreatedAt :: int
  own_UpdatedAt :: int

definition ownership_Validate :: "ownership \<Rightarrow> flow_error option" where
  "ownership_Validate v =
     (if TrimSpace (own_Name v) = [] \<or> length (own_Name v) > 128 then Some OwnershipName
      else case BindingSelector (own_AssetSelector v) of
             Inl e \<Rightarrow> Some (OwnershipAsset e)
           | Inr _ \<Rightarrow> (case BindingSelector (own_UserSelector v) of
                         Inl e \<Rightarrow> Some (OwnershipUser e) | Inr _ \<Rightarrow> None))"

end
