(* ===== verification/Gostd.thy ===== *)
theory Gostd
  imports Prelude
begin

text \<open>
  Further parts of Go's standard library used by the services, on byte strings:
  \<open>strings.ToLower\<close>, \<open>strings.EqualFold\<close> on ASCII texts, the number of runes of a
  string, \<open>unicode.IsControl\<close>, and the parser and printer of IP addresses
  (\<open>net.ParseIP\<close>, \<open>IP.String\<close>, \<open>IP.IsUnspecified\<close>, \<open>IP.IsMulticast\<close>).
\<close>

subsection \<open>Case\<close>

text \<open>
  \<open>strings.ToLower\<close>. Besides the ASCII letters two runes have an ASCII lower case:
  U+0130 (bytes C4 B0) maps to \<open>i\<close> and U+212A (bytes E2 84 AA) to \<open>k\<close>. The lower case of
  every other rune is not ASCII; the sources only look for ASCII texts in the result, so
  these bytes are left as they are.
\<close>

fun ToLower :: "string \<Rightarrow> string" where
  "ToLower [] = []"
| "ToLower (a # b # c # s) =
     (if byte a = 196 \<and> byte b = 176 then CHR ''i'' # ToLower (c # s)
      else if byte a = 226 \<and> byte b = 132 \<and> byte c = 170 then CHR ''k'' # ToLower s
      else ToLower_byte a # ToLower (b # c # s))"
| "ToLower [a, b] =
     (if byte a = 196 \<and> byte b = 176 then ''i'' else [ToLower_byte a, ToLower_byte b])"
| "ToLower [a] = [ToLower_byte a]"

text \<open>\<open>strings.EqualFold\<close> for ASCII arguments.\<close>

definition EqualFold :: "string \<Rightarrow> string \<Rightarrow> bool" where
  "EqualFold s t \<longleftrightarrow> map ToLower_byte s = map ToLower_byte t"

subsection \<open>Runes\<close>

text \<open>The width of the first rune of a non-empty string as \<open>utf8.DecodeRune\<close> computes it;
  an invalid byte is one rune of width 1.\<close>

definition cont_byte :: "string \<Rightarrow> nat \<Rightarrow> nat \<Rightarrow> nat \<Rightarrow> bool" where
  "cont_byte s i lo hi \<longleftrightarrow> i < length s \<and> in_range (s ! i) lo hi"

definition rune_width :: "string \<Rightarrow> nat" where
  "rune_width s =
     (let b = byte (hd s);
          c2 = cont_byte s 2 128 191; c3 = cont_byte s 3 128 191;
          second = (\<lambda>lo hi. cont_byte s 1 lo hi)
      in if b < 128 then 1
         else if 194 \<le> b \<and> b \<le> 223 then (if second 128 191 then 2 else 1)
         else if b = 224 then (if second 160 191 \<and> c2 then 3 else 1)
         else if b = 237 then (if second 128 159 \<and> c2 then 3 else 1)
         else if 225 \<le> b \<and> b \<le> 239 then (if second 128 191 \<and> c2 then 3 else 1)
         else if b = 240 then (if second 144 191 \<and> c2 \<and> c3 then 4 else 1)
         else if 241 \<le> b \<and> b \<le> 243 then (if second 128 191 \<and> c2 \<and> c3 then 4 else 1)
         else if b = 244 then (if second 128 143 \<and> c2 \<and> c3 then 4 else 1)
         else 1)"

lemma rune_width_pos: "0 < rune_width s"
  by (simp add: rune_width_def Let_def)

function rune_count :: "string \<Rightarrow> nat" where
  "rune_count s = (if s = [] then 0 else Suc (rune_count (drop (rune_width s) s)))"
  by pat_completeness auto
termination
  by (relation "measure length") (auto simp: rune_width_pos)

declare rune_count.simps [simp del]

text \<open>\<open>strings.IndexFunc(s, unicode.IsControl) >= 0\<close>: U+0000 to U+001F, U+007F, and U+0080 to
  U+009F (bytes C2 80 to C2 9F).\<close>

fun has_control :: "string \<Rightarrow> bool" where
  "has_control [] = False"
| "has_control (a # s) =
     (byte a < 32 \<or> byte a = 127 \<or>
      (byte a = 194 \<and> (case s of b # _ \<Rightarrow> in_range b 128 159 | [] \<Rightarrow> False)) \<or>
      has_control s)"

subsection \<open>Decimal and hexadecimal numbers\<close>

definition digit :: "char \<Rightarrow> bool" where
  "digit c \<longleftrightarrow> in_range c 48 57"

definition decimal_value :: "string \<Rightarrow> nat" where
  "decimal_value s = foldl (\<lambda>v c. v * 10 + (byte c - 48)) 0 s"

function decimal :: "nat \<Rightarrow> string" where
  "decimal n = (if n < 10 then [char_of (48 + n)] else decimal (n div 10) @ [char_of (48 + n mod 10)])"
  by pat_completeness auto
termination
  by (relation "measure id") auto

declare decimal.simps [simp del]

definition hex_value :: "char \<Rightarrow> nat option" where
  "hex_value c =
     (if in_range c 48 57 then Some (byte c - 48)
      else if in_range c 97 102 then Some (byte c - 87)
      else if in_range c 65 70 then Some (byte c - 55)
      else None)"

definition hex_lower :: "nat \<Rightarrow> char" where
  "hex_lower n = (if n < 10 then char_of (48 + n) else char_of (87 + n))"

function hexadecimal :: "nat \<Rightarrow> string" where
  "hexadecimal n = (if n < 16 then [hex_lower n] else hexadecimal (n div 16) @ [hex_lower (n mod 16)])"
  by pat_completeness auto
termination
  by (relation "measure id") auto

declare hexadecimal.simps [simp del]

subsection \<open>IP addresses\<close>

text \<open>An address is the list of its 16 bytes; an IPv4 address is IPv4-mapped.\<close>

type_synonym ip = "nat list"

definition octet_ok :: "string \<Rightarrow> bool" where
  "octet_ok p \<longleftrightarrow> p \<noteq> [] \<and> list_all digit p \<and> (length p = 1 \<or> hd p \<noteq> CHR ''0'') \<and>
     length p \<le> 3 \<and> decimal_value p \<le> 255"

definition parseIPv4Fields :: "string \<Rightarrow> nat list option" where
  "parseIPv4Fields s =
     (let ps = split_on CHR ''.'' s
      in if length ps = 4 \<and> list_all octet_ok ps then Some (map decimal_value ps) else None)"

definition v4_prefix :: "nat list" where
  "v4_prefix = replicate 10 0 @ [255, 255]"

definition parseIPv4 :: "string \<Rightarrow> ip option" where
  "parseIPv4 s = map_option (\<lambda>b. v4_prefix @ b) (parseIPv4Fields s)"

definition hex_digits :: "string \<Rightarrow> string" where
  "hex_digits s = takeWhile (\<lambda>c. hex_value c \<noteq> None) s"

definition hex_group :: "string \<Rightarrow> nat" where
  "hex_group s = foldl (\<lambda>v c. v * 16 + the (hex_value c)) 0 s"

text \<open>The loop of \<open>netip.parseIPv6\<close>: the bytes read so far, the position of the ellipsis,
  the unread rest. The result is the bytes and the ellipsis at the end of the text.\<close>

function parse_groups :: "nat list \<Rightarrow> nat option \<Rightarrow> string \<Rightarrow> (nat list \<times> nat option) option" where
  "parse_groups bs ell s =
     (if length bs \<ge> 16 then (if s = [] then Some (bs, ell) else None)
      else let ds = hex_digits s; rest = drop (length ds) s in
        if ds = [] \<or> length ds > 4 then None
        else if rest \<noteq> [] \<and> hd rest = CHR ''.'' then
          (if ell = None \<and> length bs \<noteq> 12 then None
           else if length bs + 4 > 16 then None
           else map_option (\<lambda>b. (bs @ b, ell)) (parseIPv4Fields s))
        else let bs' = bs @ [hex_group ds div 256, hex_group ds mod 256] in
          (case rest of
             [] \<Rightarrow> Some (bs', ell)
           | c # r \<Rightarrow>
               if c \<noteq> CHR '':'' \<or> r = [] then None
               else if hd r = CHR '':'' then
                 (if ell \<noteq> None then None
                  else if tl r = [] then Some (bs', Some (length bs'))
                  else parse_groups bs' (Some (length bs')) (tl r))
               else parse_groups bs' ell r))"
  by pat_completeness auto
termination
  by (relation "measure (\<lambda>(bs, ell, s). 16 - length bs)") auto

declare parse_groups.simps [simp del]

definition expand_ellipsis :: "nat list \<Rightarrow> nat option \<Rightarrow> ip option" where
  "expand_ellipsis bs ell =
     (if length bs < 16 then
        (case ell of None \<Rightarrow> None
         | Some e \<Rightarrow> Some (take e bs @ replicate (16 - length bs) 0 @ drop e bs))
      else if ell \<noteq> None then None else Some bs)"

definition parseIPv6 :: "string \<Rightarrow> ip option" where
  "parseIPv6 s =
     (if CHR ''%'' \<in> set s then None
      else if HasPrefix s ''::'' then
        (if length s = 2 then Some (replicate 16 0)
         else case parse_groups [] (Some 0) (drop 2 s) of
                None \<Rightarrow> None | Some (bs, ell) \<Rightarrow> expand_ellipsis bs ell)
      else case parse_groups [] None s of
             None \<Rightarrow> None | Some (bs, ell) \<Rightarrow> expand_ellipsis bs ell)"

definition ParseIP :: "string \<Rightarrow> ip option" where
  "ParseIP s =
     (case find (\<lambda>c. c = CHR ''.'' \<or> c = CHR '':'' \<or> c = CHR ''%'') s of
        None \<Rightarrow> None
      | Some c \<Rightarrow> if c = CHR ''.'' then parseIPv4 s
                  else if c = CHR '':'' then parseIPv6 s else None)"

definition is_v4 :: "ip \<Rightarrow> bool" where
  "is_v4 ip \<longleftrightarrow> take 12 ip = v4_prefix"

definition v6_group :: "ip \<Rightarrow> nat \<Rightarrow> nat" where
  "v6_group ip i = ip ! (2 * i) * 256 + ip ! (2 * i + 1)"

definition zero_run :: "ip \<Rightarrow> nat \<Rightarrow> nat" where
  "zero_run ip i = length (takeWhile (\<lambda>j. v6_group ip j = 0) [i..<8])"

text \<open>The first longest run of at least two zero groups.\<close>

definition longest_zero_run :: "ip \<Rightarrow> nat \<times> nat" where
  "longest_zero_run ip =
     foldl (\<lambda>(st, len) i. if zero_run ip i \<ge> 2 \<and> zero_run ip i > len then (i, zero_run ip i) else (st, len))
       (255, 0) [0..<8]"

definition v6_String :: "ip \<Rightarrow> string" where
  "v6_String ip =
     (let (st, len) = longest_zero_run ip; hex = (\<lambda>is. join '':'' (map (\<lambda>i. hexadecimal (v6_group ip i)) is))
      in if len = 0 then hex [0..<8] else hex [0..<st] @ ''::'' @ hex [st + len..<8])"

definition ip_String :: "ip \<Rightarrow> string" where
  "ip_String ip = (if is_v4 ip then join ''.'' (map decimal (drop 12 ip)) else v6_String ip)"

definition IsUnspecified :: "ip \<Rightarrow> bool" where
  "IsUnspecified ip \<longleftrightarrow> ip = replicate 16 0 \<or> ip = v4_prefix @ replicate 4 0"

definition IsMulticast :: "ip \<Rightarrow> bool" where
  "IsMulticast ip \<longleftrightarrow> (if is_v4 ip then ip ! 12 div 16 = 14 else ip ! 0 = 255)"

subsection \<open>Timestamps\<close>

text \<open>A \<open>time.Time\<close> is the number of nanoseconds since the zero time 0001-01-01 00:00:00 UTC.
  \<open>civil\<close> gives the year, month and day of a day number; years are counted from March inside a
  period of 400 years.\<close>

definition civil :: "int \<Rightarrow> int \<times> int \<times> int" where
  "civil days =
     (let z = days + 306; era = z div 146097; doe = z mod 146097;
          yoe = (doe - doe div 1460 + doe div 36524 - doe div 146096) div 365;
          doy = doe - (365 * yoe + yoe div 4 - yoe div 100);
          mp = (5 * doy + 2) div 153;
          d = doy - (153 * mp + 2) div 5 + 1;
          m = (if mp < 10 then mp + 3 else mp - 9)
      in (yoe + era * 400 + (if m \<le> 2 then 1 else 0), m, d))"

definition padded :: "nat \<Rightarrow> int \<Rightarrow> string" where
  "padded width n =
     (let t = decimal (nat \<bar>n\<bar>); z = replicate (width - length t) CHR ''0'' @ t in if n < 0 then ''-'' @ z else z)"

text \<open>The fraction of a second, without trailing zeros.\<close>

definition fraction :: "int \<Rightarrow> string" where
  "fraction ns =
     (let t = rev (dropWhile (\<lambda>c. c = CHR ''0'') (rev (padded 9 ns))) in if t = [] then [] else ''.'' @ t)"

text \<open>\<open>t.UTC().Format(time.RFC3339Nano)\<close>.\<close>

definition RFC3339Nano :: "int \<Rightarrow> string" where
  "RFC3339Nano t =
     (let secs = t div 1000000000; days = secs div 86400; r = secs mod 86400; (y, m, d) = civil days
      in padded 4 y @ ''-'' @ padded 2 m @ ''-'' @ padded 2 d @ ''T'' @
         padded 2 (r div 3600) @ '':'' @ padded 2 (r mod 3600 div 60) @ '':'' @ padded 2 (r mod 60) @
         fraction (t mod 1000000000) @ ''Z'')"

end
