(* ===== verification/Domain.thy ===== *)
theory Domain
  imports Approvalflow Gostd
begin

text \<open>
  The entities of \<open>internal/domain\<close> with the source's field names, the statuses as
  datatypes, and the small pure helpers of \<open>internal/id\<close>, \<open>internal/terminal\<close> and
  \<open>internal/operationaudit\<close> that the services call. JSON metadata is the datatype \<open>json\<close>
  (a Go \<open>map[string]any\<close> is an association list).
\<close>

subsection \<open>Statuses\<close>

datatype user_status = UserStatusActive | UserStatusInactive
datatype resource_status = ResourceStatusEnabled | ResourceStatusDisabled | ResourceStatusMaint
datatype risk_level = RiskLevelNormal | RiskLevelSensitive | RiskLevelCritical

datatype request_status =
    AccessRequestPendingApproval | AccessRequestApproved | AccessRequestRejected
  | AccessRequestCancelled | AccessRequestApprovalExpired

datatype session_status =
    SessionProvisioning | SessionRunning | SessionRevoking | SessionExpired | SessionClosed
  | SessionFailed | SessionRevokeFailed | SessionManualIntervention

datatype approval_decision = ApprovalApproved | ApprovalRejected

text \<open>The values of \<open>outbox_events.status\<close>.\<close>

datatype outbox_status = OutboxPending | OutboxProcessing | OutboxProcessed | OutboxFailed

text \<open>The event types of \<open>service/tasks.go\<close>, and any other text in the column.\<close>

datatype outbox_type =
    outboxSessionProvision | outboxSessionRevoke | outboxNotifyApproval | outboxNotifyRequestResult
  | outboxNotifySessionReady | outboxNotifySessionClosed | outboxOther string

text \<open>A floating point number is kept as the text \<open>encoding/json\<close> prints for it.\<close>

datatype json =
    JNull | JBool bool | JInt int | JFloat string | JStr string | JList "json list" | JObj "(string \<times> json) list"

type_synonym metadata = "(string \<times> json) list"

subsection \<open>Entities\<close>

record user =
  user_Labels :: labels
  user_Revision :: int
  user_ID :: string
  user_AuthVersion :: int
  user_FeishuOpenID :: string
  user_FeishuUnionID :: "string option"
  user_Nickname :: string
  user_Username :: string
  user_Email :: "string option"
  user_Department :: "string option"
  user_Status :: user_status
  user_CreatedAt :: int
  user_UpdatedAt :: int

record region =
  region_ID :: string
  region_Code :: string
  region_Name :: string
  region_Status :: resource_status
  region_CreatedAt :: int
  region_UpdatedAt :: int

record gateway =
  gateway_ID :: string
  gateway_RegionID :: string
  gateway_Name :: string
  gateway_ManagementEndpoint :: string
  gateway_PublicEndpoint :: string
  gateway_AuthSecretRef :: "string option"
  gateway_Status :: resource_status
  gateway_MaxSessions :: int
  gateway_LastHeartbeatAt :: "int option"
  gateway_CreatedAt :: int
  gateway_UpdatedAt :: int

record asset =
  asset_ID :: string
  asset_ApprovalWorkflowID :: "string option"
  asset_RegionID :: string
  asset_GatewayID :: string
  asset_Name :: string
  asset_AssetType :: string
  asset_TargetCiphertext :: string
  asset_RiskLevel :: risk_level
  asset_MaxTTLSeconds :: int
  asset_Status :: resource_status
  asset_ExternalSource :: "string option"
  asset_DeletedAt :: "int option"
  asset_CreatedAt :: int
  asset_UpdatedAt :: int

record asset_port =
  port_ID :: string
  port_AssetID :: string
  port_Port :: int
  port_Protocol :: string
  port_Enabled :: bool
  port_CreatedAt :: int

record asset_gateway_binding =
  agb_AssetID :: string
  agb_GatewayID :: string
  agb_Priority :: int
  agb_Enabled :: bool
  agb_CreatedAt :: int
  agb_UpdatedAt :: int

record access_request =
  req_WorkflowSnapshot :: "snapshot option"
  req_ApprovalExpiresAt :: "int option"
  req_ApprovalMode :: string
  req_ID :: string
  req_ApplicantID :: string
  req_AssetID :: string
  req_TargetPort :: int
  req_Reason :: string
  req_TicketNo :: "string option"
  req_Emergency :: bool
  req_RequestedStartAt :: "int option"
  req_TTLSeconds :: int
  req_Status :: request_status
  req_IdempotencyKey :: string
  req_SourceIP :: "string option"
  req_TargetAccount :: "string option"
  req_CreatedAt :: int
  req_UpdatedAt :: int

record approval =
  appr_RequiredApprovals :: int
  appr_StepName :: string
  appr_ID :: string
  appr_RequestID :: string
  appr_ApproverID :: string
  appr_ApprovalLevel :: int
  appr_Decision :: "approval_decision option"
  appr_Comment :: "string option"
  appr_DecidedAt :: "int option"
  appr_CreatedAt :: int

text \<open>\<open>operationaudit.Policy\<close>: the audit selection attached to a session.\<close>

record audit_policy =
  audit_Profile :: string
  audit_Revision :: string
  audit_Protocol :: string

record session =
  sess_AuditPolicy :: audit_policy
  sess_ConnectionMode :: string
  sess_TunnelClientPublicKey :: string
  sess_TunnelServerCertificate :: string
  sess_ID :: string
  sess_RequestID :: string
  sess_GatewayID :: string
  sess_TokenHash :: "string option"
  sess_RemoteProcessID :: "string option"
  sess_Status :: session_status
  sess_StartedAt :: "int option"
  sess_ExpiresAt :: "int option"
  sess_ClosedAt :: "int option"
  sess_FailureReason :: "string option"
  sess_Version :: int
  sess_ListenerPort :: "int option"
  sess_ExternalPort :: "int option"
  sess_ExposureMode :: "string option"
  sess_ExposureRef :: "string option"
  sess_CreatedAt :: int
  sess_UpdatedAt :: int

record session_event =
  sev_ID :: string
  sev_SessionID :: string
  sev_EventType :: string
  sev_ActorType :: string
  sev_ActorID :: "string option"
  sev_Metadata :: metadata
  sev_CreatedAt :: int

record outbox_event =
  outbox_ID :: string
  outbox_AggregateType :: string
  outbox_AggregateID :: string
  outbox_EventType :: outbox_type
  outbox_Payload :: metadata
  outbox_Status :: outbox_status
  outbox_RetryCount :: int
  outbox_NextRetryAt :: "int option"
  outbox_CreatedAt :: int
  outbox_ProcessedAt :: "int option"

record audit_event =
  audit_ID :: string
  audit_EventType :: string
  audit_ActorType :: string
  audit_ActorID :: "string option"
  audit_SubjectUserID :: "string option"
  audit_RequestID :: "string option"
  audit_SessionID :: "string option"
  audit_RegionID :: "string option"
  audit_AssetID :: "string option"
  audit_TargetPort :: "int option"
  audit_SourceIP :: "string option"
  audit_Result :: "string option"
  audit_Reason :: "string option"
  audit_Metadata :: metadata
  audit_CreatedAt :: int

record notification =
  note_ID :: string
  note_UserID :: string
  note_EventType :: string
  note_DedupeKey :: string
  note_RequestID :: string
  note_SessionID :: "string option"
  note_ReadAt :: "int option"
  note_CreatedAt :: int

record token_delivery =
  td_SessionID :: string
  td_TokenCiphertext :: string
  td_ExpiresAt :: int
  td_CreatedAt :: int

record gateway_connection_event =
  gce_EventID :: string
  gce_ConnectionID :: string
  gce_SessionID :: string
  gce_EventType :: string
  gce_SourceIP :: "string option"
  gce_BackendSourceIP :: "string option"
  gce_BackendSourcePort :: "int option"
  gce_BytesUp :: "int option"
  gce_BytesDown :: "int option"
  gce_DurationMS :: "int option"
  gce_Result :: "string option"
  gce_Reason :: "string option"
  gce_OccurredAt :: int
  gce_CreatedAt :: int

record operation_audit_event =
  oae_EventID :: string
  oae_ConnectionID :: "string option"
  oae_SessionID :: "string option"
  oae_Protocol :: string
  oae_AssetID :: string
  oae_TargetPort :: int
  oae_ActualAccount :: string
  oae_OperationType :: string
  oae_StatementFingerprint :: "string option"
  oae_NormalizedOperation :: "string option"
  oae_ObjectName :: "string option"
  oae_Result :: string
  oae_DurationMS :: "int option"
  oae_BackendSourceIP :: string
  oae_BackendSourcePort :: int
  oae_SourceRecordID :: string
  oae_CorrelationStatus :: string
  oae_OccurredAt :: int
  oae_Metadata :: metadata
  oae_CreatedAt :: int

record role_assignment =
  asg_ID :: string
  asg_UserID :: string
  asg_Role :: string
  asg_GrantedBy :: string
  asg_CreatedAt :: int
  asg_RevokedAt :: "int option"

subsection \<open>Errors\<close>

text \<open>
  The sentinel errors of \<open>service/errors.go\<close> and \<open>repository/errors.go\<close>; wrapping with
  \<open>fmt.Errorf("...: %w", err)\<close> keeps the sentinel, message texts are not modelled.
  \<open>ErrDatabase\<close> is any other failure of a statement or of a transaction (connection,
  foreign key or check constraint), \<open>ErrUnsupportedOutbox\<close> is \<open>errUnsupportedOutboxEvent\<close>,
  \<open>ErrUnavailable\<close> is \<open>gateway.ErrUnavailable\<close>,
  \<open>ErrOther\<close> a plain error without a sentinel, and \<open>Joined\<close> is \<open>errors.Join\<close>.
\<close>

datatype err =
    ErrValidation | ErrForbidden | ErrStateConflict | ErrNotConfigured
  | ErrNotFound | ErrConflict | ErrConstraint | ErrDatabase | ErrUnsupportedOutbox
  | ErrUnavailable | ErrOther | Joined err err

fun err_Is :: "err \<Rightarrow> err \<Rightarrow> bool" where
  "err_Is (Joined a b) t = (Joined a b = t \<or> err_Is a t \<or> err_Is b t)"
| "err_Is e t = (e = t)"

subsection \<open>Identifiers (internal/id)\<close>

definition hex_digit :: "char \<Rightarrow> bool" where
  "hex_digit c \<longleftrightarrow> in_range c 48 57 \<or> in_range c 97 102 \<or> in_range c 65 70"

definition uuid_dash :: "nat \<Rightarrow> bool" where
  "uuid_dash i \<longleftrightarrow> i = 8 \<or> i = 13 \<or> i = 18 \<or> i = 23"

definition IsUUID :: "string \<Rightarrow> bool" where
  "IsUUID v \<longleftrightarrow>
     length v = 36 \<and>
     list_all (\<lambda>i. if uuid_dash i then v ! i = CHR ''-'' else hex_digit (v ! i)) [0..<36]"

text \<open>\<open>id.New\<close> formats 16 random bytes; the version and variant bits are fixed.\<close>

definition hex_char :: "nat \<Rightarrow> char" where
  "hex_char n = (if n < 10 then char_of (48 + n) else char_of (87 + n))"

definition hex_byte :: "nat \<Rightarrow> string" where
  "hex_byte b = [hex_char (b div 16 mod 16), hex_char (b mod 16)]"

definition uuid_of_bytes :: "nat list \<Rightarrow> string" where
  "uuid_of_bytes bs =
     (let bs' = bs[6 := (bs ! 6) mod 16 + 64, 8 := (bs ! 8) mod 64 + 128];
          enc = (\<lambda>i j. concat (map hex_byte (drop i (take j bs'))))
      in enc 0 4 @ ''-'' @ enc 4 6 @ ''-'' @ enc 6 8 @ ''-'' @ enc 8 10 @ ''-'' @ enc 10 16)"

subsection \<open>Protocols\<close>

definition ValidProtocol :: "string \<Rightarrow> bool" where
  "ValidProtocol v \<longleftrightarrow> v = ''ssh'' \<or> v = ''mysql'' \<or> v = ''redis'' \<or> v = ''mongodb'' \<or>
     v = ''postgresql'' \<or> v = ''http''"

definition NormalizeProtocol :: "string \<Rightarrow> string" where
  "NormalizeProtocol value =
     (let v = ToLower (TrimSpace value) in
      if v = ''postgres'' \<or> v = ''postgresql'' then ''postgresql''
      else if v = ''mongo'' \<or> v = ''mongodb'' then ''mongodb''
      else if v = ''https'' \<or> v = ''http'' then ''http''
      else if v = ''sshd'' \<or> v = ''ssh'' then ''ssh''
      else v)"

definition ValidAssetProtocol :: "string \<Rightarrow> bool" where
  "ValidAssetProtocol value = ValidProtocol (NormalizeProtocol value)"

definition terminal_Supported :: "string \<Rightarrow> bool" where
  "terminal_Supported p \<longleftrightarrow> p = ''ssh'' \<or> p = ''mysql'' \<or> p = ''postgresql'' \<or> p = ''redis'' \<or>
     p = ''mongodb'' \<or> p = ''http''"

end
