(* ===== verification/Store.thy ===== *)
theory Store
  imports Domain "HOL-Library.Product_Lexorder"
begin

text \<open>
  The database, the service environment and transactions. The state of PostgreSQL is the
  record \<open>db\<close> with one row list per table; a statement is a function on it. The record
  \<open>svc\<close> is the receiver \<open>s *AccessService\<close>: its configuration and everything it
  observes from outside. Observations are indexed by a position that grows with every
  observation, so a theorem that holds for all \<open>svc\<close> holds for every behaviour of the
  clock, the random generator, failing statements and concurrent workers:
  \<^item> \<open>svc_clock\<close>, \<open>svc_now\<close>: the service clock and the transaction time \<open>NOW()\<close>;
  \<^item> \<open>svc_rand\<close>: the bytes read from \<open>crypto/rand\<close>;
  \<^item> \<open>svc_fault\<close>: whether a statement, \<open>BEGIN\<close> or \<open>COMMIT\<close> fails;
  \<^item> \<open>svc_others\<close>: what other workers commit before this worker's next transaction.

  A transaction (\<open>service/transaction.go\<close>) is atomic and isolated: the code serialises
  its decisions with row locks and advisory locks, which need no counterpart here. A failed
  body or commit leaves the tables as they were when the transaction began.
\<close>

subsection \<open>State\<close>

record db =
  db_users :: "user list"
  db_regions :: "region list"
  db_gateways :: "gateway list"
  db_assets :: "asset list"
  db_ports :: "asset_port list"
  db_asset_gateways :: "asset_gateway_binding list"
  db_iam_roles :: "role list"
  db_iam_bindings :: "binding list"
  db_assignments :: "role_assignment list"
  db_workflows :: "flow_definition list"
  db_ownerships :: "ownership list"
  db_asset_policies :: "asset_policy list"
  db_requests :: "access_request list"
  db_approvals :: "approval list"
  db_sessions :: "session list"
  db_session_events :: "session_event list"
  db_audit_events :: "audit_event list"
  db_outbox :: "outbox_event list"
  db_notifications :: "notification list"
  db_token_deliveries :: "token_delivery list"
  db_connection_events :: "gateway_connection_event list"
  db_operation_events :: "operation_audit_event list"

record world =
  w_db :: db
  w_pos :: nat
  w_now :: int

type_synonym 'a M = "world \<Rightarrow> (err + 'a) \<times> world"

text \<open>Requests to and answers of the session gateway (\<open>gateway.Client\<close>, outside the
  control plane).\<close>

record create_request =
  cq_ConnectionMode :: string
  cq_AuditPolicy :: audit_policy
  cq_SessionID :: string
  cq_TargetID :: string
  cq_TargetPort :: int
  cq_SourceIP :: string
  cq_WebOnly :: bool
  cq_TargetAccount :: string
  cq_TTLSeconds :: int
  cq_ExpiresAt :: "int option"
  cq_MaxConnections :: int

record create_response =
  cr_ConnectionMode :: string
  cr_ServerCertificate :: string
  cr_SessionID :: string
  cr_Status :: string
  cr_ProcessID :: string
  cr_ListenerPort :: int
  cr_ExternalPort :: int
  cr_ExposureMode :: string
  cr_ExposureRef :: string
  cr_StartedAt :: int
  cr_ExpiresAt :: int

record close_response =
  cl_SessionID :: string
  cl_Status :: string

text \<open>A decoded audit profile of an asset port (\<open>settings.AuditProfile\<close>), as far as the
  session code reads it.\<close>

record audit_profile =
  prof_Name :: string
  prof_Port :: int
  prof_Protocol :: string
  prof_AuditEnabled :: bool

text \<open>
  Parameters of \<open>svc\<close> for code outside the model, each a function of the position of the
  call: the gateway client (\<open>svc_create\<close>, \<open>svc_close\<close>, \<open>svc_status\<close>, \<open>svc_probe\<close>, the
  renewals \<open>svc_renewals\<close> of the heartbeat that run during a create call), the notifier,
  the stored settings (\<open>svc_clientAccess\<close>), the encrypted audit profiles of an asset
  (\<open>svc_loadAudit\<close>), the certificate registry that selects a policy for a profile
  (\<open>svc_selectPolicy\<close>), the permission engine (\<open>svc_permit\<close>), the rendered text of an error
  (\<open>svc_errorText\<close>), the local runtime of \<open>ReconcileSessionResources\<close> (\<open>svc_reconcile\<close>,
  \<open>svc_acknowledge\<close>), the deletion of expired rows of the login, transport and OAuth tables
  (\<open>svc_purge\<close>), the public address of a gateway (\<open>svc_gatewayHost\<close>), the certificate shown with an
  audited session (\<open>svc_auditTrust\<close>), and the address parser of \<open>net/mail\<close> (\<open>svc_mailAddress\<close>).
\<close>

record svc =
  svc_clock :: "nat \<Rightarrow> int"
  svc_now :: "nat \<Rightarrow> int"
  svc_rand :: "nat \<Rightarrow> nat list"
  svc_fault :: "nat \<Rightarrow> bool"
  svc_others :: "nat \<Rightarrow> db \<Rightarrow> db"
  svc_permit :: permit
  svc_adminUserIDs :: "string list"
  svc_defaultTTL :: int
  svc_maxTTL :: int
  svc_demoMode :: bool
  svc_approvalTimeout :: int
  svc_heartbeatMaxAge :: int
  svc_hasRuntime :: bool
  svc_readinessSupported :: bool
  svc_loadAudit :: "nat \<Rightarrow> string \<Rightarrow> err + audit_profile list"
  svc_selectPolicy :: "audit_profile \<Rightarrow> int \<Rightarrow> err + audit_policy"
  svc_clientAccess :: "nat \<Rightarrow> err + bool"
  svc_create :: "nat \<Rightarrow> gateway \<Rightarrow> asset \<Rightarrow> create_request \<Rightarrow> err + create_response"
  svc_close :: "nat \<Rightarrow> string \<Rightarrow> string \<Rightarrow> string \<Rightarrow> err + close_response"
  svc_status :: "nat \<Rightarrow> string \<Rightarrow> string \<Rightarrow> err + string"
  svc_probe :: "nat \<Rightarrow> gateway \<Rightarrow> err + int option"
  svc_renewals :: "nat \<Rightarrow> nat"
  svc_notify :: "nat \<Rightarrow> outbox_type \<Rightarrow> access_request \<Rightarrow> session option \<Rightarrow> approval list \<Rightarrow> err option"
  svc_errorText :: "err \<Rightarrow> string"
  svc_reconcile :: "(nat \<Rightarrow> err option \<times> string list) option"
  svc_acknowledge :: "nat \<Rightarrow> string \<Rightarrow> err option"
  svc_purge :: "nat \<Rightarrow> err option"
  svc_gatewayHost :: "nat \<Rightarrow> gateway \<Rightarrow> err + string"
  svc_auditTrust :: "nat \<Rightarrow> session \<Rightarrow> string \<Rightarrow> err option"
  svc_mailAddress :: "string \<Rightarrow> string option"

subsection \<open>Time\<close>

text \<open>A \<open>time.Duration\<close> is a number of nanoseconds.\<close>

abbreviation second :: int where "second \<equiv> 1000000000"

subsection \<open>Fallible, state-changing code\<close>

definition returnM :: "'a \<Rightarrow> 'a M" where
  "returnM x w = (Inr x, w)"

definition failM :: "err \<Rightarrow> 'a M" where
  "failM e w = (Inl e, w)"

definition bindM :: "'a M \<Rightarrow> ('a \<Rightarrow> 'b M) \<Rightarrow> 'b M" where
  "bindM m f w = (case m w of (Inl e, w') \<Rightarrow> (Inl e, w') | (Inr x, w') \<Rightarrow> f x w')"

definition thenM :: "'a M \<Rightarrow> 'b M \<Rightarrow> 'b M" where
  "thenM m n = bindM m (\<lambda>_. n)"

text \<open>\<open>v, err := m\<close> where the code goes on to inspect \<open>err\<close>.\<close>

definition tryM :: "'a M \<Rightarrow> (err + 'a) M" where
  "tryM m w = (case m w of (r, w') \<Rightarrow> (Inr r, w'))"

definition liftE :: "err + 'a \<Rightarrow> 'a M" where
  "liftE r w = (r, w)"

definition checkM :: "err option \<Rightarrow> unit M" where
  "checkM e = (case e of None \<Rightarrow> returnM () | Some e \<Rightarrow> failM e)"

definition unlessM :: "bool \<Rightarrow> err \<Rightarrow> unit M" where
  "unlessM c e = (if c then returnM () else failM e)"

definition whenM :: "bool \<Rightarrow> unit M \<Rightarrow> unit M" where
  "whenM c m = (if c then m else returnM ())"

primrec forM :: "'a list \<Rightarrow> ('a \<Rightarrow> unit M) \<Rightarrow> unit M" where
  "forM [] f = returnM ()"
| "forM (x # xs) f = thenM (f x) (forM xs f)"

primrec mapM :: "('a \<Rightarrow> 'b M) \<Rightarrow> 'a list \<Rightarrow> 'b list M" where
  "mapM f [] = returnM []"
| "mapM f (x # xs) = bindM (f x) (\<lambda>y. bindM (mapM f xs) (\<lambda>ys. returnM (y # ys)))"

text \<open>An observation: the function is applied to the current position, which advances.\<close>

definition observe :: "(nat \<Rightarrow> 'a) \<Rightarrow> 'a M" where
  "observe f w = (Inr (f (w_pos w)), w\<lparr>w_pos := Suc (w_pos w)\<rparr>)"

definition clock :: "svc \<Rightarrow> int M" where
  "clock s = observe (svc_clock s)"

definition id_New :: "svc \<Rightarrow> string M" where
  "id_New s = observe (\<lambda>p. uuid_of_bytes (svc_rand s p))"

subsection \<open>Statements and transactions\<close>

definition stmt :: "svc \<Rightarrow> (int \<Rightarrow> db \<Rightarrow> (err + 'a) \<times> db) \<Rightarrow> 'a M" where
  "stmt s f w =
     (let w' = w\<lparr>w_pos := Suc (w_pos w)\<rparr> in
      if svc_fault s (w_pos w) then (Inl ErrDatabase, w')
      else case f (w_now w) (w_db w) of (r, d) \<Rightarrow> (r, w'\<lparr>w_db := d\<rparr>))"

definition query :: "svc \<Rightarrow> (db \<Rightarrow> err + 'a) \<Rightarrow> 'a M" where
  "query s f = stmt s (\<lambda>_ d. (f d, d))"

definition InTx :: "svc \<Rightarrow> 'a M \<Rightarrow> 'a M" where
  "InTx s body w =
     (let p = w_pos w;
          w1 = w\<lparr>w_db := svc_others s p (w_db w), w_pos := Suc p, w_now := svc_now s p\<rparr>
      in if svc_fault s p then (Inl ErrDatabase, w1)
         else case body w1 of
                (Inl e, w2) \<Rightarrow> (Inl e, w2\<lparr>w_db := w_db w1\<rparr>)
              | (Inr x, w2) \<Rightarrow>
                  if svc_fault s (w_pos w2)
                  then (Inl ErrDatabase, w2\<lparr>w_db := w_db w1, w_pos := Suc (w_pos w2)\<rparr>)
                  else (Inr x, w2\<lparr>w_pos := Suc (w_pos w2)\<rparr>))"

text \<open>A statement on \<open>s.db\<close> outside a transaction is a transaction of its own.\<close>

abbreviation auto_tx :: "svc \<Rightarrow> 'a M \<Rightarrow> 'a M" where
  "auto_tx s m \<equiv> InTx s m"

subsection \<open>Rows\<close>

definition find_row :: "('a \<Rightarrow> bool) \<Rightarrow> 'a list \<Rightarrow> err + 'a" where
  "find_row p rows = (case find p rows of Some r \<Rightarrow> Inr r | None \<Rightarrow> Inl ErrNotFound)"

definition update_where :: "('a \<Rightarrow> bool) \<Rightarrow> ('a \<Rightarrow> 'a) \<Rightarrow> 'a list \<Rightarrow> 'a list" where
  "update_where p f rows = map (\<lambda>r. if p r then f r else r) rows"

text \<open>\<open>affected\<close>: an \<open>UPDATE\<close> that matches no row is \<open>ErrNotFound\<close>.\<close>

definition affected :: "('a \<Rightarrow> bool) \<Rightarrow> 'a list \<Rightarrow> err + unit" where
  "affected p rows = (if list_ex p rows then Inr () else Inl ErrNotFound)"

end
