(* ===== verification/Repository.thy ===== *)
theory Repository
  imports Store
begin

text \<open>
  The repositories of \<open>internal/repository\<close>: every SQL statement the modelled services
  issue, as a statement on the record \<open>db\<close>. An \<open>UPDATE ... WHERE\<close> is \<open>update_where\<close> with
  the guard of its \<open>WHERE\<close> clause, an \<open>INSERT\<close> appends a row unless a primary key or
  unique constraint of the schema (\<open>migrations/\<close>) is violated, \<open>ORDER BY\<close> is a sort and
  \<open>LIMIT\<close> is \<open>take\<close>. Locking clauses (\<open>FOR UPDATE\<close>, advisory locks) are part of the isolation
  of a transaction. Foreign keys and check constraints can only make a statement fail, which
  \<open>svc_fault\<close> allows for every statement.
\<close>

subsection \<open>Sessions (repository/sessions.go)\<close>

definition occupies_gateway :: "session \<Rightarrow> bool" where
  "occupies_gateway r \<longleftrightarrow>
     sess_Status r \<in> {SessionRunning, SessionRevoking, SessionRevokeFailed, SessionManualIntervention} \<or>
     (sess_Status r = SessionProvisioning \<and> sess_Version r > 0)"

definition is_active_status :: "session_status \<Rightarrow> bool" where
  "is_active_status st \<longleftrightarrow>
     st \<in> {SessionProvisioning, SessionRunning, SessionRevoking, SessionRevokeFailed, SessionManualIntervention}"

definition update_sessions :: "(session \<Rightarrow> bool) \<Rightarrow> (session \<Rightarrow> session) \<Rightarrow> db \<Rightarrow> (err + unit) \<times> db" where
  "update_sessions p f d =
     (affected p (db_sessions d), d\<lparr>db_sessions := update_where p f (db_sessions d)\<rparr>)"

text \<open>Every update of a session row increments its version and stamps \<open>updated_at\<close>.\<close>

definition touch :: "int \<Rightarrow> session \<Rightarrow> session" where
  "touch now r = r\<lparr>sess_Version := sess_Version r + 1, sess_UpdatedAt := now\<rparr>"

definition sessions_GetByID :: "svc \<Rightarrow> string \<Rightarrow> session M" where
  "sessions_GetByID s i = query s (\<lambda>d. find_row (\<lambda>r. sess_ID r = i) (db_sessions d))"

definition sessions_GetByIDForUpdate :: "svc \<Rightarrow> string \<Rightarrow> session M" where
  "sessions_GetByIDForUpdate s i = query s (\<lambda>d. find_row (\<lambda>r. sess_ID r = i) (db_sessions d))"

definition sessions_GetByRequestID :: "svc \<Rightarrow> string \<Rightarrow> session M" where
  "sessions_GetByRequestID s req = query s (\<lambda>d. find_row (\<lambda>_. True)
     (rev (sort_key (\<lambda>r. (sess_CreatedAt r, sess_ID r))
        (filter (\<lambda>r. sess_RequestID r = req) (db_sessions d)))))"

definition sess_Create :: "session \<Rightarrow> int \<Rightarrow> db \<Rightarrow> (err + session) \<times> db" where
  "sess_Create v now d =
     (let row = v\<lparr>sess_ConnectionMode := (if sess_ConnectionMode v = [] then ''tunnel'' else sess_ConnectionMode v),
                  sess_TunnelClientPublicKey := [], sess_TunnelServerCertificate := [],
                  sess_TokenHash := None, sess_RemoteProcessID := None, sess_StartedAt := None,
                  sess_ClosedAt := None, sess_FailureReason := None, sess_ListenerPort := None,
                  sess_ExternalPort := None, sess_ExposureMode := None, sess_ExposureRef := None,
                  sess_CreatedAt := now, sess_UpdatedAt := now\<rparr>
      in if list_ex (\<lambda>r. sess_ID r = sess_ID v \<or> sess_RequestID r = sess_RequestID v) (db_sessions d)
         then (Inl ErrConflict, d)
         else (Inr row, d\<lparr>db_sessions := db_sessions d @ [row]\<rparr>))"

definition sessions_Create :: "svc \<Rightarrow> session \<Rightarrow> session M" where
  "sessions_Create s v = stmt s (sess_Create v)"

definition gateway_load :: "db \<Rightarrow> string \<Rightarrow> string \<Rightarrow> nat" where
  "gateway_load d g excluded =
     length (filter (\<lambda>r. sess_GatewayID r = g \<and> sess_ID r \<noteq> excluded \<and> occupies_gateway r) (db_sessions d))"

definition fresh_heartbeat :: "int option \<Rightarrow> gateway \<Rightarrow> bool" where
  "fresh_heartbeat after g =
     (case after of None \<Rightarrow> True
      | Some t \<Rightarrow> (case gateway_LastHeartbeatAt g of None \<Rightarrow> False | Some h \<Rightarrow> h \<ge> t))"

text \<open>The \<open>EXISTS\<close> clause of \<open>ClaimProvisioningOnGateway\<close>.\<close>

definition gateway_accepts :: "db \<Rightarrow> string \<Rightarrow> string \<Rightarrow> string \<Rightarrow> int option \<Rightarrow> bool" where
  "gateway_accepts d i g a after =
     list_ex (\<lambda>b. agb_AssetID b = a \<and> agb_GatewayID b = g \<and> agb_Enabled b \<and>
       list_ex (\<lambda>x. asset_ID x = a \<and> asset_Status x = ResourceStatusEnabled \<and>
         list_ex (\<lambda>c. gateway_ID c = g \<and> gateway_RegionID c = asset_RegionID x \<and>
             gateway_Status c = ResourceStatusEnabled \<and> fresh_heartbeat after c \<and>
             int (gateway_load d g i) < gateway_MaxSessions c) (db_gateways d))
         (db_assets d)) (db_asset_gateways d)"

definition claimable :: "string \<Rightarrow> int \<Rightarrow> int \<Rightarrow> session \<Rightarrow> bool" where
  "claimable i v stale r \<longleftrightarrow>
     sess_ID r = i \<and> sess_Status r = SessionProvisioning \<and> sess_Version r = v \<and>
     (sess_Version r = 0 \<or> sess_UpdatedAt r \<le> stale)"

definition sess_ClaimOnGateway ::
  "string \<Rightarrow> int \<Rightarrow> int \<Rightarrow> string \<Rightarrow> string \<Rightarrow> int option \<Rightarrow> int \<Rightarrow> db \<Rightarrow> (err + unit) \<times> db" where
  "sess_ClaimOnGateway i v stale g a after now d =
     update_sessions (\<lambda>r. claimable i v stale r \<and> gateway_accepts d i g a after)
       (\<lambda>r. (touch now r)\<lparr>sess_GatewayID := g\<rparr>) d"

definition sessions_ClaimProvisioningOnGateway ::
  "svc \<Rightarrow> string \<Rightarrow> int \<Rightarrow> int \<Rightarrow> string \<Rightarrow> string \<Rightarrow> int option \<Rightarrow> session M" where
  "sessions_ClaimProvisioningOnGateway s i v stale g a after =
     thenM (stmt s (sess_ClaimOnGateway i v stale g a after)) (sessions_GetByID s i)"

definition sess_Claim :: "string \<Rightarrow> int \<Rightarrow> int \<Rightarrow> int \<Rightarrow> db \<Rightarrow> (err + unit) \<times> db" where
  "sess_Claim i v stale now = update_sessions (claimable i v stale) (touch now)"

definition sessions_ClaimProvisioning :: "svc \<Rightarrow> string \<Rightarrow> int \<Rightarrow> int \<Rightarrow> session M" where
  "sessions_ClaimProvisioning s i v stale = thenM (stmt s (sess_Claim i v stale)) (sessions_GetByID s i)"

definition provisioning_at :: "string \<Rightarrow> int \<Rightarrow> session \<Rightarrow> bool" where
  "provisioning_at i v r \<longleftrightarrow> sess_ID r = i \<and> sess_Status r = SessionProvisioning \<and> sess_Version r = v"

definition sess_Renew :: "string \<Rightarrow> int \<Rightarrow> int \<Rightarrow> db \<Rightarrow> (err + unit) \<times> db" where
  "sess_Renew i v now = update_sessions (provisioning_at i v) (\<lambda>r. r\<lparr>sess_UpdatedAt := now\<rparr>)"

definition sessions_RenewProvisioningLease :: "svc \<Rightarrow> string \<Rightarrow> int \<Rightarrow> unit M" where
  "sessions_RenewProvisioningLease s i v = stmt s (sess_Renew i v)"

definition sess_MarkRunning ::
  "string \<Rightarrow> int \<Rightarrow> string \<Rightarrow> string \<Rightarrow> int \<Rightarrow> int \<Rightarrow> int \<Rightarrow> db \<Rightarrow> (err + unit) \<times> db" where
  "sess_MarkRunning i v tok pid started expires now =
     update_sessions (provisioning_at i v)
       (\<lambda>r. (touch now r)\<lparr>sess_TokenHash := Some tok, sess_RemoteProcessID := Some pid,
          sess_Status := SessionRunning, sess_StartedAt := Some started, sess_ExpiresAt := Some expires\<rparr>)"

definition sessions_MarkRunning :: "svc \<Rightarrow> string \<Rightarrow> int \<Rightarrow> string \<Rightarrow> string \<Rightarrow> int \<Rightarrow> int \<Rightarrow> session M" where
  "sessions_MarkRunning s i v tok pid started expires =
     thenM (stmt s (sess_MarkRunning i v tok pid started expires)) (sessions_GetByID s i)"

definition sess_MarkDirectRunning ::
  "string \<Rightarrow> int \<Rightarrow> create_response \<Rightarrow> int \<Rightarrow> int \<Rightarrow> int \<Rightarrow> db \<Rightarrow> (err + unit) \<times> db" where
  "sess_MarkDirectRunning i v resp started expires now =
     update_sessions (provisioning_at i v)
       (\<lambda>r. (touch now r)\<lparr>sess_TokenHash := None, sess_RemoteProcessID := Some (cr_ProcessID resp),
          sess_Status := SessionRunning, sess_ListenerPort := Some (cr_ListenerPort resp),
          sess_ExternalPort := Some (cr_ExternalPort resp), sess_ExposureMode := Some (cr_ExposureMode resp),
          sess_ExposureRef := Some (cr_ExposureRef resp), sess_StartedAt := Some started,
          sess_ExpiresAt := Some expires, sess_TunnelClientPublicKey := [],
          sess_TunnelServerCertificate := []\<rparr>)"

definition sessions_MarkDirectRunning ::
  "svc \<Rightarrow> string \<Rightarrow> int \<Rightarrow> create_response \<Rightarrow> int \<Rightarrow> int \<Rightarrow> session M" where
  "sessions_MarkDirectRunning s i v resp started expires =
     thenM (stmt s (sess_MarkDirectRunning i v resp started expires)) (sessions_GetByID s i)"

definition sess_MarkProvisionFailed :: "string \<Rightarrow> int \<Rightarrow> string \<Rightarrow> int \<Rightarrow> db \<Rightarrow> (err + unit) \<times> db" where
  "sess_MarkProvisionFailed i v reason now =
     update_sessions (provisioning_at i v)
       (\<lambda>r. (touch now r)\<lparr>sess_Status := SessionFailed, sess_FailureReason := Some reason,
          sess_ClosedAt := Some now\<rparr>)"

definition sessions_MarkProvisionFailed :: "svc \<Rightarrow> string \<Rightarrow> int \<Rightarrow> string \<Rightarrow> unit M" where
  "sessions_MarkProvisionFailed s i v reason = stmt s (sess_MarkProvisionFailed i v reason)"

definition sess_MarkProvisionRevokeFailed :: "string \<Rightarrow> int \<Rightarrow> string \<Rightarrow> int \<Rightarrow> db \<Rightarrow> (err + unit) \<times> db" where
  "sess_MarkProvisionRevokeFailed i v reason now =
     update_sessions (provisioning_at i v)
       (\<lambda>r. (touch now r)\<lparr>sess_Status := SessionRevokeFailed, sess_FailureReason := Some reason\<rparr>)"

definition sessions_MarkProvisionRevokeFailed :: "svc \<Rightarrow> string \<Rightarrow> int \<Rightarrow> string \<Rightarrow> unit M" where
  "sessions_MarkProvisionRevokeFailed s i v reason = stmt s (sess_MarkProvisionRevokeFailed i v reason)"

definition sess_MarkRuntimeTerminated ::
  "string \<Rightarrow> session_status \<Rightarrow> string option \<Rightarrow> int \<Rightarrow> db \<Rightarrow> (err + unit) \<times> db" where
  "sess_MarkRuntimeTerminated i st reason now =
     update_sessions (\<lambda>r. sess_ID r = i \<and> sess_Status r = SessionRunning)
       (\<lambda>r. (touch now r)\<lparr>sess_Status := st, sess_ClosedAt := Some now, sess_FailureReason := reason\<rparr>)"

definition sessions_MarkRuntimeTerminated :: "svc \<Rightarrow> string \<Rightarrow> session_status \<Rightarrow> string option \<Rightarrow> session M" where
  "sessions_MarkRuntimeTerminated s i st reason =
     (if st \<noteq> SessionExpired \<and> st \<noteq> SessionFailed then failM ErrConstraint
      else thenM (stmt s (sess_MarkRuntimeTerminated i st reason)) (sessions_GetByID s i))"

definition sess_BeginRevoke :: "string \<Rightarrow> int \<Rightarrow> db \<Rightarrow> (err + unit) \<times> db" where
  "sess_BeginRevoke i now =
     update_sessions (\<lambda>r. sess_ID r = i \<and>
         sess_Status r \<in> {SessionRunning, SessionRevokeFailed, SessionManualIntervention})
       (\<lambda>r. (touch now r)\<lparr>sess_Status := SessionRevoking\<rparr>)"

definition sessions_BeginRevoke :: "svc \<Rightarrow> string \<Rightarrow> session M" where
  "sessions_BeginRevoke s i = thenM (stmt s (sess_BeginRevoke i)) (sessions_GetByID s i)"

definition sess_MarkClosed :: "string \<Rightarrow> session_status \<Rightarrow> int \<Rightarrow> db \<Rightarrow> (err + unit) \<times> db" where
  "sess_MarkClosed i st now =
     update_sessions (\<lambda>r. sess_ID r = i \<and> sess_Status r = SessionRevoking)
       (\<lambda>r. (touch now r)\<lparr>sess_Status := st, sess_ClosedAt := Some now\<rparr>)"

definition sessions_MarkClosed :: "svc \<Rightarrow> string \<Rightarrow> session_status \<Rightarrow> unit M" where
  "sessions_MarkClosed s i st =
     (if st \<noteq> SessionClosed \<and> st \<noteq> SessionExpired then failM ErrConstraint
      else stmt s (sess_MarkClosed i st))"

definition sess_MarkRevokeFailed :: "string \<Rightarrow> string \<Rightarrow> int \<Rightarrow> db \<Rightarrow> (err + unit) \<times> db" where
  "sess_MarkRevokeFailed i reason now =
     update_sessions (\<lambda>r. sess_ID r = i \<and> sess_Status r = SessionRevoking)
       (\<lambda>r. (touch now r)\<lparr>sess_Status := SessionRevokeFailed, sess_FailureReason := Some reason\<rparr>)"

definition sessions_MarkRevokeFailed :: "svc \<Rightarrow> string \<Rightarrow> string \<Rightarrow> unit M" where
  "sessions_MarkRevokeFailed s i reason = stmt s (sess_MarkRevokeFailed i reason)"

definition sess_MarkManualIntervention :: "string \<Rightarrow> string \<Rightarrow> int \<Rightarrow> db \<Rightarrow> (err + unit) \<times> db" where
  "sess_MarkManualIntervention i reason now =
     update_sessions (\<lambda>r. sess_ID r = i \<and> sess_Status r \<in> {SessionRevoking, SessionRevokeFailed})
       (\<lambda>r. (touch now r)\<lparr>sess_Status := SessionManualIntervention, sess_FailureReason := Some reason\<rparr>)"

definition sessions_MarkManualIntervention :: "svc \<Rightarrow> string \<Rightarrow> string \<Rightarrow> unit M" where
  "sessions_MarkManualIntervention s i reason = stmt s (sess_MarkManualIntervention i reason)"

definition page :: "int \<Rightarrow> int \<Rightarrow> int" where
  "page limit maxPageSize = (if limit < 1 \<or> limit > maxPageSize then maxPageSize else limit)"

text \<open>\<open>expires_at <= NOW()\<close> excludes rows without an expiry.\<close>

definition sessions_ListExpired :: "svc \<Rightarrow> int \<Rightarrow> session list M" where
  "sessions_ListExpired s limit = stmt s (\<lambda>now d. (Inr (take (nat (page limit 500))
     (sort_key (\<lambda>r. (the (sess_ExpiresAt r), sess_ID r))
       (filter (\<lambda>r. sess_Status r = SessionRunning \<and>
          (case sess_ExpiresAt r of None \<Rightarrow> False | Some e \<Rightarrow> e \<le> now)) (db_sessions d)))), d))"

definition sessions_ListProvisioning :: "svc \<Rightarrow> int \<Rightarrow> session list M" where
  "sessions_ListProvisioning s limit = query s (\<lambda>d. Inr (take (nat (page limit 500))
     (sort_key (\<lambda>r. (sess_CreatedAt r, sess_ID r))
       (filter (\<lambda>r. sess_Status r = SessionProvisioning \<and>
          list_ex (\<lambda>q. req_ID q = sess_RequestID r) (db_requests d)) (db_sessions d)))))"

text \<open>Whether the request of a session matches, the join of sessions and requests.\<close>

definition session_request :: "db \<Rightarrow> (access_request \<Rightarrow> bool) \<Rightarrow> session \<Rightarrow> bool" where
  "session_request d p r = list_ex (\<lambda>q. req_ID q = sess_RequestID r \<and> p q) (db_requests d)"

definition active_sessions :: "db \<Rightarrow> string \<Rightarrow> string \<Rightarrow> int \<Rightarrow> session list" where
  "active_sessions d applicant a port =
     filter (\<lambda>r. is_active_status (sess_Status r) \<and>
       session_request d (\<lambda>q. req_ApplicantID q = applicant \<and> req_AssetID q = a \<and> req_TargetPort q = port) r)
       (db_sessions d)"

definition sessions_FindActiveByApplicantAssetPort :: "svc \<Rightarrow> string \<Rightarrow> string \<Rightarrow> int \<Rightarrow> session M" where
  "sessions_FindActiveByApplicantAssetPort s applicant a port = query s (\<lambda>d. find_row (\<lambda>_. True)
     (rev (sort_key (\<lambda>r. (sess_CreatedAt r, sess_ID r)) (active_sessions d applicant a port))))"

text \<open>Sessions whose revocation is due and not yet queued, for the four triggers.\<close>

definition active_command :: "db \<Rightarrow> string \<Rightarrow> outbox_type \<Rightarrow> bool" where
  "active_command d i t =
     list_ex (\<lambda>e. outbox_AggregateType e = ''session'' \<and> outbox_AggregateID e = i \<and>
       outbox_EventType e = t \<and> outbox_Status e \<in> {OutboxPending, OutboxProcessing}) (db_outbox d)"

definition revocations_to_queue :: "db \<Rightarrow> (session \<Rightarrow> bool) \<Rightarrow> session list" where
  "revocations_to_queue d p =
     sort_key (\<lambda>r. (sess_CreatedAt r, sess_ID r))
       (filter (\<lambda>r. p r \<and>
          sess_Status r \<in> {SessionRunning, SessionRevoking, SessionRevokeFailed, SessionManualIntervention} \<and>
          \<not> active_command d (sess_ID r) outboxSessionRevoke) (db_sessions d))"

definition sessions_ListRevocationsToQueueByApplicant :: "svc \<Rightarrow> string \<Rightarrow> int \<Rightarrow> session list M" where
  "sessions_ListRevocationsToQueueByApplicant s applicant limit = query s (\<lambda>d. Inr (take (nat (page limit 500))
     (revocations_to_queue d (session_request d (\<lambda>q. req_ApplicantID q = applicant)))))"

definition sessions_ListRevocationsToQueueByAsset :: "svc \<Rightarrow> string \<Rightarrow> int \<Rightarrow> session list M" where
  "sessions_ListRevocationsToQueueByAsset s a limit = query s (\<lambda>d. Inr (take (nat (page limit 500))
     (revocations_to_queue d (session_request d (\<lambda>q. req_AssetID q = a)))))"

definition sessions_ListRevocationsToQueueByGateway :: "svc \<Rightarrow> string \<Rightarrow> int \<Rightarrow> session list M" where
  "sessions_ListRevocationsToQueueByGateway s g limit = query s (\<lambda>d. Inr (take (nat (page limit 500))
     (revocations_to_queue d (\<lambda>r. sess_GatewayID r = g))))"

definition sessions_ListRevocationsToQueueByRegion :: "svc \<Rightarrow> string \<Rightarrow> int \<Rightarrow> session list M" where
  "sessions_ListRevocationsToQueueByRegion s reg limit = query s (\<lambda>d. Inr (take (nat (page limit 500))
     (revocations_to_queue d (session_request d (\<lambda>q.
        list_ex (\<lambda>a. asset_ID a = req_AssetID q \<and> asset_RegionID a = reg) (db_assets d))))))"

subsection \<open>Access requests (access requests repository)\<close>

definition update_requests ::
  "(access_request \<Rightarrow> bool) \<Rightarrow> (access_request \<Rightarrow> access_request) \<Rightarrow> db \<Rightarrow> (err + unit) \<times> db" where
  "update_requests p f d =
     (affected p (db_requests d), d\<lparr>db_requests := update_where p f (db_requests d)\<rparr>)"

definition reqs_Create :: "access_request \<Rightarrow> int \<Rightarrow> db \<Rightarrow> (err + access_request) \<times> db" where
  "reqs_Create v now d =
     (let row = v\<lparr>req_ApprovalMode := (if req_ApprovalMode v = [] then ''required'' else req_ApprovalMode v),
                  req_CreatedAt := now, req_UpdatedAt := now\<rparr>
      in if list_ex (\<lambda>r. req_ID r = req_ID v \<or> req_IdempotencyKey r = req_IdempotencyKey v) (db_requests d)
         then (Inl ErrConflict, d)
         else (Inr row, d\<lparr>db_requests := db_requests d @ [row]\<rparr>))"

definition requests_Create :: "svc \<Rightarrow> access_request \<Rightarrow> access_request M" where
  "requests_Create s v = stmt s (reqs_Create v)"

definition requests_GetByID :: "svc \<Rightarrow> string \<Rightarrow> access_request M" where
  "requests_GetByID s i = query s (\<lambda>d. find_row (\<lambda>r. req_ID r = i) (db_requests d))"

definition requests_GetByIDForUpdate :: "svc \<Rightarrow> string \<Rightarrow> access_request M" where
  "requests_GetByIDForUpdate s i = query s (\<lambda>d. find_row (\<lambda>r. req_ID r = i) (db_requests d))"

definition requests_GetByIdempotencyKey :: "svc \<Rightarrow> string \<Rightarrow> access_request M" where
  "requests_GetByIdempotencyKey s k = query s (\<lambda>d. find_row (\<lambda>r. req_IdempotencyKey r = k) (db_requests d))"

definition requests_ListByApplicant :: "svc \<Rightarrow> string \<Rightarrow> int \<Rightarrow> int \<Rightarrow> access_request list M" where
  "requests_ListByApplicant s applicant limit offset = query s (\<lambda>d. Inr (take (nat (page limit 100))
     (drop (nat (max offset 0)) (rev (sort_key (\<lambda>r. (req_CreatedAt r, req_ID r))
       (filter (\<lambda>r. req_ApplicantID r = applicant) (db_requests d)))))))"

definition requests_ListApprovalExpired :: "svc \<Rightarrow> int \<Rightarrow> int \<Rightarrow> access_request list M" where
  "requests_ListApprovalExpired s before limit = stmt s (\<lambda>now d. (Inr (take (nat (page limit 500))
     (sort_key (\<lambda>r. (req_CreatedAt r, req_ID r))
       (filter (\<lambda>r. req_Status r = AccessRequestPendingApproval \<and>
          (case req_ApprovalExpiresAt r of None \<Rightarrow> req_CreatedAt r \<le> before | Some e \<Rightarrow> e \<le> now))
          (db_requests d)))), d))"

definition reqs_Transition :: "string \<Rightarrow> request_status \<Rightarrow> request_status \<Rightarrow> int \<Rightarrow> db \<Rightarrow> (err + unit) \<times> db" where
  "reqs_Transition i from to now =
     update_requests (\<lambda>r. req_ID r = i \<and> req_Status r = from)
       (\<lambda>r. r\<lparr>req_Status := to, req_UpdatedAt := now\<rparr>)"

definition requests_TransitionStatus :: "svc \<Rightarrow> string \<Rightarrow> request_status \<Rightarrow> request_status \<Rightarrow> access_request M" where
  "requests_TransitionStatus s i from to =
     thenM (stmt s (reqs_Transition i from to)) (requests_GetByID s i)"

definition reqs_Cancel :: "string \<Rightarrow> int \<Rightarrow> db \<Rightarrow> (err + unit) \<times> db" where
  "reqs_Cancel i now =
     update_requests (\<lambda>r. req_ID r = i \<and>
         req_Status r \<in> {AccessRequestPendingApproval, AccessRequestApproved})
       (\<lambda>r. r\<lparr>req_Status := AccessRequestCancelled, req_UpdatedAt := now\<rparr>)"

definition requests_Cancel :: "svc \<Rightarrow> string \<Rightarrow> access_request M" where
  "requests_Cancel s i = thenM (stmt s (reqs_Cancel i)) (requests_GetByID s i)"

subsection \<open>Approvals (repository/approvals.go)\<close>

definition apprs_Create :: "approval \<Rightarrow> int \<Rightarrow> db \<Rightarrow> (err + approval) \<times> db" where
  "apprs_Create v now d =
     (let row = v\<lparr>appr_RequiredApprovals := (if appr_RequiredApprovals v = 0 then 1 else appr_RequiredApprovals v),
                  appr_Decision := None, appr_Comment := None, appr_DecidedAt := None,
                  appr_CreatedAt := now\<rparr>
      in if list_ex (\<lambda>r. appr_ID r = appr_ID v \<or>
             (appr_RequestID r = appr_RequestID v \<and> appr_ApproverID r = appr_ApproverID v \<and>
              appr_ApprovalLevel r = appr_ApprovalLevel v)) (db_approvals d)
         then (Inl ErrConflict, d)
         else (Inr row, d\<lparr>db_approvals := db_approvals d @ [row]\<rparr>))"

definition approvals_Create :: "svc \<Rightarrow> approval \<Rightarrow> approval M" where
  "approvals_Create s v = stmt s (apprs_Create v)"

definition approvals_GetByID :: "svc \<Rightarrow> string \<Rightarrow> approval M" where
  "approvals_GetByID s i = query s (\<lambda>d. find_row (\<lambda>r. appr_ID r = i) (db_approvals d))"

definition request_approvals :: "db \<Rightarrow> string \<Rightarrow> approval list" where
  "request_approvals d req =
     sort_key (\<lambda>r. (appr_ApprovalLevel r, appr_CreatedAt r, appr_ID r))
       (filter (\<lambda>r. appr_RequestID r = req) (db_approvals d))"

definition approvals_ListByRequest :: "svc \<Rightarrow> string \<Rightarrow> approval list M" where
  "approvals_ListByRequest s req = query s (\<lambda>d. Inr (request_approvals d req))"

definition approved_count :: "db \<Rightarrow> string \<Rightarrow> int \<Rightarrow> nat" where
  "approved_count d req level =
     length (filter (\<lambda>r. appr_RequestID r = req \<and> appr_ApprovalLevel r = level \<and>
       appr_Decision r = Some ApprovalApproved) (db_approvals d))"

text \<open>The \<open>WHERE\<close> clause of \<open>ListPendingByApprover\<close>.\<close>

definition approval_pending :: "db \<Rightarrow> int \<Rightarrow> string \<Rightarrow> approval \<Rightarrow> bool" where
  "approval_pending d now approver a \<longleftrightarrow>
     appr_ApproverID a = approver \<and> appr_Decision a = None \<and>
     list_ex (\<lambda>q. req_ID q = appr_RequestID a \<and> req_Status q = AccessRequestPendingApproval \<and>
        (case req_ApprovalExpiresAt q of None \<Rightarrow> True | Some e \<Rightarrow> e > now)) (db_requests d) \<and>
     int (approved_count d (appr_RequestID a) (appr_ApprovalLevel a)) < appr_RequiredApprovals a \<and>
     \<not> list_ex (\<lambda>p. appr_RequestID p = appr_RequestID a \<and> appr_ApprovalLevel p < appr_ApprovalLevel a \<and>
         int (approved_count d (appr_RequestID p) (appr_ApprovalLevel p)) < appr_RequiredApprovals p)
         (db_approvals d)"

text \<open>Emergency requests come first, then the older approval.\<close>

definition emergency_rank :: "db \<Rightarrow> approval \<Rightarrow> nat" where
  "emergency_rank d a =
     (if list_ex (\<lambda>q. req_ID q = appr_RequestID a \<and> req_Emergency q) (db_requests d) then 0 else 1)"

definition approvals_ListPendingByApprover :: "svc \<Rightarrow> string \<Rightarrow> int \<Rightarrow> int \<Rightarrow> approval list M" where
  "approvals_ListPendingByApprover s approver limit offset = stmt s (\<lambda>now d. (Inr (take (nat (page limit 100))
     (drop (nat (max offset 0))
       (sort_key (\<lambda>a. (emergency_rank d a, appr_CreatedAt a, appr_ID a))
         (filter (approval_pending d now approver) (db_approvals d))))), d))"

definition apprs_Decide ::
  "string \<Rightarrow> string \<Rightarrow> approval_decision \<Rightarrow> string option \<Rightarrow> int \<Rightarrow> db \<Rightarrow> (err + unit) \<times> db" where
  "apprs_Decide i approver dec comment now d =
     (let p = (\<lambda>r. appr_ID r = i \<and> appr_ApproverID r = approver \<and> appr_Decision r = None)
      in (affected p (db_approvals d),
          d\<lparr>db_approvals := update_where p
              (\<lambda>r. r\<lparr>appr_Decision := Some dec, appr_Comment := comment, appr_DecidedAt := Some now\<rparr>)
              (db_approvals d)\<rparr>))"

definition approvals_Decide ::
  "svc \<Rightarrow> string \<Rightarrow> string \<Rightarrow> approval_decision \<Rightarrow> string option \<Rightarrow> approval M" where
  "approvals_Decide s i approver dec comment =
     thenM (stmt s (apprs_Decide i approver dec comment)) (approvals_GetByID s i)"

subsection \<open>Events and the outbox (repository/events.go)\<close>

definition sevs_Append :: "session_event \<Rightarrow> int \<Rightarrow> db \<Rightarrow> (err + unit) \<times> db" where
  "sevs_Append v now d =
     (if list_ex (\<lambda>r. sev_ID r = sev_ID v) (db_session_events d) then (Inl ErrConflict, d)
      else (Inr (), d\<lparr>db_session_events := db_session_events d @ [v\<lparr>sev_CreatedAt := now\<rparr>]\<rparr>))"

definition sessionEvents_Append :: "svc \<Rightarrow> session_event \<Rightarrow> unit M" where
  "sessionEvents_Append s v = stmt s (sevs_Append v)"

definition sessionEvents_ListBySession :: "svc \<Rightarrow> string \<Rightarrow> int \<Rightarrow> int \<Rightarrow> session_event list M" where
  "sessionEvents_ListBySession s i limit offset = query s (\<lambda>d. Inr (take (nat (page limit 500))
     (drop (nat (max offset 0)) (sort_key (\<lambda>r. (sev_CreatedAt r, sev_ID r))
       (filter (\<lambda>r. sev_SessionID r = i) (db_session_events d))))))"

definition auds_Append :: "audit_event \<Rightarrow> int \<Rightarrow> db \<Rightarrow> (err + unit) \<times> db" where
  "auds_Append v now d =
     (if list_ex (\<lambda>r. audit_ID r = audit_ID v) (db_audit_events d) then (Inl ErrConflict, d)
      else (Inr (), d\<lparr>db_audit_events := db_audit_events d @ [v\<lparr>audit_CreatedAt := now\<rparr>]\<rparr>))"

definition audits_Append :: "svc \<Rightarrow> audit_event \<Rightarrow> unit M" where
  "audits_Append s v = stmt s (auds_Append v)"

definition outbox_GetByID :: "svc \<Rightarrow> string \<Rightarrow> outbox_event M" where
  "outbox_GetByID s i = query s (\<lambda>d. find_row (\<lambda>r. outbox_ID r = i) (db_outbox d))"

definition outs_Create :: "outbox_event \<Rightarrow> int \<Rightarrow> db \<Rightarrow> (err + unit) \<times> db" where
  "outs_Create v now d =
     (if list_ex (\<lambda>r. outbox_ID r = outbox_ID v) (db_outbox d) then (Inl ErrConflict, d)
      else (Inr (), d\<lparr>db_outbox := db_outbox d @
              [v\<lparr>outbox_RetryCount := max 0 (outbox_RetryCount v), outbox_CreatedAt := now\<rparr>]\<rparr>))"

definition outbox_Create :: "svc \<Rightarrow> outbox_event \<Rightarrow> unit M" where
  "outbox_Create s v = stmt s (outs_Create v)"

definition same_command_active :: "db \<Rightarrow> outbox_event \<Rightarrow> bool" where
  "same_command_active d v =
     list_ex (\<lambda>e. outbox_AggregateType e = outbox_AggregateType v \<and>
       outbox_AggregateID e = outbox_AggregateID v \<and> outbox_EventType e = outbox_EventType v \<and>
       outbox_Status e \<in> {OutboxPending, OutboxProcessing}) (db_outbox d)"

definition outs_CreateIfNoActive :: "outbox_event \<Rightarrow> int \<Rightarrow> db \<Rightarrow> (err + bool) \<times> db" where
  "outs_CreateIfNoActive v now d =
     (if same_command_active d v then (Inr False, d)
      else case outs_Create v now d of (Inl e, d') \<Rightarrow> (Inl e, d') | (Inr _, d') \<Rightarrow> (Inr True, d'))"

definition outbox_CreateIfNoActive :: "svc \<Rightarrow> outbox_event \<Rightarrow> bool M" where
  "outbox_CreateIfNoActive s v = stmt s (outs_CreateIfNoActive v)"

definition outbox_due :: "int \<Rightarrow> outbox_event \<Rightarrow> bool" where
  "outbox_due now e \<longleftrightarrow>
     outbox_Status e \<in> {OutboxPending, OutboxProcessing} \<and>
     (case outbox_NextRetryAt e of None \<Rightarrow> True | Some t \<Rightarrow> t \<le> now)"

definition lease_seconds :: "int \<Rightarrow> int" where
  "lease_seconds lease = (if lease div second < 1 then 30 else lease div second)"

definition claim_event :: "int \<Rightarrow> int \<Rightarrow> outbox_event \<Rightarrow> outbox_event" where
  "claim_event lease now e =
     e\<lparr>outbox_Status := OutboxProcessing,
       outbox_NextRetryAt := Some (now + lease_seconds lease * second), outbox_ProcessedAt := None\<rparr>"

definition outs_ClaimPending :: "int \<Rightarrow> int \<Rightarrow> int \<Rightarrow> db \<Rightarrow> (err + outbox_event list) \<times> db" where
  "outs_ClaimPending limit lease now d =
     (let cands = take (nat (page limit 100))
            (sort_key (\<lambda>e. (outbox_CreatedAt e, outbox_ID e)) (filter (outbox_due now) (db_outbox d)));
          ids = map outbox_ID cands
      in (Inr (map (claim_event lease now) cands),
          d\<lparr>db_outbox := update_where (\<lambda>e. outbox_ID e \<in> set ids) (claim_event lease now) (db_outbox d)\<rparr>))"

definition outbox_ClaimPending :: "svc \<Rightarrow> int \<Rightarrow> int \<Rightarrow> outbox_event list M" where
  "outbox_ClaimPending s limit lease = stmt s (outs_ClaimPending limit lease)"

definition update_outbox :: "(outbox_event \<Rightarrow> bool) \<Rightarrow> (outbox_event \<Rightarrow> outbox_event) \<Rightarrow> db \<Rightarrow> (err + unit) \<times> db" where
  "update_outbox p f d = (affected p (db_outbox d), d\<lparr>db_outbox := update_where p f (db_outbox d)\<rparr>)"

definition outs_MarkProcessed :: "string \<Rightarrow> int \<Rightarrow> db \<Rightarrow> (err + unit) \<times> db" where
  "outs_MarkProcessed i now =
     update_outbox (\<lambda>e. outbox_ID e = i \<and> outbox_Status e \<in> {OutboxProcessing, OutboxProcessed})
       (\<lambda>e. e\<lparr>outbox_Status := OutboxProcessed,
          outbox_ProcessedAt := (case outbox_ProcessedAt e of None \<Rightarrow> Some now | Some t \<Rightarrow> Some t),
          outbox_NextRetryAt := None\<rparr>)"

definition outbox_MarkProcessed :: "svc \<Rightarrow> string \<Rightarrow> unit M" where
  "outbox_MarkProcessed s i = stmt s (outs_MarkProcessed i)"

definition outs_Reschedule :: "string \<Rightarrow> int \<Rightarrow> bool \<Rightarrow> int \<Rightarrow> db \<Rightarrow> (err + unit) \<times> db" where
  "outs_Reschedule i nextRetryAt terminal now =
     update_outbox (\<lambda>e. outbox_ID e = i \<and> outbox_Status e = OutboxProcessing)
       (\<lambda>e. e\<lparr>outbox_Status := (if terminal then OutboxFailed else OutboxPending),
          outbox_RetryCount := outbox_RetryCount e + 1,
          outbox_NextRetryAt := (if terminal then None else Some nextRetryAt),
          outbox_ProcessedAt := None\<rparr>)"

definition outbox_Reschedule :: "svc \<Rightarrow> string \<Rightarrow> int \<Rightarrow> bool \<Rightarrow> unit M" where
  "outbox_Reschedule s i nextRetryAt terminal = stmt s (outs_Reschedule i nextRetryAt terminal)"

subsection \<open>Notifications and token deliveries\<close>

definition notes_Append :: "notification \<Rightarrow> int \<Rightarrow> db \<Rightarrow> (err + unit) \<times> db" where
  "notes_Append v now d =
     (if list_ex (\<lambda>r. note_UserID r = note_UserID v \<and> note_DedupeKey r = note_DedupeKey v) (db_notifications d)
      then (Inr (), d)
      else if list_ex (\<lambda>r. note_ID r = note_ID v) (db_notifications d) then (Inl ErrConflict, d)
      else (Inr (), d\<lparr>db_notifications := db_notifications d @ [v\<lparr>note_ReadAt := None, note_CreatedAt := now\<rparr>]\<rparr>))"

definition notifications_Append :: "svc \<Rightarrow> notification \<Rightarrow> unit M" where
  "notifications_Append s v = stmt s (notes_Append v)"

definition tokens_Delete :: "string \<Rightarrow> int \<Rightarrow> db \<Rightarrow> (err + bool) \<times> db" where
  "tokens_Delete i now d =
     (Inr (list_ex (\<lambda>t. td_SessionID t = i) (db_token_deliveries d)),
      d\<lparr>db_token_deliveries := filter (\<lambda>t. td_SessionID t \<noteq> i) (db_token_deliveries d)\<rparr>)"

definition tokenDeliveries_Delete :: "svc \<Rightarrow> string \<Rightarrow> bool M" where
  "tokenDeliveries_Delete s i = stmt s (tokens_Delete i)"

definition tokens_DeleteExpired :: "int \<Rightarrow> int \<Rightarrow> int \<Rightarrow> db \<Rightarrow> (err + int) \<times> db" where
  "tokens_DeleteExpired t limit now d =
     (let gone = map td_SessionID (take (nat limit)
            (sort_key (\<lambda>v. (td_ExpiresAt v, td_SessionID v))
              (filter (\<lambda>v. td_ExpiresAt v \<le> t) (db_token_deliveries d))))
      in (Inr (int (length (filter (\<lambda>v. td_SessionID v \<in> set gone) (db_token_deliveries d)))),
          d\<lparr>db_token_deliveries := filter (\<lambda>v. td_SessionID v \<notin> set gone) (db_token_deliveries d)\<rparr>))"

definition tokenDeliveries_DeleteExpired :: "svc \<Rightarrow> int \<Rightarrow> int \<Rightarrow> int M" where
  "tokenDeliveries_DeleteExpired s t limit =
     (if limit < 1 \<or> limit > 10000 then failM ErrConstraint else stmt s (tokens_DeleteExpired t limit))"

subsection \<open>Directory: users, regions, gateways, assets\<close>

definition users_GetByID :: "svc \<Rightarrow> string \<Rightarrow> user M" where
  "users_GetByID s i = query s (\<lambda>d. find_row (\<lambda>r. user_ID r = i) (db_users d))"

definition users_GetByIDForUpdate :: "svc \<Rightarrow> string \<Rightarrow> user M" where
  "users_GetByIDForUpdate s i = query s (\<lambda>d. find_row (\<lambda>r. user_ID r = i) (db_users d))"

definition users_GetByFeishuOpenID :: "svc \<Rightarrow> string \<Rightarrow> user M" where
  "users_GetByFeishuOpenID s oid = query s (\<lambda>d. find_row (\<lambda>r. user_FeishuOpenID r = oid) (db_users d))"

definition users_GetByFeishuUnionID :: "svc \<Rightarrow> string \<Rightarrow> user M" where
  "users_GetByFeishuUnionID s u = query s (\<lambda>d. find_row (\<lambda>r. user_FeishuUnionID r = Some u) (db_users d))"

definition regions_GetByID :: "svc \<Rightarrow> string \<Rightarrow> region M" where
  "regions_GetByID s i = query s (\<lambda>d. find_row (\<lambda>r. region_ID r = i) (db_regions d))"

definition regions_GetByIDForUpdate :: "svc \<Rightarrow> string \<Rightarrow> region M" where
  "regions_GetByIDForUpdate s i = query s (\<lambda>d. find_row (\<lambda>r. region_ID r = i) (db_regions d))"

definition assets_GetByID :: "svc \<Rightarrow> string \<Rightarrow> asset M" where
  "assets_GetByID s i =
     query s (\<lambda>d. find_row (\<lambda>r. asset_ID r = i \<and> asset_DeletedAt r = None) (db_assets d))"

definition assets_GetByIDForUpdate :: "svc \<Rightarrow> string \<Rightarrow> asset M" where
  "assets_GetByIDForUpdate s i =
     query s (\<lambda>d. find_row (\<lambda>r. asset_ID r = i \<and> asset_DeletedAt r = None) (db_assets d))"

definition assets_GetIncludingDeleted :: "svc \<Rightarrow> string \<Rightarrow> asset M" where
  "assets_GetIncludingDeleted s i = query s (\<lambda>d. find_row (\<lambda>r. asset_ID r = i) (db_assets d))"

definition assets_GetPort :: "svc \<Rightarrow> string \<Rightarrow> int \<Rightarrow> string \<Rightarrow> asset_port M" where
  "assets_GetPort s a port proto =
     query s (\<lambda>d. find_row (\<lambda>r. port_AssetID r = a \<and> port_Port r = port \<and> port_Protocol r = proto \<and>
       port_Enabled r) (db_ports d))"

definition assets_GetPortForUpdate :: "svc \<Rightarrow> string \<Rightarrow> int \<Rightarrow> string \<Rightarrow> asset_port M" where
  "assets_GetPortForUpdate s a port proto =
     query s (\<lambda>d. find_row (\<lambda>r. port_AssetID r = a \<and> port_Port r = port \<and> port_Protocol r = proto)
       (db_ports d))"

definition gateways_GetByID :: "svc \<Rightarrow> string \<Rightarrow> gateway M" where
  "gateways_GetByID s i = query s (\<lambda>d. find_row (\<lambda>r. gateway_ID r = i) (db_gateways d))"

definition gateways_GetByIDForUpdate :: "svc \<Rightarrow> string \<Rightarrow> gateway M" where
  "gateways_GetByIDForUpdate s i = query s (\<lambda>d. find_row (\<lambda>r. gateway_ID r = i) (db_gateways d))"

definition gateways_GetAssetBindingForUpdate :: "svc \<Rightarrow> string \<Rightarrow> string \<Rightarrow> asset_gateway_binding M" where
  "gateways_GetAssetBindingForUpdate s a g =
     query s (\<lambda>d. find_row (\<lambda>r. agb_AssetID r = a \<and> agb_GatewayID r = g) (db_asset_gateways d))"

definition gws_RecordHeartbeat :: "string \<Rightarrow> int \<Rightarrow> db \<Rightarrow> (err + unit) \<times> db" where
  "gws_RecordHeartbeat i now d =
     (affected (\<lambda>r. gateway_ID r = i) (db_gateways d),
      d\<lparr>db_gateways := update_where (\<lambda>r. gateway_ID r = i)
          (\<lambda>r. r\<lparr>gateway_LastHeartbeatAt := Some now\<rparr>) (db_gateways d)\<rparr>)"

definition gateways_RecordHeartbeat :: "svc \<Rightarrow> string \<Rightarrow> unit M" where
  "gateways_RecordHeartbeat s i = stmt s (gws_RecordHeartbeat i)"

definition gws_RecordHealth :: "string \<Rightarrow> int \<Rightarrow> int \<Rightarrow> db \<Rightarrow> (err + unit) \<times> db" where
  "gws_RecordHealth i m now d =
     (affected (\<lambda>r. gateway_ID r = i) (db_gateways d),
      d\<lparr>db_gateways := update_where (\<lambda>r. gateway_ID r = i)
          (\<lambda>r. r\<lparr>gateway_LastHeartbeatAt := Some now, gateway_MaxSessions := m, gateway_UpdatedAt := now\<rparr>)
          (db_gateways d)\<rparr>)"

definition gateways_RecordHealth :: "svc \<Rightarrow> string \<Rightarrow> int \<Rightarrow> unit M" where
  "gateways_RecordHealth s i m = stmt s (gws_RecordHealth i m)"

definition gateways_ListEnabled :: "svc \<Rightarrow> gateway list M" where
  "gateways_ListEnabled s =
     query s (\<lambda>d. Inr (sort_key gateway_ID (filter (\<lambda>g. gateway_Status g = ResourceStatusEnabled) (db_gateways d))))"

text \<open>\<open>last_heartbeat_at DESC NULLS LAST\<close>.\<close>

definition heartbeat_rank :: "gateway \<Rightarrow> nat \<times> int" where
  "heartbeat_rank g = (case gateway_LastHeartbeatAt g of None \<Rightarrow> (1, 0) | Some h \<Rightarrow> (0, - h))"

definition available_gateways :: "db \<Rightarrow> string \<Rightarrow> string \<Rightarrow> int option \<Rightarrow> gateway list" where
  "available_gateways d a excluded after =
     map snd (sort_key (\<lambda>(b, g). (agb_Priority b, gateway_load d (gateway_ID g) excluded, heartbeat_rank g, gateway_ID g))
       (filter (\<lambda>(b, g). agb_AssetID b = a \<and> agb_Enabled b \<and> gateway_ID g = agb_GatewayID b \<and>
           list_ex (\<lambda>x. asset_ID x = a \<and> asset_Status x = ResourceStatusEnabled \<and>
             gateway_RegionID g = asset_RegionID x) (db_assets d) \<and>
           gateway_Status g = ResourceStatusEnabled \<and> fresh_heartbeat after g \<and>
           int (gateway_load d (gateway_ID g) excluded) < gateway_MaxSessions g)
         (List.product (db_asset_gateways d) (db_gateways d))))"

definition gateways_ListAvailableForAsset :: "svc \<Rightarrow> string \<Rightarrow> string \<Rightarrow> int option \<Rightarrow> gateway list M" where
  "gateways_ListAvailableForAsset s a excluded after = query s (\<lambda>d. Inr (available_gateways d a excluded after))"

subsection \<open>IAM and approval workflows (repository/iam.go, roles.go, workflows.go)\<close>

definition iam_ListRoles :: "svc \<Rightarrow> role list M" where
  "iam_ListRoles s = query s (\<lambda>d. Inr (take 1001 (sort_key role_Name (db_iam_roles d))))"

definition iam_ListBindings :: "svc \<Rightarrow> binding list M" where
  "iam_ListBindings s =
     query s (\<lambda>d. Inr (take 1001 (sort_key (\<lambda>b. (binding_CreatedAt b, binding_ID b)) (db_iam_bindings d))))"

definition iam_ListSubjects :: "svc \<Rightarrow> user list M" where
  "iam_ListSubjects s =
     query s (\<lambda>d. Inr (take 10001 (sort_key user_ID (filter (\<lambda>u. user_Status u = UserStatusActive) (db_users d)))))"

definition iam_ListAssignments :: "svc \<Rightarrow> role_assignment list M" where
  "iam_ListAssignments s =
     query s (\<lambda>d. Inr (take 100001 (sort_key (\<lambda>a. (asg_UserID a, asg_ID a))
       (filter (\<lambda>a. asg_RevokedAt a = None) (db_assignments d)))))"

definition roles_ListActiveByUser :: "svc \<Rightarrow> string \<Rightarrow> role_assignment list M" where
  "roles_ListActiveByUser s u =
     query s (\<lambda>d. Inr (sort_key (\<lambda>a. (asg_CreatedAt a, asg_ID a))
       (filter (\<lambda>a. asg_UserID a = u \<and> asg_RevokedAt a = None) (db_assignments d))))"

definition workflows_List :: "svc \<Rightarrow> flow_definition list M" where
  "workflows_List s =
     query s (\<lambda>d. Inr (take 1001 (sort_key (\<lambda>f. (def_CreatedAt f, def_ID f)) (db_workflows d))))"

definition workflows_ListOwnerships :: "svc \<Rightarrow> ownership list M" where
  "workflows_ListOwnerships s =
     query s (\<lambda>d. Inr (take 1001 (sort_key (\<lambda>f. (own_CreatedAt f, own_ID f)) (db_ownerships d))))"

definition workflows_AssetPolicy :: "svc \<Rightarrow> string \<Rightarrow> asset_policy M" where
  "workflows_AssetPolicy s a =
     query s (\<lambda>d. case find (\<lambda>r. policy_AssetID r = a) (db_asset_policies d) of
       Some r \<Rightarrow> Inr r
     | None \<Rightarrow> Inr \<lparr>policy_DefaultsOnly = False, policy_AssetID = a, policy_Labels = [],
                  policy_Revision = 0, policy_UpdatedAt = 0\<rparr>)"

end
