(* ===== verification/Workflow.thy ===== *)
theory Workflow
  imports Repository
begin

text \<open>
  Approval progress: the pure functions of \<open>service/access.go\<close> (\<open>nextApprovalLevel\<close>),
  \<open>service/workflow_progress.go\<close>, \<open>service/workflow_owners.go\<close> and
  \<open>service/asset_workflows.go\<close>. The current level is characterised as the least level whose
  quorum is open; the work list query of the approvals repository and the progress view are
  proved to agree with it.
\<close>

subsection \<open>The current level\<close>

definition has_level :: "int \<Rightarrow> approval \<Rightarrow> bool" where
  "has_level l a \<longleftrightarrow> appr_ApprovalLevel a = l"

definition is_approved :: "approval \<Rightarrow> bool" where
  "is_approved a \<longleftrightarrow> appr_Decision a = Some ApprovalApproved"

text \<open>The maps \<open>required\<close> and \<open>counts\<close> of \<open>nextApprovalLevel\<close> at a level.\<close>

definition level_required :: "approval list \<Rightarrow> int \<Rightarrow> int" where
  "level_required as l =
     foldl (\<lambda>acc a. if has_level l a then max acc (max 1 (appr_RequiredApprovals a)) else acc) 0 as"

definition level_count :: "approval list \<Rightarrow> int \<Rightarrow> nat" where
  "level_count as l = length (filter (\<lambda>a. has_level l a \<and> is_approved a) as)"

definition levels :: "approval list \<Rightarrow> int list" where
  "levels as = remdups (map appr_ApprovalLevel (filter (\<lambda>a. \<not> appr_ApprovalLevel a < 1) as))"

definition nextApprovalLevel :: "approval list \<Rightarrow> int \<times> bool" where
  "nextApprovalLevel as =
     (let current = foldl (\<lambda>cur l. if int (level_count as l) \<ge> level_required as l then cur
                                   else if cur = 0 \<or> l < cur then l else cur) 0 (levels as)
      in (current, current = 0))"

subsection \<open>Progress view (workflow progress)\<close>

record workflow_stage =
  stage_Level :: int
  stage_Name :: string
  stage_Required :: int
  stage_Approved :: int
  stage_Candidates :: int
  stage_Status :: string

text \<open>The stage of a level after the loop over the approvals; the first approval of the level
  gives its name.\<close>

definition stage_of :: "approval list \<Rightarrow> int \<Rightarrow> workflow_stage" where
  "stage_of as l =
     (let mine = filter (has_level l) as
      in \<lparr>stage_Level = l,
          stage_Name = (case mine of [] \<Rightarrow> [] | a # _ \<Rightarrow> appr_StepName a),
          stage_Required = foldl (\<lambda>acc a. max acc (appr_RequiredApprovals a)) 1 mine,
          stage_Approved = int (length (filter is_approved mine)),
          stage_Candidates = int (length mine),
          stage_Status = (if list_ex (\<lambda>a. appr_Decision a = Some ApprovalRejected) mine
                          then ''rejected'' else [])\<rparr>)"

definition stage_status :: "request_status \<Rightarrow> int \<Rightarrow> workflow_stage \<Rightarrow> string" where
  "stage_status status current st =
     (if stage_Status st = ''rejected'' then ''rejected''
      else if stage_Approved st \<ge> stage_Required st then ''approved''
      else if status = AccessRequestApprovalExpired then ''expired''
      else if status = AccessRequestCancelled then ''cancelled''
      else if status \<noteq> AccessRequestPendingApproval then ''skipped''
      else if stage_Level st = current then ''pending''
      else ''waiting'')"

definition workflowStages :: "approval list \<Rightarrow> request_status \<Rightarrow> int \<Rightarrow> workflow_stage list" where
  "workflowStages as status current =
     sort_key stage_Level
       (map (\<lambda>l. let st = stage_of as l in st\<lparr>stage_Status := stage_status status current st\<rparr>)
          (remdups (map appr_ApprovalLevel as)))"

subsection \<open>Owners and workflow selection\<close>

definition assetOwnerLabel :: string where
  "assetOwnerLabel = ''owner''"

definition matchesAssetOwner :: "labels \<Rightarrow> user \<Rightarrow> selector list \<Rightarrow> bool" where
  "matchesAssetOwner labels u selectors =
     (if Get labels assetOwnerLabel \<noteq> [] then EqualFold (user_ID u) (Get labels assetOwnerLabel)
      else list_ex (\<lambda>sel. sel_Matches sel (user_Labels u)) selectors)"

definition selectApprovalWorkflow :: "flow_definition list \<Rightarrow> string option \<Rightarrow> err + flow_definition" where
  "selectApprovalWorkflow flows wid =
     (case wid of
        None \<Rightarrow> Inl ErrValidation
      | Some i \<Rightarrow>
          if TrimSpace i = [] then Inl ErrValidation
          else case find (\<lambda>f. def_ID f = i) flows of
                 None \<Rightarrow> Inl ErrValidation
               | Some f \<Rightarrow> if \<not> def_Enabled f then Inl ErrValidation else Inr f)"

subsection \<open>The least open level\<close>

definition open_level :: "approval list \<Rightarrow> int \<Rightarrow> bool" where
  "open_level as l \<longleftrightarrow> l \<in> set (levels as) \<and> int (level_count as l) < level_required as l"

lemma levels_iff: "l \<in> set (levels as) \<longleftrightarrow> 1 \<le> l \<and> (\<exists>a\<in>set as. appr_ApprovalLevel a = l)"
  by (auto simp: levels_def)

text \<open>The loop over the map \<open>required\<close> finds the minimum whatever the order of iteration.\<close>

lemma least_open_fold:
  fixes P :: "int \<Rightarrow> bool"
  assumes "\<forall>l\<in>set ls. 1 \<le> l" "cur = 0 \<or> 1 \<le> cur"
    and "r = foldl (\<lambda>cur l. if \<not> P l then cur else if cur = 0 \<or> l < cur then l else cur) cur ls"
  shows "(r = 0 \<longleftrightarrow> cur = 0 \<and> (\<forall>l\<in>set ls. \<not> P l)) \<and>
    (r \<noteq> 0 \<longrightarrow> (r = cur \<or> (r \<in> set ls \<and> P r)) \<and> (cur \<noteq> 0 \<longrightarrow> r \<le> cur) \<and>
       (\<forall>l\<in>set ls. P l \<longrightarrow> r \<le> l))"
  using assms
proof (induction ls arbitrary: cur)
  case (Cons x xs)
  let ?cur = "if \<not> P x then cur else if cur = 0 \<or> x < cur then x else cur"
  have "(r = 0 \<longleftrightarrow> ?cur = 0 \<and> (\<forall>l\<in>set xs. \<not> P l)) \<and>
      (r \<noteq> 0 \<longrightarrow> (r = ?cur \<or> (r \<in> set xs \<and> P r)) \<and> (?cur \<noteq> 0 \<longrightarrow> r \<le> ?cur) \<and>
         (\<forall>l\<in>set xs. P l \<longrightarrow> r \<le> l))"
    by (rule Cons.IH) (use Cons.prems in auto)
  then show ?case using Cons.prems(1,2) by (auto split: if_splits)
qed auto

lemma nextApprovalLevel_fold:
  fixes as defines "r \<equiv> fst (nextApprovalLevel as)"
  shows "(r = 0 \<longleftrightarrow> (\<forall>l. \<not> open_level as l)) \<and>
    (r \<noteq> 0 \<longrightarrow> open_level as r \<and> (\<forall>l. open_level as l \<longrightarrow> r \<le> l))"
proof -
  have r: "r = foldl (\<lambda>cur l. if \<not> int (level_count as l) < level_required as l then cur
                     else if cur = 0 \<or> l < cur then l else cur) 0 (levels as)"
    by (simp add: r_def nextApprovalLevel_def Let_def not_less)
  have lv: "\<forall>l\<in>set (levels as). 1 \<le> l" by (simp add: levels_iff)
  from least_open_fold [OF lv _ r] show ?thesis unfolding open_level_def by blast
qed

lemma nextApprovalLevel_snd: "snd (nextApprovalLevel as) \<longleftrightarrow> fst (nextApprovalLevel as) = 0"
  by (simp add: nextApprovalLevel_def Let_def)

lemma open_level_ge1: "open_level as l \<Longrightarrow> 1 \<le> l"
  by (simp add: open_level_def levels_iff)

lemma nextApprovalLevel_complete: "snd (nextApprovalLevel as) \<longleftrightarrow> (\<forall>l. \<not> open_level as l)"
  using nextApprovalLevel_fold [of as] by (simp add: nextApprovalLevel_snd)

lemma nextApprovalLevel_current:
  "l \<noteq> 0 \<Longrightarrow> fst (nextApprovalLevel as) = l \<longleftrightarrow> open_level as l \<and> (\<forall>k. open_level as k \<longrightarrow> l \<le> k)"
  using nextApprovalLevel_fold [of as] by (auto intro: antisym)

lemma level_required_Nil [simp]: "level_required [] l = 0"
  by (simp add: level_required_def)

lemma level_required_snoc [simp]:
  "level_required (as @ [a]) l =
     (if has_level l a then max (level_required as l) (max 1 (appr_RequiredApprovals a)) else level_required as l)"
  by (simp add: level_required_def)

lemma level_required_le:
  "(\<forall>a\<in>set as. appr_ApprovalLevel a = l \<longrightarrow> max 1 (appr_RequiredApprovals a) \<le> n) \<Longrightarrow> 0 \<le> n \<Longrightarrow>
   level_required as l \<le> n"
  by (induction as rule: rev_induct) (auto simp: has_level_def)

lemma level_required_ge:
  "a \<in> set as \<Longrightarrow> appr_ApprovalLevel a = l \<Longrightarrow> max 1 (appr_RequiredApprovals a) \<le> level_required as l"
  by (induction as rule: rev_induct) (auto simp: has_level_def)

text \<open>A complete chain with at least one level has an approving vote.\<close>

lemma complete_is_approved:
  assumes "snd (nextApprovalLevel as)" "a \<in> set as" "1 \<le> appr_ApprovalLevel a"
  shows "\<exists>b\<in>set as. is_approved b"
proof -
  let ?l = "appr_ApprovalLevel a"
  have "level_required as ?l \<le> int (level_count as ?l)"
    using assms unfolding nextApprovalLevel_complete open_level_def levels_iff by (auto simp: not_less)
  moreover have "1 \<le> level_required as ?l" using level_required_ge [OF assms(2) refl] by simp
  ultimately have "filter (\<lambda>b. has_level ?l b \<and> is_approved b) as \<noteq> []"
    by (auto simp: level_count_def)
  then show ?thesis by (auto simp: filter_empty_conv)
qed

text \<open>C27. \<open>nextApprovalLevel\<close> reports completion exactly when every configured level has reached
  its threshold, and otherwise the least level whose threshold is open, whatever the order
  in which the map of thresholds is traversed.\<close>

theorem nextApprovalLevel_spec:
  "(snd (nextApprovalLevel as) \<longleftrightarrow> (\<forall>l. \<not> open_level as l)) \<and>
   (\<not> snd (nextApprovalLevel as) \<longrightarrow>
      open_level as (fst (nextApprovalLevel as)) \<and>
      (\<forall>k. open_level as k \<longrightarrow> fst (nextApprovalLevel as) \<le> k))"
  using nextApprovalLevel_complete [of as] nextApprovalLevel_snd [of as]
    nextApprovalLevel_current [of "fst (nextApprovalLevel as)" as] by auto

subsection \<open>The work list\<close>

text \<open>Approvals of one request as \<open>materializeApproval\<close> writes them: positive levels, and one
  positive threshold per level.\<close>

definition uniform_levels :: "approval list \<Rightarrow> bool" where
  "uniform_levels as \<longleftrightarrow>
     (\<forall>a\<in>set as. 1 \<le> appr_ApprovalLevel a \<and> 1 \<le> appr_RequiredApprovals a \<and>
        (\<forall>b\<in>set as. appr_ApprovalLevel b = appr_ApprovalLevel a \<longrightarrow>
           appr_RequiredApprovals b = appr_RequiredApprovals a))"

lemma level_required_uniform:
  assumes "uniform_levels as" "a \<in> set as"
  shows "level_required as (appr_ApprovalLevel a) = appr_RequiredApprovals a"
proof (rule antisym)
  have *: "1 \<le> appr_RequiredApprovals a"
    and u: "appr_RequiredApprovals b = appr_RequiredApprovals a"
    if "b \<in> set as" "appr_ApprovalLevel b = appr_ApprovalLevel a" for b
    using assms that unfolding uniform_levels_def by blast+
  show "level_required as (appr_ApprovalLevel a) \<le> appr_RequiredApprovals a"
    using * [OF assms(2) refl] u by (intro level_required_le) auto
  show "appr_RequiredApprovals a \<le> level_required as (appr_ApprovalLevel a)"
    using level_required_ge [OF assms(2) refl] by simp
qed

lemma uniform_levels_pos: "uniform_levels as \<Longrightarrow> a \<in> set as \<Longrightarrow> 1 \<le> appr_ApprovalLevel a"
  by (simp add: uniform_levels_def)

lemma open_level_uniform:
  "uniform_levels as \<Longrightarrow> a \<in> set as \<Longrightarrow>
   open_level as (appr_ApprovalLevel a) \<longleftrightarrow>
     int (level_count as (appr_ApprovalLevel a)) < appr_RequiredApprovals a"
  using level_required_uniform [of as a]
  unfolding open_level_def levels_iff by (auto dest: uniform_levels_pos)

lemma set_request_approvals [simp]:
  "set (request_approvals d req) = {a \<in> set (db_approvals d). appr_RequestID a = req}"
  by (auto simp: request_approvals_def)

lemma length_filter_sort_key: "length (filter P (sort_key f xs)) = length (filter P xs)"
  by (simp add: filter_sort)

lemma level_count_approved_count: "level_count (request_approvals d req) l = approved_count d req l"
  by (simp add: level_count_def approved_count_def request_approvals_def length_filter_sort_key
      has_level_def is_approved_def conj_ac)

definition awaiting_vote :: "db \<Rightarrow> int \<Rightarrow> string \<Rightarrow> approval \<Rightarrow> bool" where
  "awaiting_vote d now approver a \<longleftrightarrow>
     appr_ApproverID a = approver \<and> appr_Decision a = None \<and>
     (\<exists>q\<in>set (db_requests d). req_ID q = appr_RequestID a \<and> req_Status q = AccessRequestPendingApproval \<and>
        (\<forall>e. req_ApprovalExpiresAt q = Some e \<longrightarrow> now < e))"

lemma approval_pending_awaiting:
  "approval_pending d now approver a \<longleftrightarrow>
     awaiting_vote d now approver a \<and>
     int (approved_count d (appr_RequestID a) (appr_ApprovalLevel a)) < appr_RequiredApprovals a \<and>
     (\<forall>p\<in>set (db_approvals d). appr_RequestID p = appr_RequestID a \<longrightarrow>
        appr_ApprovalLevel p < appr_ApprovalLevel a \<longrightarrow>
        \<not> int (approved_count d (appr_RequestID p) (appr_ApprovalLevel p)) < appr_RequiredApprovals p)"
  by (auto simp: approval_pending_def awaiting_vote_def list_ex_iff split: option.splits)

text \<open>C28. The work list query and the decision handler agree on the current level: an undecided
  approval of a pending request is listed by \<open>ListPendingByApprover\<close> exactly when its level is the
  one \<open>nextApprovalLevel\<close> computes from the approvals \<open>ListByRequest\<close> returns.\<close>

theorem worklist_is_current_level:
  assumes "uniform_levels (request_approvals d (appr_RequestID a))" "a \<in> set (db_approvals d)"
    and "awaiting_vote d now approver a"
  shows "approval_pending d now approver a \<longleftrightarrow>
    appr_ApprovalLevel a = fst (nextApprovalLevel (request_approvals d (appr_RequestID a)))"
proof -
  let ?as = "request_approvals d (appr_RequestID a)"
  let ?l = "appr_ApprovalLevel a"
  have a: "a \<in> set ?as" using assms(2) by simp
  have nz: "?l \<noteq> 0" using assms(1) a unfolding uniform_levels_def by fastforce
  have op: "open_level ?as (appr_ApprovalLevel p) \<longleftrightarrow>
      int (approved_count d (appr_RequestID a) (appr_ApprovalLevel p)) < appr_RequiredApprovals p"
    if "p \<in> set ?as" for p
    using open_level_uniform [OF assms(1) that] by (simp add: level_count_approved_count)
  have "approval_pending d now approver a \<longleftrightarrow>
      int (approved_count d (appr_RequestID a) ?l) < appr_RequiredApprovals a \<and>
      (\<forall>p\<in>set ?as. int (approved_count d (appr_RequestID a) (appr_ApprovalLevel p)) < appr_RequiredApprovals p
         \<longrightarrow> ?l \<le> appr_ApprovalLevel p)"
    using assms(3) unfolding approval_pending_awaiting set_request_approvals by fastforce
  also have "\<dots> \<longleftrightarrow>
      open_level ?as ?l \<and> (\<forall>p\<in>set ?as. open_level ?as (appr_ApprovalLevel p) \<longrightarrow> ?l \<le> appr_ApprovalLevel p)"
    using op a by blast
  also have "\<dots> \<longleftrightarrow> open_level ?as ?l \<and> (\<forall>k. open_level ?as k \<longrightarrow> ?l \<le> k)"
    by (auto simp: open_level_def levels_iff)
  also have "\<dots> \<longleftrightarrow> fst (nextApprovalLevel ?as) = ?l"
    using nextApprovalLevel_current [OF nz] by blast
  finally show ?thesis by auto
qed

end
