(* ===== verification/Frames.thy ===== *)
theory Frames
  imports Repository
begin

text \<open>
  Reasoning about state-changing code. \<open>keeps R m\<close> says that running \<open>m\<close> moves the
  database along the reflexive and transitive relation \<open>R\<close>, whatever \<open>m\<close> returns, and \<open>yields P m\<close>
  bounds the values \<open>m\<close> returns. Both have one rule per construct of the monad, collected in
  \<open>frame\<close> and \<open>yield\<close>, so that a handler is proved by following its text.
\<close>

named_theorems frame
named_theorems yield

definition keeps :: "(db \<Rightarrow> db \<Rightarrow> bool) \<Rightarrow> 'a M \<Rightarrow> bool" where
  "keeps R m \<longleftrightarrow> (\<forall>w. R (w_db w) (w_db (snd (m w))))"

definition yields :: "('a \<Rightarrow> bool) \<Rightarrow> 'a M \<Rightarrow> bool" where
  "yields P m \<longleftrightarrow> (\<forall>w. case m w of (Inr x, _) \<Rightarrow> P x | (Inl _, _) \<Rightarrow> True)"

lemma keepsD: "keeps R m \<Longrightarrow> m w = (r, w') \<Longrightarrow> R (w_db w) (w_db w')"
  unfolding keeps_def by (metis snd_conv)

lemma keepsD_at: "keeps R m \<Longrightarrow> R (w_db w) (w_db (snd (m w)))"
  by (simp add: keeps_def)

text \<open>The other workers move along \<open>R\<close>.\<close>

definition others_keep :: "(db \<Rightarrow> db \<Rightarrow> bool) \<Rightarrow> svc \<Rightarrow> bool" where
  "others_keep R s \<longleftrightarrow> (\<forall>p d. R d (svc_others s p d))"

subsection \<open>Values\<close>

lemma yields_return: "P x \<Longrightarrow> yields P (returnM x)"
  by (simp add: yields_def returnM_def)

lemma yields_fail: "yields P (failM e)"
  by (simp add: yields_def failM_def)

lemma yields_liftE: "(\<And>x. r = Inr x \<Longrightarrow> P x) \<Longrightarrow> yields P (liftE r)"
  by (simp add: yields_def liftE_def split: sum.split)

lemma yields_bind_post: "yields Q m \<Longrightarrow> (\<And>x. Q x \<Longrightarrow> yields P (f x)) \<Longrightarrow> yields P (bindM m f)"
  by (fastforce simp: yields_def bindM_def split: prod.splits sum.splits)

lemma yields_bind: "(\<And>x. yields P (f x)) \<Longrightarrow> yields P (bindM m f)"
  by (rule yields_bind_post [of "\<lambda>_. True"]) (simp_all add: yields_def split: prod.split sum.split)

lemma yields_then: "yields P n \<Longrightarrow> yields P (thenM m n)"
  by (simp add: thenM_def yields_bind)

lemma yields_InTx: "yields P m \<Longrightarrow> yields P (InTx s m)"
  by (fastforce simp: yields_def InTx_def Let_def split: prod.splits sum.splits)

lemma yields_if: "(c \<Longrightarrow> yields P m) \<Longrightarrow> (\<not> c \<Longrightarrow> yields P n) \<Longrightarrow> yields P (if c then m else n)"
  by simp

lemma yields_case_option:
  "(x = None \<Longrightarrow> yields P m) \<Longrightarrow> (\<And>y. x = Some y \<Longrightarrow> yields P (f y)) \<Longrightarrow> yields P (case x of None \<Rightarrow> m | Some y \<Rightarrow> f y)"
  by (cases x) simp_all

lemma yields_case_sum:
  "(\<And>y. x = Inl y \<Longrightarrow> yields P (f y)) \<Longrightarrow> (\<And>y. x = Inr y \<Longrightarrow> yields P (g y)) \<Longrightarrow>
   yields P (case x of Inl y \<Rightarrow> f y | Inr y \<Rightarrow> g y)"
  by (cases x) simp_all

lemma yields_observe: "(\<And>p. P (f p)) \<Longrightarrow> yields P (observe f)"
  by (simp add: yields_def observe_def)

lemma yields_stmt: "(\<And>now d x d'. f now d = (Inr x, d') \<Longrightarrow> P x) \<Longrightarrow> yields P (stmt s f)"
  by (fastforce simp: yields_def stmt_def Let_def split: prod.splits sum.splits)

lemma yields_query: "(\<And>d x. f d = Inr x \<Longrightarrow> P x) \<Longrightarrow> yields P (query s f)"
  unfolding query_def by (rule yields_stmt) auto

lemmas [yield] = yields_fail yields_then yields_InTx yields_if yields_case_option yields_case_sum

subsection \<open>State\<close>

lemma keeps_stmt:
  assumes "\<And>d. R d d" "\<And>now d. R d (snd (f now d))"
  shows "keeps R (stmt s f)"
proof -
  have "R d d'" if "f now d = (r, d')" for now d r d'
    using assms(2) [of d now] that by simp
  then show ?thesis using assms(1) by (auto simp: keeps_def stmt_def Let_def split: prod.split)
qed

locale db_relation =
  fixes R :: "db \<Rightarrow> db \<Rightarrow> bool"
  assumes R_refl: "R d d"
    and R_trans: "R d d' \<Longrightarrow> R d' d'' \<Longrightarrow> R d d''"
begin

lemma resp_return [frame]: "keeps R (returnM x)"
  by (simp add: keeps_def returnM_def R_refl)

lemma resp_fail [frame]: "keeps R (failM e)"
  by (simp add: keeps_def failM_def R_refl)

lemma resp_liftE [frame]: "keeps R (liftE r)"
  by (simp add: keeps_def liftE_def R_refl)

lemma resp_observe [frame]: "keeps R (observe f)"
  by (simp add: keeps_def observe_def R_refl)

lemma resp_query [frame]: "keeps R (query s f)"
  unfolding query_def by (rule keeps_stmt) (simp_all add: R_refl)

lemma resp_clock [frame]: "keeps R (clock s)"
  unfolding clock_def by (rule resp_observe)

lemma resp_id_New [frame]: "keeps R (id_New s)"
  unfolding id_New_def by (rule resp_observe)

lemma resp_bind_run:
  assumes "keeps R m" "\<And>w x w'. m w = (Inr x, w') \<Longrightarrow> keeps R (f x)"
  shows "keeps R (bindM m f)"
  unfolding keeps_def
proof
  fix w :: world
  obtain r w' where m: "m w = (r, w')" by fastforce
  have 1: "R (w_db w) (w_db w')" using assms(1) m unfolding keeps_def by (metis snd_conv)
  show "R (w_db w) (w_db (snd (bindM m f w)))"
  proof (cases r)
    case (Inl e)
    then show ?thesis using 1 m by (simp add: bindM_def)
  next
    case (Inr x)
    then have "R (w_db w') (w_db (snd (f x w')))" using assms(2) m unfolding keeps_def by blast
    then show ?thesis using 1 m Inr by (simp add: bindM_def) (rule R_trans)
  qed
qed

lemma resp_bind [frame]: "keeps R m \<Longrightarrow> (\<And>x. keeps R (f x)) \<Longrightarrow> keeps R (bindM m f)"
  by (rule resp_bind_run)

lemma resp_bind_post: "keeps R m \<Longrightarrow> yields P m \<Longrightarrow> (\<And>x. P x \<Longrightarrow> keeps R (f x)) \<Longrightarrow> keeps R (bindM m f)"
  by (rule resp_bind_run) (fastforce simp: yields_def split: prod.splits sum.splits)+

lemma resp_bind_at:
  "R (w_db w) (w_db (snd (m w))) \<Longrightarrow> (\<And>x w'. m w = (Inr x, w') \<Longrightarrow> R (w_db w') (w_db (snd (f x w')))) \<Longrightarrow>
   R (w_db w) (w_db (snd (bindM m f w)))"
  by (auto simp: bindM_def split: prod.split sum.split intro: R_trans)

lemma resp_then [frame]: "keeps R m \<Longrightarrow> keeps R n \<Longrightarrow> keeps R (thenM m n)"
  by (simp add: thenM_def resp_bind)

lemma resp_try [frame]: "keeps R m \<Longrightarrow> keeps R (tryM m)"
  by (simp add: keeps_def tryM_def case_prod_beta)

lemma resp_check [frame]: "keeps R (checkM e)"
  by (simp add: checkM_def resp_return resp_fail split: option.split)

lemma resp_check_then: "(e = None \<Longrightarrow> keeps R m) \<Longrightarrow> keeps R (thenM (checkM e) m)"
  by (cases e) (simp_all add: keeps_def thenM_def bindM_def checkM_def returnM_def failM_def R_refl)

lemma resp_unless [frame]: "keeps R (unlessM c e)"
  by (simp add: unlessM_def resp_return resp_fail)

lemma resp_when [frame]: "keeps R m \<Longrightarrow> keeps R (whenM c m)"
  by (simp add: whenM_def resp_return)

lemma resp_forM [frame]: "(\<And>x. keeps R (f x)) \<Longrightarrow> keeps R (forM xs f)"
  by (induction xs) (simp_all add: resp_return resp_then)

lemma resp_mapM [frame]: "(\<And>x. keeps R (f x)) \<Longrightarrow> keeps R (mapM f xs)"
  by (induction xs) (simp_all add: resp_return resp_bind)

lemma resp_if [frame]: "(c \<Longrightarrow> keeps R m) \<Longrightarrow> (\<not> c \<Longrightarrow> keeps R n) \<Longrightarrow> keeps R (if c then m else n)"
  by simp

lemma resp_case_option [frame]:
  "(x = None \<Longrightarrow> keeps R m) \<Longrightarrow> (\<And>y. keeps R (f y)) \<Longrightarrow> keeps R (case x of None \<Rightarrow> m | Some y \<Rightarrow> f y)"
  by (cases x) simp_all

lemma resp_case_sum [frame]:
  "(\<And>y. keeps R (f y)) \<Longrightarrow> (\<And>y. keeps R (g y)) \<Longrightarrow> keeps R (case x of Inl y \<Rightarrow> f y | Inr y \<Rightarrow> g y)"
  by (cases x) simp_all

lemma resp_case_prod [frame]: "(\<And>a b. x = (a, b) \<Longrightarrow> keeps R (f a b)) \<Longrightarrow> keeps R (case x of (a, b) \<Rightarrow> f a b)"
  by (cases x) simp

lemma resp_case_list [frame]:
  "keeps R m \<Longrightarrow> (\<And>y ys. keeps R (f y ys)) \<Longrightarrow> keeps R (case x of [] \<Rightarrow> m | y # ys \<Rightarrow> f y ys)"
  by (cases x) simp_all

lemma resp_Let [frame]: "(\<And>x. keeps R (f x)) \<Longrightarrow> keeps R (Let v f)"
  by (simp add: Let_def)

lemma resp_case_type [frame]:
  "keeps R a \<Longrightarrow> keeps R b \<Longrightarrow> keeps R c \<Longrightarrow> keeps R e \<Longrightarrow> keeps R f \<Longrightarrow> keeps R g \<Longrightarrow>
   (\<And>x. keeps R (h x)) \<Longrightarrow> keeps R (case t of outboxSessionProvision \<Rightarrow> a | outboxSessionRevoke \<Rightarrow> b
     | outboxNotifyApproval \<Rightarrow> c | outboxNotifyRequestResult \<Rightarrow> e | outboxNotifySessionReady \<Rightarrow> f
     | outboxNotifySessionClosed \<Rightarrow> g | outboxOther x \<Rightarrow> h x)"
  by (cases t) simp_all

lemma InTx_db:
  "w_db (snd (InTx s m w)) =
     (let d = svc_others s (w_pos w) (w_db w);
          w1 = w\<lparr>w_db := d, w_pos := Suc (w_pos w), w_now := svc_now s (w_pos w)\<rparr>
      in if svc_fault s (w_pos w) then d
         else case m w1 of (Inl _, _) \<Rightarrow> d | (Inr _, w2) \<Rightarrow> if svc_fault s (w_pos w2) then d else w_db w2)"
  by (simp add: InTx_def Let_def split: prod.split sum.split)

text \<open>Only a committed transaction changes the tables, so only successful runs of its body count.\<close>

lemma resp_InTx_run:
  assumes "others_keep R s" "\<And>w x w'. m w = (Inr x, w') \<Longrightarrow> R (w_db w) (w_db w')"
  shows "keeps R (InTx s m)"
  unfolding keeps_def
proof
  fix w :: world
  let ?d = "svc_others s (w_pos w) (w_db w)"
  let ?w = "w\<lparr>w_db := ?d, w_pos := Suc (w_pos w), w_now := svc_now s (w_pos w)\<rparr>"
  have d: "R (w_db w) ?d" using assms(1) by (simp add: others_keep_def)
  have "R ?d (w_db w')" if "m ?w = (Inr x, w')" for x w' using assms(2) [OF that] by simp
  then show "R (w_db w) (w_db (snd (InTx s m w)))"
    using d R_trans [OF d] by (auto simp: InTx_db Let_def split: prod.split sum.split)
qed

lemma resp_InTx [frame]: "others_keep R s \<Longrightarrow> keeps R m \<Longrightarrow> keeps R (InTx s m)"
  by (erule resp_InTx_run) (rule keepsD)

end

context db_relation
begin

text \<open>The reading statements of the repositories.\<close>

lemma resp_reads [frame]:
  "keeps R (sessions_GetByID s i)" "keeps R (sessions_GetByIDForUpdate s i)"
  "keeps R (sessions_GetByRequestID s i)" "keeps R (sessions_ListProvisioning s n)"
  "keeps R (sessions_FindActiveByApplicantAssetPort s i j n)"
  "keeps R (sessions_ListRevocationsToQueueByApplicant s i n)"
  "keeps R (sessions_ListRevocationsToQueueByAsset s i n)"
  "keeps R (sessions_ListRevocationsToQueueByGateway s i n)"
  "keeps R (sessions_ListRevocationsToQueueByRegion s i n)"
  "keeps R (requests_GetByID s i)" "keeps R (requests_GetByIDForUpdate s i)"
  "keeps R (requests_GetByIdempotencyKey s i)" "keeps R (requests_ListByApplicant s i n m)"
  "keeps R (approvals_GetByID s i)" "keeps R (approvals_ListByRequest s i)"
  "keeps R (sessionEvents_ListBySession s i n m)" "keeps R (outbox_GetByID s i)"
  "keeps R (users_GetByID s i)" "keeps R (users_GetByIDForUpdate s i)"
  "keeps R (users_GetByFeishuOpenID s i)" "keeps R (users_GetByFeishuUnionID s i)"
  "keeps R (regions_GetByID s i)" "keeps R (regions_GetByIDForUpdate s i)"
  "keeps R (assets_GetByID s i)" "keeps R (assets_GetByIDForUpdate s i)"
  "keeps R (assets_GetIncludingDeleted s i)" "keeps R (assets_GetPort s i n proto)"
  "keeps R (assets_GetPortForUpdate s i n proto)" "keeps R (gateways_GetByID s i)"
  "keeps R (gateways_GetByIDForUpdate s i)" "keeps R (gateways_GetAssetBindingForUpdate s i j)"
  "keeps R (gateways_ListEnabled s)" "keeps R (gateways_ListAvailableForAsset s i j after)"
  "keeps R (iam_ListRoles s)" "keeps R (iam_ListBindings s)" "keeps R (iam_ListSubjects s)"
  "keeps R (iam_ListAssignments s)" "keeps R (roles_ListActiveByUser s i)"
  "keeps R (workflows_List s)" "keeps R (workflows_ListOwnerships s)"
  "keeps R (workflows_AssetPolicy s i)"
  unfolding sessions_GetByID_def sessions_GetByIDForUpdate_def sessions_GetByRequestID_def
    sessions_ListProvisioning_def sessions_FindActiveByApplicantAssetPort_def
    sessions_ListRevocationsToQueueByApplicant_def sessions_ListRevocationsToQueueByAsset_def
    sessions_ListRevocationsToQueueByGateway_def sessions_ListRevocationsToQueueByRegion_def
    requests_GetByID_def requests_GetByIDForUpdate_def requests_GetByIdempotencyKey_def
    requests_ListByApplicant_def approvals_GetByID_def approvals_ListByRequest_def
    sessionEvents_ListBySession_def outbox_GetByID_def users_GetByID_def users_GetByIDForUpdate_def
    users_GetByFeishuOpenID_def users_GetByFeishuUnionID_def regions_GetByID_def
    regions_GetByIDForUpdate_def assets_GetByID_def assets_GetByIDForUpdate_def
    assets_GetIncludingDeleted_def assets_GetPort_def assets_GetPortForUpdate_def gateways_GetByID_def
    gateways_GetByIDForUpdate_def gateways_GetAssetBindingForUpdate_def gateways_ListEnabled_def
    gateways_ListAvailableForAsset_def iam_ListRoles_def iam_ListBindings_def iam_ListSubjects_def
    iam_ListAssignments_def roles_ListActiveByUser_def workflows_List_def workflows_ListOwnerships_def
    workflows_AssetPolicy_def
  by (rule resp_query)+

lemma resp_timed_reads [frame]:
  "keeps R (sessions_ListExpired s n)" "keeps R (requests_ListApprovalExpired s t n)"
  "keeps R (approvals_ListPendingByApprover s i n m)"
  unfolding sessions_ListExpired_def requests_ListApprovalExpired_def approvals_ListPendingByApprover_def
  by (rule keeps_stmt; simp add: R_refl)+

end

subsection \<open>Successful runs\<close>

text \<open>\<open>run\<close> inverts a successful run construct by construct: a handler that returned a value
  passed every check on the way.\<close>

named_theorems run

lemma run_return [run]: "returnM x w = (Inr y, w') \<longleftrightarrow> y = x \<and> w' = w"
  by (auto simp: returnM_def)

lemma run_fail [run]: "\<not> failM e w = (Inr y, w')"
  by (simp add: failM_def)

lemma run_bind [run]: "bindM m f w = (Inr y, w'') \<longleftrightarrow> (\<exists>x w'. m w = (Inr x, w') \<and> f x w' = (Inr y, w''))"
  by (auto simp: bindM_def split: prod.splits sum.splits)

lemma run_then [run]: "thenM m n w = (Inr y, w'') \<longleftrightarrow> (\<exists>x w'. m w = (Inr x, w') \<and> n w' = (Inr y, w''))"
  by (simp add: thenM_def run_bind)

lemma run_try [run]: "tryM m w = (Inr r, w') \<longleftrightarrow> m w = (r, w')"
  by (auto simp: tryM_def split: prod.splits)

lemma run_liftE [run]: "liftE r w = (Inr y, w') \<longleftrightarrow> r = Inr y \<and> w' = w"
  by (auto simp: liftE_def)

lemma run_check [run]: "checkM e w = (Inr y, w') \<longleftrightarrow> e = None \<and> w' = w"
  by (auto simp: checkM_def run_return run_fail split: option.splits)

lemma run_unless [run]: "unlessM c e w = (Inr y, w') \<longleftrightarrow> c \<and> w' = w"
  by (auto simp: unlessM_def run_return run_fail)

lemma run_when [run]: "whenM c m w = (Inr y, w') \<longleftrightarrow> (if c then m w = (Inr y, w') else w' = w)"
  by (auto simp: whenM_def run_return)

lemma run_observe [run]: "observe f w = (Inr y, w') \<longleftrightarrow> y = f (w_pos w) \<and> w' = w\<lparr>w_pos := Suc (w_pos w)\<rparr>"
  by (auto simp: observe_def)

lemma run_clock [run]:
  "clock s w = (Inr y, w') \<longleftrightarrow> y = svc_clock s (w_pos w) \<and> w' = w\<lparr>w_pos := Suc (w_pos w)\<rparr>"
  by (simp add: clock_def run_observe)

lemma run_id_New [run]:
  "id_New s w = (Inr y, w') \<longleftrightarrow> y = uuid_of_bytes (svc_rand s (w_pos w)) \<and> w' = w\<lparr>w_pos := Suc (w_pos w)\<rparr>"
  by (simp add: id_New_def run_observe)

lemma run_stmt [run]:
  "stmt s f w = (Inr y, w') \<longleftrightarrow>
     \<not> svc_fault s (w_pos w) \<and> fst (f (w_now w) (w_db w)) = Inr y \<and>
     w' = w\<lparr>w_pos := Suc (w_pos w), w_db := snd (f (w_now w) (w_db w))\<rparr>"
  by (auto simp: stmt_def Let_def split: prod.splits)

lemma run_query [run]:
  "query s f w = (Inr y, w') \<longleftrightarrow>
     \<not> svc_fault s (w_pos w) \<and> f (w_db w) = Inr y \<and> w' = w\<lparr>w_pos := Suc (w_pos w)\<rparr>"
  by (auto simp: query_def run_stmt)

text \<open>The world a transaction body starts from.\<close>

definition tx_start :: "svc \<Rightarrow> world \<Rightarrow> world" where
  "tx_start s w = w\<lparr>w_db := svc_others s (w_pos w) (w_db w), w_pos := Suc (w_pos w), w_now := svc_now s (w_pos w)\<rparr>"

lemma tx_start_simps [simp]:
  "w_db (tx_start s w) = svc_others s (w_pos w) (w_db w)" "w_pos (tx_start s w) = Suc (w_pos w)"
  "w_now (tx_start s w) = svc_now s (w_pos w)"
  by (simp_all add: tx_start_def)

lemma run_InTx [run]:
  "InTx s m w = (Inr y, w') \<longleftrightarrow>
     \<not> svc_fault s (w_pos w) \<and>
     (\<exists>w2. m (tx_start s w) = (Inr y, w2) \<and> \<not> svc_fault s (w_pos w2) \<and> w' = w2\<lparr>w_pos := Suc (w_pos w2)\<rparr>)"
  by (auto simp: InTx_def tx_start_def Let_def split: prod.splits sum.splits if_splits)

text \<open>A failed transaction leaves the database as the other workers left it.\<close>

lemma InTx_rollback:
  "InTx s m w = (Inl e, w') \<Longrightarrow> w_db w' = svc_others s (w_pos w) (w_db w)"
  by (auto simp: InTx_def Let_def split: prod.splits sum.splits if_splits)

lemma find_row_Inr [run]: "find_row p rows = Inr r \<longleftrightarrow> find p rows = Some r"
  by (simp add: find_row_def split: option.split)

lemma find_SomeD: "find p xs = Some x \<Longrightarrow> p x \<and> x \<in> set xs"
  by (induction xs) (auto split: if_splits)

lemma affected_Inr [run]: "affected p rows = Inr u \<longleftrightarrow> (\<exists>r\<in>set rows. p r)"
  by (simp add: affected_def list_ex_iff)

lemma mapM_Inr:
  "mapM f xs w = (Inr ys, w') \<Longrightarrow> list_all2 (\<lambda>x y. \<exists>u v. f x u = (Inr y, v)) xs ys"
  by (induction xs arbitrary: ys w) (auto simp: run)

end
