(* ===== verification/Metadata.thy ===== *)
theory Metadata
  imports Domain
begin

text \<open>
  Metadata of audit events: the sanitiser of \<open>service/access.go\<close>
  (\<open>sanitizeEventMetadata\<close>, \<open>sanitizeMetadataValue\<close>, \<open>isSensitiveMetadataKey\<close>) with the encoding
  of \<open>encoding/json\<close> whose size it bounds, and \<open>normalizeOptionalIP\<close>.
\<close>

subsection \<open>Encoded size of metadata (encoding/json)\<close>

text \<open>The bytes \<open>json.Marshal\<close> writes for a string: control bytes, quotes, backslashes, the
  HTML characters, U+2028, U+2029 and invalid UTF-8 are escaped.\<close>

definition json_escape :: "nat \<Rightarrow> string" where
  "json_escape b = CHR 0x5C # ''u00'' @ hex_byte b"

definition json_rune :: "string \<Rightarrow> string" where
  "json_rune s =
     (let c = hd s; b = byte c; n = rune_width s in
      if n = 1 then
        if b \<ge> 128 then CHR 0x5C # ''ufffd''
        else if c = CHR 0x22 \<or> c = CHR 0x5C then [CHR 0x5C, c]
        else if b = 8 then CHR 0x5C # ''b'' else if b = 9 then CHR 0x5C # ''t'' else if b = 10 then CHR 0x5C # ''n''
        else if b = 12 then CHR 0x5C # ''f'' else if b = 13 then CHR 0x5C # ''r''
        else if b < 32 \<or> c = CHR ''<'' \<or> c = CHR ''>'' \<or> c = CHR ''&'' then json_escape b
        else [c]
      else if map byte (take 3 s) = [226, 128, 168] then CHR 0x5C # ''u2028''
      else if map byte (take 3 s) = [226, 128, 169] then CHR 0x5C # ''u2029''
      else take n s)"

function json_chars :: "string \<Rightarrow> string" where
  "json_chars s = (if s = [] then [] else json_rune s @ json_chars (drop (rune_width s) s))"
  by pat_completeness auto
termination
  by (relation "measure length") (auto simp: rune_width_pos)

declare json_chars.simps [simp del]

definition json_string :: "string \<Rightarrow> string" where
  "json_string s = [CHR 0x22] @ json_chars s @ [CHR 0x22]"

definition json_int :: "int \<Rightarrow> string" where
  "json_int n = (if n < 0 then ''-'' @ decimal (nat (- n)) else decimal (nat n))"

text \<open>Object keys are written in increasing order.\<close>

fun json_encode :: "json \<Rightarrow> string" where
  "json_encode JNull = ''null''"
| "json_encode (JBool b) = (if b then ''true'' else ''false'')"
| "json_encode (JInt n) = json_int n"
| "json_encode (JFloat t) = t"
| "json_encode (JStr s) = json_string s"
| "json_encode (JList xs) = ''['' @ join '','' (map json_encode xs) @ '']''"
| "json_encode (JObj kvs) =
     ''{'' @ join '','' (map snd (sort_key fst
        (map (\<lambda>(k, v). (k, json_string k @ '':'' @ json_encode v)) kvs))) @ ''}''"

declare json_encode.simps [simp del]

subsection \<open>Metadata\<close>

definition sensitive_fragments :: "string list" where
  "sensitive_fragments =
     [''token'', ''secret'', ''password'', ''credential'', ''private_key'', ''authorization'']"

definition isSensitiveMetadataKey :: "string \<Rightarrow> bool" where
  "isSensitiveMetadataKey key =
     (let k = ToLower (TrimSpace key) in list_ex (\<lambda>fragment. Contains k fragment) sensitive_fragments)"

definition redacted :: json where
  "redacted = JStr ''[REDACTED]''"

fun sanitizeMetadataValue :: "json \<Rightarrow> int \<Rightarrow> err + json"
  and sanitize_pairs :: "(string \<times> json) list \<Rightarrow> int \<Rightarrow> err + (string \<times> json) list"
  and sanitize_items :: "json list \<Rightarrow> int \<Rightarrow> err + json list"
where
  "sanitizeMetadataValue v depth =
     (if depth > 5 then Inl ErrValidation
      else case v of
        JObj kvs \<Rightarrow> if int (length kvs) > 100 then Inl ErrValidation
                    else bindE (sanitize_pairs kvs depth) (\<lambda>r. Inr (JObj r))
      | JList xs \<Rightarrow> if int (length xs) > 100 then Inl ErrValidation
                    else bindE (sanitize_items xs depth) (\<lambda>r. Inr (JList r))
      | JStr t \<Rightarrow> if int (rune_count t) > 2048 then Inl ErrValidation else Inr v
      | _ \<Rightarrow> Inr v)"
| "sanitize_pairs [] depth = Inr []"
| "sanitize_pairs ((k, v) # kvs) depth =
     bindE (if isSensitiveMetadataKey k then Inr redacted else sanitizeMetadataValue v (depth + 1))
       (\<lambda>cleaned. bindE (sanitize_pairs kvs depth) (\<lambda>r. Inr ((k, cleaned) # r)))"
| "sanitize_items [] depth = Inr []"
| "sanitize_items (x # xs) depth =
     bindE (sanitizeMetadataValue x (depth + 1))
       (\<lambda>cleaned. bindE (sanitize_items xs depth) (\<lambda>r. Inr (cleaned # r)))"

declare sanitizeMetadataValue.simps [simp del]

definition maxEventMetadataBytes :: int where
  "maxEventMetadataBytes = 64 * 1024"

definition sanitizeEventMetadata :: "metadata \<Rightarrow> err + metadata" where
  "sanitizeEventMetadata input =
     bindE (sanitizeMetadataValue (JObj input) 0) (\<lambda>value.
       case value of
         JObj metadata \<Rightarrow>
           if int (length (json_encode value)) > maxEventMetadataBytes then Inl ErrValidation else Inr metadata
       | _ \<Rightarrow> Inl ErrOther)"

definition normalizeOptionalIP :: "string option \<Rightarrow> err + string option" where
  "normalizeOptionalIP value =
     (case value of
        None \<Rightarrow> Inr None
      | Some v \<Rightarrow>
          if TrimSpace v = [] then Inr None
          else case ParseIP (TrimSpace v) of
                 None \<Rightarrow> Inl ErrValidation
               | Some parsed \<Rightarrow>
                   if IsUnspecified parsed then Inl ErrValidation else Inr (Some (ip_String parsed)))"

subsection \<open>Sanitised metadata\<close>

text \<open>What the audit store promises of a stored value: no secret under a sensitive key, bounded
  depth, width and text.\<close>

function clean :: "json \<Rightarrow> int \<Rightarrow> bool" where
  "clean v depth =
     (if depth > 5 then False else case v of
        JObj kvs \<Rightarrow> int (length kvs) \<le> 100 \<and>
          (\<forall>kv\<in>set kvs. if isSensitiveMetadataKey (fst kv) then snd kv = redacted
                        else clean (snd kv) (depth + 1))
      | JList xs \<Rightarrow> int (length xs) \<le> 100 \<and> (\<forall>x\<in>set xs. clean x (depth + 1))
      | JStr t \<Rightarrow> int (rune_count t) \<le> 2048
      | _ \<Rightarrow> True)"
  by pat_completeness auto
termination
  by (relation "measure (\<lambda>(v, depth). nat (6 - depth))") auto

declare clean.simps [simp del]

definition clean_entry :: "int \<Rightarrow> string \<times> json \<Rightarrow> bool" where
  "clean_entry depth kv =
     (if isSensitiveMetadataKey (fst kv) then snd kv = redacted else clean (snd kv) (depth + 1))"

lemma clean_unfold:
  "clean v depth \<longleftrightarrow> \<not> depth > 5 \<and>
     (case v of
        JObj kvs \<Rightarrow> int (length kvs) \<le> 100 \<and> (\<forall>kv\<in>set kvs. clean_entry depth kv)
      | JList xs \<Rightarrow> int (length xs) \<le> 100 \<and> (\<forall>x\<in>set xs. clean x (depth + 1))
      | JStr t \<Rightarrow> int (rune_count t) \<le> 2048
      | _ \<Rightarrow> True)"
  by (subst clean.simps) (simp add: clean_entry_def split: json.split)

lemma bindE_Inr: "bindE m f = Inr y \<longleftrightarrow> (\<exists>x. m = Inr x \<and> f x = Inr y)"
  by (cases m) (simp_all add: bindE_def)

lemma sanitize_clean:
  "sanitizeMetadataValue v depth = Inr v' \<Longrightarrow> clean v' depth"
  "sanitize_pairs kvs depth = Inr kvs' \<Longrightarrow> length kvs' = length kvs \<and> map fst kvs' = map fst kvs \<and>
     (\<forall>kv\<in>set kvs'. clean_entry depth kv)"
  "sanitize_items xs depth = Inr xs' \<Longrightarrow> length xs' = length xs \<and> (\<forall>x\<in>set xs'. clean x (depth + 1))"
proof (induction v depth and kvs depth and xs depth arbitrary: v' and kvs' and xs'
    rule: sanitizeMetadataValue_sanitize_pairs_sanitize_items.induct)
  case (1 v depth)
  from 1(3) show ?case
    by (cases v) (auto simp: sanitizeMetadataValue.simps [of _ depth] clean_unfold [of _ depth] bindE_Inr
        split: if_splits dest: 1(1,2))
next
  case (3 k v kvs depth)
  from 3(3) obtain c r where r: "kvs' = (k, c) # r" "sanitize_pairs kvs depth = Inr r"
    and c: "(if isSensitiveMetadataKey k then Inr redacted else sanitizeMetadataValue v (depth + 1)) = Inr c"
    by (auto simp: bindE_Inr)
  have "clean_entry depth (k, c)"
    using c 3(1) by (simp add: clean_entry_def split: if_splits)
  then show ?case using 3(2) [OF r(2)] r(1) by simp
next
  case (5 x xs depth)
  from 5(3) show ?case
    by (auto simp: bindE_Inr dest!: 5(1,2))
qed simp_all

text \<open>A clean value passes unchanged.\<close>

lemma sanitize_clean_id:
  "clean v depth \<Longrightarrow> sanitizeMetadataValue v depth = Inr v"
  "\<forall>kv\<in>set kvs. clean_entry depth kv \<Longrightarrow>
     sanitize_pairs kvs depth = Inr kvs"
  "\<forall>x\<in>set xs. clean x (depth + 1) \<Longrightarrow> sanitize_items xs depth = Inr xs"
proof (induction v depth and kvs depth and xs depth
    rule: sanitizeMetadataValue_sanitize_pairs_sanitize_items.induct)
  case (1 v depth)
  from 1(3) show ?case
    by (cases v) (simp_all add: sanitizeMetadataValue.simps [of _ depth] clean_unfold [of _ depth] bindE_def 1(1,2))
next
  case (3 k v kvs depth)
  have "(if isSensitiveMetadataKey k then Inr redacted else sanitizeMetadataValue v (depth + 1)) = Inr v"
    using 3(1) 3(3) [simplified, THEN conjunct1] by (simp add: clean_entry_def split: if_splits)
  then show ?case using 3(2,3) by (simp add: bindE_def)
next
  case (5 x xs depth)
  then show ?case by (auto simp: bindE_def)
qed simp_all

lemma sanitizeEventMetadata_iff:
  "sanitizeEventMetadata m = Inr m' \<longleftrightarrow>
     sanitizeMetadataValue (JObj m) 0 = Inr (JObj m') \<and> int (length (json_encode (JObj m'))) \<le> maxEventMetadataBytes"
  by (cases "sanitizeMetadataValue (JObj m) 0")
     (auto simp: sanitizeEventMetadata_def bindE_def split: json.splits if_splits)

lemma sanitize_object:
  "sanitizeMetadataValue (JObj m) 0 = Inr (JObj m') \<Longrightarrow> sanitize_pairs m 0 = Inr m'"
  by (auto simp: sanitizeMetadataValue.simps [of _ 0] bindE_Inr split: if_splits)

text \<open>C33. Whatever metadata reaches the audit log is sanitised: the stored object has the keys that
  were given, every value under a sensitive key at any depth is redacted, depth, width and text
  lengths are bounded, the encoding fits 64 KiB, and sanitising it again changes nothing.\<close>

theorem sanitizeEventMetadata_clean:
  assumes "sanitizeEventMetadata m = Inr m'"
  shows "map fst m' = map fst m \<and> clean (JObj m') 0 \<and>
    int (length (json_encode (JObj m'))) \<le> maxEventMetadataBytes \<and> sanitizeEventMetadata m' = Inr m'"
proof -
  have v: "sanitizeMetadataValue (JObj m) 0 = Inr (JObj m')"
    and len: "int (length (json_encode (JObj m'))) \<le> maxEventMetadataBytes"
    using assms by (simp_all add: sanitizeEventMetadata_iff)
  have "clean (JObj m') 0" by (rule sanitize_clean(1) [OF v])
  moreover have "map fst m' = map fst m" using sanitize_clean(2) [OF sanitize_object [OF v]] by simp
  moreover have "sanitizeEventMetadata m' = Inr m'"
    using sanitize_clean_id(1) [OF sanitize_clean(1) [OF v]] len by (simp only: sanitizeEventMetadata_iff)
  ultimately show ?thesis using len by blast
qed

definition sample_metadata :: metadata where
  "sample_metadata = [(''Api_Token'', JStr ''hunter2''), (''peer'', JObj [(''secret'', JInt 7), (''port'', JInt 22)])]"

theorem sanitizeEventMetadata_clean_witness:
  "sanitizeEventMetadata sample_metadata =
     Inr [(''Api_Token'', redacted), (''peer'', JObj [(''secret'', redacted), (''port'', JInt 22)])] \<and>
   clean (JObj [(''Api_Token'', redacted), (''peer'', JObj [(''secret'', redacted), (''port'', JInt 22)])]) 0"
proof -
  have e: "sanitizeEventMetadata sample_metadata =
     Inr [(''Api_Token'', redacted), (''peer'', JObj [(''secret'', redacted), (''port'', JInt 22)])]"
    by code_simp
  from sanitizeEventMetadata_clean [OF e] e show ?thesis by blast
qed

end
