(* ===== verification/Service.thy ===== *)
theory Service
  imports Workflow Frames Metadata
begin

text \<open>
  Code shared by the handlers of \<open>internal/service\<close>: authorisation (\<open>service/iam.go\<close>), the
  platform audit log, in-app notifications and the outbox writer (\<open>access.go\<close>,
  \<open>service/notifications.go\<close>), and the construction of a session grant
  (\<open>session_runtime.go\<close>, \<open>session_audit.go\<close>, \<open>web_terminal.go\<close>).
\<close>

subsection \<open>Authorisation (service/iam.go)\<close>

text \<open>The advisory lock of \<open>IAMRepository.Lock\<close>: a statement without effect on the tables.\<close>

definition iam_Lock :: "svc \<Rightarrow> bool \<Rightarrow> unit M" where
  "iam_Lock s shared = query s (\<lambda>_. Inr ())"

definition readIAM :: "svc \<Rightarrow> 'a M \<Rightarrow> 'a M" where
  "readIAM s read = InTx s (thenM (iam_Lock s True) read)"

definition isAdmin :: "svc \<Rightarrow> string \<Rightarrow> bool" where
  "isAdmin s userID \<longleftrightarrow> userID \<in> set (svc_adminUserIDs s)"

definition isConfiguredAdminReference :: "svc \<Rightarrow> string \<Rightarrow> bool" where
  "isConfiguredAdminReference s reference \<longleftrightarrow>
     TrimSpace reference \<noteq> [] \<and> reference \<in> set (svc_adminUserIDs s)"

definition configuredAdmin :: "svc \<Rightarrow> user \<Rightarrow> bool" where
  "configuredAdmin s u \<longleftrightarrow>
     isAdmin s (user_ID u) \<or> isConfiguredAdminReference s (user_FeishuOpenID u) \<or>
     (case user_FeishuUnionID u of None \<Rightarrow> False | Some r \<Rightarrow> isConfiguredAdminReference s r)"

text \<open>Explicit grants of a user; display names of the sources are English.\<close>

definition explicit_grants :: "svc \<Rightarrow> user \<Rightarrow> role_assignment list \<Rightarrow> direct_grant list" where
  "explicit_grants s u assignments =
     map (\<lambda>a. \<lparr>direct_Role = asg_Role a,
                direct_Source = no_source\<lparr>source_Kind := ''direct'', source_ID := asg_ID a,
                                          source_Name := ''direct role grant''\<rparr>\<rparr>) assignments @
     (if configuredAdmin s u
      then [\<lparr>direct_Role = ''admin'',
             direct_Source = no_source\<lparr>source_Kind := ''bootstrap'', source_Name := ''bootstrap administrator''\<rparr>\<rparr>]
      else [])"

definition userRoleGrants :: "svc \<Rightarrow> user \<Rightarrow> role_grant list M" where
  "userRoleGrants s u =
     bindM (iam_ListRoles s) (\<lambda>roles.
     bindM (iam_ListBindings s) (\<lambda>bindings.
     thenM (unlessM (\<not> (length roles > 1000 \<or> length bindings > 1000)) ErrStateConflict)
     (bindM (roles_ListActiveByUser s (user_ID u)) (\<lambda>assignments.
     returnM (resolver_Explain (NewResolver roles bindings) (user_Labels u) (explicit_grants s u assignments))))))"

definition resolvedRoles :: "svc \<Rightarrow> user \<Rightarrow> role list M" where
  "resolvedRoles s u = bindM (userRoleGrants s u) (\<lambda>grants. returnM (map grant_Role grants))"

definition allowedRoles :: "svc \<Rightarrow> role list \<Rightarrow> permission \<Rightarrow> bool" where
  "allowedRoles s roles p \<longleftrightarrow>
     Known p \<and> list_ex (\<lambda>r. role_Enabled r \<and> AllowedPermissions (svc_permit s) (role_Permissions r) p) roles"

definition rolePermissions :: "svc \<Rightarrow> role list \<Rightarrow> permission list" where
  "rolePermissions s roles = filter (allowedRoles s roles) Catalog"

definition authorizeIn :: "svc \<Rightarrow> string \<Rightarrow> permission \<Rightarrow> unit M" where
  "authorizeIn s userID p =
     thenM (unlessM (IsUUID userID) ErrForbidden)
     (bindM (users_GetByID s userID) (\<lambda>u.
     thenM (unlessM (user_Status u = UserStatusActive) ErrForbidden)
     (bindM (resolvedRoles s u) (\<lambda>roles.
     unlessM (allowedRoles s roles p) ErrForbidden))))"

definition Authorize :: "svc \<Rightarrow> string \<Rightarrow> permission \<Rightarrow> unit M" where
  "Authorize s userID p =
     thenM (unlessM (IsUUID userID \<and> Known p) ErrForbidden)
     (readIAM s (authorizeIn s userID p))"

definition EffectivePermissions :: "svc \<Rightarrow> string \<Rightarrow> permission list M" where
  "EffectivePermissions s userID =
     thenM (unlessM (IsUUID userID) ErrForbidden)
     (readIAM s
       (bindM (users_GetByID s userID) (\<lambda>u.
        thenM (unlessM (user_Status u = UserStatusActive) ErrForbidden)
        (bindM (resolvedRoles s u) (\<lambda>roles. returnM (rolePermissions s roles))))))"

definition effectiveRoles :: "svc \<Rightarrow> string \<Rightarrow> string list M" where
  "effectiveRoles s userID =
     readIAM s
       (bindM (users_GetByID s userID) (\<lambda>u.
        thenM (unlessM (user_Status u = UserStatusActive) ErrForbidden)
        (bindM (resolvedRoles s u) (\<lambda>roles. returnM (map role_Name roles)))))"

definition isAdminUser :: "svc \<Rightarrow> string \<Rightarrow> bool M" where
  "isAdminUser s userID =
     bindM (tryM (effectiveRoles s userID)) (\<lambda>r.
       returnM (case r of Inl _ \<Rightarrow> False | Inr roles \<Rightarrow> ''admin'' \<in> set roles))"

definition requireActiveUser :: "svc \<Rightarrow> string \<Rightarrow> unit M" where
  "requireActiveUser s userID0 =
     (let userID = TrimSpace userID0 in
      thenM (unlessM (userID \<noteq> []) ErrForbidden)
      (thenM (unlessM (IsUUID userID) ErrForbidden)
      (bindM (auto_tx s (users_GetByID s userID)) (\<lambda>u.
       unlessM (user_Status u = UserStatusActive) ErrForbidden))))"

definition validateUUID :: "string \<Rightarrow> err option" where
  "validateUUID value = (if IsUUID (TrimSpace value) then None else Some ErrValidation)"

subsection \<open>Platform audit log\<close>

definition unlogged_events :: "string list" where
  "unlogged_events = [''user.login'', ''gateway.catalog_exported'', ''session.credential_downloaded'']"

definition appendAudit :: "svc \<Rightarrow> audit_event \<Rightarrow> unit M" where
  "appendAudit s v0 =
     (if audit_EventType v0 \<in> set unlogged_events then returnM ()
      else bindM (if audit_ID v0 = [] then id_New s else returnM (audit_ID v0)) (\<lambda>i.
           bindM (if audit_CreatedAt v0 = 0 then clock s else returnM (audit_CreatedAt v0)) (\<lambda>t.
           bindM (liftE (sanitizeEventMetadata (audit_Metadata v0))) (\<lambda>m.
           audits_Append s (v0\<lparr>audit_ID := i, audit_CreatedAt := t, audit_Metadata := m\<rparr>)))))"

text \<open>\<open>domain.AuditEvent{...}\<close> with the fields a caller leaves out.\<close>

definition no_audit :: audit_event where
  "no_audit = \<lparr>audit_ID = [], audit_EventType = [], audit_ActorType = [], audit_ActorID = None,
     audit_SubjectUserID = None, audit_RequestID = None, audit_SessionID = None, audit_RegionID = None,
     audit_AssetID = None, audit_TargetPort = None, audit_SourceIP = None, audit_Result = None,
     audit_Reason = None, audit_Metadata = [], audit_CreatedAt = 0\<rparr>"

subsection \<open>In-app notifications (service/notifications.go)\<close>

fun request_status_string :: "request_status \<Rightarrow> string" where
  "request_status_string AccessRequestPendingApproval = ''pending_approval''"
| "request_status_string AccessRequestApproved = ''approved''"
| "request_status_string AccessRequestRejected = ''rejected''"
| "request_status_string AccessRequestCancelled = ''cancelled''"
| "request_status_string AccessRequestApprovalExpired = ''approval_expired''"

definition base_notification :: "access_request \<Rightarrow> notification" where
  "base_notification r = \<lparr>note_ID = [], note_UserID = req_ApplicantID r, note_EventType = [],
     note_DedupeKey = [], note_RequestID = req_ID r, note_SessionID = None, note_ReadAt = None,
     note_CreatedAt = 0\<rparr>"

text \<open>The notices of an event before \<open>id.New\<close> gives each an identifier; titles and texts are
  not modelled. A \<open>None\<close> session is the zero value \<open>domain.Session{}\<close>.\<close>

definition notices :: "outbox_type \<Rightarrow> access_request \<Rightarrow> session option \<Rightarrow> approval list \<Rightarrow> notification list" where
  "notices t r session approvals =
     (let base = base_notification r in
      if req_ApprovalMode r = ''admin_test'' then []
      else case t of
        outboxNotifyApproval \<Rightarrow>
          if req_Status r \<noteq> AccessRequestPendingApproval then []
          else (case nextApprovalLevel approvals of (level, complete) \<Rightarrow>
            if complete then []
            else map (\<lambda>a. base\<lparr>note_UserID := appr_ApproverID a, note_EventType := ''approval_requested'',
                             note_DedupeKey := ''approval:'' @ appr_ID a\<rparr>)
                   (filter (\<lambda>a. \<not> (appr_ApprovalLevel a \<noteq> level \<or> appr_Decision a \<noteq> None \<or>
                                     appr_ApproverID a = req_ApplicantID r)) approvals))
      | outboxNotifyRequestResult \<Rightarrow>
          if req_Status r = AccessRequestPendingApproval then []
          else [base\<lparr>note_EventType := ''request_result'',
                     note_DedupeKey := ''request:'' @ req_ID r @ '':'' @ request_status_string (req_Status r)\<rparr>]
      | outboxNotifySessionReady \<Rightarrow>
          (case session of None \<Rightarrow> []
           | Some v \<Rightarrow> if sess_Status v \<noteq> SessionRunning then []
                      else [base\<lparr>note_EventType := ''session_ready'',
                                 note_DedupeKey := ''session:'' @ sess_ID v @ '':ready'',
                                 note_SessionID := Some (sess_ID v)\<rparr>])
      | outboxNotifySessionClosed \<Rightarrow>
          (case session of None \<Rightarrow> []
           | Some v \<Rightarrow> [base\<lparr>note_EventType := ''session_closed'',
                            note_DedupeKey := ''session:'' @ sess_ID v @ '':closed'',
                            note_SessionID := Some (sess_ID v)\<rparr>])
      | _ \<Rightarrow> [])"

definition requestNotifications ::
  "svc \<Rightarrow> outbox_type \<Rightarrow> access_request \<Rightarrow> session option \<Rightarrow> approval list \<Rightarrow> notification list M" where
  "requestNotifications s t r session approvals =
     mapM (\<lambda>n. bindM (id_New s) (\<lambda>i. returnM (n\<lparr>note_ID := i\<rparr>))) (notices t r session approvals)"

definition append_notices :: "svc \<Rightarrow> outbox_type \<Rightarrow> access_request \<Rightarrow> session option \<Rightarrow> unit M" where
  "append_notices s t r session =
     bindM (assets_GetIncludingDeleted s (req_AssetID r)) (\<lambda>_.
     bindM (if t = outboxNotifyApproval then approvals_ListByRequest s (req_ID r) else returnM []) (\<lambda>approvals.
     bindM (requestNotifications s t r session approvals) (\<lambda>ns. forM ns (notifications_Append s))))"

definition appendInAppNotifications :: "svc \<Rightarrow> outbox_type \<Rightarrow> string \<Rightarrow> unit M" where
  "appendInAppNotifications s t aggregateID =
     (if t = outboxNotifyApproval \<or> t = outboxNotifyRequestResult then
        bindM (requests_GetByID s aggregateID) (\<lambda>r. append_notices s t r None)
      else if t = outboxNotifySessionReady \<or> t = outboxNotifySessionClosed then
        bindM (sessions_GetByID s aggregateID) (\<lambda>v.
        bindM (requests_GetByID s (sess_RequestID v)) (\<lambda>r. append_notices s t r (Some v)))
      else returnM ())"

subsection \<open>Outbox commands\<close>

definition outbox_command :: "string \<Rightarrow> string \<Rightarrow> string \<Rightarrow> outbox_type \<Rightarrow> metadata \<Rightarrow> outbox_event" where
  "outbox_command i aggregateType aggregateID t payload =
     \<lparr>outbox_ID = i, outbox_AggregateType = aggregateType, outbox_AggregateID = aggregateID,
      outbox_EventType = t, outbox_Payload = payload, outbox_Status = OutboxPending,
      outbox_RetryCount = 0, outbox_NextRetryAt = None, outbox_CreatedAt = 0, outbox_ProcessedAt = None\<rparr>"

definition appendOutboxAt ::
  "svc \<Rightarrow> string \<Rightarrow> string \<Rightarrow> outbox_type \<Rightarrow> metadata \<Rightarrow> int option \<Rightarrow> unit M" where
  "appendOutboxAt s aggregateType aggregateID t payload notBefore =
     thenM (appendInAppNotifications s t aggregateID)
     (bindM (id_New s) (\<lambda>i.
      outbox_Create s ((outbox_command i aggregateType aggregateID t payload)\<lparr>outbox_NextRetryAt := notBefore\<rparr>)))"

definition appendOutbox :: "svc \<Rightarrow> string \<Rightarrow> string \<Rightarrow> outbox_type \<Rightarrow> metadata \<Rightarrow> unit M" where
  "appendOutbox s aggregateType aggregateID t payload = appendOutboxAt s aggregateType aggregateID t payload None"

text \<open>\<open>s.outbox.CreateIfNoActive\<close> with a new pending command on a session.\<close>

definition queue_session_command :: "svc \<Rightarrow> string \<Rightarrow> outbox_type \<Rightarrow> metadata \<Rightarrow> bool M" where
  "queue_session_command s i t payload =
     bindM (id_New s) (\<lambda>e. outbox_CreateIfNoActive s (outbox_command e ''session'' i t payload))"

definition session_payload :: "string \<Rightarrow> metadata" where
  "session_payload i = [(''session_id'', JStr i)]"

definition revoke_payload :: "string \<Rightarrow> string \<Rightarrow> metadata" where
  "revoke_payload i reason = [(''session_id'', JStr i), (''reason'', JStr reason)]"

definition request_payload :: "string \<Rightarrow> metadata" where
  "request_payload i = [(''request_id'', JStr i)]"

text \<open>\<open>s.sessionEvents.Append\<close> of an event with a new identifier.\<close>

definition append_session_event :: "svc \<Rightarrow> string \<Rightarrow> string \<Rightarrow> string \<Rightarrow> string option \<Rightarrow> metadata \<Rightarrow> unit M" where
  "append_session_event s sessionID eventType actorType actorID metadata =
     bindM (id_New s) (\<lambda>i. sessionEvents_Append s
       \<lparr>sev_ID = i, sev_SessionID = sessionID, sev_EventType = eventType, sev_ActorType = actorType,
        sev_ActorID = actorID, sev_Metadata = metadata, sev_CreatedAt = 0\<rparr>)"

definition reason_metadata :: "string \<Rightarrow> metadata" where
  "reason_metadata reason = [(''reason'', JStr reason)]"

text \<open>\<open>discardSessionToken\<close>: a failure is only logged.\<close>

definition discardSessionToken :: "svc \<Rightarrow> string \<Rightarrow> unit M" where
  "discardSessionToken s i = bindM (tryM (auto_tx s (tokenDeliveries_Delete s i))) (\<lambda>_. returnM ())"

subsection \<open>Session grants\<close>

definition zero_session :: session where
  "zero_session = \<lparr>sess_AuditPolicy = \<lparr>audit_Profile = [], audit_Revision = [], audit_Protocol = []\<rparr>,
     sess_ConnectionMode = [], sess_TunnelClientPublicKey = [], sess_TunnelServerCertificate = [],
     sess_ID = [], sess_RequestID = [], sess_GatewayID = [], sess_TokenHash = None,
     sess_RemoteProcessID = None, sess_Status = SessionProvisioning, sess_StartedAt = None,
     sess_ExpiresAt = None, sess_ClosedAt = None, sess_FailureReason = None, sess_Version = 0,
     sess_ListenerPort = None, sess_ExternalPort = None, sess_ExposureMode = None,
     sess_ExposureRef = None, sess_CreatedAt = 0, sess_UpdatedAt = 0\<rparr>"

definition no_policy :: audit_policy where
  "no_policy = \<lparr>audit_Profile = [], audit_Revision = [], audit_Protocol = []\<rparr>"

definition newNativeSession :: "svc \<Rightarrow> asset \<Rightarrow> access_request \<Rightarrow> session M" where
  "newNativeSession s asset request =
     thenM (unlessM (svc_hasRuntime s) ErrValidation)
     (bindM (clock s) (\<lambda>now.
      bindM (id_New s) (\<lambda>i.
      returnM (zero_session\<lparr>sess_ID := i, sess_RequestID := req_ID request, sess_GatewayID := asset_GatewayID asset,
                 sess_Status := SessionProvisioning, sess_ConnectionMode := ''native'',
                 sess_ExpiresAt := Some (now + req_TTLSeconds request * second)\<rparr>))))"

definition approvedSessionExpiry :: "session \<Rightarrow> access_request \<Rightarrow> int" where
  "approvedSessionExpiry session request =
     (case sess_ExpiresAt session of
        Some e \<Rightarrow> e
      | None \<Rightarrow> sess_CreatedAt session + req_TTLSeconds request * second)"

definition auditProfileRequiresAccount :: "audit_profile \<Rightarrow> bool" where
  "auditProfileRequiresAccount p \<longleftrightarrow> prof_AuditEnabled p \<and> prof_Protocol p \<noteq> ''http''"

definition targetAccountRequired :: "audit_profile list \<Rightarrow> int \<Rightarrow> bool" where
  "targetAccountRequired profiles port =
     list_ex (\<lambda>p. prof_Port p = port \<and> auditProfileRequiresAccount p) profiles"

definition sessionPolicy ::
  "svc \<Rightarrow> audit_profile list \<Rightarrow> string \<Rightarrow> access_request \<Rightarrow> err + audit_policy" where
  "sessionPolicy s profiles protocol request =
     (case find (\<lambda>p. \<not> (prof_Port p \<noteq> req_TargetPort request \<or> \<not> prof_AuditEnabled p)) profiles of
        None \<Rightarrow> Inr no_policy
      | Some p \<Rightarrow>
          if ValidAssetProtocol protocol \<and> prof_Protocol p \<noteq> NormalizeProtocol protocol then Inl ErrValidation
          else if auditProfileRequiresAccount p \<and>
              (req_TargetAccount request = None \<or> req_TargetAccount request = Some []) then Inl ErrValidation
          else svc_selectPolicy s p (req_TargetPort request))"

definition loadSessionAudit :: "svc \<Rightarrow> string \<Rightarrow> audit_profile list M" where
  "loadSessionAudit s assetID = bindM (observe (\<lambda>p. svc_loadAudit s p assetID)) liftE"

definition sessionAuditPolicy :: "svc \<Rightarrow> asset \<Rightarrow> access_request \<Rightarrow> audit_policy M" where
  "sessionAuditPolicy s asset request =
     bindM (loadSessionAudit s (asset_ID asset)) (\<lambda>profiles.
       liftE (sessionPolicy s profiles (asset_AssetType asset) request))"

definition validateWebAccess :: "access_request \<Rightarrow> audit_policy \<Rightarrow> err option" where
  "validateWebAccess request policy =
     (if req_SourceIP request = None \<and> (\<not> terminal_Supported (audit_Protocol policy) \<or> audit_Profile policy = [])
      then Some ErrValidation else None)"

definition clientAccessEnabledIn :: "svc \<Rightarrow> bool M" where
  "clientAccessEnabledIn s = bindM (observe (svc_clientAccess s)) liftE"

definition newSession :: "svc \<Rightarrow> asset \<Rightarrow> access_request \<Rightarrow> session M" where
  "newSession s asset request =
     bindM (newNativeSession s asset request) (\<lambda>session0.
     bindM (sessionAuditPolicy s asset request) (\<lambda>policy.
     thenM (checkM (validateWebAccess request policy))
     (thenM
       (whenM (req_SourceIP request \<noteq> None)
         (bindM (clientAccessEnabledIn s) (\<lambda>enabled. unlessM enabled ErrValidation)))
       (returnM (if policy \<noteq> no_policy
                 then session0\<lparr>sess_ConnectionMode := ''audit'', sess_AuditPolicy := policy\<rparr>
                 else session0)))))"

text \<open>Both callers of \<open>newSession\<close> store the grant at once.\<close>

definition create_grant :: "svc \<Rightarrow> asset \<Rightarrow> access_request \<Rightarrow> session M" where
  "create_grant s a r = bindM (newSession s a r) (sessions_Create s)"

definition sessions_LockApplicantAssetPort :: "svc \<Rightarrow> string \<Rightarrow> string \<Rightarrow> int \<Rightarrow> unit M" where
  "sessions_LockApplicantAssetPort s applicant a port = query s (\<lambda>_. Inr ())"

text \<open>The check that no session of the applicant for the asset and port is active.\<close>

definition no_active_session :: "svc \<Rightarrow> string \<Rightarrow> string \<Rightarrow> int \<Rightarrow> unit M" where
  "no_active_session s applicant a port =
     bindM (tryM (sessions_FindActiveByApplicantAssetPort s applicant a port)) (\<lambda>r.
       case r of
         Inr _ \<Rightarrow> failM ErrConflict
       | Inl e \<Rightarrow> if err_Is e ErrNotFound then returnM () else failM e)"

definition canUseWebTerminal :: "string \<Rightarrow> session \<Rightarrow> access_request \<Rightarrow> int \<Rightarrow> bool" where
  "canUseWebTerminal actor session request now \<longleftrightarrow>
     actor = req_ApplicantID request \<and> req_Status request = AccessRequestApproved \<and>
     sess_Status session = SessionRunning \<and>
     (case sess_ExpiresAt session of None \<Rightarrow> False | Some e \<Rightarrow> e > now) \<and>
     sess_ConnectionMode session = ''audit'' \<and> terminal_Supported (audit_Protocol (sess_AuditPolicy session))"

subsection \<open>Authorisation is role membership\<close>

definition explicit_roles :: "svc \<Rightarrow> db \<Rightarrow> user \<Rightarrow> string list" where
  "explicit_roles s d u =
     map asg_Role (filter (\<lambda>a. asg_UserID a = user_ID u \<and> asg_RevokedAt a = None) (db_assignments d)) @
     (if configuredAdmin s u then [''admin''] else [])"

definition authorised :: "svc \<Rightarrow> db \<Rightarrow> string \<Rightarrow> permission \<Rightarrow> bool" where
  "authorised s d userID p \<longleftrightarrow>
     IsUUID userID \<and> Known p \<and> length (db_iam_roles d) \<le> 1000 \<and> length (db_iam_bindings d) \<le> 1000 \<and>
     (\<exists>u. find (\<lambda>r. user_ID r = userID) (db_users d) = Some u \<and> user_Status u = UserStatusActive \<and>
        (\<exists>r\<in>set (db_iam_roles d). p \<in> set (role_Permissions r) \<and>
           member_role (db_iam_bindings d) (user_Labels u) (explicit_roles s d u) r))"

lemma take_sort_all: "length xs \<le> n \<Longrightarrow> take (Suc n) (sort_key f xs) = sort_key f xs"
  by simp

lemma member_role_cong:
  "set b = set b' \<Longrightarrow> set e = set e' \<Longrightarrow> member_role b l e r \<longleftrightarrow> member_role b' l e' r"
  by (simp add: member_role_def)

lemma distinct_sort_names: "distinct (map f xs) \<Longrightarrow> distinct (map f (sort_key g xs))"
  by (simp add: distinct_map)

lemma length_take_limit: "\<not> 1000 < length (take 1001 (sort_key f xs)) \<longleftrightarrow> length xs \<le> 1000"
  by auto

lemma allowedRoles_members:
  "permit_spec (svc_permit s) \<Longrightarrow> allowedRoles s (filter (member_role bs l e) roles) p \<longleftrightarrow>
     Known p \<and> (\<exists>r\<in>set roles. p \<in> set (role_Permissions r) \<and> member_role bs l e r)"
  by (auto simp: allowedRoles_def list_ex_iff AllowedPermissions_iff member_role_def)

lemma map_direct_Role_grants:
  "set (map direct_Role (explicit_grants s u (sort_key f (filter (\<lambda>a. asg_UserID a = user_ID u \<and> asg_RevokedAt a = None)
     (db_assignments d))))) = set (explicit_roles s d u)"
  by (auto simp: explicit_grants_def explicit_roles_def)

lemma run_resolvedRoles:
  assumes "distinct (map role_Name (db_iam_roles (w_db w)))"
  shows "resolvedRoles s u w = (Inr roles, w') \<longleftrightarrow>
    (\<forall>k<3. \<not> svc_fault s (w_pos w + k)) \<and> w' = w\<lparr>w_pos := w_pos w + 3\<rparr> \<and>
    length (db_iam_roles (w_db w)) \<le> 1000 \<and> length (db_iam_bindings (w_db w)) \<le> 1000 \<and>
    roles = filter (member_role (db_iam_bindings (w_db w)) (user_Labels u) (explicit_roles s (w_db w) u))
              (sort_key role_Name (db_iam_roles (w_db w)))"
proof -
  let ?d = "w_db w"
  let ?roles = "sort_key role_Name (db_iam_roles ?d)"
  let ?bs = "sort_key (\<lambda>b. (binding_CreatedAt b, binding_ID b)) (db_iam_bindings ?d)"
  let ?as = "sort_key (\<lambda>a. (asg_CreatedAt a, asg_ID a))
    (filter (\<lambda>a. asg_UserID a = user_ID u \<and> asg_RevokedAt a = None) (db_assignments ?d))"
  have m: "map grant_Role (resolver_Explain (NewResolver ?roles ?bs) (user_Labels u) (explicit_grants s u ?as)) =
      filter (member_role (db_iam_bindings ?d) (user_Labels u) (explicit_roles s ?d u)) ?roles"
    unfolding Explain_members [OF distinct_sort_names [OF assms]]
    by (intro filter_cong refl member_role_cong map_direct_Role_grants) simp
  have k: "(\<forall>k<3. \<not> svc_fault s (w_pos w + k)) \<longleftrightarrow>
      \<not> svc_fault s (w_pos w) \<and> \<not> svc_fault s (Suc (w_pos w)) \<and> \<not> svc_fault s (Suc (Suc (w_pos w)))"
    by (simp add: numeral_3_eq_3 less_Suc_eq all_conj_distrib)
  show ?thesis
  proof (cases "length (db_iam_roles ?d) \<le> 1000 \<and> length (db_iam_bindings ?d) \<le> 1000")
    case True
    then show ?thesis unfolding k
      by (auto simp: resolvedRoles_def userRoleGrants_def iam_ListRoles_def iam_ListBindings_def
          roles_ListActiveByUser_def run m)
  next
    case False
    then show ?thesis
      by (auto simp: resolvedRoles_def userRoleGrants_def iam_ListRoles_def iam_ListBindings_def run)
  qed
qed

lemma run_authorizeIn:
  assumes "permit_spec (svc_permit s)" "distinct (map role_Name (db_iam_roles (w_db w)))"
  shows "authorizeIn s userID p w = (Inr x, w') \<longleftrightarrow>
    (\<forall>k<4. \<not> svc_fault s (w_pos w + k)) \<and> w' = w\<lparr>w_pos := w_pos w + 4\<rparr> \<and> authorised s (w_db w) userID p"
proof -
  have k: "(\<forall>k<4. \<not> svc_fault s (w_pos w + k)) \<longleftrightarrow>
      \<not> svc_fault s (w_pos w) \<and> (\<forall>k<3. \<not> svc_fault s (Suc (w_pos w) + k))"
    by (simp add: eval_nat_numeral less_Suc_eq all_conj_distrib)
  have "distinct (map role_Name (db_iam_roles (w_db (w\<lparr>w_pos := Suc (w_pos w)\<rparr>))))" using assms(2) by simp
  note resolved = run_resolvedRoles [OF this]
  show ?thesis unfolding k
    by (auto simp: authorizeIn_def users_GetByID_def run resolved authorised_def allowedRoles_members [OF assms(1)])
qed

text \<open>C19. \<open>Authorize\<close> succeeds exactly for an active user that holds the permission through an
  enabled role: the baseline role, a direct assignment, the bootstrap configuration, or a binding
  whose two selectors match. It reads one state of the database and changes nothing.\<close>

theorem Authorize_iff:
  assumes "permit_spec (svc_permit s)" "\<And>k. \<not> svc_fault s k"
    and "distinct (map role_Name (db_iam_roles (svc_others s (w_pos w) (w_db w))))"
  shows "(fst (Authorize s userID p w) = Inr () \<longleftrightarrow> authorised s (svc_others s (w_pos w) (w_db w)) userID p) \<and>
    (authorised s (svc_others s (w_pos w) (w_db w)) userID p \<longrightarrow>
       w_db (snd (Authorize s userID p w)) = svc_others s (w_pos w) (w_db w))"
proof -
  let ?d = "svc_others s (w_pos w) (w_db w)"
  have "distinct (map role_Name (db_iam_roles (w_db ((tx_start s w)\<lparr>w_pos := Suc (Suc (w_pos w))\<rparr>))))"
    using assms(3) by simp
  note auth = run_authorizeIn [OF assms(1) this]
  have *: "Authorize s userID p w = (Inr (), w') \<longleftrightarrow>
      authorised s ?d userID p \<and> w' = (tx_start s w)\<lparr>w_pos := w_pos w + 7\<rparr>" for w'
    by (auto simp: Authorize_def readIAM_def iam_Lock_def run assms(2) auth authorised_def)
  show ?thesis
  proof (cases "authorised s ?d userID p")
    case True
    then have "Authorize s userID p w = (Inr (), (tx_start s w)\<lparr>w_pos := w_pos w + 7\<rparr>)" using * by blast
    then show ?thesis using True by simp
  next
    case False
    then show ?thesis using * [of "snd (Authorize s userID p w)"] by (metis prod.collapse)
  qed
qed

subsection \<open>Reading service code\<close>

context db_relation
begin

lemma resp_authorisation [frame]:
  "keeps R (iam_Lock s shared)"
  "keeps R (userRoleGrants s u)"
  unfolding iam_Lock_def userRoleGrants_def by (intro frame)+

lemma resp_resolvedRoles [frame]: "keeps R (resolvedRoles s u)"
  unfolding resolvedRoles_def by (intro frame)

lemma resp_authorizeIn [frame]: "keeps R (authorizeIn s i p)"
  unfolding authorizeIn_def by (intro frame)

lemma resp_readIAM [frame]: "others_keep R s \<Longrightarrow> keeps R m \<Longrightarrow> keeps R (readIAM s m)"
  unfolding readIAM_def by (intro frame)

lemma resp_Authorize [frame]: "others_keep R s \<Longrightarrow> keeps R (Authorize s i p)"
  unfolding Authorize_def by (intro frame)

lemma resp_EffectivePermissions [frame]: "others_keep R s \<Longrightarrow> keeps R (EffectivePermissions s i)"
  unfolding EffectivePermissions_def by (intro frame)

lemma resp_effectiveRoles [frame]: "others_keep R s \<Longrightarrow> keeps R (effectiveRoles s i)"
  unfolding effectiveRoles_def by (intro frame)

lemma resp_isAdminUser [frame]: "others_keep R s \<Longrightarrow> keeps R (isAdminUser s i)"
  unfolding isAdminUser_def by (intro frame)

lemma resp_requireActiveUser [frame]: "others_keep R s \<Longrightarrow> keeps R (requireActiveUser s i)"
  unfolding requireActiveUser_def by (intro frame)

lemma resp_loadSessionAudit [frame]: "keeps R (loadSessionAudit s i)"
  unfolding loadSessionAudit_def by (intro frame)

lemma resp_sessionAuditPolicy [frame]: "keeps R (sessionAuditPolicy s a r)"
  unfolding sessionAuditPolicy_def by (intro frame)

lemma resp_clientAccessEnabledIn [frame]: "keeps R (clientAccessEnabledIn s)"
  unfolding clientAccessEnabledIn_def by (intro frame)

lemma resp_newNativeSession [frame]: "keeps R (newNativeSession s a r)"
  unfolding newNativeSession_def by (intro frame)

lemma resp_newSession [frame]: "keeps R (newSession s a r)"
  unfolding newSession_def by (intro frame)

lemma resp_no_active_session [frame]:
  "keeps R (sessions_LockApplicantAssetPort s i a n)" "keeps R (no_active_session s i a n)"
  unfolding sessions_LockApplicantAssetPort_def no_active_session_def by (intro frame)+

end

end
