(* ===== verification/Steps.thy ===== *)
theory Steps
  imports Service
begin

text \<open>
  The step relation of the control plane database: \<open>db_step\<close> has one rule per statement of the
  repositories that writes a table of the access lifecycle (requests, approvals, sessions, session
  events, audit events, outbox), and one rule for statements on the other tables. Every handler
  moves the database along \<open>db_steps\<close>, provided the other workers do. What holds of each step holds
  of every interleaving of handlers.
\<close>

definition lifecycle :: "db \<Rightarrow> access_request list \<times> approval list \<times> session list \<times> session_event list \<times>
    audit_event list \<times> outbox_event list" where
  "lifecycle d = (db_requests d, db_approvals d, db_sessions d, db_session_events d, db_audit_events d, db_outbox d)"

definition fresh_session :: "session \<Rightarrow> bool" where
  "fresh_session v \<longleftrightarrow> sess_Status v = SessionProvisioning \<and> sess_Version v = 0"

text \<open>A request asks for at most five hours, on a TCP port.\<close>

definition bounded_request :: "access_request \<Rightarrow> bool" where
  "bounded_request v \<longleftrightarrow> 1 \<le> req_TTLSeconds v \<and> req_TTLSeconds v \<le> 5 * 3600 \<and>
     1 \<le> req_TargetPort v \<and> req_TargetPort v \<le> 65535"

definition fresh_request :: "access_request \<Rightarrow> bool" where
  "fresh_request v \<longleftrightarrow> req_Status v \<in> {AccessRequestPendingApproval, AccessRequestApproved} \<and> bounded_request v"

definition request_decision :: "request_status \<Rightarrow> request_status \<Rightarrow> bool" where
  "request_decision from to \<longleftrightarrow> from = AccessRequestPendingApproval \<and>
     to \<in> {AccessRequestApproved, AccessRequestRejected, AccessRequestApprovalExpired}"

text \<open>A grant needs an approved request; a request that had to be approved needs a complete chain of
  approvals with an approving vote; and the applicant has no other active session on the port.\<close>

definition approved_chain :: "db \<Rightarrow> access_request \<Rightarrow> bool" where
  "approved_chain d q \<longleftrightarrow> (req_ApprovalMode q = ''required'' \<longrightarrow>
     snd (nextApprovalLevel (request_approvals d (req_ID q))) \<and> (\<exists>a\<in>set (request_approvals d (req_ID q)). is_approved a))"

definition grantable :: "db \<Rightarrow> access_request \<Rightarrow> session \<Rightarrow> bool" where
  "grantable d q v \<longleftrightarrow> q \<in> set (db_requests d) \<and> req_ID q = sess_RequestID v \<and>
     req_Status q = AccessRequestApproved \<and> approved_chain d q \<and>
     active_sessions d (req_ApplicantID q) (req_AssetID q) (req_TargetPort q) = []"

text \<open>Somebody other than the applicant is asked, while the request is pending.\<close>

definition askable :: "db \<Rightarrow> approval \<Rightarrow> bool" where
  "askable d x \<longleftrightarrow> (\<exists>q\<in>set (db_requests d). req_ID q = appr_RequestID x \<and>
     req_Status q = AccessRequestPendingApproval \<and> req_ApplicantID q \<noteq> appr_ApproverID x)"

text \<open>A session may start while its request is approved, its applicant, asset, port, gateway and binding
  are in service, and within the time to live and the expiry that were approved. The identifier is
  the primary key of the table.\<close>

definition in_service :: "db \<Rightarrow> access_request \<Rightarrow> string \<Rightarrow> bool" where
  "in_service d q g \<longleftrightarrow>
     (\<exists>u\<in>set (db_users d). user_ID u = req_ApplicantID q \<and> user_Status u = UserStatusActive) \<and>
     (\<exists>a\<in>set (db_assets d). asset_ID a = req_AssetID q \<and> asset_DeletedAt a = None \<and>
        asset_Status a = ResourceStatusEnabled) \<and>
     (\<exists>c\<in>set (db_gateways d). gateway_ID c = g \<and> gateway_Status c = ResourceStatusEnabled) \<and>
     (\<exists>b\<in>set (db_asset_gateways d). agb_AssetID b = req_AssetID q \<and> agb_GatewayID b = g \<and> agb_Enabled b) \<and>
     (\<exists>p\<in>set (db_ports d). port_AssetID p = req_AssetID q \<and> port_Port p = req_TargetPort q \<and>
        port_Protocol p = ''tcp'' \<and> port_Enabled p)"

definition safe_start :: "db \<Rightarrow> session \<Rightarrow> int \<Rightarrow> int \<Rightarrow> bool" where
  "safe_start d r started expires \<longleftrightarrow> (\<exists>q\<in>set (db_requests d). req_ID q = sess_RequestID r \<and>
     req_Status q = AccessRequestApproved \<and> started < expires \<and> expires \<le> started + req_TTLSeconds q * second \<and>
     expires \<le> approvedSessionExpiry r q \<and> in_service d q (sess_GatewayID r))"

definition startable :: "db \<Rightarrow> string \<Rightarrow> int \<Rightarrow> int \<Rightarrow> int \<Rightarrow> bool" where
  "startable d i n started expires \<longleftrightarrow> (distinct (map sess_ID (db_sessions d)) \<longrightarrow>
     (\<forall>r\<in>set (db_sessions d). provisioning_at i n r \<longrightarrow> safe_start d r started expires))"

inductive db_step :: "db \<Rightarrow> db \<Rightarrow> bool" where
  config: "lifecycle d' = lifecycle d \<Longrightarrow> db_step d d'"
| session_create: "fresh_session v \<Longrightarrow> grantable d q v \<Longrightarrow> db_step d (snd (sess_Create v now d))"
| session_claim_on: "db_step d (snd (sess_ClaimOnGateway i v stale g a after now d))"
| session_renew: "db_step d (snd (sess_Renew i v now d))"
| session_direct: "startable d i v started expires \<Longrightarrow>
    db_step d (snd (sess_MarkDirectRunning i v resp started expires now d))"
| session_failed: "db_step d (snd (sess_MarkProvisionFailed i v reason now d))"
| session_provision_revoke: "db_step d (snd (sess_MarkProvisionRevokeFailed i v reason now d))"
| session_revoke: "db_step d (snd (sess_BeginRevoke i now d))"
| session_closed: "st \<in> {SessionClosed, SessionExpired} \<Longrightarrow> db_step d (snd (sess_MarkClosed i st now d))"
| session_revoke_failed: "db_step d (snd (sess_MarkRevokeFailed i reason now d))"
| session_manual: "db_step d (snd (sess_MarkManualIntervention i reason now d))"
| request_create: "fresh_request q \<Longrightarrow> db_step d (snd (reqs_Create q now d))"
| request_transition: "request_decision from to \<Longrightarrow> db_step d (snd (reqs_Transition i from to now d))"
| request_cancel: "db_step d (snd (reqs_Cancel i now d))"
| approval_create: "askable d x \<Longrightarrow> db_step d (snd (apprs_Create x now d))"
| approval_decide: "db_step d (snd (apprs_Decide i approver dec comment now d))"
| session_event: "db_step d (snd (sevs_Append ev now d))"
| audit_event: "db_step d (snd (auds_Append au now d))"
| outbox_create: "outbox_Status e = OutboxPending \<Longrightarrow> db_step d (snd (outs_Create e now d))"
| outbox_create_if: "outbox_Status e = OutboxPending \<Longrightarrow> db_step d (snd (outs_CreateIfNoActive e now d))"
| outbox_claim: "db_step d (snd (outs_ClaimPending limit lease now d))"
| outbox_processed: "db_step d (snd (outs_MarkProcessed i now d))"
| outbox_reschedule: "db_step d (snd (outs_Reschedule i t terminal now d))"

abbreviation db_steps :: "db \<Rightarrow> db \<Rightarrow> bool" where
  "db_steps \<equiv> db_step\<^sup>*\<^sup>*"

text \<open>The other workers run the same statements.\<close>

abbreviation peers :: "svc \<Rightarrow> bool" where
  "peers s \<equiv> others_keep db_steps s"

interpretation steps: db_relation db_steps
  by unfold_locales simp_all

lemma keeps_step: "(\<And>now d. db_step d (snd (f now d))) \<Longrightarrow> keeps db_steps (stmt s f)"
  by (rule keeps_stmt) (simp_all add: r_into_rtranclp)

lemma keeps_config: "(\<And>now d. lifecycle (snd (f now d)) = lifecycle d) \<Longrightarrow> keeps db_steps (stmt s f)"
  by (rule keeps_step) (rule db_step.config)

subsection \<open>Repositories\<close>

lemma keeps_session_writes [frame]:
  "keeps db_steps (sessions_ClaimProvisioningOnGateway s i n stale g a after)"
  "keeps db_steps (sessions_RenewProvisioningLease s i n)"
  "keeps db_steps (sessions_MarkProvisionFailed s i n reason)"
  "keeps db_steps (sessions_MarkProvisionRevokeFailed s i n reason)"
  "keeps db_steps (sessions_BeginRevoke s i)"
  "keeps db_steps (sessions_MarkClosed s i st)"
  "keeps db_steps (sessions_MarkRevokeFailed s i reason)"
  "keeps db_steps (sessions_MarkManualIntervention s i reason)"
  unfolding sessions_ClaimProvisioningOnGateway_def sessions_RenewProvisioningLease_def
    sessions_MarkProvisionFailed_def sessions_MarkProvisionRevokeFailed_def sessions_BeginRevoke_def
    sessions_MarkClosed_def sessions_MarkRevokeFailed_def sessions_MarkManualIntervention_def
  by (intro frame keeps_step db_step.intros; simp)+

lemma keeps_other_writes [frame]:
  "fresh_request q \<Longrightarrow> keeps db_steps (requests_Create s q)"
  "request_decision from to \<Longrightarrow> keeps db_steps (requests_TransitionStatus s i from to)"
  "keeps db_steps (requests_Cancel s i)"
  "keeps db_steps (approvals_Decide s i approver dec comment)"
  "keeps db_steps (sessionEvents_Append s ev)"
  "keeps db_steps (audits_Append s au)"
  "outbox_Status e = OutboxPending \<Longrightarrow> keeps db_steps (outbox_Create s e)"
  "outbox_Status e = OutboxPending \<Longrightarrow> keeps db_steps (outbox_CreateIfNoActive s e)"
  "keeps db_steps (outbox_ClaimPending s limit lease)"
  "keeps db_steps (outbox_MarkProcessed s i)"
  "keeps db_steps (outbox_Reschedule s i t terminal)"
  unfolding requests_Create_def requests_TransitionStatus_def requests_Cancel_def
    approvals_Decide_def sessionEvents_Append_def audits_Append_def outbox_Create_def
    outbox_CreateIfNoActive_def outbox_ClaimPending_def outbox_MarkProcessed_def outbox_Reschedule_def
  by (intro frame keeps_step db_step.intros; simp)+

lemma keeps_config_writes [frame]:
  "keeps db_steps (notifications_Append s n)" "keeps db_steps (tokenDeliveries_Delete s i)"
  "keeps db_steps (tokenDeliveries_DeleteExpired s t k)" "keeps db_steps (gateways_RecordHeartbeat s i)"
  "keeps db_steps (gateways_RecordHealth s i m)"
  unfolding notifications_Append_def tokenDeliveries_Delete_def tokenDeliveries_DeleteExpired_def
    gateways_RecordHeartbeat_def gateways_RecordHealth_def notes_Append_def tokens_Delete_def
    tokens_DeleteExpired_def gws_RecordHeartbeat_def gws_RecordHealth_def
  by (intro frame keeps_config; simp add: lifecycle_def Let_def)+

subsection \<open>Shared service code\<close>

lemma keeps_appendAudit [frame]: "keeps db_steps (appendAudit s v)"
  unfolding appendAudit_def by (intro frame)

lemma keeps_append_notices [frame]: "keeps db_steps (append_notices s t r v)"
  unfolding append_notices_def requestNotifications_def by (intro frame)

lemma keeps_appendInAppNotifications [frame]: "keeps db_steps (appendInAppNotifications s t i)"
  unfolding appendInAppNotifications_def by (intro frame)

lemma keeps_appendOutboxAt [frame]: "keeps db_steps (appendOutboxAt s k i t p nb)"
  unfolding appendOutboxAt_def by (intro frame) (simp add: outbox_command_def)

lemma keeps_appendOutbox [frame]: "keeps db_steps (appendOutbox s k i t p)"
  unfolding appendOutbox_def by (intro frame)

lemma keeps_append_session_event [frame]: "keeps db_steps (append_session_event s i t k x m)"
  unfolding append_session_event_def by (intro frame)

lemma keeps_discardSessionToken [frame]: "peers s \<Longrightarrow> keeps db_steps (discardSessionToken s i)"
  unfolding discardSessionToken_def by (intro frame)

lemma keeps_queue_session_command [frame]: "keeps db_steps (queue_session_command s i t p)"
  unfolding queue_session_command_def by (intro frame) (simp add: outbox_command_def)

text \<open>A grant is new, carries the identifier of its request, and expires at most the approved time
  to live after the clock reading it was made with.\<close>

lemma yields_newNativeSession:
  "yields (\<lambda>v. fresh_session v \<and> sess_RequestID v = req_ID r \<and> sess_ExpiresAt v \<noteq> None) (newNativeSession s a r)"
  unfolding newNativeSession_def
  by (intro yield yields_bind yields_return) (simp add: fresh_session_def zero_session_def)

lemma yields_newSession:
  "yields (\<lambda>v. fresh_session v \<and> sess_RequestID v = req_ID r \<and> sess_ExpiresAt v \<noteq> None) (newSession s a r)"
  unfolding newSession_def
  by (rule yields_bind_post [OF yields_newNativeSession], intro yield yields_bind yields_return)
     (simp add: fresh_session_def)

text \<open>Code that only reads and observes leaves the tables as they are.\<close>

interpretation same: db_relation "(=)"
  by unfold_locales simp_all

lemma run_no_active_session:
  "no_active_session s i a p w = (Inr u, w') \<Longrightarrow> active_sessions (w_db w) i a p = [] \<and> w_db w' = w_db w"
  by (auto simp: no_active_session_def sessions_FindActiveByApplicantAssetPort_def query_def stmt_def tryM_def bindM_def
      find_row_def returnM_def failM_def find_None_iff Let_def
      split: prod.splits sum.splits if_splits option.splits)

text \<open>Storing the grant of an approved request is a step. A second session of the request is refused
  by the unique key, so it is enough that every active session on the port belongs to the request.\<close>

lemma create_grant_steps:
  assumes cg: "create_grant s a r w = (Inr v, w')"
    and q: "q \<in> set (db_requests (w_db w))" "req_ID q = req_ID r" "req_Status q = AccessRequestApproved"
      "approved_chain (w_db w) q"
    and active: "\<And>x. x \<in> set (active_sessions (w_db w) (req_ApplicantID q) (req_AssetID q) (req_TargetPort q)) \<Longrightarrow>
      sess_RequestID x = req_ID q"
  shows "db_steps (w_db w) (w_db w')"
proof -
  from cg obtain v0 w1 where new: "newSession s a r w = (Inr v0, w1)"
    and cr: "fst (sess_Create v0 (w_now w1) (w_db w1)) = Inr v" "w_db w' = snd (sess_Create v0 (w_now w1) (w_db w1))"
    by (auto simp: create_grant_def sessions_Create_def run elim!: that)
  have d: "w_db w1 = w_db w" using keepsD [OF same.resp_newSession new] by simp
  have v0: "fresh_session v0" "sess_RequestID v0 = req_ID q"
    using yields_newSession [of r s a] new q(2) unfolding yields_def by (auto dest!: spec [of _ w])
  have "sess_RequestID x \<noteq> req_ID q" if "x \<in> set (db_sessions (w_db w))" for x
    using cr(1) that v0(2) by (auto simp: sess_Create_def Let_def d list_ex_iff split: if_splits)
  then have "active_sessions (w_db w) (req_ApplicantID q) (req_AssetID q) (req_TargetPort q) = []"
    using active by (auto simp: active_sessions_def filter_empty_conv)
  then have "grantable (w_db w) q v0" using q v0(2) by (simp add: grantable_def)
  then show ?thesis unfolding cr(2) d by (intro r_into_rtranclp db_step.session_create v0(1))
qed

subsection \<open>Footprints\<close>

datatype table = TRequests | TApprovals | TSessions | TSessionEvents | TAudit | TOutbox

text \<open>At most the tables in \<open>T\<close> change, of those of the lifecycle.\<close>

definition changes_only :: "table set \<Rightarrow> db \<Rightarrow> db \<Rightarrow> bool" where
  "changes_only T d d' \<longleftrightarrow>
     (TRequests \<notin> T \<longrightarrow> db_requests d' = db_requests d) \<and>
     (TApprovals \<notin> T \<longrightarrow> db_approvals d' = db_approvals d) \<and>
     (TSessions \<notin> T \<longrightarrow> db_sessions d' = db_sessions d) \<and>
     (TSessionEvents \<notin> T \<longrightarrow> db_session_events d' = db_session_events d) \<and>
     (TAudit \<notin> T \<longrightarrow> db_audit_events d' = db_audit_events d) \<and>
     (TOutbox \<notin> T \<longrightarrow> db_outbox d' = db_outbox d)"

interpretation only: db_relation "changes_only T" for T
  by unfold_locales (simp_all add: changes_only_def)

lemma only_stmt: "(\<And>now d. changes_only T d (snd (f now d))) \<Longrightarrow> keeps (changes_only T) (stmt s f)"
  by (rule keeps_stmt) (rule only.R_refl)

lemmas session_stmts = sess_Create_def sess_ClaimOnGateway_def sess_Renew_def
  sess_MarkDirectRunning_def sess_MarkProvisionFailed_def sess_MarkProvisionRevokeFailed_def
  sess_BeginRevoke_def sess_MarkClosed_def sess_MarkRevokeFailed_def
  sess_MarkManualIntervention_def update_sessions_def

lemma only_session_writes [frame]:
  assumes "TSessions \<in> T"
  shows "keeps (changes_only T) (sessions_Create s v)"
    "keeps (changes_only T) (sessions_ClaimProvisioningOnGateway s i n stale g a after)"
    "keeps (changes_only T) (sessions_RenewProvisioningLease s i n)"
    "keeps (changes_only T) (sessions_MarkDirectRunning s i n resp started expires)"
    "keeps (changes_only T) (sessions_MarkProvisionFailed s i n reason)"
    "keeps (changes_only T) (sessions_MarkProvisionRevokeFailed s i n reason)"
    "keeps (changes_only T) (sessions_BeginRevoke s i)"
    "keeps (changes_only T) (sessions_MarkClosed s i st)"
    "keeps (changes_only T) (sessions_MarkRevokeFailed s i reason)"
    "keeps (changes_only T) (sessions_MarkManualIntervention s i reason)"
  unfolding sessions_Create_def sessions_ClaimProvisioningOnGateway_def 
    sessions_RenewProvisioningLease_def sessions_MarkDirectRunning_def
    sessions_MarkProvisionFailed_def sessions_MarkProvisionRevokeFailed_def
    sessions_BeginRevoke_def sessions_MarkClosed_def
    sessions_MarkRevokeFailed_def sessions_MarkManualIntervention_def
  by (intro frame only_stmt; simp add: assms changes_only_def session_stmts Let_def)+

lemma only_request_writes [frame]:
  assumes "TRequests \<in> T"
  shows "keeps (changes_only T) (requests_Create s q)"
    "keeps (changes_only T) (requests_TransitionStatus s i from to)"
    "keeps (changes_only T) (requests_Cancel s i)"
  unfolding requests_Create_def requests_TransitionStatus_def requests_Cancel_def
  by (intro frame only_stmt; simp add: assms changes_only_def reqs_Create_def reqs_Transition_def reqs_Cancel_def
      update_requests_def Let_def)+

lemma only_approval_writes [frame]:
  assumes "TApprovals \<in> T"
  shows "keeps (changes_only T) (approvals_Create s x)"
    "keeps (changes_only T) (approvals_Decide s i approver dec comment)"
  unfolding approvals_Create_def approvals_Decide_def
  by (intro frame only_stmt; simp add: assms changes_only_def apprs_Create_def apprs_Decide_def Let_def)+

lemma only_outbox_writes [frame]:
  assumes "TOutbox \<in> T"
  shows "keeps (changes_only T) (outbox_Create s e)" "keeps (changes_only T) (outbox_CreateIfNoActive s e)"
    "keeps (changes_only T) (outbox_ClaimPending s limit lease)" "keeps (changes_only T) (outbox_MarkProcessed s i)"
    "keeps (changes_only T) (outbox_Reschedule s i t terminal)"
  unfolding outbox_Create_def outbox_CreateIfNoActive_def outbox_ClaimPending_def outbox_MarkProcessed_def
    outbox_Reschedule_def
  by (intro frame only_stmt; simp add: assms changes_only_def outs_Create_def outs_CreateIfNoActive_def
      outs_ClaimPending_def outs_MarkProcessed_def outs_Reschedule_def update_outbox_def Let_def
      split: prod.split sum.split)+

lemma only_event_writes [frame]:
  "TSessionEvents \<in> T \<Longrightarrow> keeps (changes_only T) (sessionEvents_Append s ev)"
  "TAudit \<in> T \<Longrightarrow> keeps (changes_only T) (audits_Append s au)"
  unfolding sessionEvents_Append_def audits_Append_def
  by (intro only_stmt; simp add: changes_only_def sevs_Append_def auds_Append_def)+

lemma only_config_writes [frame]:
  "keeps (changes_only T) (notifications_Append s n)" "keeps (changes_only T) (tokenDeliveries_Delete s i)"
  "keeps (changes_only T) (tokenDeliveries_DeleteExpired s t k)" "keeps (changes_only T) (gateways_RecordHeartbeat s i)"
  "keeps (changes_only T) (gateways_RecordHealth s i m)"
  unfolding notifications_Append_def tokenDeliveries_Delete_def tokenDeliveries_DeleteExpired_def
    gateways_RecordHeartbeat_def gateways_RecordHealth_def notes_Append_def tokens_Delete_def
    tokens_DeleteExpired_def gws_RecordHeartbeat_def gws_RecordHealth_def
  by (intro frame only_stmt; simp add: changes_only_def Let_def)+

lemma only_appendAudit [frame]: "TAudit \<in> T \<Longrightarrow> keeps (changes_only T) (appendAudit s v)"
  unfolding appendAudit_def by (intro frame)

lemma only_append_notices [frame]: "keeps (changes_only T) (append_notices s t r v)"
  unfolding append_notices_def requestNotifications_def by (intro frame)

lemma only_appendInAppNotifications [frame]: "keeps (changes_only T) (appendInAppNotifications s t i)"
  unfolding appendInAppNotifications_def by (intro frame)

lemma only_appendOutboxAt [frame]: "TOutbox \<in> T \<Longrightarrow> keeps (changes_only T) (appendOutboxAt s k i t p nb)"
  unfolding appendOutboxAt_def by (intro frame)

lemma only_appendOutbox [frame]: "TOutbox \<in> T \<Longrightarrow> keeps (changes_only T) (appendOutbox s k i t p)"
  unfolding appendOutbox_def by (intro frame)

lemma only_append_session_event [frame]:
  "TSessionEvents \<in> T \<Longrightarrow> keeps (changes_only T) (append_session_event s i t k x m)"
  unfolding append_session_event_def by (intro frame)

lemma only_queue_session_command [frame]: "TOutbox \<in> T \<Longrightarrow> keeps (changes_only T) (queue_session_command s i t p)"
  unfolding queue_session_command_def by (intro frame)

lemma only_create_grant [frame]: "TSessions \<in> T \<Longrightarrow> keeps (changes_only T) (create_grant s a r)"
  unfolding create_grant_def by (intro frame)

end
