(* ===== verification/Lifecycle.thy ===== *)
theory Lifecycle
  imports Steps
begin

text \<open>
  What every sequence of steps of the control plane database guarantees, for every interleaving of
  handlers and workers: the state machines of sessions, requests, approvals and outbox commands,
  the append-only logs, and the uniqueness of keys. Each table only grows, and a row that is there
  changes only along its state machine.
\<close>

subsection \<open>Tables that grow\<close>

definition grows :: "('a \<Rightarrow> 'a \<Rightarrow> bool) \<Rightarrow> 'a list \<Rightarrow> 'a list \<Rightarrow> bool" where
  "grows R xs ys \<longleftrightarrow> (\<exists>zs us. ys = zs @ us \<and> list_all2 R xs zs)"

lemma grows_refl: "(\<And>x. R x x) \<Longrightarrow> grows R xs xs"
  unfolding grows_def by (rule exI [of _ xs], rule exI [of _ "[]"]) (simp add: list.rel_refl)

lemma grows_append: "(\<And>x. R x x) \<Longrightarrow> grows R xs (xs @ us)"
  unfolding grows_def by (rule exI [of _ xs], rule exI [of _ us]) (simp add: list.rel_refl)

lemma grows_map: "(\<And>x. x \<in> set xs \<Longrightarrow> R x (f x)) \<Longrightarrow> grows R xs (map f xs)"
  unfolding grows_def
  by (rule exI [of _ "map f xs"], rule exI [of _ "[]"]) (simp add: list_all2_conv_all_nth)

lemma grows_update_where:
  "(\<And>x. R x x) \<Longrightarrow> (\<And>x. p x \<Longrightarrow> R x (f x)) \<Longrightarrow> grows R xs (update_where p f xs)"
  unfolding update_where_def by (rule grows_map) simp

lemma grows_trans:
  assumes "\<And>x y z. R x y \<Longrightarrow> R y z \<Longrightarrow> R x z" "grows R xs ys" "grows R ys zs"
  shows "grows R xs zs"
proof -
  obtain a b where ys: "ys = a @ b" and 1: "list_all2 R xs a" using assms(2) unfolding grows_def by blast
  obtain c e where zs: "zs = c @ e" and 2: "list_all2 R ys c" using assms(3) unfolding grows_def by blast
  obtain c1 c2 where c: "c = c1 @ c2" and 3: "list_all2 R a c1"
    using 2 unfolding ys by (auto simp: list_all2_append1)
  have "list_all2 R xs c1" by (rule list_all2_trans [OF assms(1) 1 3])
  then show ?thesis unfolding grows_def zs c by auto
qed

lemma grows_nth:
  assumes "grows R xs ys" "j < length xs"
  shows "j < length ys \<and> R (xs ! j) (ys ! j)"
proof -
  obtain zs us where "ys = zs @ us" and 1: "list_all2 R xs zs" using assms(1) unfolding grows_def by blast
  moreover have "j < length zs" using 1 assms(2) by (simp add: list_all2_lengthD)
  ultimately show ?thesis using list_all2_nthD [OF 1 assms(2)] by (simp add: nth_append)
qed

lemma grows_mono: "grows R xs ys \<Longrightarrow> (\<And>x y. R x y \<Longrightarrow> Q x y) \<Longrightarrow> grows Q xs ys"
  unfolding grows_def by (blast intro: list_all2_mono)

lemma grows_eq_prefix: "grows (=) xs ys \<longleftrightarrow> (\<exists>us. ys = xs @ us)"
  by (auto simp: grows_def list.rel_eq)

subsection \<open>State machines of the rows\<close>

text \<open>Sessions. A claim keeps the status and takes a version; a renewal keeps both.\<close>

fun session_edge :: "session_status \<Rightarrow> session_status \<Rightarrow> bool" where
  "session_edge SessionProvisioning st = (st \<in> {SessionProvisioning, SessionRunning, SessionFailed, SessionRevokeFailed})"
| "session_edge SessionRunning st = (st = SessionRevoking)"
| "session_edge SessionRevoking st = (st \<in> {SessionClosed, SessionExpired, SessionRevokeFailed, SessionManualIntervention})"
| "session_edge SessionRevokeFailed st = (st \<in> {SessionRevoking, SessionManualIntervention})"
| "session_edge SessionManualIntervention st = (st = SessionRevoking)"
| "session_edge SessionClosed st = False"
| "session_edge SessionExpired st = False"
| "session_edge SessionFailed st = False"

definition session_identity :: "session \<Rightarrow> string \<times> string \<times> audit_policy \<times> string \<times> int" where
  "session_identity r = (sess_ID r, sess_RequestID r, sess_AuditPolicy r, sess_ConnectionMode r, sess_CreatedAt r)"

definition session_update :: "session \<Rightarrow> session \<Rightarrow> bool" where
  "session_update r r' \<longleftrightarrow> session_identity r' = session_identity r \<and>
     (sess_Status r = SessionProvisioning \<and> (\<exists>t. r' = r\<lparr>sess_UpdatedAt := t\<rparr>) \<or>
      session_edge (sess_Status r) (sess_Status r') \<and> sess_Version r' = sess_Version r + 1 \<and>
      (sess_ExpiresAt r' \<noteq> sess_ExpiresAt r \<longrightarrow> sess_Status r = SessionProvisioning \<and> sess_Status r' = SessionRunning) \<and>
      (sess_GatewayID r' \<noteq> sess_GatewayID r \<longrightarrow> sess_Status r' = SessionProvisioning))"

text \<open>Requests, approvals and outbox commands.\<close>

fun request_edge :: "request_status \<Rightarrow> request_status \<Rightarrow> bool" where
  "request_edge AccessRequestPendingApproval st = (st \<noteq> AccessRequestPendingApproval)"
| "request_edge AccessRequestApproved st = (st = AccessRequestCancelled)"
| "request_edge _ st = False"

definition request_update :: "access_request \<Rightarrow> access_request \<Rightarrow> bool" where
  "request_update r r' \<longleftrightarrow>
     (\<exists>st t. r' = r\<lparr>req_Status := st, req_UpdatedAt := t\<rparr> \<and> request_edge (req_Status r) st)"

definition approval_update :: "approval \<Rightarrow> approval \<Rightarrow> bool" where
  "approval_update a a' \<longleftrightarrow> appr_Decision a = None \<and>
     (\<exists>dec c t. a' = a\<lparr>appr_Decision := Some dec, appr_Comment := c, appr_DecidedAt := Some t\<rparr>)"

fun outbox_edge :: "outbox_status \<Rightarrow> outbox_status \<Rightarrow> bool" where
  "outbox_edge OutboxPending st = (st = OutboxProcessing)"
| "outbox_edge OutboxProcessing st = True"
| "outbox_edge OutboxProcessed st = (st = OutboxProcessed)"
| "outbox_edge OutboxFailed st = False"

definition outbox_identity :: "outbox_event \<Rightarrow> string \<times> string \<times> string \<times> outbox_type \<times> metadata \<times> int" where
  "outbox_identity e = (outbox_ID e, outbox_AggregateType e, outbox_AggregateID e, outbox_EventType e,
     outbox_Payload e, outbox_CreatedAt e)"

definition outbox_update :: "outbox_event \<Rightarrow> outbox_event \<Rightarrow> bool" where
  "outbox_update e e' \<longleftrightarrow> outbox_identity e' = outbox_identity e \<and>
     outbox_edge (outbox_Status e) (outbox_Status e') \<and> outbox_RetryCount e \<le> outbox_RetryCount e'"

definition evolves :: "db \<Rightarrow> db \<Rightarrow> bool" where
  "evolves d d' \<longleftrightarrow>
     grows session_update\<^sup>*\<^sup>* (db_sessions d) (db_sessions d') \<and>
     grows request_update\<^sup>*\<^sup>* (db_requests d) (db_requests d') \<and>
     grows approval_update\<^sup>*\<^sup>* (db_approvals d) (db_approvals d') \<and>
     grows outbox_update\<^sup>*\<^sup>* (db_outbox d) (db_outbox d') \<and>
     grows (=) (db_session_events d) (db_session_events d') \<and>
     grows (=) (db_audit_events d) (db_audit_events d')"

interpretation evolution: db_relation evolves
proof
  show "evolves d d" for d by (simp add: evolves_def grows_refl)
  show "evolves d d''" if "evolves d d'" "evolves d' d''" for d d' d''
    using that unfolding evolves_def
    by (auto elim: grows_trans [rotated -1] rtranclp_trans)
qed

subsection \<open>One step\<close>

lemma evolves_config: "lifecycle d' = lifecycle d \<Longrightarrow> evolves d d'"
  by (simp add: evolves_def lifecycle_def grows_refl)

lemma evolves_sessions:
  "grows session_update\<^sup>*\<^sup>* (db_sessions d) ss \<Longrightarrow> evolves d (d\<lparr>db_sessions := ss\<rparr>)"
  by (simp add: evolves_def grows_refl)

lemma evolves_update_sessions:
  "(\<And>r. p r \<Longrightarrow> session_update r (f r)) \<Longrightarrow> evolves d (snd (update_sessions p f d))"
  unfolding update_sessions_def by (auto intro!: evolves_sessions grows_update_where)

lemma evolves_update_requests:
  "(\<And>r. p r \<Longrightarrow> request_update r (f r)) \<Longrightarrow> evolves d (snd (update_requests p f d))"
  unfolding update_requests_def evolves_def by (auto intro!: grows_refl grows_update_where)

lemma evolves_update_outbox:
  "(\<And>e. p e \<Longrightarrow> outbox_update e (f e)) \<Longrightarrow> evolves d (snd (update_outbox p f d))"
  unfolding update_outbox_def evolves_def by (auto intro!: grows_refl grows_update_where)

lemma session_updateI:
  "session_identity r' = session_identity r \<Longrightarrow> session_edge (sess_Status r) (sess_Status r') \<Longrightarrow>
   sess_Version r' = sess_Version r + 1 \<Longrightarrow>
   (sess_ExpiresAt r' \<noteq> sess_ExpiresAt r \<longrightarrow> sess_Status r = SessionProvisioning \<and> sess_Status r' = SessionRunning) \<Longrightarrow>
   (sess_GatewayID r' \<noteq> sess_GatewayID r \<longrightarrow> sess_Status r' = SessionProvisioning) \<Longrightarrow> session_update r r'"
  by (simp add: session_update_def)

lemmas session_rows = sess_ClaimOnGateway_def sess_MarkDirectRunning_def
  sess_MarkProvisionFailed_def sess_MarkProvisionRevokeFailed_def
  sess_BeginRevoke_def sess_MarkClosed_def sess_MarkRevokeFailed_def sess_MarkManualIntervention_def

lemma evolves_session_stmts:
  "evolves d (snd (sess_ClaimOnGateway i v stale g a after now d))"
  "evolves d (snd (sess_MarkDirectRunning i v resp started expires now d))"
  "evolves d (snd (sess_MarkProvisionFailed i v reason now d))"
  "evolves d (snd (sess_MarkProvisionRevokeFailed i v reason now d))"
  "evolves d (snd (sess_BeginRevoke i now d))"
  "evolves d (snd (sess_MarkRevokeFailed i reason now d))"
  "evolves d (snd (sess_MarkManualIntervention i reason now d))"
  unfolding session_rows
  by (rule evolves_update_sessions, rule session_updateI;
      auto simp: claimable_def provisioning_at_def touch_def session_identity_def)+

lemma evolves_session_ends:
  "st \<in> {SessionClosed, SessionExpired} \<Longrightarrow> evolves d (snd (sess_MarkClosed i st now d))"
  unfolding session_rows
  by (rule evolves_update_sessions, rule session_updateI;
      auto simp: touch_def session_identity_def)+

lemma evolves_session_renew: "evolves d (snd (sess_Renew i v now d))"
  unfolding sess_Renew_def
  by (rule evolves_update_sessions) (auto simp: session_update_def provisioning_at_def session_identity_def)

lemma evolves_session_create: "evolves d (snd (sess_Create v now d))"
  by (auto simp: sess_Create_def Let_def intro!: evolves_sessions grows_append evolution.R_refl)

lemma evolves_request_stmts:
  "evolves d (snd (reqs_Create q now d))" "evolves d (snd (reqs_Cancel i now d))"
  "request_decision from to \<Longrightarrow> evolves d (snd (reqs_Transition i from to now d))"
proof -
  show "evolves d (snd (reqs_Create q now d))"
    by (simp add: reqs_Create_def Let_def evolves_def grows_refl grows_append)
  show "evolves d (snd (reqs_Cancel i now d))"
    unfolding reqs_Cancel_def by (rule evolves_update_requests) (auto simp: request_update_def)
  show "request_decision from to \<Longrightarrow> evolves d (snd (reqs_Transition i from to now d))"
    unfolding reqs_Transition_def
    by (rule evolves_update_requests) (auto simp: request_update_def request_decision_def)
qed

lemma evolves_approval_stmts:
  "evolves d (snd (apprs_Create x now d))" "evolves d (snd (apprs_Decide i approver dec comment now d))"
proof -
  show "evolves d (snd (apprs_Create x now d))"
    by (simp add: apprs_Create_def Let_def evolves_def grows_refl grows_append)
  have "approval_update a (a\<lparr>appr_Decision := Some dec, appr_Comment := comment, appr_DecidedAt := Some now\<rparr>)"
    if "appr_Decision a = None" for a using that by (auto simp: approval_update_def)
  then show "evolves d (snd (apprs_Decide i approver dec comment now d))"
    by (auto simp: apprs_Decide_def Let_def evolves_def intro!: grows_refl grows_update_where)
qed

lemma evolves_log_stmts:
  "evolves d (snd (sevs_Append ev now d))" "evolves d (snd (auds_Append au now d))"
  by (simp_all add: sevs_Append_def auds_Append_def evolves_def grows_refl grows_append)

lemma outbox_due_update: "outbox_due now e \<Longrightarrow> outbox_update e (claim_event lease now e)"
  by (auto simp: outbox_update_def outbox_identity_def outbox_due_def claim_event_def)

lemma evolves_outbox_create:
  "evolves d (snd (outs_Create e now d))" "evolves d (snd (outs_CreateIfNoActive e now d))"
  by (auto simp: outs_CreateIfNoActive_def outs_Create_def evolves_def grows_refl grows_append)

lemma evolves_outbox_stmts:
  "evolves d (snd (outs_MarkProcessed i now d))" "evolves d (snd (outs_Reschedule i t terminal now d))"
  unfolding outs_MarkProcessed_def outs_Reschedule_def
  by (rule evolves_update_outbox; auto simp: outbox_update_def outbox_identity_def)+

subsection \<open>Keys\<close>

definition unique_keys :: "db \<Rightarrow> bool" where
  "unique_keys d \<longleftrightarrow>
     distinct (map sess_ID (db_sessions d)) \<and> distinct (map sess_RequestID (db_sessions d)) \<and>
     distinct (map req_ID (db_requests d)) \<and> distinct (map req_IdempotencyKey (db_requests d)) \<and>
     distinct (map appr_ID (db_approvals d)) \<and> distinct (map outbox_ID (db_outbox d)) \<and>
     distinct (map sev_ID (db_session_events d)) \<and> distinct (map audit_ID (db_audit_events d))"

lemma map_update_where: "(\<And>x. p x \<Longrightarrow> k (f x) = k x) \<Longrightarrow> map k (update_where p f xs) = map k xs"
  by (simp add: update_where_def)

lemmas key_simps = touch_def claim_event_def claimable_def provisioning_at_def update_sessions_def update_requests_def
  update_outbox_def map_update_where

lemma unique_sessions:
  "map sess_ID ss = map sess_ID (db_sessions d) \<Longrightarrow> map sess_RequestID ss = map sess_RequestID (db_sessions d) \<Longrightarrow>
   unique_keys d \<Longrightarrow> unique_keys (d\<lparr>db_sessions := ss\<rparr>)"
  by (simp add: unique_keys_def)

lemma unique_requests:
  "map req_ID ss = map req_ID (db_requests d) \<Longrightarrow> map req_IdempotencyKey ss = map req_IdempotencyKey (db_requests d) \<Longrightarrow>
   unique_keys d \<Longrightarrow> unique_keys (d\<lparr>db_requests := ss\<rparr>)"
  by (simp add: unique_keys_def)

lemma unique_others:
  "map appr_ID as = map appr_ID (db_approvals d) \<Longrightarrow> unique_keys d \<Longrightarrow> unique_keys (d\<lparr>db_approvals := as\<rparr>)"
  "map outbox_ID es = map outbox_ID (db_outbox d) \<Longrightarrow> unique_keys d \<Longrightarrow> unique_keys (d\<lparr>db_outbox := es\<rparr>)"
  by (simp_all add: unique_keys_def)

lemma unique_keys_updates:
  assumes "unique_keys d"
  shows "unique_keys (snd (sess_ClaimOnGateway i v stale g a after now d))"
    "unique_keys (snd (sess_Renew i v now d))"
    "unique_keys (snd (sess_MarkDirectRunning i v resp started expires now d))"
    "unique_keys (snd (sess_MarkProvisionFailed i v reason now d))"
    "unique_keys (snd (sess_MarkProvisionRevokeFailed i v reason now d))"
    "unique_keys (snd (sess_BeginRevoke i now d))" "unique_keys (snd (sess_MarkClosed i st now d))"
    "unique_keys (snd (sess_MarkRevokeFailed i reason now d))"
    "unique_keys (snd (sess_MarkManualIntervention i reason now d))"
    "unique_keys (snd (reqs_Transition i from to now d))" "unique_keys (snd (reqs_Cancel i now d))"
    "unique_keys (snd (apprs_Decide i approver dec comment now d))"
    "unique_keys (snd (outs_ClaimPending limit lease now d))" "unique_keys (snd (outs_MarkProcessed i now d))"
    "unique_keys (snd (outs_Reschedule i t terminal now d))"
  unfolding session_rows sess_Renew_def reqs_Transition_def reqs_Cancel_def apprs_Decide_def outs_ClaimPending_def
    outs_MarkProcessed_def outs_Reschedule_def Let_def
  by (simp_all add: key_simps unique_sessions unique_requests unique_others assms)

lemma unique_keys_inserts:
  assumes "unique_keys d"
  shows "unique_keys (snd (sess_Create v now d))" "unique_keys (snd (reqs_Create q now d))"
    "unique_keys (snd (apprs_Create x now d))" "unique_keys (snd (sevs_Append ev now d))"
    "unique_keys (snd (auds_Append au now d))" "unique_keys (snd (outs_Create e now d))"
    "unique_keys (snd (outs_CreateIfNoActive e now d))"
  using assms
  by (auto simp: sess_Create_def reqs_Create_def apprs_Create_def sevs_Append_def auds_Append_def
      outs_Create_def outs_CreateIfNoActive_def Let_def unique_keys_def list_ex_iff)

lemma unique_keys_step:
  assumes "db_step d d'" "unique_keys d"
  shows "unique_keys d'"
  using assms
proof (cases rule: db_step.cases)
  case config
  then show ?thesis using assms(2) by (simp add: unique_keys_def lifecycle_def)
qed (simp_all add: unique_keys_updates unique_keys_inserts)

lemma grows_outbox_claim:
  assumes "\<And>e. e \<in> set es \<Longrightarrow> outbox_ID e \<in> ids \<Longrightarrow> outbox_due now e"
  shows "grows outbox_update\<^sup>*\<^sup>* es (update_where (\<lambda>e. outbox_ID e \<in> ids) (claim_event lease now) es)"
  unfolding update_where_def
  by (rule grows_map) (use assms in \<open>auto intro: r_into_rtranclp outbox_due_update\<close>)

lemma claimed_due:
  assumes "unique_keys d" "e \<in> set (db_outbox d)"
    and "outbox_ID e \<in> set (map outbox_ID (take n (sort_key k (filter (outbox_due now) (db_outbox d)))))"
  shows "outbox_due now e"
proof -
  from assms(3) obtain c where c: "c \<in> set (take n (sort_key k (filter (outbox_due now) (db_outbox d))))"
    "outbox_ID c = outbox_ID e" by auto
  have "c \<in> set (sort_key k (filter (outbox_due now) (db_outbox d)))" by (rule in_set_takeD [OF c(1)])
  then have "c \<in> set (db_outbox d)" and due: "outbox_due now c" by simp_all
  moreover have "inj_on outbox_ID (set (db_outbox d))" using assms(1) by (simp add: unique_keys_def distinct_map)
  ultimately have "c = e" using c(2) assms(2) by (meson inj_onD)
  then show ?thesis using due by simp
qed

lemma evolves_outbox_claim: "unique_keys d \<Longrightarrow> evolves d (snd (outs_ClaimPending limit lease now d))"
  unfolding outs_ClaimPending_def Let_def snd_conv
  by (simp add: evolves_def grows_refl del: set_map) (rule grows_outbox_claim, rule claimed_due)

lemmas evolves_stmts = evolves_session_stmts evolves_session_ends evolves_session_renew evolves_session_create
  evolves_request_stmts evolves_approval_stmts evolves_log_stmts evolves_outbox_create evolves_outbox_stmts

lemma evolves_step: "db_step d d' \<Longrightarrow> unique_keys d \<Longrightarrow> evolves d d'"
  by (cases rule: db_step.cases) (auto intro: evolves_config evolves_stmts evolves_outbox_claim)

lemma evolves_steps:
  assumes "db_steps d d'" "unique_keys d"
  shows "evolves d d' \<and> unique_keys d'"
  using assms
proof (induction rule: rtranclp_induct)
  case base
  then show ?case by (simp add: evolution.R_refl)
next
  case (step d1 d2)
  then show ?case by (blast intro: evolution.R_trans evolves_step unique_keys_step)
qed

subsection \<open>Histories of rows\<close>

definition session_final :: "session_status \<Rightarrow> bool" where
  "session_final st \<longleftrightarrow> st \<in> {SessionClosed, SessionExpired, SessionFailed}"

lemma session_final_no_update: "session_final (sess_Status r) \<Longrightarrow> \<not> session_update r r'"
  by (auto simp: session_final_def session_update_def)

lemma session_update_edge: "session_update r r' \<Longrightarrow> session_edge\<^sup>*\<^sup>* (sess_Status r) (sess_Status r')"
  by (auto simp: session_update_def)

lemma session_provisioning_edge: "session_edge\<^sup>*\<^sup>* st st' \<Longrightarrow> st' = SessionProvisioning \<Longrightarrow> st = SessionProvisioning"
proof (induction rule: rtranclp_induct)
  case (step y z)
  then show ?case by (cases y) auto
qed simp

lemma session_updates:
  assumes "session_update\<^sup>*\<^sup>* r r'"
  shows "session_identity r' = session_identity r \<and> session_edge\<^sup>*\<^sup>* (sess_Status r) (sess_Status r') \<and>
    sess_Version r \<le> sess_Version r' \<and>
    (sess_ExpiresAt r' \<noteq> sess_ExpiresAt r \<longrightarrow> sess_Status r = SessionProvisioning \<and> sess_Status r' \<noteq> SessionProvisioning)"
  using assms
proof (induction rule: rtranclp_induct)
  case (step y z)
  have v: "session_identity z = session_identity y \<and> sess_Version y \<le> sess_Version z \<and>
      (sess_ExpiresAt z \<noteq> sess_ExpiresAt y \<longrightarrow> sess_Status y = SessionProvisioning \<and> sess_Status z = SessionRunning)"
    using step(2) by (auto simp: session_update_def)
  have e: "session_edge\<^sup>*\<^sup>* (sess_Status y) (sess_Status z)" by (rule session_update_edge [OF step(2)])
  have p: "sess_Status z = SessionProvisioning \<Longrightarrow> sess_Status y = SessionProvisioning"
    using session_provisioning_edge [OF e] .
  have p': "sess_Status y = SessionProvisioning \<Longrightarrow> sess_Status r = SessionProvisioning"
    using session_provisioning_edge step.IH by blast
  show ?case using v e p p' step.IH by (auto intro: rtranclp_trans)
qed simp

lemma rtranclp_stuck: "R\<^sup>*\<^sup>* x y \<Longrightarrow> (\<And>z. \<not> R x z) \<Longrightarrow> y = x"
  by (erule converse_rtranclpE) auto

lemma request_updates:
  "request_update\<^sup>*\<^sup>* r r' \<Longrightarrow>
     (\<exists>st t. r' = r\<lparr>req_Status := st, req_UpdatedAt := t\<rparr>) \<and> request_edge\<^sup>*\<^sup>* (req_Status r) (req_Status r')"
proof (induction rule: rtranclp_induct)
  case base
  have "r = r\<lparr>req_Status := req_Status r, req_UpdatedAt := req_UpdatedAt r\<rparr>" by simp
  then show ?case by blast
next
  case (step y z)
  then obtain st t st' t' where "y = r\<lparr>req_Status := st, req_UpdatedAt := t\<rparr>"
    "z = y\<lparr>req_Status := st', req_UpdatedAt := t'\<rparr>" "request_edge (req_Status y) st'"
    by (auto simp: request_update_def)
  then show ?case using step.IH by (auto intro: rtranclp.rtrancl_into_rtrancl)
qed

lemma request_final_no_update:
  "req_Status r \<notin> {AccessRequestPendingApproval, AccessRequestApproved} \<Longrightarrow> \<not> request_update r r'"
  by (cases "req_Status r") (auto simp: request_update_def)

lemma approval_updates:
  assumes "approval_update\<^sup>*\<^sup>* a a'"
  shows "a' = a \<or> appr_Decision a = None \<and> (\<exists>dec c t. a' = a\<lparr>appr_Decision := Some dec, appr_Comment := c, appr_DecidedAt := Some t\<rparr>)"
  using assms
proof (cases rule: converse_rtranclpE)
  case (step y)
  then have "\<not> approval_update y z" for z by (auto simp: approval_update_def)
  then have "a' = y" by (rule rtranclp_stuck [OF step(2)])
  then show ?thesis using step(1) by (auto simp: approval_update_def)
qed simp

lemma outbox_updates:
  "outbox_update\<^sup>*\<^sup>* e e' \<Longrightarrow> outbox_identity e' = outbox_identity e \<and> outbox_RetryCount e \<le> outbox_RetryCount e' \<and>
     outbox_edge\<^sup>*\<^sup>* (outbox_Status e) (outbox_Status e')"
  by (induction rule: rtranclp_induct) (auto simp: outbox_update_def intro: rtranclp.rtrancl_into_rtrancl)

lemma outbox_edge_final:
  "outbox_edge\<^sup>*\<^sup>* st st' \<Longrightarrow> st \<in> {OutboxProcessed, OutboxFailed} \<Longrightarrow> st' = st"
  by (induction rule: rtranclp_induct) auto

text \<open>The row with a given key before and after.\<close>

lemma grows_member:
  assumes "grows R xs ys" "x \<in> set xs"
  shows "\<exists>y\<in>set ys. R x y"
proof -
  obtain j where "j < length xs" "x = xs ! j" using assms(2) by (auto simp: in_set_conv_nth)
  then show ?thesis using grows_nth [OF assms(1)] by fastforce
qed

lemma unique_row: "distinct (map k xs) \<Longrightarrow> y \<in> set xs \<Longrightarrow> x \<in> set xs \<Longrightarrow> k x = k y \<Longrightarrow> x = y"
  by (auto simp: distinct_map dest: inj_onD)

text \<open>A session follows its state machine whatever the workers do and in whatever order: after
  any sequence of steps its row is still there, is the only one with its identifier, belongs to
  the same request with the same audit policy and connection mode, has moved along the edges of
  the state machine, and its version has not decreased. A closed, expired or failed session never
  changes again, and the expiry is set only when the session becomes running.\<close>

lemma session_history_steps:
  assumes "unique_keys d" "db_steps d d'" "r \<in> set (db_sessions d)"
  shows "\<exists>r'\<in>set (db_sessions d'). (\<forall>x\<in>set (db_sessions d'). sess_ID x = sess_ID r \<longrightarrow> x = r') \<and>
    session_identity r' = session_identity r \<and> session_edge\<^sup>*\<^sup>* (sess_Status r) (sess_Status r') \<and>
    sess_Version r \<le> sess_Version r' \<and> (session_final (sess_Status r) \<longrightarrow> r' = r) \<and>
    (sess_ExpiresAt r' \<noteq> sess_ExpiresAt r \<longrightarrow> sess_Status r = SessionProvisioning \<and> sess_Status r' \<noteq> SessionProvisioning)"
proof -
  have g: "grows session_update\<^sup>*\<^sup>* (db_sessions d) (db_sessions d')" and u: "unique_keys d'"
    using evolves_steps [OF assms(2,1)] by (simp_all add: evolves_def)
  obtain r' where r': "r' \<in> set (db_sessions d')" and h: "session_update\<^sup>*\<^sup>* r r'"
    using grows_member [OF g assms(3)] by blast
  have i: "sess_ID r' = sess_ID r" using session_updates [OF h] by (simp add: session_identity_def)
  have "distinct (map sess_ID (db_sessions d'))" using u by (simp add: unique_keys_def)
  then have "x = r'" if "x \<in> set (db_sessions d')" "sess_ID x = sess_ID r" for x
    using unique_row [OF _ r' that(1), of sess_ID] that(2) i by simp
  moreover have "session_final (sess_Status r) \<Longrightarrow> r' = r"
    using rtranclp_stuck [OF h] session_final_no_update by blast
  ultimately show ?thesis using r' session_updates [OF h] by blast
qed

text \<open>A request keeps everything it was created with but its status: applicant, asset, port,
  reason, time to live, source address and approval snapshot are fixed. A pending request may be
  decided, expire or be cancelled, an approved one may be cancelled, and nothing else happens to it.\<close>

lemma request_history_steps:
  assumes "unique_keys d" "db_steps d d'" "r \<in> set (db_requests d)"
  shows "\<exists>r'\<in>set (db_requests d'). (\<forall>x\<in>set (db_requests d'). req_ID x = req_ID r \<longrightarrow> x = r') \<and>
    (\<exists>st t. r' = r\<lparr>req_Status := st, req_UpdatedAt := t\<rparr>) \<and> request_edge\<^sup>*\<^sup>* (req_Status r) (req_Status r') \<and>
    (req_Status r \<notin> {AccessRequestPendingApproval, AccessRequestApproved} \<longrightarrow> r' = r)"
proof -
  have g: "grows request_update\<^sup>*\<^sup>* (db_requests d) (db_requests d')" and u: "unique_keys d'"
    using evolves_steps [OF assms(2,1)] by (simp_all add: evolves_def)
  obtain r' where r': "r' \<in> set (db_requests d')" and h: "request_update\<^sup>*\<^sup>* r r'"
    using grows_member [OF g assms(3)] by blast
  have i: "req_ID r' = req_ID r" using request_updates [OF h] by auto
  have "distinct (map req_ID (db_requests d'))" using u by (simp add: unique_keys_def)
  then have "x = r'" if "x \<in> set (db_requests d')" "req_ID x = req_ID r" for x
    using unique_row [OF _ r' that(1), of req_ID] that(2) i by simp
  moreover have "req_Status r \<notin> {AccessRequestPendingApproval, AccessRequestApproved} \<Longrightarrow> r' = r"
    using rtranclp_stuck [OF h] request_final_no_update by blast
  ultimately show ?thesis using r' request_updates [OF h] by blast
qed

text \<open>An approval is decided at most once: its approver, request, level and threshold never change,
  and once it carries a decision, decision, comment and time never change.\<close>

lemma approval_history_steps:
  assumes "unique_keys d" "db_steps d d'" "a \<in> set (db_approvals d)"
  shows "\<exists>a'\<in>set (db_approvals d'). (\<forall>x\<in>set (db_approvals d'). appr_ID x = appr_ID a \<longrightarrow> x = a') \<and>
    (a' = a \<or> appr_Decision a = None \<and>
       (\<exists>dec c t. a' = a\<lparr>appr_Decision := Some dec, appr_Comment := c, appr_DecidedAt := Some t\<rparr>))"
proof -
  have g: "grows approval_update\<^sup>*\<^sup>* (db_approvals d) (db_approvals d')" and u: "unique_keys d'"
    using evolves_steps [OF assms(2,1)] by (simp_all add: evolves_def)
  obtain a' where a': "a' \<in> set (db_approvals d')" and h: "approval_update\<^sup>*\<^sup>* a a'"
    using grows_member [OF g assms(3)] by blast
  have i: "appr_ID a' = appr_ID a" using approval_updates [OF h] by auto
  have "distinct (map appr_ID (db_approvals d'))" using u by (simp add: unique_keys_def)
  then have "x = a'" if "x \<in> set (db_approvals d')" "appr_ID x = appr_ID a" for x
    using unique_row [OF _ a' that(1), of appr_ID] that(2) i by simp
  then show ?thesis using a' approval_updates [OF h] by blast
qed

text \<open>The audit log and the event log of the sessions are append-only: no step removes, changes or
  reorders an entry that was written.\<close>

lemma logs_append_only_steps:
  assumes "unique_keys d" "db_steps d d'"
  shows "\<exists>audit events. db_audit_events d' = db_audit_events d @ audit \<and>
    db_session_events d' = db_session_events d @ events"
  using evolves_steps [OF assms(2,1)] by (simp add: evolves_def grows_eq_prefix)

text \<open>An outbox command is never lost or altered: it stays in the table with its payload, its retry
  count never decreases, and a processed or failed command keeps that status.\<close>

lemma outbox_history_steps:
  assumes "unique_keys d" "db_steps d d'" "e \<in> set (db_outbox d)"
  shows "\<exists>e'\<in>set (db_outbox d'). (\<forall>x\<in>set (db_outbox d'). outbox_ID x = outbox_ID e \<longrightarrow> x = e') \<and>
    outbox_identity e' = outbox_identity e \<and> outbox_RetryCount e \<le> outbox_RetryCount e' \<and>
    (outbox_Status e \<in> {OutboxProcessed, OutboxFailed} \<longrightarrow> outbox_Status e' = outbox_Status e)"
proof -
  have g: "grows outbox_update\<^sup>*\<^sup>* (db_outbox d) (db_outbox d')" and u: "unique_keys d'"
    using evolves_steps [OF assms(2,1)] by (simp_all add: evolves_def)
  obtain e' where e': "e' \<in> set (db_outbox d')" and h: "outbox_update\<^sup>*\<^sup>* e e'"
    using grows_member [OF g assms(3)] by blast
  have i: "outbox_ID e' = outbox_ID e" using outbox_updates [OF h] by (simp add: outbox_identity_def)
  have "distinct (map outbox_ID (db_outbox d'))" using u by (simp add: unique_keys_def)
  then have "x = e'" if "x \<in> set (db_outbox d')" "outbox_ID x = outbox_ID e" for x
    using unique_row [OF _ e' that(1), of outbox_ID] that(2) i by simp
  then show ?thesis using e' outbox_updates [OF h] outbox_edge_final by blast
qed

subsection \<open>A row and its later versions\<close>

text \<open>Sessions and requests evolve at every step, and the first row with a key stays the first.\<close>

definition rows_evolve :: "db \<Rightarrow> db \<Rightarrow> bool" where
  "rows_evolve d d' \<longleftrightarrow> grows session_update\<^sup>*\<^sup>* (db_sessions d) (db_sessions d') \<and>
     grows request_update\<^sup>*\<^sup>* (db_requests d) (db_requests d')"

interpretation rows: db_relation rows_evolve
proof
  show "rows_evolve d d" for d by (simp add: rows_evolve_def grows_refl)
  show "rows_evolve d d''" if "rows_evolve d d'" "rows_evolve d' d''" for d d' d''
    using that unfolding rows_evolve_def by (auto elim: grows_trans [rotated -1] rtranclp_trans)
qed

lemma rows_evolve_step:
  assumes "db_step d d'"
  shows "rows_evolve d d'"
  using assms
proof (cases rule: db_step.cases)
  case (outbox_claim limit lease now)
  then show ?thesis by (simp add: rows_evolve_def outs_ClaimPending_def Let_def grows_refl)
next
  case config
  then show ?thesis by (simp add: rows_evolve_def lifecycle_def grows_refl)
qed (use evolves_stmts in \<open>auto simp: evolves_def rows_evolve_def\<close>)

lemma rows_evolve_steps: "db_steps d d' \<Longrightarrow> rows_evolve d d'"
  by (induction rule: rtranclp_induct) (auto intro: rows.R_refl rows.R_trans rows_evolve_step)

lemma grows_find:
  assumes "grows R xs ys" "find (\<lambda>x. k x = i) xs = Some x" "\<And>x y. R x y \<Longrightarrow> k y = k x"
  shows "\<exists>y. find (\<lambda>x. k x = i) ys = Some y \<and> R x y"
proof -
  obtain zs us where ys: "ys = zs @ us" and "list_all2 R xs zs" using assms(1) unfolding grows_def by blast
  from this(2) assms(2) have "\<exists>y. find (\<lambda>x. k x = i) zs = Some y \<and> R x y"
    by (induction rule: list_all2_induct) (auto split: if_splits dest: assms(3))
  moreover have "find p (zs @ us) = Some y" if "find p zs = Some y" for p y
    using that by (induction zs) (auto split: if_splits)
  ultimately show ?thesis unfolding ys by blast
qed

lemma grows_keys:
  assumes "grows R xs ys" "\<And>x y. R x y \<Longrightarrow> k y = k x"
  shows "\<exists>us. map k ys = map k xs @ us"
proof -
  obtain zs us where ys: "ys = zs @ us" and l: "list_all2 R xs zs" using assms(1) unfolding grows_def by blast
  have "map k zs = map k xs" using l by (induction rule: list_all2_induct) (auto dest: assms(2))
  then show ?thesis unfolding ys by simp
qed

lemma session_updates_ID: "session_update\<^sup>*\<^sup>* r r' \<Longrightarrow> sess_ID r' = sess_ID r \<and> sess_RequestID r' = sess_RequestID r"
  by (drule session_updates) (simp add: session_identity_def)

lemma request_updates_ID: "request_update\<^sup>*\<^sup>* q q' \<Longrightarrow> req_ID q' = req_ID q"
  by (drule request_updates) auto

text \<open>The gateway of a session changes with its version only.\<close>

lemma session_updates_gateway:
  "session_update\<^sup>*\<^sup>* r r' \<Longrightarrow> sess_Version r \<le> sess_Version r' \<and>
     (sess_Version r' = sess_Version r \<longrightarrow> sess_GatewayID r' = sess_GatewayID r)"
  by (induction rule: rtranclp_induct) (auto simp: session_update_def)

end
