(* ===== verification/Grants.thy ===== *)
theory Grants
  imports Lifecycle
begin

text \<open>
  What every reachable state of the control plane database satisfies: a session exists only for a
  request that was approved, a request that had to be approved has every level of its chain
  complete, nobody is asked about a request of their own, and an applicant has at most one active
  session on a port. The invariant holds for every interleaving of handlers and workers.
\<close>

subsection \<open>The invariant\<close>

definition granted :: "db \<Rightarrow> bool" where
  "granted d \<longleftrightarrow> (\<forall>v\<in>set (db_sessions d). \<exists>q\<in>set (db_requests d). req_ID q = sess_RequestID v \<and>
     req_Status q \<in> {AccessRequestApproved, AccessRequestCancelled} \<and> approved_chain d q)"

definition asks_others :: "db \<Rightarrow> bool" where
  "asks_others d \<longleftrightarrow> (\<forall>a\<in>set (db_approvals d). \<exists>q\<in>set (db_requests d).
     req_ID q = appr_RequestID a \<and> req_ApplicantID q \<noteq> appr_ApproverID a)"

definition same_target :: "access_request \<Rightarrow> access_request \<Rightarrow> bool" where
  "same_target q q' \<longleftrightarrow> req_ApplicantID q = req_ApplicantID q' \<and> req_AssetID q = req_AssetID q' \<and>
     req_TargetPort q = req_TargetPort q'"

definition single_sessions :: "db \<Rightarrow> bool" where
  "single_sessions d \<longleftrightarrow> (\<forall>v\<in>set (db_sessions d). \<forall>v'\<in>set (db_sessions d).
     \<forall>q\<in>set (db_requests d). \<forall>q'\<in>set (db_requests d).
       is_active_status (sess_Status v) \<and> is_active_status (sess_Status v') \<and>
       req_ID q = sess_RequestID v \<and> req_ID q' = sess_RequestID v' \<and> same_target q q' \<longrightarrow> v = v')"

definition sound :: "db \<Rightarrow> bool" where
  "sound d \<longleftrightarrow> unique_keys d \<and> granted d \<and> asks_others d \<and> single_sessions d"

subsection \<open>Approval chains keep their votes\<close>

lemma list_all2_count:
  "list_all2 (\<lambda>x y. P x \<longrightarrow> P y) xs ys \<Longrightarrow> length (filter P xs) \<le> length (filter P ys)"
  by (induction rule: list_all2_induct) auto

lemma level_required_nonneg: "0 \<le> level_required as l"
  by (induction as rule: rev_induct) auto

lemma level_required_mono:
  assumes "\<And>a. a \<in> set as \<Longrightarrow> appr_ApprovalLevel a = l \<Longrightarrow>
    \<exists>b\<in>set bs. appr_ApprovalLevel b = l \<and> appr_RequiredApprovals b = appr_RequiredApprovals a"
  shows "level_required as l \<le> level_required bs l"
proof (rule level_required_le)
  show "\<forall>a\<in>set as. appr_ApprovalLevel a = l \<longrightarrow> max 1 (appr_RequiredApprovals a) \<le> level_required bs l"
    using assms level_required_ge by metis
qed (rule level_required_nonneg)

lemma approval_updates_fixed:
  "approval_update\<^sup>*\<^sup>* a b \<Longrightarrow> appr_RequestID b = appr_RequestID a \<and> appr_ApprovalLevel b = appr_ApprovalLevel a \<and>
     appr_RequiredApprovals b = appr_RequiredApprovals a \<and> appr_ApproverID b = appr_ApproverID a \<and>
     (is_approved a \<longrightarrow> is_approved b)"
  by (drule approval_updates) (auto simp: is_approved_def)

lemma chain_kept:
  assumes l: "list_all2 approval_update\<^sup>*\<^sup>* (db_approvals d) (db_approvals d')"
    and c: "approved_chain d q" and q: "req_ID q' = req_ID q" "req_ApprovalMode q' = req_ApprovalMode q"
  shows "approved_chain d' q'"
proof -
  let ?as = "request_approvals d (req_ID q)" and ?bs = "request_approvals d' (req_ID q)"
  have fwd: "\<exists>b\<in>set ?bs. approval_update\<^sup>*\<^sup>* a b" if "a \<in> set ?as" for a
    using that l approval_updates_fixed by (fastforce simp: list_all2_conv_all_nth in_set_conv_nth)
  have bwd: "\<exists>a\<in>set ?as. approval_update\<^sup>*\<^sup>* a b" if "b \<in> set ?bs" for b
    using that l approval_updates_fixed by (fastforce simp: list_all2_conv_all_nth in_set_conv_nth)
  have req: "level_required ?bs k \<le> level_required ?as k" for k
    by (rule level_required_mono) (use bwd approval_updates_fixed in fastforce)
  have cnt: "level_count ?as k \<le> level_count ?bs k" for k
    unfolding level_count_approved_count approved_count_def
    by (rule list_all2_count, rule list_all2_mono [OF l]) (auto dest: approval_updates_fixed simp: is_approved_def)
  have lev: "k \<in> set (levels ?bs) \<Longrightarrow> k \<in> set (levels ?as)" for k
    unfolding levels_iff using bwd approval_updates_fixed by metis
  have "\<not> open_level ?bs k" if "\<not> open_level ?as k" for k
    using that lev [of k] req [of k] cnt [of k] unfolding open_level_def by auto
  then show ?thesis
    using c q fwd approval_updates_fixed unfolding approved_chain_def nextApprovalLevel_complete by metis
qed

subsection \<open>Steps that create neither a session nor an approval\<close>

lemma grows_same_length:
  assumes "grows R xs ys" "length ys = length xs"
  shows "list_all2 R xs ys"
proof -
  obtain zs us where ys: "ys = zs @ us" and l: "list_all2 R xs zs" using assms(1) unfolding grows_def by blast
  then have "us = []" using assms(2) list_all2_lengthD [OF l] by simp
  then show ?thesis using ys l by simp
qed

lemma request_edges_granted:
  "request_edge\<^sup>*\<^sup>* st st' \<Longrightarrow> st \<in> {AccessRequestApproved, AccessRequestCancelled} \<Longrightarrow>
   st' \<in> {AccessRequestApproved, AccessRequestCancelled}"
  by (induction rule: rtranclp_induct) auto

lemma session_edges_active: "session_edge\<^sup>*\<^sup>* st st' \<Longrightarrow> is_active_status st' \<Longrightarrow> is_active_status st"
proof (induction rule: rtranclp_induct)
  case (step y z)
  then show ?case by (cases y) (auto simp: is_active_status_def)
qed simp

definition quiet :: "db \<Rightarrow> db \<Rightarrow> bool" where
  "quiet d d' \<longleftrightarrow> evolves d d' \<and> unique_keys d \<and> unique_keys d' \<and>
     length (db_sessions d') = length (db_sessions d) \<and> length (db_approvals d') = length (db_approvals d)"

lemma quiet_approvals: "quiet d d' \<Longrightarrow> list_all2 approval_update\<^sup>*\<^sup>* (db_approvals d) (db_approvals d')"
  by (simp add: quiet_def evolves_def grows_same_length)

lemma session_before:
  assumes "quiet d d'" "v' \<in> set (db_sessions d')"
  obtains v where "v \<in> set (db_sessions d)" "session_update\<^sup>*\<^sup>* v v'"
    "sess_RequestID v = sess_RequestID v'" "is_active_status (sess_Status v') \<longrightarrow> is_active_status (sess_Status v)"
proof -
  have "list_all2 session_update\<^sup>*\<^sup>* (db_sessions d) (db_sessions d')"
    using assms(1) by (simp add: quiet_def evolves_def grows_same_length)
  then obtain v where v: "v \<in> set (db_sessions d)" "session_update\<^sup>*\<^sup>* v v'"
    using assms(2) by (auto simp: list_all2_conv_all_nth in_set_conv_nth) metis
  then show thesis
    using that session_updates [OF v(2)] session_edges_active by (auto simp: session_identity_def)
qed

lemma request_after:
  assumes "quiet d d'" "q \<in> set (db_requests d)"
  obtains q' where "q' \<in> set (db_requests d')" "\<exists>st t. q' = q\<lparr>req_Status := st, req_UpdatedAt := t\<rparr>"
    "request_edge\<^sup>*\<^sup>* (req_Status q) (req_Status q')"
    "\<And>x. x \<in> set (db_requests d') \<Longrightarrow> req_ID x = req_ID q \<Longrightarrow> x = q'"
proof -
  have "grows request_update\<^sup>*\<^sup>* (db_requests d) (db_requests d')" using assms(1) by (simp add: quiet_def evolves_def)
  then obtain q' where q': "q' \<in> set (db_requests d')" and u: "request_update\<^sup>*\<^sup>* q q'"
    using grows_member assms(2) by metis
  have i: "req_ID q' = req_ID q" using request_updates [OF u] by auto
  have "distinct (map req_ID (db_requests d'))" using assms(1) by (simp add: quiet_def unique_keys_def)
  then have "x = q'" if "x \<in> set (db_requests d')" "req_ID x = req_ID q" for x
    using unique_row [OF _ q' that(1), of req_ID] that(2) i by simp
  then show thesis using that q' request_updates [OF u] by blast
qed

lemma granted_after: "quiet d d' \<Longrightarrow> granted d \<Longrightarrow> granted d'"
  unfolding granted_def
proof
  fix v' assume z: "quiet d d'" and g: "\<forall>v\<in>set (db_sessions d). \<exists>q\<in>set (db_requests d). req_ID q = sess_RequestID v \<and>
      req_Status q \<in> {AccessRequestApproved, AccessRequestCancelled} \<and> approved_chain d q"
    and "v' \<in> set (db_sessions d')"
  then obtain v where v: "v \<in> set (db_sessions d)" "sess_RequestID v = sess_RequestID v'" using z by (blast elim: session_before)
  then obtain q where q: "q \<in> set (db_requests d)" "req_ID q = sess_RequestID v"
    "req_Status q \<in> {AccessRequestApproved, AccessRequestCancelled}" "approved_chain d q" using g by blast
  obtain q' st t where q': "q' \<in> set (db_requests d')" "q' = q\<lparr>req_Status := st, req_UpdatedAt := t\<rparr>"
    "request_edge\<^sup>*\<^sup>* (req_Status q) (req_Status q')" by (rule request_after [OF z q(1)]) blast
  have "approved_chain d' q'" by (rule chain_kept [OF quiet_approvals [OF z] q(4)]) (simp_all add: q'(2))
  moreover have "req_Status q' \<in> {AccessRequestApproved, AccessRequestCancelled}"
    by (rule request_edges_granted [OF q'(3) q(3)])
  moreover have "req_ID q' = sess_RequestID v'" using q'(2) q(2) v(2) by simp
  ultimately show "\<exists>q\<in>set (db_requests d'). req_ID q = sess_RequestID v' \<and>
      req_Status q \<in> {AccessRequestApproved, AccessRequestCancelled} \<and> approved_chain d' q" using q'(1) by blast
qed

lemma asks_others_after: "quiet d d' \<Longrightarrow> asks_others d \<Longrightarrow> asks_others d'"
  unfolding asks_others_def
proof
  fix a' assume z: "quiet d d'" and o: "\<forall>a\<in>set (db_approvals d). \<exists>q\<in>set (db_requests d).
      req_ID q = appr_RequestID a \<and> req_ApplicantID q \<noteq> appr_ApproverID a" and "a' \<in> set (db_approvals d')"
  then obtain a where a: "a \<in> set (db_approvals d)" "approval_update\<^sup>*\<^sup>* a a'"
    using quiet_approvals [OF z] by (auto simp: list_all2_conv_all_nth in_set_conv_nth) metis
  then obtain q where q: "q \<in> set (db_requests d)" "req_ID q = appr_RequestID a" "req_ApplicantID q \<noteq> appr_ApproverID a"
    using o by blast
  obtain q' st t where "q' \<in> set (db_requests d')" "q' = q\<lparr>req_Status := st, req_UpdatedAt := t\<rparr>"
    by (rule request_after [OF z q(1)]) blast
  then show "\<exists>q\<in>set (db_requests d'). req_ID q = appr_RequestID a' \<and> req_ApplicantID q \<noteq> appr_ApproverID a'"
    using q approval_updates_fixed [OF a(2)] by (intro bexI [of _ q']) simp_all
qed

text \<open>A session that is there has its request, so a request that was added since belongs to no session.\<close>

lemma request_of_session:
  assumes z: "quiet d d'" and "granted d" "v \<in> set (db_sessions d)" "q' \<in> set (db_requests d')" "req_ID q' = sess_RequestID v"
  obtains q where "q \<in> set (db_requests d)" "req_ID q = sess_RequestID v" "same_target q q'"
proof -
  obtain q where q: "q \<in> set (db_requests d)" "req_ID q = sess_RequestID v" using assms(2,3) by (auto simp: granted_def)
  obtain x st t where x: "x = q\<lparr>req_Status := st, req_UpdatedAt := t\<rparr>"
      "\<And>y. y \<in> set (db_requests d') \<Longrightarrow> req_ID y = req_ID q \<Longrightarrow> y = x"
    by (rule request_after [OF z q(1)]) blast
  have "q' = x" using x(2) assms(4,5) q(2) by simp
  then show thesis using that q by (simp add: same_target_def x(1))
qed

lemma single_sessions_after:
  assumes z: "quiet d d'" and g: "granted d" and one: "single_sessions d"
  shows "single_sessions d'"
  unfolding single_sessions_def
proof (intro ballI impI)
  fix v' u' q' p'
  assume m: "v' \<in> set (db_sessions d')" "u' \<in> set (db_sessions d')" "q' \<in> set (db_requests d')" "p' \<in> set (db_requests d')"
    and a: "is_active_status (sess_Status v') \<and> is_active_status (sess_Status u') \<and>
      req_ID q' = sess_RequestID v' \<and> req_ID p' = sess_RequestID u' \<and> same_target q' p'"
  obtain v where v: "v \<in> set (db_sessions d)" "session_update\<^sup>*\<^sup>* v v'" "sess_RequestID v = sess_RequestID v'"
    "is_active_status (sess_Status v)" by (rule session_before [OF z m(1)]) (use a in blast)
  obtain u where u: "u \<in> set (db_sessions d)" "session_update\<^sup>*\<^sup>* u u'" "sess_RequestID u = sess_RequestID u'"
    "is_active_status (sess_Status u)" by (rule session_before [OF z m(2)]) (use a in blast)
  obtain q where q: "q \<in> set (db_requests d)" "req_ID q = sess_RequestID v" "same_target q q'"
    using request_of_session [OF z g v(1) m(3)] a v(3) by metis
  obtain p where p: "p \<in> set (db_requests d)" "req_ID p = sess_RequestID u" "same_target p p'"
    using request_of_session [OF z g u(1) m(4)] a u(3) by metis
  have "same_target q p" using q(3) p(3) a by (simp add: same_target_def)
  then have "v = u" using one v(1,4) u(1,4) q(1,2) p(1,2) unfolding single_sessions_def by blast
  then have "sess_ID v' = sess_ID u'"
    using session_updates [OF v(2)] session_updates [OF u(2)] by (simp add: session_identity_def)
  moreover have "distinct (map sess_ID (db_sessions d'))" using z by (simp add: quiet_def unique_keys_def)
  ultimately show "v' = u'" using unique_row [of sess_ID "db_sessions d'" u' v'] m by simp
qed

subsection \<open>Steps that create a session or an approval\<close>

lemma sound_session_create:
  assumes "sound d" "fresh_session v" "grantable d q v"
  shows "sound (snd (sess_Create v now d))"
proof (cases "list_ex (\<lambda>r. sess_ID r = sess_ID v \<or> sess_RequestID r = sess_RequestID v) (db_sessions d)")
  case True
  then show ?thesis using assms(1) by (simp add: sess_Create_def Let_def)
next
  case False
  let ?d = "snd (sess_Create v now d)"
  obtain row where d: "?d = d\<lparr>db_sessions := db_sessions d @ [row]\<rparr>"
    and row: "sess_RequestID row = sess_RequestID v" "sess_Status row = SessionProvisioning"
    using False assms(2) by (simp add: sess_Create_def Let_def fresh_session_def)
  have q: "q \<in> set (db_requests d)" "req_ID q = sess_RequestID row" "req_Status q = AccessRequestApproved" "approved_chain d q"
    and free: "active_sessions d (req_ApplicantID q) (req_AssetID q) (req_TargetPort q) = []"
    using assms(3) row(1) by (simp_all add: grantable_def)
  have u: "unique_keys ?d" using assms(1) unique_keys_inserts(1) by (simp add: sound_def)
  have chain: "approved_chain ?d x = approved_chain d x" for x
    by (simp add: d approved_chain_def request_approvals_def)
  have other: False
    if "x \<in> set (db_sessions d)" "is_active_status (sess_Status x)" "p \<in> set (db_requests d)" "req_ID p = sess_RequestID x"
      "y \<in> set (db_requests d)" "req_ID y = sess_RequestID row" "same_target p y" for x p y
  proof -
    have "y = q" using unique_row [of req_ID "db_requests d" q y] that(5,6) q(1,2) assms(1)
      by (simp add: sound_def unique_keys_def)
    then have "x \<in> set (active_sessions d (req_ApplicantID q) (req_AssetID q) (req_TargetPort q))"
      using that by (auto simp: active_sessions_def session_request_def same_target_def list_ex_iff)
    then show False using free by simp
  qed
  have one: "single_sessions d" using assms(1) by (simp add: sound_def)
  have "granted ?d" using assms(1) q unfolding sound_def granted_def chain by (auto simp: d)
  moreover have "asks_others ?d" using assms(1) by (simp add: sound_def asks_others_def d)
  moreover have "single_sessions ?d"
    unfolding single_sessions_def
  proof (intro ballI impI)
    fix v1 v2 p1 p2
    assume m: "v1 \<in> set (db_sessions ?d)" "v2 \<in> set (db_sessions ?d)" "p1 \<in> set (db_requests ?d)" "p2 \<in> set (db_requests ?d)"
      and a: "is_active_status (sess_Status v1) \<and> is_active_status (sess_Status v2) \<and>
        req_ID p1 = sess_RequestID v1 \<and> req_ID p2 = sess_RequestID v2 \<and> same_target p1 p2"
    have p: "p1 \<in> set (db_requests d)" "p2 \<in> set (db_requests d)" using m(3,4) by (simp_all add: d)
    have sym: "same_target p2 p1" using a by (simp add: same_target_def)
    consider "v1 \<in> set (db_sessions d)" "v2 \<in> set (db_sessions d)" | "v1 \<in> set (db_sessions d)" "v2 = row"
      | "v1 = row" "v2 \<in> set (db_sessions d)" | "v1 = row" "v2 = row" using m(1,2) by (auto simp: d)
    then show "v1 = v2"
    proof cases
      case 1
      then show ?thesis using one p a unfolding single_sessions_def by blast
    next
      case 2
      then show ?thesis using other [of v1 p1 p2] p a by blast
    next
      case 3
      then show ?thesis using other [of v2 p2 p1] p a sym by blast
    qed simp
  qed
  ultimately show ?thesis using u by (simp add: sound_def)
qed

lemma sound_approval_create:
  assumes "sound d" "askable d x"
  shows "sound (snd (apprs_Create x now d))"
proof -
  let ?d = "snd (apprs_Create x now d)"
  obtain p where p: "p \<in> set (db_requests d)" "req_ID p = appr_RequestID x"
    "req_Status p = AccessRequestPendingApproval" "req_ApplicantID p \<noteq> appr_ApproverID x"
    using assms(2) unfolding askable_def by blast
  have u: "unique_keys ?d" using assms(1) unique_keys_inserts(3) by (simp add: sound_def)
  have same: "db_sessions ?d = db_sessions d" "db_requests ?d = db_requests d"
    by (simp_all add: apprs_Create_def Let_def)
  have ap: "db_approvals ?d = db_approvals d \<or> (\<exists>row. db_approvals ?d = db_approvals d @ [row] \<and>
      appr_RequestID row = appr_RequestID x \<and> appr_ApproverID row = appr_ApproverID x)"
    by (simp add: apprs_Create_def Let_def)
  have "approved_chain ?d q" if "q \<in> set (db_requests d)" "approved_chain d q"
    "req_Status q \<in> {AccessRequestApproved, AccessRequestCancelled}" for q
  proof -
    have "req_ID q \<noteq> appr_RequestID x"
      using unique_row [of req_ID "db_requests d" p q] that(1,3) p assms(1) by (auto simp: sound_def unique_keys_def)
    then have "request_approvals ?d (req_ID q) = request_approvals d (req_ID q)"
      using ap by (auto simp: request_approvals_def)
    then show ?thesis using that(2) by (simp add: approved_chain_def)
  qed
  then have "granted ?d" using assms(1) unfolding sound_def granted_def same by blast
  moreover have "\<exists>q\<in>set (db_requests d). req_ID q = appr_RequestID x \<and> req_ApplicantID q \<noteq> appr_ApproverID x"
    using p by blast
  then have "asks_others ?d"
    using assms(1) ap unfolding sound_def asks_others_def same by (elim disjE exE conjE) simp_all
  moreover have "single_sessions ?d" using assms(1) unfolding sound_def single_sessions_def same by blast
  ultimately show ?thesis using u by (simp add: sound_def)
qed

lemma step_creates:
  assumes "db_step d d'"
  shows "(length (db_sessions d') = length (db_sessions d) \<and> length (db_approvals d') = length (db_approvals d)) \<or>
    (\<exists>v q now. fresh_session v \<and> grantable d q v \<and> d' = snd (sess_Create v now d)) \<or>
    (\<exists>x now. askable d x \<and> d' = snd (apprs_Create x now d))"
  using assms
proof cases
  case config
  then show ?thesis by (simp add: lifecycle_def)
next
  case session_create
  then show ?thesis by blast
next
  case approval_create
  then show ?thesis by blast
next
  case (outbox_create e now)
  then show ?thesis by (simp add: outs_Create_def)
next
  case (outbox_create_if e now)
  then show ?thesis by (auto simp: outs_CreateIfNoActive_def outs_Create_def)
qed (simp_all add: session_stmts reqs_Create_def reqs_Transition_def reqs_Cancel_def update_requests_def apprs_Decide_def
  sevs_Append_def auds_Append_def outs_ClaimPending_def outs_MarkProcessed_def outs_Reschedule_def
  update_outbox_def update_where_def Let_def)

lemma sound_step:
  assumes "db_step d d'" "sound d"
  shows "sound d'"
  using step_creates [OF assms(1)]
proof (elim disjE exE conjE)
  assume "length (db_sessions d') = length (db_sessions d)" "length (db_approvals d') = length (db_approvals d)"
  moreover have "unique_keys d" "unique_keys d'" "evolves d d'"
    using assms unique_keys_step [OF assms(1)] evolves_step [OF assms(1)] by (simp_all add: sound_def)
  ultimately have "quiet d d'" by (simp add: quiet_def)
  then show ?thesis
    using assms(2) granted_after asks_others_after single_sessions_after unfolding sound_def quiet_def by blast
qed (use assms(2) sound_session_create sound_approval_create in blast)+

lemma sound_steps: "db_steps d d' \<Longrightarrow> sound d \<Longrightarrow> sound d'"
  by (induction rule: rtranclp_induct) (blast intro: sound_step)+

subsection \<open>Sessions that were started\<close>

text \<open>A start time appears in a row at one step only, and that step is a safe start.\<close>

lemma set_update_where: "x \<in> set (update_where p f xs) \<longleftrightarrow> (\<exists>y\<in>set xs. x = (if p y then f y else y))"
  by (auto simp: update_where_def)

definition started_before :: "db \<Rightarrow> session \<Rightarrow> bool" where
  "started_before d r' \<longleftrightarrow> (\<exists>r\<in>set (db_sessions d). sess_ID r = sess_ID r' \<and> sess_RequestID r = sess_RequestID r' \<and>
     sess_StartedAt r = sess_StartedAt r' \<and> sess_ExpiresAt r = sess_ExpiresAt r')"

definition starts_now :: "db \<Rightarrow> session \<Rightarrow> bool" where
  "starts_now d r' \<longleftrightarrow> (\<exists>r\<in>set (db_sessions d). \<exists>started expires. sess_ID r = sess_ID r' \<and>
     sess_RequestID r = sess_RequestID r' \<and> sess_Status r = SessionProvisioning \<and>
     sess_StartedAt r' = Some started \<and> sess_ExpiresAt r' = Some expires \<and> safe_start d r started expires)"

lemma started_before_update:
  "r' \<in> set (update_where p f (db_sessions d)) \<Longrightarrow>
   (\<And>r. p r \<Longrightarrow> sess_ID (f r) = sess_ID r \<and> sess_RequestID (f r) = sess_RequestID r \<and>
      sess_StartedAt (f r) = sess_StartedAt r \<and> sess_ExpiresAt (f r) = sess_ExpiresAt r) \<Longrightarrow> started_before d r'"
  by (auto simp: set_update_where started_before_def split: if_splits)

lemma started_before_same: "db_sessions d' = db_sessions d \<Longrightarrow> r' \<in> set (db_sessions d') \<Longrightarrow> started_before d r'"
  by (auto simp: started_before_def)

lemma starts_now_direct:
  assumes "startable d i v started expires" "unique_keys d"
    and "r' \<in> set (db_sessions (snd (sess_MarkDirectRunning i v resp started expires now d)))"
  shows "started_before d r' \<or> starts_now d r'"
proof -
  from assms(3) obtain r where r: "r \<in> set (db_sessions d)"
    and r': "r' = (if provisioning_at i v r then (touch now r)\<lparr>sess_TokenHash := None,
        sess_RemoteProcessID := Some (cr_ProcessID resp), sess_Status := SessionRunning,
        sess_ListenerPort := Some (cr_ListenerPort resp), sess_ExternalPort := Some (cr_ExternalPort resp),
        sess_ExposureMode := Some (cr_ExposureMode resp), sess_ExposureRef := Some (cr_ExposureRef resp),
        sess_StartedAt := Some started, sess_ExpiresAt := Some expires, sess_TunnelClientPublicKey := [],
        sess_TunnelServerCertificate := []\<rparr> else r)"
    by (auto simp: sess_MarkDirectRunning_def update_sessions_def set_update_where)
  show ?thesis
  proof (cases "provisioning_at i v r")
    case True
    then have "safe_start d r started expires" using assms(1,2) r by (simp add: startable_def unique_keys_def)
    then show ?thesis using True r r' by (auto simp: starts_now_def touch_def provisioning_at_def)
  next
    case False
    then show ?thesis using r r' by (auto simp: started_before_def)
  qed
qed

lemma step_started:
  assumes "db_step d d'" "unique_keys d" "r' \<in> set (db_sessions d')" "sess_StartedAt r' \<noteq> None"
  shows "started_before d r' \<or> starts_now d r'"
  using assms(1)
proof cases
  case config
  then show ?thesis using assms(3) by (auto simp: lifecycle_def started_before_def)
next
  case (session_create v q now)
  then show ?thesis using assms(3,4) by (auto simp: sess_Create_def Let_def started_before_def split: if_splits)
next
  case (session_direct i v started expires resp now)
  then show ?thesis using starts_now_direct assms(2,3) by blast
qed (insert assms(3), auto simp: session_rows sess_Renew_def update_sessions_def touch_def update_requests_def update_outbox_def
    reqs_Create_def reqs_Transition_def reqs_Cancel_def apprs_Create_def apprs_Decide_def sevs_Append_def
    auds_Append_def outs_Create_def outs_CreateIfNoActive_def outs_ClaimPending_def outs_MarkProcessed_def
    outs_Reschedule_def Let_def split: if_splits intro!: started_before_same elim!: started_before_update)

lemma started_safely:
  assumes "db_steps d d'" "unique_keys d" "db_sessions d = []" "r' \<in> set (db_sessions d')" "sess_StartedAt r' \<noteq> None"
  shows "\<exists>x. db_steps d x \<and> db_steps x d' \<and> starts_now x r'"
  using assms(1,4,5)
proof (induction arbitrary: r' rule: rtranclp_induct)
  case base
  then show ?case using assms(3) by simp
next
  case (step y z)
  have "unique_keys y" using evolves_steps [OF step(1) assms(2)] by blast
  from step_started [OF step(2) this step(4,5)] show ?case
  proof
    assume "started_before y r'"
    then obtain r where r: "r \<in> set (db_sessions y)" "sess_ID r = sess_ID r'" "sess_RequestID r = sess_RequestID r'"
      "sess_StartedAt r = sess_StartedAt r'" "sess_ExpiresAt r = sess_ExpiresAt r'" unfolding started_before_def by blast
    then obtain x where "db_steps d x" "db_steps x y" "starts_now x r" using step.IH step(5) by metis
    then show ?thesis using r step(2) unfolding starts_now_def by (metis rtranclp.rtrancl_into_rtrancl)
  next
    assume "starts_now y r'"
    then show ?thesis using step(1,2) by blast
  qed
qed

end
