(* ===== verification/Approval.thy ===== *)
theory Approval
  imports Steps
begin

text \<open>
  Approvals: who is asked (\<open>materializeApproval\<close> and \<open>workflowDirectory\<close> of \<open>service/workflows.go\<close>),
  who may vote (\<open>validateWorkflowVoter\<close>), the decision handler (\<open>DecideApproval\<close> of \<open>access.go\<close>) and
  the workflow view. A materialised chain never contains the applicant, every level has one to a
  hundred eligible approvers and a threshold they can reach; a recorded decision is never made by
  the applicant, out of turn or twice.
\<close>

subsection \<open>The approval directory\<close>

record workflow_directory =
  dir_users :: "user list"
  dir_assignments :: "string \<Rightarrow> string list"
  dir_resolver :: resolver

definition directory_assignments :: "svc \<Rightarrow> user list \<Rightarrow> role_assignment list \<Rightarrow> string \<Rightarrow> string list" where
  "directory_assignments s users assignments userID =
     map asg_Role (filter (\<lambda>a. asg_UserID a = userID) assignments) @
     map (\<lambda>_. ''admin'') (filter (\<lambda>u. user_ID u = userID \<and> configuredAdmin s u) users)"

definition workflowDirectory :: "svc \<Rightarrow> workflow_directory M" where
  "workflowDirectory s =
     bindM (iam_ListSubjects s) (\<lambda>users.
     bindM (iam_ListRoles s) (\<lambda>roles.
     bindM (iam_ListBindings s) (\<lambda>bindings.
     bindM (iam_ListAssignments s) (\<lambda>assignments.
     thenM (unlessM (\<not> (length users > 10000 \<or> length roles > 1000 \<or> length bindings > 1000 \<or>
                       length assignments > 100000)) ErrStateConflict)
     (returnM \<lparr>dir_users = users, dir_assignments = directory_assignments s users assignments,
               dir_resolver = NewResolver roles bindings\<rparr>)))))"

subsection \<open>Materialised approvals\<close>

text \<open>The map \<open>eligibleRoles\<close>: the roles of every user but the applicant that may approve.\<close>

definition eligible_entry :: "svc \<Rightarrow> workflow_directory \<Rightarrow> string \<Rightarrow> user \<Rightarrow> (string \<times> role list) list" where
  "eligible_entry s dir applicant u =
     (if user_ID u = applicant then []
      else let roles = resolver_Resolve (dir_resolver dir) (user_Labels u) (dir_assignments dir (user_ID u))
           in if allowedRoles s roles PermissionApprovalManage then [(user_ID u, roles)] else [])"

definition eligibleRoles :: "svc \<Rightarrow> workflow_directory \<Rightarrow> string \<Rightarrow> string \<Rightarrow> role list option" where
  "eligibleRoles s dir applicant = map_of (rev (concat (map (eligible_entry s dir applicant) (dir_users dir))))"

text \<open>The loop over the ownership rules.\<close>

primrec owner_selectors :: "ownership list \<Rightarrow> labels \<Rightarrow> err + selector list" where
  "owner_selectors [] labels = Inr []"
| "owner_selectors (r # rs) labels =
     (if own_Enabled r \<and> MatchesBinding (own_AssetSelector r) labels
      then case BindingSelector (own_UserSelector r) of
             Inl _ \<Rightarrow> Inl ErrStateConflict
           | Inr sel \<Rightarrow> bindE (owner_selectors rs labels) (\<lambda>sels. Inr (sel # sels))
      else owner_selectors rs labels)"

definition step_selector :: "step \<Rightarrow> err + selector" where
  "step_selector st =
     (if step_Kind st \<noteq> ''owners''
      then case BindingSelector (step_Selector st) of Inl _ \<Rightarrow> Inl ErrStateConflict | Inr sel \<Rightarrow> Inr sel
      else Inr Nothing)"

definition step_matches ::
  "labels \<Rightarrow> selector list \<Rightarrow> step \<Rightarrow> selector \<Rightarrow> (string \<Rightarrow> role list option) \<Rightarrow> user \<Rightarrow> bool" where
  "step_matches labels owners st sel eligible u =
     (case eligible (user_ID u) of
        None \<Rightarrow> False
      | Some roles \<Rightarrow>
          if step_Kind st = ''owners'' then matchesAssetOwner labels u owners
          else if step_Kind st = ''user_selector'' then sel_Matches sel (user_Labels u)
          else if step_Kind st = ''role_selector'' then list_ex (\<lambda>r. sel_Matches sel (role_Labels r)) roles
          else False)"

definition resolve_step ::
  "labels \<Rightarrow> selector list \<Rightarrow> (string \<Rightarrow> role list option) \<Rightarrow> user list \<Rightarrow> nat \<times> step \<Rightarrow> err + resolved_step" where
  "resolve_step labels owners eligible users ist =
     (case ist of (i, st) \<Rightarrow>
      bindE (step_selector st) (\<lambda>sel.
      let cands = map (\<lambda>u. \<lparr>candidate_UserID = user_ID u, candidate_Name = user_Nickname u\<rparr>)
                    (filter (step_matches labels owners st sel eligible) users)
      in if length cands = 0 then Inl ErrValidation
         else if length cands > 100 then Inl ErrValidation
         else Inr \<lparr>resolved_Step = st, resolved_Level = int i,
                   resolved_Required = (if step_Mode st = ''all'' then int (length cands) else 1),
                   resolved_Candidates = cands\<rparr>))"

definition planned_approval :: "resolved_step \<Rightarrow> candidate \<Rightarrow> string \<Rightarrow> approval" where
  "planned_approval r c i =
     \<lparr>appr_RequiredApprovals = resolved_Required r, appr_StepName = step_Name (resolved_Step r), appr_ID = i,
      appr_RequestID = [], appr_ApproverID = candidate_UserID c, appr_ApprovalLevel = resolved_Level r,
      appr_Decision = None, appr_Comment = None, appr_DecidedAt = None, appr_CreatedAt = 0\<rparr>"

definition materialize_step ::
  "svc \<Rightarrow> labels \<Rightarrow> selector list \<Rightarrow> (string \<Rightarrow> role list option) \<Rightarrow> user list \<Rightarrow> nat \<times> step \<Rightarrow>
   (resolved_step \<times> approval list) M" where
  "materialize_step s labels owners eligible users ist =
     bindM (liftE (resolve_step labels owners eligible users ist)) (\<lambda>r.
     bindM (mapM (\<lambda>c. bindM (id_New s) (\<lambda>i. returnM (planned_approval r c i))) (resolved_Candidates r)) (\<lambda>as.
     returnM (r, as)))"

definition materializeApproval :: "svc \<Rightarrow> access_request \<Rightarrow> (access_request \<times> approval list) M" where
  "materializeApproval s request =
     bindM (workflows_AssetPolicy s (req_AssetID request)) (\<lambda>policy.
     bindM (workflows_List s) (\<lambda>flows.
     thenM (unlessM (\<not> length flows > 1000) ErrStateConflict)
     (bindM (assets_GetByID s (req_AssetID request)) (\<lambda>asset.
     bindM (liftE (selectApprovalWorkflow flows (asset_ApprovalWorkflowID asset))) (\<lambda>selected.
     bindM (clock s) (\<lambda>now.
     bindM (workflows_ListOwnerships s) (\<lambda>owners.
     thenM (unlessM (\<not> length owners > 1000) ErrStateConflict)
     (bindM (workflowDirectory s) (\<lambda>dir.
     bindM (liftE (owner_selectors owners (policy_Labels policy))) (\<lambda>ownerSelectors.
     bindM (mapM (materialize_step s (policy_Labels policy) ownerSelectors
                    (eligibleRoles s dir (req_ApplicantID request)) (dir_users dir))
              (enumerate 1 (def_Steps selected))) (\<lambda>resolved.
     returnM
       (request\<lparr>req_ApprovalExpiresAt := Some (now + def_TimeoutSeconds selected * second),
                req_WorkflowSnapshot := Some
                  \<lparr>snap_WorkflowID = def_ID selected, snap_Name = def_Name selected,
                   snap_Revision = def_Revision selected, snap_AssetPolicyRevision = policy_Revision policy,
                   snap_AssetLabels = policy_Labels policy, snap_Steps = map fst resolved\<rparr>\<rparr>,
        concat (map snd resolved)))))))))))))"

subsection \<open>Live eligibility of a voter\<close>

definition approval_deadline :: "svc \<Rightarrow> access_request \<Rightarrow> int" where
  "approval_deadline s request =
     (case req_ApprovalExpiresAt request of
        Some e \<Rightarrow> e
      | None \<Rightarrow> req_CreatedAt request + svc_approvalTimeout s)"

text \<open>The \<open>switch step.Kind\<close> of \<open>validateWorkflowVoter\<close>.\<close>

definition voter_matches :: "svc \<Rightarrow> snapshot \<Rightarrow> step \<Rightarrow> user \<Rightarrow> bool M" where
  "voter_matches s snap st u =
     (if step_Kind st = ''user_selector'' then returnM (MatchesBinding (step_Selector st) (user_Labels u))
      else if step_Kind st = ''role_selector'' then
        bindM (resolvedRoles s u) (\<lambda>roles. returnM (MatchesRole (step_Selector st) roles))
      else if step_Kind st = ''owners'' then
        if Get (snap_AssetLabels snap) assetOwnerLabel \<noteq> []
        then returnM (matchesAssetOwner (snap_AssetLabels snap) u [])
        else bindM (workflows_ListOwnerships s) (\<lambda>owners.
             returnM (list_ex (\<lambda>r. own_Enabled r \<and> MatchesBinding (own_AssetSelector r) (snap_AssetLabels snap) \<and>
                                 MatchesBinding (own_UserSelector r) (user_Labels u)) owners))
      else returnM False)"

definition validateWorkflowVoter :: "svc \<Rightarrow> access_request \<Rightarrow> approval \<Rightarrow> unit M" where
  "validateWorkflowVoter s request approval =
     bindM (clock s) (\<lambda>now.
     thenM (unlessM (now < approval_deadline s request) ErrStateConflict)
     (thenM (authorizeIn s (appr_ApproverID approval) PermissionApprovalManage)
     (case req_WorkflowSnapshot request of
        None \<Rightarrow> returnM ()
      | Some snap \<Rightarrow>
          (case find (\<lambda>r. resolved_Level r = appr_ApprovalLevel approval) (snap_Steps snap) of
             None \<Rightarrow> failM ErrStateConflict
           | Some r \<Rightarrow>
               thenM (unlessM (list_ex (\<lambda>c. candidate_UserID c = appr_ApproverID approval)
                                (resolved_Candidates r)) ErrForbidden)
               (bindM (users_GetByID s (appr_ApproverID approval)) (\<lambda>u.
                bindM (voter_matches s snap (resolved_Step r) u) (\<lambda>matched.
                unlessM matched ErrForbidden)))))))"

subsection \<open>Decisions\<close>

record approval_result =
  res_Approval :: approval
  res_Request :: access_request
  res_Session :: "session option"

definition decided_audit :: "string \<Rightarrow> access_request \<Rightarrow> approval_decision \<Rightarrow> string option \<Rightarrow> audit_event" where
  "decided_audit approverID request decision comment =
     no_audit\<lparr>audit_EventType := ''access_request.approval_decided'', audit_ActorType := ''user'',
       audit_ActorID := Some approverID, audit_SubjectUserID := Some (req_ApplicantID request),
       audit_RequestID := Some (req_ID request), audit_AssetID := Some (req_AssetID request),
       audit_TargetPort := Some (req_TargetPort request),
       audit_Result := Some (case decision of ApprovalApproved \<Rightarrow> ''approved'' | ApprovalRejected \<Rightarrow> ''rejected''),
       audit_Reason := comment\<rparr>"

definition provisioning_audit :: "access_request \<Rightarrow> session \<Rightarrow> audit_event" where
  "provisioning_audit request session =
     no_audit\<lparr>audit_EventType := ''session.provisioning'', audit_ActorType := ''system'',
       audit_SubjectUserID := Some (req_ApplicantID request), audit_RequestID := Some (req_ID request),
       audit_SessionID := Some (sess_ID session), audit_AssetID := Some (req_AssetID request),
       audit_TargetPort := Some (req_TargetPort request), audit_Result := Some ''queued''\<rparr>"

text \<open>The guards of a decision, evaluated before the transaction and again under the row locks.\<close>

definition decision_guards :: "string \<Rightarrow> access_request \<Rightarrow> approval \<Rightarrow> unit M" where
  "decision_guards approverID request approval =
     thenM (unlessM (appr_ApproverID approval = approverID) ErrForbidden)
     (thenM (unlessM (req_ApplicantID request \<noteq> approverID) ErrForbidden)
     (unlessM (\<not> (req_Status request \<noteq> AccessRequestPendingApproval \<or> appr_Decision approval \<noteq> None))
        ErrStateConflict))"

definition level_guard :: "approval \<Rightarrow> approval list \<Rightarrow> unit M" where
  "level_guard approval approvals =
     (case nextApprovalLevel approvals of (currentLevel, complete) \<Rightarrow>
      unlessM (\<not> (complete \<or> appr_ApprovalLevel approval \<noteq> currentLevel)) ErrStateConflict)"

text \<open>The session of a finally approved request.\<close>

definition approved_session :: "svc \<Rightarrow> access_request \<Rightarrow> session M" where
  "approved_session s request =
     thenM (sessions_LockApplicantAssetPort s (req_ApplicantID request) (req_AssetID request) (req_TargetPort request))
     (thenM (no_active_session s (req_ApplicantID request) (req_AssetID request) (req_TargetPort request))
     (bindM (assets_GetByIDForUpdate s (req_AssetID request)) (\<lambda>asset.
      thenM (unlessM (asset_Status asset = ResourceStatusEnabled) ErrStateConflict)
      (create_grant s asset request))))"

definition finish_decision ::
  "svc \<Rightarrow> string \<Rightarrow> access_request \<Rightarrow> approval_decision \<Rightarrow> string option \<Rightarrow> approval_result \<Rightarrow> approval_result M" where
  "finish_decision s approverID request decision comment result =
     thenM (appendAudit s (decided_audit approverID request decision comment))
     (thenM (case res_Session result of
               None \<Rightarrow> returnM ()
             | Some session \<Rightarrow>
                 thenM (appendAudit s (provisioning_audit request session))
                 (appendOutbox s ''session'' (sess_ID session) outboxSessionProvision (session_payload (sess_ID session))))
     (thenM (appendOutbox s ''access_request'' (req_ID (res_Request result))
               (if req_Status (res_Request result) = AccessRequestPendingApproval
                then outboxNotifyApproval else outboxNotifyRequestResult)
               (request_payload (req_ID (res_Request result))))
     (returnM result)))"

text \<open>The transaction of \<open>DecideApproval\<close>: re-read and check under the locks, record the vote,
  move the request, create the session.\<close>

definition decide_locked :: "svc \<Rightarrow> string \<Rightarrow> string \<Rightarrow> access_request \<Rightarrow> access_request M" where
  "decide_locked s approverID approvalID request0 =
     thenM (iam_Lock s True)
     (bindM (requests_GetByIDForUpdate s (req_ID request0)) (\<lambda>request.
     bindM (approvals_GetByID s approvalID) (\<lambda>approval.
     thenM (validateWorkflowVoter s request approval)
     (thenM (decision_guards approverID request approval)
     (bindM (approvals_ListByRequest s (req_ID request)) (\<lambda>currentApprovals.
     thenM (level_guard approval currentApprovals)
     (returnM request)))))))"

definition record_decision ::
  "svc \<Rightarrow> string \<Rightarrow> string \<Rightarrow> approval_decision \<Rightarrow> string option \<Rightarrow> access_request \<Rightarrow> (approval \<times> bool) M" where
  "record_decision s approverID approvalID decision comment request =
     bindM (approvals_Decide s approvalID approverID decision comment) (\<lambda>decided.
     bindM (if decision = ApprovalApproved
            then bindM (approvals_ListByRequest s (req_ID request)) (\<lambda>updatedApprovals.
                 returnM (snd (nextApprovalLevel updatedApprovals)))
            else returnM True) (\<lambda>shouldTransition.
     returnM (decided, shouldTransition)))"

definition apply_decision ::
  "svc \<Rightarrow> approval_decision \<Rightarrow> access_request \<Rightarrow> access_request \<Rightarrow> bool \<Rightarrow> (access_request \<times> session option) M" where
  "apply_decision s decision request0 request shouldTransition =
     bindM (if shouldTransition
            then requests_TransitionStatus s (req_ID request) AccessRequestPendingApproval
                   (if decision = ApprovalApproved then AccessRequestApproved else AccessRequestRejected)
            else returnM request0) (\<lambda>updated.
     bindM (if decision = ApprovalApproved \<and> shouldTransition
            then bindM (approved_session s request) (\<lambda>v. returnM (Some v))
            else returnM None) (\<lambda>session.
     returnM (updated, session)))"

definition decide_tx ::
  "svc \<Rightarrow> string \<Rightarrow> string \<Rightarrow> approval_decision \<Rightarrow> string option \<Rightarrow> access_request \<Rightarrow> approval_result M" where
  "decide_tx s approverID approvalID decision comment request0 =
     bindM (decide_locked s approverID approvalID request0) (\<lambda>request.
     bindM (record_decision s approverID approvalID decision comment request) (\<lambda>(decided, shouldTransition).
     bindM (apply_decision s decision request0 request shouldTransition) (\<lambda>(updated, session).
     finish_decision s approverID request decision comment
       \<lparr>res_Approval = decided, res_Request = updated, res_Session = session\<rparr>)))"

definition decide_preflight :: "svc \<Rightarrow> string \<Rightarrow> string \<Rightarrow> string option \<Rightarrow> (string option \<times> access_request) M" where
  "decide_preflight s approverID approvalID comment0 =
     thenM (Authorize s approverID PermissionApprovalManage)
     (thenM (checkM (validateUUID approvalID))
     (bindM (case comment0 of
               None \<Rightarrow> returnM None
             | Some c \<Rightarrow> thenM (unlessM (\<not> int (rune_count (TrimSpace c)) > 4000) ErrValidation)
                        (returnM (if TrimSpace c = [] then None else Some (TrimSpace c)))) (\<lambda>comment.
     bindM (auto_tx s (approvals_GetByID s approvalID)) (\<lambda>approval.
     bindM (auto_tx s (requests_GetByID s (appr_RequestID approval))) (\<lambda>request.
     thenM (decision_guards approverID request approval)
     (bindM (auto_tx s (approvals_ListByRequest s (req_ID request))) (\<lambda>approvals.
     thenM (level_guard approval approvals)
     (returnM (comment, request)))))))))"

definition DecideApproval ::
  "svc \<Rightarrow> string \<Rightarrow> string \<Rightarrow> approval_decision \<Rightarrow> string option \<Rightarrow> approval_result M" where
  "DecideApproval s approverID approvalID decision comment0 =
     bindM (decide_preflight s approverID approvalID comment0) (\<lambda>(comment, request).
     InTx s (decide_tx s approverID approvalID decision comment request))"

definition DecideApprovalByExternalUser ::
  "svc \<Rightarrow> string \<Rightarrow> string \<Rightarrow> approval_decision \<Rightarrow> string option \<Rightarrow> approval_result M" where
  "DecideApprovalByExternalUser s ref0 approvalID decision comment =
     (let ref = TrimSpace ref0 in
      thenM (unlessM (ref \<noteq> []) ErrValidation)
      (bindM (if IsUUID ref then returnM ref
              else bindM (tryM (auto_tx s (users_GetByFeishuOpenID s ref))) (\<lambda>r.
                   case r of
                     Inr u \<Rightarrow> returnM (user_ID u)
                   | Inl e \<Rightarrow> if \<not> err_Is e ErrNotFound then failM e
                              else bindM (auto_tx s (users_GetByFeishuUnionID s ref)) (\<lambda>u. returnM (user_ID u))))
       (\<lambda>approverID. DecideApproval s approverID approvalID decision comment)))"

subsection \<open>Steps of the approval handlers\<close>

context db_relation
begin

lemma resp_workflowDirectory [frame]: "keeps R (workflowDirectory s)"
  unfolding workflowDirectory_def by (intro frame)

lemma resp_materializeApproval [frame]: "keeps R (materializeApproval s r)"
  unfolding materializeApproval_def materialize_step_def by (intro frame)

lemma resp_validateWorkflowVoter [frame]: "keeps R (validateWorkflowVoter s r a)"
  unfolding validateWorkflowVoter_def voter_matches_def by (intro frame)

lemma resp_decision_guards [frame]: "keeps R (decision_guards x r a)"
  unfolding decision_guards_def by (intro frame)

lemma resp_level_guard [frame]: "keeps R (level_guard a as)"
  unfolding level_guard_def by (intro frame)

lemma resp_decide_locked [frame]: "keeps R (decide_locked s x a r)"
  unfolding decide_locked_def by (intro frame)

end

lemma keeps_finish_decision [frame]: "keeps db_steps (finish_decision s x r dec c res)"
  unfolding finish_decision_def by (intro frame)

lemma keeps_record_decision [frame]: "keeps db_steps (record_decision s x a dec c r)"
  unfolding record_decision_def by (intro frame)

lemma keeps_decide_preflight [frame]: "peers s \<Longrightarrow> keeps db_steps (decide_preflight s x a c)"
  unfolding decide_preflight_def by (intro frame)

subsection \<open>Materialised chains\<close>

lemma resolve_step_Inr:
  assumes "resolve_step labels owners eligible users (i, st) = Inr r"
  shows "resolved_Level r = int i" "1 \<le> resolved_Required r"
    "resolved_Required r \<le> int (length (resolved_Candidates r))"
    "0 < length (resolved_Candidates r)" "length (resolved_Candidates r) \<le> 100"
    "\<And>c. c \<in> set (resolved_Candidates r) \<Longrightarrow>
       \<exists>u\<in>set users. user_ID u = candidate_UserID c \<and> eligible (user_ID u) \<noteq> None"
proof -
  obtain sel where sel: "step_selector st = Inr sel"
    using assms by (cases "step_selector st") (simp_all add: resolve_step_def bindE_def)
  define us where "us = filter (step_matches labels owners st sel eligible) users"
  have ok: "us \<noteq> []" "length us \<le> 100"
    and r: "r = \<lparr>resolved_Step = st, resolved_Level = int i,
      resolved_Required = (if step_Mode st = ''all'' then int (length us) else 1),
      resolved_Candidates = map (\<lambda>u. \<lparr>candidate_UserID = user_ID u, candidate_Name = user_Nickname u\<rparr>) us\<rparr>"
    using assms unfolding us_def [symmetric]
    by (simp_all add: resolve_step_def bindE_def sel Let_def us_def [symmetric] split: if_splits)
  show "resolved_Level r = int i" "1 \<le> resolved_Required r"
    "resolved_Required r \<le> int (length (resolved_Candidates r))"
    "0 < length (resolved_Candidates r)" "length (resolved_Candidates r) \<le> 100"
    using ok by (simp_all add: r Suc_le_eq flip: length_greater_0_conv)
  fix c assume "c \<in> set (resolved_Candidates r)"
  then obtain u where "u \<in> set us" "candidate_UserID c = user_ID u" by (auto simp: r)
  then show "\<exists>u\<in>set users. user_ID u = candidate_UserID c \<and> eligible (user_ID u) \<noteq> None"
    by (auto simp: us_def step_matches_def split: option.splits)
qed

lemma run_materialize_step:
  assumes "materialize_step s labels owners eligible users ist w = (Inr (r, as), w')"
  shows "resolve_step labels owners eligible users ist = Inr r"
    "list_all2 (\<lambda>c a. \<exists>i. a = planned_approval r c i) (resolved_Candidates r) as"
proof -
  from assms obtain u where r: "resolve_step labels owners eligible users ist = Inr r"
    and as: "mapM (\<lambda>c. bindM (id_New s) (\<lambda>i. returnM (planned_approval r c i))) (resolved_Candidates r) w = (Inr as, u)"
    by (auto simp: materialize_step_def run)
  show "resolve_step labels owners eligible users ist = Inr r" by (fact r)
  show "list_all2 (\<lambda>c a. \<exists>i. a = planned_approval r c i) (resolved_Candidates r) as"
    using mapM_Inr [OF as] by (rule list_all2_mono) (auto simp: run)
qed

text \<open>A level of a chain: the resolved step with its approvals.\<close>

definition chain_level :: "(string \<Rightarrow> bool) \<Rightarrow> resolved_step \<times> approval list \<Rightarrow> bool" where
  "chain_level ok ra \<longleftrightarrow> (case ra of (r, as) \<Rightarrow>
     as \<noteq> [] \<and> length as \<le> 100 \<and> 1 \<le> resolved_Required r \<and> resolved_Required r \<le> int (length as) \<and>
     (\<forall>a\<in>set as. appr_ApprovalLevel a = resolved_Level r \<and> appr_RequiredApprovals a = resolved_Required r \<and>
        ok (appr_ApproverID a)))"

lemma chain_level_materialize:
  assumes "materialize_step s labels owners eligible users (i, st) w = (Inr ra, w')"
  shows "resolved_Level (fst ra) = int i \<and>
    chain_level (\<lambda>x. \<exists>u\<in>set users. user_ID u = x \<and> eligible x \<noteq> None) ra"
proof -
  obtain r as where ra: "ra = (r, as)" by fastforce
  note m = run_materialize_step [OF assms [unfolded ra]]
  note r = resolve_step_Inr [OF m(1)]
  have len: "length as = length (resolved_Candidates r)" using m(2) by (simp add: list_all2_lengthD)
  have "appr_ApprovalLevel a = resolved_Level r \<and> appr_RequiredApprovals a = resolved_Required r \<and>
      (\<exists>u\<in>set users. user_ID u = appr_ApproverID a \<and> eligible (appr_ApproverID a) \<noteq> None)"
    if "a \<in> set as" for a
  proof -
    from that m(2) obtain c i where "c \<in> set (resolved_Candidates r)" "a = planned_approval r c i"
      by (auto simp: list_all2_conv_all_nth in_set_conv_nth) blast
    then show ?thesis using r(6) by (fastforce simp: planned_approval_def)
  qed
  then show ?thesis using r(1-5) len by (auto simp: ra chain_level_def)
qed

lemma length_filter_concat:
  "as \<in> set ass \<Longrightarrow> (\<forall>a\<in>set as. P a) \<Longrightarrow> length as \<le> length (filter P (concat ass))"
  by (induction ass) (auto simp: filter_id_conv [THEN iffD2])

text \<open>What a chain of levels numbered from one gives.\<close>

definition approval_chain :: "nat \<Rightarrow> approval list \<Rightarrow> bool" where
  "approval_chain n as \<longleftrightarrow>
     uniform_levels as \<and> appr_ApprovalLevel ` set as = {1..int n} \<and>
     (\<forall>a\<in>set as. appr_RequiredApprovals a \<le> int (length (filter (has_level (appr_ApprovalLevel a)) as)))"

lemma approval_chain_concat:
  assumes "\<And>k. k < length ras \<Longrightarrow> resolved_Level (fst (ras ! k)) = int (Suc k) \<and> chain_level ok (ras ! k)"
  shows "approval_chain (length ras) (concat (map snd ras)) \<and> (\<forall>a\<in>set (concat (map snd ras)). ok (appr_ApproverID a))"
proof -
  let ?as = "concat (map snd ras)"
  have lev: "\<exists>k<length ras. a \<in> set (snd (ras ! k)) \<and> appr_ApprovalLevel a = int (Suc k) \<and>
      appr_RequiredApprovals a = resolved_Required (fst (ras ! k)) \<and> ok (appr_ApproverID a)" if "a \<in> set ?as" for a
  proof -
    from that obtain k where k: "k < length ras" "a \<in> set (snd (ras ! k))"
      by (auto simp: in_set_conv_nth [of _ ras])
    then show ?thesis using assms [of k] by (auto simp: chain_level_def case_prod_beta)
  qed
  have unif: "uniform_levels ?as"
    unfolding uniform_levels_def
  proof (intro ballI conjI impI)
    fix a assume "a \<in> set ?as"
    then obtain k where k: "k < length ras" "appr_ApprovalLevel a = int (Suc k)"
      "appr_RequiredApprovals a = resolved_Required (fst (ras ! k))" using lev by blast
    show "1 \<le> appr_ApprovalLevel a" using k by simp
    show "1 \<le> appr_RequiredApprovals a" using k assms [of k] by (auto simp: chain_level_def case_prod_beta)
    show "appr_RequiredApprovals b = appr_RequiredApprovals a"
      if "b \<in> set ?as" "appr_ApprovalLevel b = appr_ApprovalLevel a" for b
      using lev [OF that(1)] that(2) k by auto
  qed
  have "int (Suc k) \<in> appr_ApprovalLevel ` set ?as" if "k < length ras" for k
  proof -
    have "snd (ras ! k) \<noteq> []" "\<forall>a\<in>set (snd (ras ! k)). appr_ApprovalLevel a = int (Suc k)"
      using assms [OF that] by (auto simp: chain_level_def case_prod_beta)
    then have "hd (snd (ras ! k)) \<in> set (snd (ras ! k))" "int (Suc k) = appr_ApprovalLevel (hd (snd (ras ! k)))"
      by simp_all
    moreover have "set (snd (ras ! k)) \<subseteq> set ?as" using nth_mem [OF that] by auto
    ultimately show ?thesis by blast
  qed
  then have "{1..int (length ras)} \<subseteq> appr_ApprovalLevel ` set ?as"
    by (intro subsetI, drule_tac x = "nat (x - 1)" in meta_spec) auto
  moreover have "appr_ApprovalLevel ` set ?as \<subseteq> {1..int (length ras)}" using lev by fastforce
  moreover have "appr_RequiredApprovals a \<le> int (length (filter (has_level (appr_ApprovalLevel a)) ?as))"
    if a: "a \<in> set ?as" for a
  proof -
    from lev [OF a] obtain k where k: "k < length ras" "appr_ApprovalLevel a = int (Suc k)"
      "appr_RequiredApprovals a = resolved_Required (fst (ras ! k))" by blast
    have "length (snd (ras ! k)) \<le> length (filter (has_level (appr_ApprovalLevel a)) ?as)"
      using k assms [of k] by (intro length_filter_concat) (auto simp: chain_level_def case_prod_beta has_level_def)
    then show ?thesis using k assms [of k] by (auto simp: chain_level_def case_prod_beta)
  qed
  ultimately show ?thesis using unif lev unfolding approval_chain_def by blast
qed

subsection \<open>Eligible approvers\<close>

text \<open>The user holds the permission in the state \<open>d\<close>.\<close>

definition holds :: "svc \<Rightarrow> db \<Rightarrow> user \<Rightarrow> permission \<Rightarrow> bool" where
  "holds s d u p \<longleftrightarrow> u \<in> set (db_users d) \<and> user_Status u = UserStatusActive \<and>
     (\<exists>r\<in>set (db_iam_roles d). p \<in> set (role_Permissions r) \<and>
        member_role (db_iam_bindings d) (user_Labels u) (explicit_roles s d u) r)"

lemma eligibleRoles_Some:
  "eligibleRoles s dir applicant x \<noteq> None \<Longrightarrow>
     \<exists>u\<in>set (dir_users dir). user_ID u = x \<and> x \<noteq> applicant \<and>
       allowedRoles s (resolver_Resolve (dir_resolver dir) (user_Labels u) (dir_assignments dir x)) PermissionApprovalManage"
  by (auto simp: eligibleRoles_def eligible_entry_def Let_def dest!: map_of_SomeD split: if_splits)

definition directory_of :: "svc \<Rightarrow> db \<Rightarrow> workflow_directory \<Rightarrow> bool" where
  "directory_of s d dir \<longleftrightarrow>
     set (dir_users dir) = {u \<in> set (db_users d). user_Status u = UserStatusActive} \<and>
     dir_resolver dir = NewResolver (sort_key role_Name (db_iam_roles d))
       (sort_key (\<lambda>b. (binding_CreatedAt b, binding_ID b)) (db_iam_bindings d)) \<and>
     (\<forall>x. set (dir_assignments dir x) =
        {asg_Role a | a. a \<in> set (db_assignments d) \<and> asg_UserID a = x \<and> asg_RevokedAt a = None} \<union>
        {''admin'' | u. u \<in> set (dir_users dir) \<and> user_ID u = x \<and> configuredAdmin s u})"

lemma set_take_sort: "\<not> n < length (take (Suc n) (sort_key f xs)) \<Longrightarrow> take (Suc n) (sort_key f xs) = sort_key f xs"
  by simp

lemma run_workflowDirectory:
  assumes "workflowDirectory s w = (Inr dir, w')"
  shows "directory_of s (w_db w) dir" "w_db w' = w_db w"
proof -
  let ?d = "w_db w"
  let ?users = "take 10001 (sort_key user_ID (filter (\<lambda>u. user_Status u = UserStatusActive) (db_users ?d)))"
  let ?as = "take 100001 (sort_key (\<lambda>a. (asg_UserID a, asg_ID a)) (filter (\<lambda>a. asg_RevokedAt a = None) (db_assignments ?d)))"
  let ?roles = "take 1001 (sort_key role_Name (db_iam_roles ?d))"
  let ?bs = "take 1001 (sort_key (\<lambda>b. (binding_CreatedAt b, binding_ID b)) (db_iam_bindings ?d))"
  from assms have lim: "\<not> 10000 < length ?users" "\<not> 1000 < length ?roles" "\<not> 1000 < length ?bs" "\<not> 100000 < length ?as"
    and dir: "dir = \<lparr>dir_users = ?users, dir_assignments = directory_assignments s ?users ?as,
      dir_resolver = NewResolver ?roles ?bs\<rparr>" and w: "w_db w' = w_db w"
    by (auto simp: workflowDirectory_def iam_ListSubjects_def iam_ListRoles_def iam_ListBindings_def
        iam_ListAssignments_def run simp del: length_take)
  have all: "?users = sort_key user_ID (filter (\<lambda>u. user_Status u = UserStatusActive) (db_users ?d))"
    "?as = sort_key (\<lambda>a. (asg_UserID a, asg_ID a)) (filter (\<lambda>a. asg_RevokedAt a = None) (db_assignments ?d))"
    "?roles = sort_key role_Name (db_iam_roles ?d)"
    "?bs = sort_key (\<lambda>b. (binding_CreatedAt b, binding_ID b)) (db_iam_bindings ?d)"
    using lim by auto
  show "directory_of s ?d dir"
    unfolding directory_of_def dir all by (auto simp: directory_assignments_def)
  show "w_db w' = w_db w" by (fact w)
qed

lemma eligible_holds:
  assumes "permit_spec (svc_permit s)" "distinct (map role_Name (db_iam_roles d))" "distinct (map user_ID (db_users d))"
    and dir: "directory_of s d dir" and x: "eligibleRoles s dir applicant x \<noteq> None"
  shows "x \<noteq> applicant \<and> (\<exists>u. user_ID u = x \<and> holds s d u PermissionApprovalManage)"
proof -
  from eligibleRoles_Some [OF x] obtain u where u: "u \<in> set (dir_users dir)" "user_ID u = x" "x \<noteq> applicant"
    and al: "allowedRoles s (resolver_Resolve (dir_resolver dir) (user_Labels u) (dir_assignments dir x)) PermissionApprovalManage"
    by blast
  have same: "v = u" if "v \<in> set (dir_users dir)" "user_ID v = x" for v
  proof -
    have "u \<in> set (db_users d)" "v \<in> set (db_users d)" using that u dir by (simp_all add: directory_of_def)
    then show ?thesis using assms(3) that(2) u(2) unfolding distinct_map by (blast dest: inj_onD)
  qed
  have "set (dir_assignments dir x) =
      {asg_Role a | a. a \<in> set (db_assignments d) \<and> asg_UserID a = x \<and> asg_RevokedAt a = None} \<union>
      {''admin'' | u. u \<in> set (dir_users dir) \<and> user_ID u = x \<and> configuredAdmin s u}"
    using dir unfolding directory_of_def by (elim conjE) (erule spec)
  also have "{''admin'' | u. u \<in> set (dir_users dir) \<and> user_ID u = x \<and> configuredAdmin s u} =
      (if configuredAdmin s u then {''admin''} else {})"
    using u(1,2) same by force
  finally have ex: "set (dir_assignments dir x) = set (explicit_roles s d u)"
    using u(2) by (auto simp: explicit_roles_def)
  let ?roles = "sort_key role_Name (db_iam_roles d)"
  let ?bs = "sort_key (\<lambda>b. (binding_CreatedAt b, binding_ID b)) (db_iam_bindings d)"
  have "resolver_Resolve (dir_resolver dir) (user_Labels u) (dir_assignments dir x) =
      filter (member_role ?bs (user_Labels u) (dir_assignments dir x)) ?roles"
    using dir Resolve_filter [OF distinct_sort_names [OF assms(2), of role_Name]]
    by (simp add: directory_of_def Resolve_def)
  also have "\<dots> = filter (member_role (db_iam_bindings d) (user_Labels u) (explicit_roles s d u)) ?roles"
    by (intro filter_cong refl member_role_cong ex) simp
  finally show ?thesis
    using al u dir by (auto simp: allowedRoles_members [OF assms(1)] holds_def directory_of_def)
qed

lemma run_materializeApproval:
  assumes "materializeApproval s request w = (Inr (request', approvals), w')"
  obtains dir snap ras labels owners where
    "directory_of s (w_db w) dir" "req_WorkflowSnapshot request' = Some snap" "snap_Steps snap = map fst ras"
    "approvals = concat (map snd ras)"
    "\<And>k. k < length ras \<Longrightarrow> \<exists>st u v. materialize_step s labels owners (eligibleRoles s dir (req_ApplicantID request))
       (dir_users dir) (Suc k, st) u = (Inr (ras ! k), v)"
proof -
  from assms obtain labels steps dir owners ras w1 w2 w3 where
    dir: "workflowDirectory s w1 = (Inr dir, w2)" and
    ras: "mapM (materialize_step s labels owners (eligibleRoles s dir (req_ApplicantID request))
      (dir_users dir)) (enumerate (Suc 0) steps) w2 = (Inr ras, w3)" and w1: "w_db w1 = w_db w" and
    snap: "\<exists>snap. req_WorkflowSnapshot request' = Some snap \<and> snap_Steps snap = map fst ras" and
    as: "approvals = concat (map snd ras)"
    by (auto simp: materializeApproval_def workflows_AssetPolicy_def workflows_List_def assets_GetByID_def
        workflows_ListOwnerships_def run elim!: that)
  have d: "directory_of s (w_db w) dir" using run_workflowDirectory(1) [OF dir] w1 by simp
  note m = mapM_Inr [OF ras]
  have "\<exists>st u v. materialize_step s labels owners (eligibleRoles s dir (req_ApplicantID request))
      (dir_users dir) (Suc k, st) u = (Inr (ras ! k), v)" if "k < length ras" for k
    using that m by (auto simp: list_all2_conv_all_nth nth_enumerate_eq) blast
  then show thesis using that d snap as by blast
qed

text \<open>The applicant is never asked.\<close>

lemma planned_not_applicant:
  assumes "materializeApproval s request w = (Inr (request', approvals), w')" "a \<in> set approvals"
  shows "appr_ApproverID a \<noteq> req_ApplicantID request"
proof -
  from run_materializeApproval [OF assms(1)] obtain dir ras labels owners where as: "approvals = concat (map snd ras)"
    and step: "\<And>k. k < length ras \<Longrightarrow> \<exists>st u v. materialize_step s labels owners (eligibleRoles s dir (req_ApplicantID request))
       (dir_users dir) (Suc k, st) u = (Inr (ras ! k), v)" by metis
  let ?ok = "\<lambda>x. \<exists>u\<in>set (dir_users dir). user_ID u = x \<and> eligibleRoles s dir (req_ApplicantID request) x \<noteq> None"
  have "resolved_Level (fst (ras ! k)) = int (Suc k) \<and> chain_level ?ok (ras ! k)" if "k < length ras" for k
    using step [OF that] chain_level_materialize by blast
  note chain = approval_chain_concat [OF this]
  then show ?thesis using assms(2) eligibleRoles_Some unfolding as by blast
qed


subsection \<open>Decisions are in turn\<close>

lemma changes_nothing: "changes_only {} d d' \<Longrightarrow> lifecycle d' = lifecycle d"
  by (simp add: changes_only_def lifecycle_def)

definition in_turn :: "db \<Rightarrow> string \<Rightarrow> access_request \<Rightarrow> approval \<Rightarrow> bool" where
  "in_turn d approverID request approval \<longleftrightarrow>
     find (\<lambda>r. req_ID r = req_ID request) (db_requests d) = Some request \<and>
     find (\<lambda>r. appr_ID r = appr_ID approval) (db_approvals d) = Some approval \<and>
     appr_ApproverID approval = approverID \<and> req_ApplicantID request \<noteq> approverID \<and>
     req_Status request = AccessRequestPendingApproval \<and> appr_Decision approval = None \<and>
     nextApprovalLevel (request_approvals d (req_ID request)) = (appr_ApprovalLevel approval, False)"

lemma run_guards:
  "decision_guards approverID request approval w = (Inr u, w') \<longleftrightarrow>
     appr_ApproverID approval = approverID \<and> req_ApplicantID request \<noteq> approverID \<and>
     req_Status request = AccessRequestPendingApproval \<and> appr_Decision approval = None \<and> w' = w"
  "level_guard approval as w = (Inr u, w') \<longleftrightarrow> nextApprovalLevel as = (appr_ApprovalLevel approval, False) \<and> w' = w"
  by (auto simp: decision_guards_def level_guard_def run split: prod.split)

lemma run_decide_locked:
  assumes "decide_locked s approverID approvalID request0 w = (Inr request, w')"
  shows "req_ID request = req_ID request0 \<and> lifecycle (w_db w') = lifecycle (w_db w) \<and>
    (\<exists>approval. appr_ID approval = approvalID \<and> in_turn (w_db w) approverID request approval)"
proof -
  from assms obtain approval w1 w2 where v: "validateWorkflowVoter s request approval w1 = (Inr (), w2)"
    and w1: "w_db w1 = w_db w" and r: "find (\<lambda>r. req_ID r = req_ID request0) (db_requests (w_db w)) = Some request"
    and a: "find (\<lambda>r. appr_ID r = approvalID) (db_approvals (w_db w)) = Some approval"
    and g: "appr_ApproverID approval = approverID" "req_ApplicantID request \<noteq> approverID"
      "req_Status request = AccessRequestPendingApproval" "appr_Decision approval = None"
    and l: "nextApprovalLevel (request_approvals (w_db w2) (req_ID request)) = (appr_ApprovalLevel approval, False)"
    by (auto simp: decide_locked_def iam_Lock_def requests_GetByIDForUpdate_def approvals_GetByID_def
        approvals_ListByRequest_def run run_guards elim!: that)
  have life: "lifecycle (w_db w2) = lifecycle (w_db w)"
    using changes_nothing [OF keepsD [OF only.resp_validateWorkflowVoter v]] w1 by simp
  then have "request_approvals (w_db w2) (req_ID request) = request_approvals (w_db w) (req_ID request)"
    by (simp add: lifecycle_def request_approvals_def)
  moreover have "lifecycle (w_db w') = lifecycle (w_db w)"
    by (rule changes_nothing [OF keepsD [OF only.resp_decide_locked assms]])
  ultimately show ?thesis
    using r a g l find_SomeD [OF r] find_SomeD [OF a] by (auto simp: in_turn_def)
qed

lemma run_record_decision:
  assumes "record_decision s x i dec c request w = (Inr (decided, t), w')"
  shows "\<exists>now. w_db w' = snd (apprs_Decide i x dec c now (w_db w))"
    "t \<longleftrightarrow> dec = ApprovalRejected \<or> snd (nextApprovalLevel (request_approvals (w_db w') (req_ID request)))"
proof -
  have "dec = ApprovalApproved \<or> dec = ApprovalRejected" by (cases dec) simp_all
  then have *: "(\<exists>now. w_db w' = snd (apprs_Decide i x dec c now (w_db w))) \<and>
      (t \<longleftrightarrow> dec = ApprovalRejected \<or> snd (nextApprovalLevel (request_approvals (w_db w') (req_ID request))))"
    using assms by (elim disjE) (auto simp: record_decision_def approvals_Decide_def approvals_GetByID_def
        approvals_ListByRequest_def run)
  then show "\<exists>now. w_db w' = snd (apprs_Decide i x dec c now (w_db w))"
    "t \<longleftrightarrow> dec = ApprovalRejected \<or> snd (nextApprovalLevel (request_approvals (w_db w') (req_ID request)))"
    by blast+
qed

lemma only_apply_decision: "keeps (changes_only {TRequests, TSessions}) (apply_decision s dec r0 r t)"
  unfolding apply_decision_def approved_session_def by (intro frame) simp_all

lemma only_finish_decision: "keeps (changes_only {TAudit, TOutbox}) (finish_decision s x r dec c res)"
  unfolding finish_decision_def by (intro frame) simp_all

lemma run_apply_decision:
  "apply_decision s dec r0 r t w = (Inr (updated, session), w') \<Longrightarrow>
     session \<noteq> None \<longleftrightarrow> dec = ApprovalApproved \<and> t"
  by (auto simp: apply_decision_def run split: if_splits)

lemma run_finish_decision: "finish_decision s x r dec c res w = (Inr res', w') \<Longrightarrow> res' = res"
  by (auto simp: finish_decision_def run split: option.splits)

text \<open>The recorded vote: the one change of the approvals table.\<close>

definition vote_recorded :: "string \<Rightarrow> string \<Rightarrow> approval_decision \<Rightarrow> db \<Rightarrow> db \<Rightarrow> bool" where
  "vote_recorded i approver dec d d' \<longleftrightarrow>
     (\<exists>c now. db_approvals d' = update_where
        (\<lambda>r. appr_ID r = i \<and> appr_ApproverID r = approver \<and> appr_Decision r = None)
        (\<lambda>r. r\<lparr>appr_Decision := Some dec, appr_Comment := c, appr_DecidedAt := Some now\<rparr>) (db_approvals d))"

lemma run_decide_tx:
  assumes "decide_tx s x i dec c r0 w = (Inr res, w')"
  shows "\<exists>request approval. req_ID request = req_ID r0 \<and> appr_ID approval = i \<and>
    in_turn (w_db w) x request approval \<and> vote_recorded i x dec (w_db w) (w_db w') \<and>
    (res_Session res \<noteq> None \<longleftrightarrow>
       dec = ApprovalApproved \<and> snd (nextApprovalLevel (request_approvals (w_db w') (req_ID request))))"
proof -
  from assms obtain request w1 decided t w2 updated session w3 where
    1: "decide_locked s x i r0 w = (Inr request, w1)" and
    2: "record_decision s x i dec c request w1 = (Inr (decided, t), w2)" and
    3: "apply_decision s dec r0 request t w2 = (Inr (updated, session), w3)" and
    4: "finish_decision s x request dec c \<lparr>res_Approval = decided, res_Request = updated, res_Session = session\<rparr> w3 = (Inr res, w')"
    by (auto simp: decide_tx_def run case_prod_beta elim!: that)
  have same: "db_approvals (w_db w') = db_approvals (w_db w2)"
    using keepsD [OF only_apply_decision 3] keepsD [OF only_finish_decision 4] by (simp add: changes_only_def)
  have life: "lifecycle (w_db w1) = lifecycle (w_db w)" using run_decide_locked [OF 1] by blast
  obtain now where "w_db w2 = snd (apprs_Decide i x dec c now (w_db w1))" using run_record_decision(1) [OF 2] by blast
  then have "vote_recorded i x dec (w_db w) (w_db w')"
    using life same unfolding vote_recorded_def by (auto simp: apprs_Decide_def Let_def lifecycle_def)
  moreover have "res_Session res \<noteq> None \<longleftrightarrow>
      dec = ApprovalApproved \<and> snd (nextApprovalLevel (request_approvals (w_db w') (req_ID request)))"
    using run_finish_decision [OF 4] run_apply_decision [OF 3] run_record_decision(2) [OF 2] same
    by (auto simp: request_approvals_def)
  ultimately show ?thesis using run_decide_locked [OF 1] by blast
qed

text \<open>The transaction moves along the steps: a session is granted only after the vote completed the chain
  and the request became approved.\<close>

lemma run_approved_session:
  assumes "approved_session s r w = (Inr v, w')"
  obtains asset w1 where "create_grant s asset r w1 = (Inr v, w')" "w_db w1 = w_db w"
    "active_sessions (w_db w) (req_ApplicantID r) (req_AssetID r) (req_TargetPort r) = []"
proof -
  from assms obtain u w1 w2 asset w3 where c: "create_grant s asset r w3 = (Inr v, w')"
    and n: "no_active_session s (req_ApplicantID r) (req_AssetID r) (req_TargetPort r) w1 = (Inr u, w2)"
    and w: "w_db w1 = w_db w" "w_db w3 = w_db w2"
    by (auto simp: approved_session_def sessions_LockApplicantAssetPort_def assets_GetByIDForUpdate_def run elim!: that)
  show thesis using that [OF c] run_no_active_session [OF n] w by simp
qed

lemma apply_decision_steps:
  assumes ap: "apply_decision s dec r0 r t w = (Inr (u, v), w')"
    and r: "r \<in> set (db_requests (w_db w))" "req_Status r = AccessRequestPendingApproval"
    and chain: "dec = ApprovalApproved \<Longrightarrow> t \<Longrightarrow> snd (nextApprovalLevel (request_approvals (w_db w) (req_ID r))) \<and>
      (\<exists>a\<in>set (request_approvals (w_db w) (req_ID r)). is_approved a)"
  shows "db_steps (w_db w) (w_db w')"
proof -
  let ?move = "if t then requests_TransitionStatus s (req_ID r) AccessRequestPendingApproval
                 (if dec = ApprovalApproved then AccessRequestApproved else AccessRequestRejected) else returnM r0"
  from ap obtain w1 where m: "?move w = (Inr u, w1)" and
    g: "(if dec = ApprovalApproved \<and> t then bindM (approved_session s r) (\<lambda>v. returnM (Some v)) else returnM None) w1 = (Inr v, w')"
    by (auto simp: apply_decision_def run simp del: if_split)
  have k: "keeps db_steps ?move" by (intro frame) (simp add: request_decision_def)
  show ?thesis
  proof (cases "dec = ApprovalApproved \<and> t")
    case False
    then show ?thesis using g keepsD [OF k m] by (auto simp: run)
  next
    case True
    then obtain now where d1: "w_db w1 = snd (reqs_Transition (req_ID r) AccessRequestPendingApproval AccessRequestApproved now (w_db w))"
      using m by (auto simp: requests_TransitionStatus_def requests_GetByID_def run)
    define q where "q = r\<lparr>req_Status := AccessRequestApproved, req_UpdatedAt := now\<rparr>"
    have q: "q \<in> set (db_requests (w_db w1))"
      using r by (auto simp: d1 reqs_Transition_def update_requests_def update_where_def q_def image_iff intro!: bexI [of _ r])
    have as: "request_approvals (w_db w1) (req_ID r) = request_approvals (w_db w) (req_ID r)"
      by (simp add: d1 reqs_Transition_def update_requests_def request_approvals_def)
    from True g obtain x where x: "approved_session s r w1 = (Inr x, w')" by (auto simp: run)
    from run_approved_session [OF x] obtain asset w2 where c: "create_grant s asset r w2 = (Inr x, w')"
      and d2: "w_db w2 = w_db w1" and n: "active_sessions (w_db w1) (req_ApplicantID r) (req_AssetID r) (req_TargetPort r) = []" .
    have "db_steps (w_db w2) (w_db w')"
      by (rule create_grant_steps [OF c, of q]) (use q d2 n True chain as in \<open>auto simp: q_def approved_chain_def\<close>)
    then show ?thesis using keepsD [OF k m] d2 by simp
  qed
qed

lemma voted_chain:
  assumes t: "in_turn d x request approval" and v: "vote_recorded i x dec d d'"
    and c: "snd (nextApprovalLevel (request_approvals d' (req_ID request)))"
  shows "\<exists>a\<in>set (request_approvals d' (req_ID request)). is_approved a"
proof -
  have "open_level (request_approvals d (req_ID request)) (appr_ApprovalLevel approval)"
    using t nextApprovalLevel_fold [of "request_approvals d (req_ID request)"]
      nextApprovalLevel_snd [of "request_approvals d (req_ID request)"] by (auto simp: in_turn_def)
  then obtain a where a: "a \<in> set (db_approvals d)" "appr_RequestID a = req_ID request" "1 \<le> appr_ApprovalLevel a"
    by (auto simp: open_level_def levels_iff)
  obtain cm now where ap: "db_approvals d' = update_where
      (\<lambda>r. appr_ID r = i \<and> appr_ApproverID r = x \<and> appr_Decision r = None)
      (\<lambda>r. r\<lparr>appr_Decision := Some dec, appr_Comment := cm, appr_DecidedAt := Some now\<rparr>) (db_approvals d)"
    using v unfolding vote_recorded_def by blast
  define b where "b = (if appr_ID a = i \<and> appr_ApproverID a = x \<and> appr_Decision a = None
    then a\<lparr>appr_Decision := Some dec, appr_Comment := cm, appr_DecidedAt := Some now\<rparr> else a)"
  have "b \<in> set (db_approvals d')" using a(1) by (auto simp: ap update_where_def b_def)
  moreover have "appr_RequestID b = appr_RequestID a" "appr_ApprovalLevel b = appr_ApprovalLevel a"
    by (simp_all add: b_def)
  ultimately show ?thesis using complete_is_approved [OF c, of b] a by simp
qed

lemma decide_tx_steps:
  assumes "decide_tx s x i dec c r0 w = (Inr res, w')"
  shows "db_steps (w_db w) (w_db w')"
proof -
  from assms obtain request w1 decided t w2 updated session w3 where
    1: "decide_locked s x i r0 w = (Inr request, w1)" and
    2: "record_decision s x i dec c request w1 = (Inr (decided, t), w2)" and
    3: "apply_decision s dec r0 request t w2 = (Inr (updated, session), w3)" and
    4: "finish_decision s x request dec c \<lparr>res_Approval = decided, res_Request = updated, res_Session = session\<rparr> w3 = (Inr res, w')"
    by (auto simp: decide_tx_def run case_prod_beta elim!: that)
  have life: "lifecycle (w_db w1) = lifecycle (w_db w)" using run_decide_locked [OF 1] by blast
  obtain approval where turn: "in_turn (w_db w) x request approval" using run_decide_locked [OF 1] by blast
  obtain now where d2: "w_db w2 = snd (apprs_Decide i x dec c now (w_db w1))" using run_record_decision(1) [OF 2] by blast
  then have v: "vote_recorded i x dec (w_db w) (w_db w2)"
    using life unfolding vote_recorded_def by (auto simp: apprs_Decide_def Let_def lifecycle_def)
  have rq: "request \<in> set (db_requests (w_db w2))" "req_Status request = AccessRequestPendingApproval"
    using turn life by (auto simp: d2 apprs_Decide_def Let_def lifecycle_def in_turn_def dest: find_SomeD)
  have "db_steps (w_db w2) (w_db w3)"
    by (rule apply_decision_steps [OF 3 rq]) (use run_record_decision(2) [OF 2] voted_chain [OF turn v] in auto)
  then show ?thesis
    using keepsD [OF steps.resp_decide_locked 1] keepsD [OF keeps_record_decision 2] keepsD [OF keeps_finish_decision 4]
    by (meson rtranclp_trans)
qed

lemma keeps_decide_tx [frame]: "peers s \<Longrightarrow> keeps db_steps (InTx s (decide_tx s x a dec c r))"
  by (erule steps.resp_InTx_run) (rule decide_tx_steps)

lemma keeps_DecideApproval [frame]: "peers s \<Longrightarrow> keeps db_steps (DecideApproval s x a dec c)"
  unfolding DecideApproval_def by (intro frame)

lemma keeps_DecideApprovalByExternalUser [frame]:
  "peers s \<Longrightarrow> keeps db_steps (DecideApprovalByExternalUser s x a dec c)"
  unfolding DecideApprovalByExternalUser_def by (intro frame)

text \<open>C18. A recorded decision is in turn: when \<open>DecideApproval\<close> succeeds, the state its transaction
  saw had the request pending and the approval undecided, the approver was the one asked and not
  the applicant, and the approval was at the current level. The vote is the only change of the
  approvals, and a session is created exactly when the vote completes every level.\<close>

theorem DecideApproval_in_turn:
  assumes "peers s" "DecideApproval s approverID approvalID decision comment w = (Inr res, w')"
  shows "\<exists>d request approval. db_steps (w_db w) d \<and> appr_ID approval = approvalID \<and>
    in_turn d approverID request approval \<and> vote_recorded approvalID approverID decision d (w_db w') \<and>
    (res_Session res \<noteq> None \<longleftrightarrow>
       decision = ApprovalApproved \<and> snd (nextApprovalLevel (request_approvals (w_db w') (req_ID request))))"
proof -
  from assms(2) obtain c r0 w0 w1 where
    pre: "decide_preflight s approverID approvalID comment w = (Inr (c, r0), w0)" and
    tx: "decide_tx s approverID approvalID decision c r0 (tx_start s w0) = (Inr res, w1)" and w1: "w_db w' = w_db w1"
    by (auto simp: DecideApproval_def run elim!: that)
  have "db_steps (w_db w) (w_db w0)" by (rule keepsD [OF keeps_decide_preflight [OF assms(1)] pre])
  also have "db_steps (w_db w0) (w_db (tx_start s w0))" using assms(1) by (simp add: others_keep_def)
  finally have "db_steps (w_db w) (w_db (tx_start s w0))" .
  then show ?thesis using run_decide_tx [OF tx] unfolding w1 by blast
qed

end
