(* ===== verification/Requests.thy ===== *)
theory Requests
  imports Approval
begin

text \<open>
  Access requests: creation with its validation, idempotent retries and automatic approval,
  reading, and cancellation (\<open>service/access.go\<close>). A request is granted for at most the smallest
  of the limits that apply, and cancelling one leaves no session behind without a durable
  revocation.
\<close>

subsection \<open>Input\<close>

record create_input =
  in_ApplicantID :: string
  in_RegionID :: string
  in_AssetID :: string
  in_TargetPort :: int
  in_SourceIP :: string
  in_TargetAccount :: string
  in_Reason :: string
  in_TicketNo :: "string option"
  in_RequestedStartAt :: "int option"
  in_TTLSeconds :: int
  in_Emergency :: bool
  in_IdempotencyKey :: string

text \<open>\<open>maxAccessRequestTTL\<close> and \<open>demoSessionTTL\<close>, in nanoseconds.\<close>

definition maxAccessRequestTTL :: int where
  "maxAccessRequestTTL = 5 * 3600 * second"

definition demoSessionTTL :: int where
  "demoSessionTTL = 5 * 60 * second"

definition validateTestAccessInput :: "create_input \<Rightarrow> err option" where
  "validateTestAccessInput input =
     (if in_TTLSeconds input < 1 \<or> in_TTLSeconds input > 600 then Some ErrValidation
      else if in_Emergency input \<or> in_RequestedStartAt input \<noteq> None then Some ErrValidation
      else None)"

definition valid_source_ip :: "string \<Rightarrow> bool" where
  "valid_source_ip text =
     (case ParseIP (TrimSpace text) of
        None \<Rightarrow> False
      | Some parsed \<Rightarrow> \<not> IsUnspecified parsed \<and> \<not> IsMulticast parsed)"

definition validateCreateInput :: "create_input \<Rightarrow> err option" where
  "validateCreateInput input =
     (if in_RequestedStartAt input \<noteq> None then Some ErrValidation
      else if in_TTLSeconds input < 0 \<or> in_TTLSeconds input > maxAccessRequestTTL div second then Some ErrValidation
      else if validateUUID (in_ApplicantID input) \<noteq> None \<or> validateUUID (in_RegionID input) \<noteq> None \<or>
        validateUUID (in_AssetID input) \<noteq> None then Some ErrValidation
      else if in_TargetPort input < 1 \<or> in_TargetPort input > 65535 then Some ErrValidation
      else if in_SourceIP input \<noteq> [] \<and> \<not> valid_source_ip (in_SourceIP input) then Some ErrValidation
      else if int (length (in_TargetAccount input)) > 128 \<or> has_control (in_TargetAccount input) then Some ErrValidation
      else if TrimSpace (in_Reason input) = [] \<or> int (rune_count (in_Reason input)) > 4000 then Some ErrValidation
      else if int (length (in_IdempotencyKey input)) < 8 \<or> int (length (in_IdempotencyKey input)) > 128
        then Some ErrValidation
      else if (case in_TicketNo input of None \<Rightarrow> False | Some t \<Rightarrow> int (length t) > 128) then Some ErrValidation
      else None)"

definition optionalString :: "string \<Rightarrow> string option" where
  "optionalString v = (if v = [] then None else Some v)"

definition trim_input :: "create_input \<Rightarrow> create_input" where
  "trim_input input = input\<lparr>
     in_ApplicantID := TrimSpace (in_ApplicantID input), in_RegionID := TrimSpace (in_RegionID input),
     in_AssetID := TrimSpace (in_AssetID input), in_SourceIP := TrimSpace (in_SourceIP input),
     in_TargetAccount := TrimSpace (in_TargetAccount input), in_Reason := TrimSpace (in_Reason input),
     in_IdempotencyKey := TrimSpace (in_IdempotencyKey input),
     in_TicketNo := (case in_TicketNo input of None \<Rightarrow> None | Some t \<Rightarrow> optionalString (TrimSpace t))\<rparr>"

text \<open>The normalisation after validation; the address was checked to parse.\<close>

definition normalize_input :: "svc \<Rightarrow> create_input \<Rightarrow> create_input" where
  "normalize_input s input = input\<lparr>
     in_TTLSeconds := (if svc_demoMode s then demoSessionTTL div second else in_TTLSeconds input),
     in_SourceIP := (if in_SourceIP input = [] then []
                     else case ParseIP (in_SourceIP input) of None \<Rightarrow> ''<nil>'' | Some ip \<Rightarrow> ip_String ip)\<rparr>"

definition sameRequestPayload :: "access_request \<Rightarrow> create_input \<Rightarrow> bool" where
  "sameRequestPayload existing input =
     (if req_ApplicantID existing \<noteq> in_ApplicantID input \<or> req_AssetID existing \<noteq> in_AssetID input \<or>
        req_TargetPort existing \<noteq> in_TargetPort input \<or> req_Reason existing \<noteq> in_Reason input \<or>
        req_Emergency existing \<noteq> in_Emergency input then False
      else if req_SourceIP existing \<noteq> optionalString (in_SourceIP input) \<or>
        req_TargetAccount existing \<noteq> optionalString (in_TargetAccount input) then False
      else if in_TTLSeconds input \<noteq> 0 \<and> req_TTLSeconds existing \<noteq> in_TTLSeconds input then False
      else if req_TicketNo existing \<noteq> in_TicketNo input then False
      else req_RequestedStartAt existing = in_RequestedStartAt input)"

subsection \<open>Creation\<close>

definition effective_ttl :: "svc \<Rightarrow> create_input \<Rightarrow> int" where
  "effective_ttl s input = (if in_TTLSeconds input = 0 then svc_defaultTTL s div second else in_TTLSeconds input)"

definition max_ttl :: "svc \<Rightarrow> asset \<Rightarrow> int" where
  "max_ttl s asset =
     (let m0 = asset_MaxTTLSeconds asset;
          m1 = (if maxAccessRequestTTL div second < m0 then maxAccessRequestTTL div second else m0)
      in if svc_maxTTL s div second < m1 then svc_maxTTL s div second else m1)"

definition new_request :: "svc \<Rightarrow> create_input \<Rightarrow> string \<Rightarrow> string \<Rightarrow> access_request" where
  "new_request s input approvalMode i =
     \<lparr>req_WorkflowSnapshot = None, req_ApprovalExpiresAt = None, req_ApprovalMode = approvalMode, req_ID = i,
      req_ApplicantID = in_ApplicantID input, req_AssetID = in_AssetID input, req_TargetPort = in_TargetPort input,
      req_Reason = in_Reason input, req_TicketNo = in_TicketNo input, req_Emergency = in_Emergency input,
      req_RequestedStartAt = in_RequestedStartAt input, req_TTLSeconds = effective_ttl s input,
      req_Status = (if approvalMode = ''admin_test'' \<or> approvalMode = ''demo''
                    then AccessRequestApproved else AccessRequestPendingApproval),
      req_IdempotencyKey = in_IdempotencyKey input, req_SourceIP = optionalString (in_SourceIP input),
      req_TargetAccount = optionalString (in_TargetAccount input), req_CreatedAt = 0, req_UpdatedAt = 0\<rparr>"

definition created_audit :: "create_input \<Rightarrow> string \<Rightarrow> access_request \<Rightarrow> audit_event" where
  "created_audit input approvalMode request =
     no_audit\<lparr>audit_EventType := ''access_request.created'', audit_ActorType := ''user'',
       audit_ActorID := Some (in_ApplicantID input), audit_SubjectUserID := Some (in_ApplicantID input),
       audit_RequestID := Some (req_ID request), audit_RegionID := Some (in_RegionID input),
       audit_AssetID := Some (in_AssetID input), audit_TargetPort := Some (in_TargetPort input),
       audit_SourceIP := optionalString (in_SourceIP input), audit_Result := Some ''accepted'',
       audit_Reason := Some (req_Reason request), audit_Metadata := [(''approval_mode'', JStr approvalMode)]\<rparr>"

definition auto_audit :: "create_input \<Rightarrow> string \<Rightarrow> access_request \<Rightarrow> session \<Rightarrow> asset \<Rightarrow> audit_event" where
  "auto_audit input approvalMode request session asset =
     (let audit = no_audit\<lparr>audit_EventType := ''access_request.admin_test_started'', audit_ActorType := ''admin'',
            audit_ActorID := Some (in_ApplicantID input), audit_SubjectUserID := Some (in_ApplicantID input),
            audit_RequestID := Some (req_ID request), audit_SessionID := Some (sess_ID session),
            audit_AssetID := Some (asset_ID asset), audit_TargetPort := Some (in_TargetPort input),
            audit_SourceIP := optionalString (in_SourceIP input), audit_Reason := Some (in_Reason input),
            audit_Result := Some ''queued'',
            audit_Metadata := [(''approval_mode'', JStr approvalMode), (''ttl_seconds'', JInt (req_TTLSeconds request))]\<rparr>
      in if approvalMode = ''demo''
         then audit\<lparr>audit_EventType := ''access_request.demo_auto_approved'', audit_ActorType := ''system'',
                    audit_ActorID := None, audit_Result := Some ''approved'', audit_Reason := Some ''demo_mode''\<rparr>
         else audit)"

definition auto_approved :: "string \<Rightarrow> bool" where
  "auto_approved approvalMode \<longleftrightarrow> approvalMode = ''admin_test'' \<or> approvalMode = ''demo''"

text \<open>The branch of the transaction for an automatically approved request.\<close>

definition start_session :: "svc \<Rightarrow> create_input \<Rightarrow> string \<Rightarrow> asset \<Rightarrow> access_request \<Rightarrow> unit M" where
  "start_session s input approvalMode asset request =
     bindM (create_grant s asset request) (\<lambda>session.
     thenM (appendAudit s (auto_audit input approvalMode request session asset))
     (thenM (appendOutbox s ''session'' (sess_ID session) outboxSessionProvision (session_payload (sess_ID session)))
     (whenM (approvalMode = ''demo'')
       (appendOutbox s ''access_request'' (req_ID request) outboxNotifyRequestResult (request_payload (req_ID request))))))"

definition create_tx :: "svc \<Rightarrow> create_input \<Rightarrow> string \<Rightarrow> string \<Rightarrow> access_request \<Rightarrow> access_request M" where
  "create_tx s input approvalMode assetID request0 =
     thenM (iam_Lock s True)
     (thenM (authorizeIn s (in_ApplicantID input) PermissionRequestManage)
     (bindM (if approvalMode = ''required'' then materializeApproval s request0
             else returnM (request0, [])) (\<lambda>(request1, planned).
      thenM (whenM (approvalMode = ''admin_test'') (authorizeIn s (in_ApplicantID input) PermissionRoleManage))
      (thenM (whenM (auto_approved approvalMode)
               (thenM (sessions_LockApplicantAssetPort s (in_ApplicantID input) (in_AssetID input) (in_TargetPort input))
                  (no_active_session s (in_ApplicantID input) (in_AssetID input) (in_TargetPort input))))
      (bindM (assets_GetByIDForUpdate s assetID) (\<lambda>asset.
      thenM (unlessM (asset_Status asset = ResourceStatusEnabled) ErrStateConflict)
      (thenM (unlessM (\<not> (svc_demoMode s \<and> asset_MaxTTLSeconds asset < req_TTLSeconds request1)) ErrValidation)
      (bindM (sessionAuditPolicy s asset request1) (\<lambda>policy.
      thenM (checkM (validateWebAccess request1 policy))
      (bindM (requests_Create s request1) (\<lambda>request.
      thenM (forM planned (\<lambda>a. thenM (approvals_Create s (a\<lparr>appr_RequestID := req_ID request\<rparr>)) (returnM ())))
      (thenM (appendAudit s (created_audit input approvalMode request))
      (thenM (if auto_approved approvalMode then start_session s input approvalMode asset request
              else appendOutbox s ''access_request'' (req_ID request) outboxNotifyApproval (request_payload (req_ID request)))
      (returnM request))))))))))))))"

text \<open>The lookup of an earlier submission with the same key.\<close>

definition existing_request :: "create_input \<Rightarrow> string \<Rightarrow> access_request \<Rightarrow> err + access_request" where
  "existing_request input approvalMode existing =
     (if req_ApplicantID existing \<noteq> in_ApplicantID input then Inl ErrForbidden
      else if \<not> sameRequestPayload existing input \<or> req_ApprovalMode existing \<noteq> approvalMode then Inl ErrConflict
      else Inr existing)"

text \<open>The reads and checks before the transaction.\<close>

definition create_checks :: "svc \<Rightarrow> create_input \<Rightarrow> asset M" where
  "create_checks s input =
     thenM (whenM (in_SourceIP input \<noteq> [])
             (bindM (clientAccessEnabledIn s) (\<lambda>enabled. unlessM enabled ErrValidation)))
     (bindM (auto_tx s (assets_GetByID s (in_AssetID input))) (\<lambda>asset.
      thenM (unlessM (\<not> (asset_RegionID asset \<noteq> in_RegionID input \<or> asset_Status asset \<noteq> ResourceStatusEnabled))
               ErrValidation)
      (bindM (auto_tx s (regions_GetByID s (in_RegionID input))) (\<lambda>region.
      thenM (unlessM (region_Status region = ResourceStatusEnabled) ErrValidation)
      (bindM (tryM (auto_tx s (assets_GetPort s (in_AssetID input) (in_TargetPort input) ''tcp''))) (\<lambda>port.
      thenM (case port of
               Inr _ \<Rightarrow> returnM ()
             | Inl e \<Rightarrow> if err_Is e ErrNotFound then failM ErrValidation else failM e)
      (thenM (unlessM (\<not> (effective_ttl s input < 1 \<or> effective_ttl s input > max_ttl s asset)) ErrValidation)
      (thenM (auto_tx s (no_active_session s (in_ApplicantID input) (in_AssetID input) (in_TargetPort input)))
      (returnM asset)))))))))"

definition create_fresh :: "svc \<Rightarrow> create_input \<Rightarrow> string \<Rightarrow> access_request M" where
  "create_fresh s input approvalMode =
     bindM (create_checks s input) (\<lambda>asset.
     bindM (id_New s) (\<lambda>i.
     bindM (tryM (InTx s (create_tx s input approvalMode (asset_ID asset) (new_request s input approvalMode i)))) (\<lambda>r.
     case r of
       Inr request \<Rightarrow> returnM request
     | Inl e \<Rightarrow>
         if err_Is e ErrConflict
         then bindM (tryM (auto_tx s (requests_GetByIdempotencyKey s (in_IdempotencyKey input)))) (\<lambda>l.
              case l of
                Inr existing \<Rightarrow>
                  if req_ApplicantID existing = in_ApplicantID input
                  then if sameRequestPayload existing input \<and> req_ApprovalMode existing = approvalMode
                       then returnM existing else failM ErrConflict
                  else failM e
              | Inl _ \<Rightarrow> failM e)
         else failM e)))"

definition createAccessRequest :: "svc \<Rightarrow> create_input \<Rightarrow> string \<Rightarrow> access_request M" where
  "createAccessRequest s input0 approvalMode =
     thenM (checkM (validateCreateInput (trim_input input0)))
     (let input = normalize_input s (trim_input input0) in
      thenM (requireActiveUser s (in_ApplicantID input))
      (bindM (tryM (auto_tx s (requests_GetByIdempotencyKey s (in_IdempotencyKey input)))) (\<lambda>l.
       case l of
         Inr existing \<Rightarrow> liftE (existing_request input approvalMode existing)
       | Inl e \<Rightarrow> if \<not> err_Is e ErrNotFound then failM e else create_fresh s input approvalMode)))"

definition CreateAccessRequest :: "svc \<Rightarrow> create_input \<Rightarrow> access_request M" where
  "CreateAccessRequest s input =
     (if svc_demoMode s then createAccessRequest s input ''demo'' else createAccessRequest s input ''required'')"

definition CreateTestAccessRequest :: "svc \<Rightarrow> create_input \<Rightarrow> access_request M" where
  "CreateTestAccessRequest s input =
     thenM (Authorize s (in_ApplicantID input) PermissionRoleManage)
     (thenM (checkM (validateTestAccessInput input))
     (createAccessRequest s input ''admin_test''))"

subsection \<open>Reading\<close>

definition GetAccessRequest :: "svc \<Rightarrow> string \<Rightarrow> string \<Rightarrow> access_request M" where
  "GetAccessRequest s userID requestID =
     thenM (requireActiveUser s userID)
     (thenM (checkM (validateUUID requestID))
     (bindM (auto_tx s (requests_GetByID s requestID)) (\<lambda>request.
      bindM (if req_ApplicantID request \<noteq> userID
             then bindM (isAdminUser s userID) (\<lambda>admin. returnM (\<not> admin)) else returnM False) (\<lambda>stranger.
      thenM (whenM stranger
              (bindM (auto_tx s (approvals_ListByRequest s (req_ID request))) (\<lambda>approvals.
               unlessM (list_ex (\<lambda>a. appr_ApproverID a = userID) approvals) ErrForbidden)))
      (returnM request)))))"

definition ListMyAccessRequests :: "svc \<Rightarrow> string \<Rightarrow> int \<Rightarrow> int \<Rightarrow> access_request list M" where
  "ListMyAccessRequests s userID limit offset =
     thenM (requireActiveUser s userID) (auto_tx s (requests_ListByApplicant s userID limit offset))"

definition ListPendingApprovals :: "svc \<Rightarrow> string \<Rightarrow> int \<Rightarrow> int \<Rightarrow> approval list M" where
  "ListPendingApprovals s userID limit offset =
     thenM (Authorize s userID PermissionApprovalManage)
       (auto_tx s (approvals_ListPendingByApprover s userID limit offset))"

subsection \<open>Cancellation\<close>

definition cancellationActorType :: "bool \<Rightarrow> string" where
  "cancellationActorType admin = (if admin then ''admin'' else ''user'')"

definition request_cancelled_audit :: "bool \<Rightarrow> string \<Rightarrow> access_request \<Rightarrow> audit_event" where
  "request_cancelled_audit admin userID request =
     no_audit\<lparr>audit_EventType := ''access_request.cancelled'', audit_ActorType := cancellationActorType admin,
       audit_ActorID := Some userID, audit_SubjectUserID := Some (req_ApplicantID request),
       audit_RequestID := Some (req_ID request), audit_AssetID := Some (req_AssetID request),
       audit_TargetPort := Some (req_TargetPort request), audit_Result := Some ''success''\<rparr>"

definition cancel_revoke_audit :: "bool \<Rightarrow> string \<Rightarrow> access_request \<Rightarrow> session \<Rightarrow> string \<Rightarrow> audit_event" where
  "cancel_revoke_audit admin userID request session reason =
     no_audit\<lparr>audit_EventType := ''session.revoke_failed'', audit_ActorType := cancellationActorType admin,
       audit_ActorID := Some userID, audit_SubjectUserID := Some (req_ApplicantID request),
       audit_RequestID := Some (req_ID request), audit_SessionID := Some (sess_ID session),
       audit_AssetID := Some (req_AssetID request), audit_TargetPort := Some (req_TargetPort request),
       audit_Result := Some ''failed'', audit_Reason := Some reason\<rparr>"

text \<open>A claimed session may have a remote process: its revocation is recorded and queued.\<close>

definition cancel_claimed :: "svc \<Rightarrow> bool \<Rightarrow> string \<Rightarrow> access_request \<Rightarrow> session \<Rightarrow> unit M" where
  "cancel_claimed s admin userID request session =
     (let reason = ''access request cancelled during provisioning'' in
      thenM (sessions_MarkProvisionRevokeFailed s (sess_ID session) (sess_Version session) reason)
      (thenM (append_session_event s (sess_ID session) ''session.revoke_failed'' (cancellationActorType admin)
               (Some userID) (reason_metadata reason))
      (thenM (appendAudit s (cancel_revoke_audit admin userID request session reason))
      (thenM (queue_session_command s (sess_ID session) outboxSessionRevoke
               (revoke_payload (sess_ID session) ''request_cancelled''))
      (returnM ())))))"

text \<open>The switch on the status of the linked session; the result is \<open>revokeQueued\<close>.\<close>

definition cancel_linked :: "svc \<Rightarrow> bool \<Rightarrow> string \<Rightarrow> access_request \<Rightarrow> session \<Rightarrow> bool M" where
  "cancel_linked s admin userID request session =
     (if sess_Status session = SessionProvisioning then
        if sess_Version session = 0 then
          thenM (sessions_MarkProvisionFailed s (sess_ID session) (sess_Version session)
                  ''access request cancelled before session start'')
          (thenM (append_session_event s (sess_ID session) ''session.cancelled_before_start''
                   (cancellationActorType admin) (Some userID) [])
          (returnM False))
        else thenM (cancel_claimed s admin userID request session) (returnM True)
      else if sess_Status session \<in> {SessionRunning, SessionRevokeFailed, SessionManualIntervention} then
        thenM (sessions_BeginRevoke s (sess_ID session))
        (thenM (append_session_event s (sess_ID session) ''session.revoke_requested''
                 (cancellationActorType admin) (Some userID) (reason_metadata ''request_cancelled''))
        (returnM True))
      else returnM (sess_Status session = SessionRevoking))"

definition linked_session :: "svc \<Rightarrow> string \<Rightarrow> session option M" where
  "linked_session s requestID =
     bindM (tryM (sessions_GetByRequestID s requestID)) (\<lambda>r.
       case r of
         Inr session \<Rightarrow> bindM (sessions_GetByIDForUpdate s (sess_ID session)) (\<lambda>v. returnM (Some v))
       | Inl e \<Rightarrow> if err_Is e ErrNotFound then returnM None else failM e)"

definition request_terminal :: "request_status \<Rightarrow> bool" where
  "request_terminal st \<longleftrightarrow>
     st = AccessRequestCancelled \<or> st = AccessRequestRejected \<or> st = AccessRequestApprovalExpired"

definition cancel_tx :: "svc \<Rightarrow> bool \<Rightarrow> string \<Rightarrow> string \<Rightarrow> (access_request \<times> session option) M" where
  "cancel_tx s admin userID requestID =
     bindM (requests_GetByIDForUpdate s requestID) (\<lambda>request.
     bindM (if request_terminal (req_Status request) then returnM request
            else if req_Status request \<noteq> AccessRequestPendingApproval \<and> req_Status request \<noteq> AccessRequestApproved
            then failM ErrStateConflict
            else requests_Cancel s requestID) (\<lambda>cancelled.
     bindM (linked_session s requestID) (\<lambda>linked.
     bindM (case linked of None \<Rightarrow> returnM False | Some v \<Rightarrow> cancel_linked s admin userID request v) (\<lambda>revokeQueued.
     thenM (whenM (\<not> request_terminal (req_Status request))
             (thenM (appendAudit s (request_cancelled_audit admin userID request))
                (appendOutbox s ''access_request'' (req_ID request) outboxNotifyRequestResult
                   (request_payload (req_ID request)))))
     (thenM (case linked of
               None \<Rightarrow> returnM ()
             | Some v \<Rightarrow> whenM revokeQueued
                 (thenM (queue_session_command s (sess_ID v) outboxSessionRevoke
                          (revoke_payload (sess_ID v) ''request_cancelled'')) (returnM ())))
     (returnM (cancelled, linked)))))))"

definition CancelAccessRequest :: "svc \<Rightarrow> string \<Rightarrow> string \<Rightarrow> access_request M" where
  "CancelAccessRequest s userID requestID =
     thenM (requireActiveUser s userID)
     (thenM (checkM (validateUUID requestID))
     (bindM (auto_tx s (requests_GetByID s requestID)) (\<lambda>request.
      bindM (if req_ApplicantID request \<noteq> userID then isAdminUser s userID else returnM False) (\<lambda>admin.
      thenM (unlessM (\<not> (req_ApplicantID request \<noteq> userID \<and> \<not> admin)) ErrForbidden)
      (bindM (InTx s (cancel_tx s admin userID requestID)) (\<lambda>(cancelled, linked).
       thenM (case linked of None \<Rightarrow> returnM () | Some v \<Rightarrow> discardSessionToken s (sess_ID v))
       (returnM cancelled)))))))"

subsection \<open>Steps of the request handlers\<close>

text \<open>Materialising an approval chain fills in the snapshot and the deadline of the request.\<close>

lemma yields_materializeApproval:
  "yields (\<lambda>(r, as). \<exists>snap e. r = request\<lparr>req_ApprovalExpiresAt := e, req_WorkflowSnapshot := snap\<rparr>) (materializeApproval s request)"
  unfolding materializeApproval_def by (intro yield yields_bind yields_return) auto

text \<open>The transaction of a new request, statement by statement; everything before the insert only reads.\<close>

lemma run_create_tx:
  assumes "create_tx s input mode a r0 w = (Inr r, w')"
  obtains r1 planned u0 u1 w1 w2 w3 w4 asset where
    "(if mode = ''required'' then materializeApproval s r0 else returnM (r0, [])) u0 = (Inr (r1, planned), u1)"
    "auto_approved mode \<longrightarrow>
       active_sessions (w_db w) (in_ApplicantID input) (in_AssetID input) (in_TargetPort input) = []"
    "w_db w1 = w_db w" "requests_Create s r1 w1 = (Inr r, w2)"
    "forM planned (\<lambda>a. thenM (approvals_Create s (a\<lparr>appr_RequestID := req_ID r\<rparr>)) (returnM ())) w2 = (Inr (), w3)"
    "appendAudit s (created_audit input mode r) w3 = (Inr (), w4)"
    "(if auto_approved mode then start_session s input mode asset r
      else appendOutbox s ''access_request'' (req_ID r) outboxNotifyApproval (request_payload (req_ID r))) w4 = (Inr (), w')"
proof -
  let ?mat = "if mode = ''required'' then materializeApproval s r0 else returnM (r0, [])"
  let ?test = "whenM (mode = ''admin_test'') (authorizeIn s (in_ApplicantID input) PermissionRoleManage)"
  let ?free = "whenM (auto_approved mode) (thenM
     (sessions_LockApplicantAssetPort s (in_ApplicantID input) (in_AssetID input) (in_TargetPort input))
     (no_active_session s (in_ApplicantID input) (in_AssetID input) (in_TargetPort input)))"
  from assms obtain z0 v0 z1 v1 rp v2 z2 v3 z3 v4 asset v5 policy v6 z4 w2 w3 z5 w4 z6 where
    x: "iam_Lock s True w = (Inr z0, v0)" "authorizeIn s (in_ApplicantID input) PermissionRequestManage v0 = (Inr z1, v1)"
      "?mat v1 = (Inr rp, v2)" "?test v2 = (Inr z2, v3)" "?free v3 = (Inr z3, v4)"
      "assets_GetByIDForUpdate s a v4 = (Inr asset, v5)" "sessionAuditPolicy s asset (fst rp) v5 = (Inr policy, v6)"
    and y: "requests_Create s (fst rp) v6 = (Inr r, w2)"
      "forM (snd rp) (\<lambda>a. thenM (approvals_Create s (a\<lparr>appr_RequestID := req_ID r\<rparr>)) (returnM ())) w2 = (Inr z4, w3)"
      "appendAudit s (created_audit input mode r) w3 = (Inr z5, w4)"
      "(if auto_approved mode then start_session s input mode asset r
        else appendOutbox s ''access_request'' (req_ID r) outboxNotifyApproval (request_payload (req_ID r))) w4 = (Inr z6, w')"
    unfolding create_tx_def
    by (simp only: run_bind run_then run_unless run_check run_return case_prod_beta) (elim exE conjE, simp only:)
  have mat: "keeps (=) ?mat" by (intro frame)
  have test: "keeps (=) ?test" by (intro frame)
  have d3: "w_db v3 = w_db w"
    using keepsD [OF same.resp_authorisation(1) x(1)] keepsD [OF same.resp_authorizeIn x(2)] keepsD [OF mat x(3)] keepsD [OF test x(4)]
    by simp
  have f: "w_db v4 = w_db v3 \<and> (auto_approved mode \<longrightarrow>
      active_sessions (w_db v3) (in_ApplicantID input) (in_AssetID input) (in_TargetPort input) = [])"
    using x(5) by (auto simp: run_when run_then sessions_LockApplicantAssetPort_def run_query dest!: run_no_active_session split: if_splits)
  have "w_db v6 = w_db v4"
    using x(6) keepsD [OF same.resp_sessionAuditPolicy x(7)] by (simp add: assets_GetByIDForUpdate_def run)
  then show thesis using that [of v1 "fst rp" "snd rp" v2 v6 w2 w3 w4 asset] x(3) y f d3 by simp
qed

text \<open>Every planned approval asks somebody else about the pending request.\<close>

lemma planned_steps:
  assumes "forM planned (\<lambda>a. thenM (approvals_Create s (a\<lparr>appr_RequestID := req_ID r\<rparr>)) (returnM ())) w = (Inr u, w')"
    and "r \<in> set (db_requests (w_db w))" "req_Status r = AccessRequestPendingApproval"
    and "\<forall>a\<in>set planned. appr_ApproverID a \<noteq> req_ApplicantID r"
  shows "db_steps (w_db w) (w_db w')"
  using assms
proof (induction planned arbitrary: w)
  case (Cons a planned)
  from Cons.prems(1) obtain w1 where
    rest: "forM planned (\<lambda>a. thenM (approvals_Create s (a\<lparr>appr_RequestID := req_ID r\<rparr>)) (returnM ())) w1 = (Inr u, w')"
    and d1: "w_db w1 = snd (apprs_Create (a\<lparr>appr_RequestID := req_ID r\<rparr>) (w_now w) (w_db w))"
    by (auto simp: run approvals_Create_def elim!: that)
  have "askable (w_db w) (a\<lparr>appr_RequestID := req_ID r\<rparr>)" using Cons.prems by (auto simp: askable_def)
  then have "db_step (w_db w) (w_db w1)" unfolding d1 by (rule db_step.approval_create)
  moreover have "r \<in> set (db_requests (w_db w1))" using Cons.prems(2) by (simp add: d1 apprs_Create_def Let_def)
  ultimately show ?case using Cons.IH [OF rest] Cons.prems(3,4) by (auto intro: converse_rtranclp_into_rtranclp)
qed (simp add: run)

lemma start_session_steps:
  assumes st: "start_session s input mode asset r w = (Inr u, w')"
    and r: "r \<in> set (db_requests (w_db w))" "req_Status r = AccessRequestApproved" "req_ApprovalMode r \<noteq> ''required''"
    and active: "\<And>x. x \<in> set (active_sessions (w_db w) (req_ApplicantID r) (req_AssetID r) (req_TargetPort r)) \<Longrightarrow>
      sess_RequestID x = req_ID r"
  shows "db_steps (w_db w) (w_db w')"
proof -
  let ?rest = "\<lambda>session. thenM (appendAudit s (auto_audit input mode r session asset))
     (thenM (appendOutbox s ''session'' (sess_ID session) outboxSessionProvision (session_payload (sess_ID session)))
     (whenM (mode = ''demo'')
       (appendOutbox s ''access_request'' (req_ID r) outboxNotifyRequestResult (request_payload (req_ID r)))))"
  from st obtain v w1 where g: "create_grant s asset r w = (Inr v, w1)" and e: "?rest v w1 = (Inr u, w')"
    unfolding start_session_def run_bind by blast
  have "db_steps (w_db w) (w_db w1)"
    by (rule create_grant_steps [OF g r(1)]) (use r active in \<open>auto simp: approved_chain_def\<close>)
  moreover have "keeps db_steps (?rest v)" by (intro frame)
  ultimately show ?thesis using keepsD e by (meson rtranclp_trans)
qed

lemma run_requests_Create:
  assumes "requests_Create s v w = (Inr r, w')"
  shows "r = v\<lparr>req_ApprovalMode := (if req_ApprovalMode v = [] then ''required'' else req_ApprovalMode v),
      req_CreatedAt := w_now w, req_UpdatedAt := w_now w\<rparr> \<and>
    w_db w' = w_db w\<lparr>db_requests := db_requests (w_db w) @ [r]\<rparr>"
proof -
  obtain e d where e: "reqs_Create v (w_now w) (w_db w) = (e, d)" by fastforce
  then have "e = Inr r" "w_db w' = d" using assms by (auto simp: requests_Create_def run)
  then show ?thesis using e unfolding reqs_Create_def Let_def
    by (simp split: if_split_asm) (elim conjE, simp)+
qed

text \<open>What the checks before the transaction leave through.\<close>

definition bounded_input :: "svc \<Rightarrow> create_input \<Rightarrow> bool" where
  "bounded_input s input \<longleftrightarrow> 1 \<le> effective_ttl s input \<and> effective_ttl s input \<le> 5 * 3600 \<and>
     1 \<le> in_TargetPort input \<and> in_TargetPort input \<le> 65535"

lemma create_tx_steps:
  assumes ct: "create_tx s input mode a (new_request s input mode i) w = (Inr r, w')" and b: "bounded_input s input"
  shows "db_steps (w_db w) (w_db w')"
proof -
  let ?r0 = "new_request s input mode i"
  from run_create_tx [OF ct] obtain r1 planned u0 u1 w1 w2 w3 w4 asset where
    m: "(if mode = ''required'' then materializeApproval s ?r0 else returnM (?r0, [])) u0 = (Inr (r1, planned), u1)" and
    free: "auto_approved mode \<longrightarrow> active_sessions (w_db w) (in_ApplicantID input) (in_AssetID input) (in_TargetPort input) = []" and
    d1: "w_db w1 = w_db w" and c: "requests_Create s r1 w1 = (Inr r, w2)" and
    f: "forM planned (\<lambda>a. thenM (approvals_Create s (a\<lparr>appr_RequestID := req_ID r\<rparr>)) (returnM ())) w2 = (Inr (), w3)" and
    au: "appendAudit s (created_audit input mode r) w3 = (Inr (), w4)" and
    e: "(if auto_approved mode then start_session s input mode asset r
      else appendOutbox s ''access_request'' (req_ID r) outboxNotifyApproval (request_payload (req_ID r))) w4 = (Inr (), w')" .
  have r1: "\<exists>snap x. r1 = ?r0\<lparr>req_ApprovalExpiresAt := x, req_WorkflowSnapshot := snap\<rparr>"
  proof (cases "mode = ''required''")
    case True
    then show ?thesis using m yields_materializeApproval [of ?r0 s] unfolding yields_def by (auto dest!: spec [of _ u0])
  next
    case False
    then have "r1 = ?r0\<lparr>req_ApprovalExpiresAt := None, req_WorkflowSnapshot := None\<rparr>"
      using m by (simp add: run new_request_def)
    then show ?thesis by blast
  qed
  have d2: "w_db w2 = w_db w\<lparr>db_requests := db_requests (w_db w) @ [r]\<rparr>"
    and r: "r = r1\<lparr>req_ApprovalMode := (if req_ApprovalMode r1 = [] then ''required'' else req_ApprovalMode r1),
      req_CreatedAt := w_now w1, req_UpdatedAt := w_now w1\<rparr>"
    using run_requests_Create [OF c] unfolding d1 by blast+
  have fresh: "fresh_request r1"
    using r1 b by (auto simp: fresh_request_def new_request_def bounded_input_def bounded_request_def)
  have s2: "db_steps (w_db w) (w_db w2)" using c d1 fresh keepsD [OF keeps_other_writes(1) c] by simp
  have fields: "req_Status r = req_Status ?r0" "req_ApplicantID r = in_ApplicantID input" "req_AssetID r = in_AssetID input"
    "req_TargetPort r = in_TargetPort input" "mode \<noteq> [] \<Longrightarrow> req_ApprovalMode r = mode"
    using r1 by (auto simp: r new_request_def)
  show ?thesis
  proof (cases "auto_approved mode")
    case True
    then have p: "planned = []" using m by (auto simp: auto_approved_def run)
    have d4: "db_requests (w_db w4) = db_requests (w_db w) @ [r]" "db_sessions (w_db w4) = db_sessions (w_db w)"
      using f keepsD [OF only_appendAudit [of "{TAudit}"] au] by (auto simp: p run d2 changes_only_def)
    have "db_steps (w_db w4) (w_db w')"
    proof (rule start_session_steps)
      show "start_session s input mode asset r w4 = (Inr (), w')" using e True by simp
      show "r \<in> set (db_requests (w_db w4))" by (simp add: d4)
      show "req_Status r = AccessRequestApproved" using True by (auto simp: fields(1) new_request_def auto_approved_def)
      show "req_ApprovalMode r \<noteq> ''required''" using True fields(5) by (auto simp: auto_approved_def)
      show "sess_RequestID x = req_ID r"
        if "x \<in> set (active_sessions (w_db w4) (req_ApplicantID r) (req_AssetID r) (req_TargetPort r))" for x
        using that free True by (auto simp: active_sessions_def session_request_def d4 fields filter_empty_conv)
    qed
    then show ?thesis using s2 f keepsD [OF keeps_appendAudit au] by (simp add: p run)
  next
    case False
    then have k: "db_steps (w_db w4) (w_db w')" using e keepsD [OF keeps_appendOutbox] by auto
    have "db_steps (w_db w2) (w_db w3)"
    proof (rule planned_steps [OF f])
      show "r \<in> set (db_requests (w_db w2))" by (simp add: d2)
      show "req_Status r = AccessRequestPendingApproval" using False by (simp add: fields(1) new_request_def auto_approved_def)
      show "\<forall>a\<in>set planned. appr_ApproverID a \<noteq> req_ApplicantID r"
      proof (cases "mode = ''required''")
        case True
        then show ?thesis using m planned_not_applicant [of s ?r0 u0 r1 planned u1] by (auto simp: fields(2) new_request_def)
      qed (use m in \<open>auto simp: run\<close>)
    qed
    then show ?thesis using s2 k keepsD [OF keeps_appendAudit au] by (meson rtranclp_trans)
  qed
qed

lemma keeps_create_tx:
  "peers s \<Longrightarrow> bounded_input s input \<Longrightarrow> keeps db_steps (InTx s (create_tx s input mode a (new_request s input mode i)))"
  by (erule steps.resp_InTx_run) (rule create_tx_steps)

lemma keeps_create_checks [frame]: "peers s \<Longrightarrow> keeps db_steps (create_checks s input)"
  unfolding create_checks_def by (intro frame)

lemma max_ttl_le: "max_ttl s a \<le> 5 * 3600"
  by (simp add: max_ttl_def maxAccessRequestTTL_def Let_def)

lemma yields_create_checks:
  "yields (\<lambda>_. 1 \<le> effective_ttl s input \<and> effective_ttl s input \<le> 5 * 3600) (create_checks s input)"
proof -
  have "1 \<le> effective_ttl s input \<and> effective_ttl s input \<le> 5 * 3600"
    if "create_checks s input w = (Inr a, w')" for w a w'
    using that max_ttl_le [of s a] unfolding create_checks_def run_bind run_then run_unless run_return by force
  then show ?thesis by (auto simp: yields_def split: prod.split sum.split)
qed

lemma keeps_create_fresh:
  assumes "peers s" "1 \<le> in_TargetPort input" "in_TargetPort input \<le> 65535"
  shows "keeps db_steps (create_fresh s input mode)"
  unfolding create_fresh_def
proof (rule steps.resp_bind_post [OF keeps_create_checks [OF assms(1)] yields_create_checks])
  fix a assume "1 \<le> effective_ttl s input \<and> effective_ttl s input \<le> 5 * 3600"
  then have "bounded_input s input" using assms(2,3) by (simp add: bounded_input_def)
  then show "keeps db_steps (bindM (id_New s) (\<lambda>i.
     bindM (tryM (InTx s (create_tx s input mode (asset_ID a) (new_request s input mode i)))) (\<lambda>r.
     case r of Inr request \<Rightarrow> returnM request
     | Inl e \<Rightarrow>
         if err_Is e ErrConflict
         then bindM (tryM (auto_tx s (requests_GetByIdempotencyKey s (in_IdempotencyKey input)))) (\<lambda>l.
              case l of Inr existing \<Rightarrow>
                  if req_ApplicantID existing = in_ApplicantID input
                  then if sameRequestPayload existing input \<and> req_ApprovalMode existing = mode
                       then returnM existing else failM ErrConflict
                  else failM e
              | Inl _ \<Rightarrow> failM e)
         else failM e)))"
    by (intro frame keeps_create_tx assms(1))
qed

lemma validateCreateInput_port:
  "validateCreateInput input = None \<Longrightarrow> 1 \<le> in_TargetPort input \<and> in_TargetPort input \<le> 65535"
  by (simp add: validateCreateInput_def split: if_splits)

lemma keeps_createAccessRequest [frame]:
  assumes "peers s"
  shows "keeps db_steps (createAccessRequest s input mode)"
  unfolding createAccessRequest_def
proof (rule steps.resp_check_then)
  assume "validateCreateInput (trim_input input) = None"
  then have "1 \<le> in_TargetPort (normalize_input s (trim_input input))" "in_TargetPort (normalize_input s (trim_input input)) \<le> 65535"
    using validateCreateInput_port by (auto simp: normalize_input_def)
  then show "keeps db_steps (let input = normalize_input s (trim_input input) in
      thenM (requireActiveUser s (in_ApplicantID input))
      (bindM (tryM (auto_tx s (requests_GetByIdempotencyKey s (in_IdempotencyKey input)))) (\<lambda>l.
       case l of Inr existing \<Rightarrow> liftE (existing_request input mode existing)
       | Inl e \<Rightarrow> if \<not> err_Is e ErrNotFound then failM e else create_fresh s input mode)))"
    unfolding Let_def by (intro frame keeps_create_fresh assms)
qed

lemma keeps_CreateAccessRequest [frame]: "peers s \<Longrightarrow> keeps db_steps (CreateAccessRequest s input)"
  unfolding CreateAccessRequest_def by (intro frame)

lemma keeps_CreateTestAccessRequest [frame]: "peers s \<Longrightarrow> keeps db_steps (CreateTestAccessRequest s input)"
  unfolding CreateTestAccessRequest_def by (intro frame)

lemma keeps_cancel_linked [frame]: "keeps db_steps (cancel_linked s admin u r v)"
  unfolding cancel_linked_def cancel_claimed_def by (intro frame)

lemma keeps_cancel_tx [frame]: "keeps db_steps (cancel_tx s admin u r)"
  unfolding cancel_tx_def linked_session_def by (intro frame)

lemma keeps_CancelAccessRequest [frame]: "peers s \<Longrightarrow> keeps db_steps (CancelAccessRequest s u r)"
  unfolding CancelAccessRequest_def by (intro frame)

end
