(* ===== verification/Provision.thy ===== *)
theory Provision
  imports Lifecycle
begin

text \<open>
  \<open>ProvisionSession\<close> (\<open>service/access.go\<close>): preflight checks, choice of a gateway and the claim
  of the session under its capacity lock, the create call with its lease heartbeat, the checks
  of the answer, the transaction that makes the session running or hands it to revocation, and
  the compensation of failed attempts. Where the code returns a value next to an error, the error
  is what is modelled.
\<close>

subsection \<open>Gateway answers\<close>

definition NormalizeConnectionMode :: "string \<Rightarrow> string" where
  "NormalizeConnectionMode mode = (if mode = [] then ''tunnel'' else mode)"

definition ValidateConnectionIdentity :: "string \<Rightarrow> string \<Rightarrow> err option" where
  "ValidateConnectionIdentity mode publicKey =
     (let m = NormalizeConnectionMode mode in
      if m = ''native'' \<or> m = ''audit'' then if publicKey \<noteq> [] then Some ErrOther else None
      else Some ErrOther)"

definition ValidateConnectionResponse :: "string \<Rightarrow> create_response \<Rightarrow> err option" where
  "ValidateConnectionResponse mode response =
     (let m = NormalizeConnectionMode mode in
      if NormalizeConnectionMode (cr_ConnectionMode response) \<noteq> m then Some ErrOther
      else if m = ''native'' \<or> m = ''audit'' then if cr_ServerCertificate response \<noteq> [] then Some ErrOther else None
      else Some ErrOther)"

definition MaxSessionConnections :: int where
  "MaxSessionConnections = 5"

definition maxGatewayProcessIDBytes :: int where
  "maxGatewayProcessIDBytes = 128"

definition process_id_char :: "char \<Rightarrow> bool" where
  "process_id_char c \<longleftrightarrow> in_range c 97 122 \<or> in_range c 65 90 \<or> in_range c 48 57 \<or>
     c = CHR ''-'' \<or> c = CHR ''_'' \<or> c = CHR ''.'' \<or> c = CHR '':''"

definition validGatewayProcessID :: "string \<Rightarrow> bool" where
  "validGatewayProcessID value \<longleftrightarrow>
     \<not> (value = [] \<or> int (length value) > maxGatewayProcessIDBytes) \<and> list_all process_id_char value"

definition validGatewayCreateResponse :: "create_response \<Rightarrow> string \<Rightarrow> string \<Rightarrow> bool" where
  "validGatewayCreateResponse response sessionID mode =
     (if ValidateConnectionResponse mode response \<noteq> None then False
      else if cr_SessionID response \<noteq> sessionID \<or> \<not> validGatewayProcessID (cr_ProcessID response) \<or>
        cr_ListenerPort response < 1 \<or> cr_ListenerPort response > 65535 \<or>
        cr_ExternalPort response < 1 \<or> cr_ExternalPort response > 65535 then False
      else if cr_ExposureMode response \<noteq> ''direct'' \<and> cr_ExposureMode response \<noteq> ''kubernetes_nodeport'' then False
      else if TrimSpace (cr_ExposureRef response) = [] \<or> TrimSpace (cr_ExposureRef response) \<noteq> cr_ExposureRef response \<or>
        int (length (cr_ExposureRef response)) > 253 then False
      else cr_Status response = [] \<or> cr_Status response = ''running'')"

definition validGatewayCloseResponse :: "close_response \<Rightarrow> string \<Rightarrow> bool" where
  "validGatewayCloseResponse response sessionID =
     (if cl_SessionID response \<noteq> sessionID then False
      else cl_Status response = ''closed'' \<or> cl_Status response = ''expired'' \<or> cl_Status response = ''not_found'')"

definition isTerminalGatewayStatus :: "string \<Rightarrow> bool" where
  "isTerminalGatewayStatus st \<longleftrightarrow> st = ''closed'' \<or> st = ''expired'' \<or> st = ''failed'' \<or> st = ''not_found''"

definition isTerminalSession :: "session_status \<Rightarrow> bool" where
  "isTerminalSession st \<longleftrightarrow>
     st \<in> {SessionExpired, SessionClosed, SessionFailed, SessionManualIntervention}"

subsection \<open>Failed attempts\<close>

definition session_audit :: "string \<Rightarrow> access_request \<Rightarrow> string \<Rightarrow> string \<Rightarrow> string \<Rightarrow> audit_event" where
  "session_audit eventType request sessionID result reason =
     no_audit\<lparr>audit_EventType := eventType, audit_ActorType := ''system'',
       audit_SubjectUserID := Some (req_ApplicantID request), audit_RequestID := Some (req_ID request),
       audit_SessionID := Some sessionID, audit_AssetID := Some (req_AssetID request),
       audit_TargetPort := Some (req_TargetPort request), audit_Result := Some result, audit_Reason := Some reason\<rparr>"

definition failProvision :: "svc \<Rightarrow> session \<Rightarrow> access_request \<Rightarrow> string \<Rightarrow> session M" where
  "failProvision s session request reason =
     thenM (InTx s
       (thenM (sessions_MarkProvisionFailed s (sess_ID session) (sess_Version session) reason)
         (appendAudit s (session_audit ''session.provision_failed'' request (sess_ID session) ''failed'' reason))))
     (thenM (auto_tx s (sessions_GetByID s (sess_ID session)))
     (failM ErrOther))"

definition failProvisionRevokeFailed :: "svc \<Rightarrow> session \<Rightarrow> access_request \<Rightarrow> string \<Rightarrow> err \<Rightarrow> session M" where
  "failProvisionRevokeFailed s session request reason cleanupErr =
     (let markedReason = reason @ '': compensation unavailable'' in
      thenM (InTx s
        (thenM (sessions_MarkProvisionRevokeFailed s (sess_ID session) (sess_Version session) markedReason)
        (thenM (append_session_event s (sess_ID session) ''session.revoke_failed'' ''system'' None
                 (reason_metadata markedReason))
        (thenM (appendAudit s (session_audit ''session.revoke_failed'' request (sess_ID session) ''failed'' markedReason))
        (appendOutbox s ''session'' (sess_ID session) outboxSessionRevoke
           (revoke_payload (sess_ID session) ''provision_compensation''))))))
      (thenM (auto_tx s (sessions_GetByID s (sess_ID session)))
      (failM (Joined cleanupErr ErrOther))))"

definition compensateGatewaySession :: "svc \<Rightarrow> string \<Rightarrow> string \<Rightarrow> err option M" where
  "compensateGatewaySession s endpoint sessionID =
     bindM (observe (\<lambda>p. svc_close s p endpoint sessionID (''compensate-'' @ sessionID))) (\<lambda>r.
     returnM (case r of
                Inl e \<Rightarrow> Some e
              | Inr response \<Rightarrow> if validGatewayCloseResponse response sessionID then None else Some ErrStateConflict))"

definition provisioningLeaseState :: "svc \<Rightarrow> session \<Rightarrow> (session \<times> bool) M" where
  "provisioningLeaseState s session =
     bindM (auto_tx s (sessions_GetByID s (sess_ID session))) (\<lambda>current.
     returnM (current, sess_Status current = SessionProvisioning \<and> sess_Version current = sess_Version session))"

definition compensate_or_fail :: "svc \<Rightarrow> gateway \<Rightarrow> session \<Rightarrow> access_request \<Rightarrow> string \<Rightarrow> session M" where
  "compensate_or_fail s gw session request reason =
     bindM (compensateGatewaySession s (gateway_ManagementEndpoint gw) (sess_ID session)) (\<lambda>cleanupErr.
     case cleanupErr of
       Some e \<Rightarrow> failProvisionRevokeFailed s session request reason e
     | None \<Rightarrow> failProvision s session request reason)"

text \<open>After a failed attempt the worker acts only while it still owns the lease.\<close>

definition abandon_attempt :: "svc \<Rightarrow> session \<Rightarrow> err \<Rightarrow> session M \<Rightarrow> session M" where
  "abandon_attempt s session err cleanup =
     bindM (tryM (provisioningLeaseState s session)) (\<lambda>st.
     case st of
       Inl stateErr \<Rightarrow> failM (Joined err stateErr)
     | Inr v \<Rightarrow>
         let current = fst v; owned = snd v in
         if sess_Status current = SessionRunning \<or> isTerminalSession (sess_Status current) then returnM current
         else if \<not> owned then failM err
         else cleanup)"

text \<open>Cleanup after a failed create call: the remote state may be unknown.\<close>

definition cleanup_create :: "svc \<Rightarrow> gateway \<Rightarrow> session \<Rightarrow> access_request \<Rightarrow> session M" where
  "cleanup_create s gw session request =
     bindM (observe (\<lambda>p. svc_status s p (gateway_ManagementEndpoint gw) (sess_ID session))) (\<lambda>remote.
     bindM (case remote of
              Inr st \<Rightarrow> if \<not> isTerminalGatewayStatus st
                       then compensateGatewaySession s (gateway_ManagementEndpoint gw) (sess_ID session)
                       else returnM None
            | Inl _ \<Rightarrow> compensateGatewaySession s (gateway_ManagementEndpoint gw) (sess_ID session)) (\<lambda>cleanupErr.
     case cleanupErr of
       Some e \<Rightarrow> failProvisionRevokeFailed s session request ''gateway_session_creation_failed'' e
     | None \<Rightarrow> failProvision s session request ''gateway_session_creation_failed''))"

subsection \<open>Preflight\<close>

definition reject :: "svc \<Rightarrow> session \<Rightarrow> access_request \<Rightarrow> string \<Rightarrow> unit M" where
  "reject s session request reason = thenM (failProvision s session request reason) (returnM ())"

definition provision_preflight :: "svc \<Rightarrow> session \<Rightarrow> access_request \<Rightarrow> asset M" where
  "provision_preflight s session request =
     thenM (whenM (req_Status request \<noteq> AccessRequestApproved)
             (reject s session request ''access request is no longer approved''))
     (thenM (whenM (validateWebAccess request (sess_AuditPolicy session) \<noteq> None)
             (reject s session request ''approved request is missing direct-access constraints''))
     (bindM (clock s) (\<lambda>now.
      thenM (whenM (\<not> approvedSessionExpiry session request > now)
             (reject s session request ''access request session validity has expired''))
      (bindM (auto_tx s (users_GetByID s (req_ApplicantID request))) (\<lambda>applicant.
      thenM (whenM (user_Status applicant \<noteq> UserStatusActive) (reject s session request ''applicant is inactive''))
      (thenM (whenM (req_ApprovalMode request = ''admin_test'')
               (bindM (tryM (Authorize s (req_ApplicantID request) PermissionRoleManage)) (\<lambda>r.
                case r of
                  Inr _ \<Rightarrow> returnM ()
                | Inl _ \<Rightarrow> reject s session request ''test access administrator permission is no longer available'')))
      (bindM (tryM (auto_tx s (assets_GetByID s (req_AssetID request)))) (\<lambda>r.
      bindM (case r of
               Inr asset \<Rightarrow> returnM asset
             | Inl e \<Rightarrow> if err_Is e ErrNotFound
                        then thenM (reject s session request ''asset is no longer available'') (failM e)
                        else failM e) (\<lambda>asset.
      thenM (whenM (asset_Status asset \<noteq> ResourceStatusEnabled) (reject s session request ''asset is not enabled''))
      (bindM (tryM (auto_tx s (assets_GetPort s (asset_ID asset) (req_TargetPort request) ''tcp''))) (\<lambda>port.
      thenM (case port of
               Inr _ \<Rightarrow> returnM ()
             | Inl _ \<Rightarrow> reject s session request ''approved asset port is no longer enabled'')
      (returnM asset))))))))))))"

subsection \<open>Claim\<close>

definition provisioningLease :: int where
  "provisioningLease = 60 * second"

definition probeGateway :: "svc \<Rightarrow> gateway \<Rightarrow> unit M" where
  "probeGateway s gw =
     bindM (observe (\<lambda>p. svc_probe s p gw)) (\<lambda>r.
     case r of
       Inl e \<Rightarrow> failM e
     | Inr (Some m) \<Rightarrow> auto_tx s (gateways_RecordHealth s (gateway_ID gw) m)
     | Inr None \<Rightarrow> auto_tx s (gateways_RecordHeartbeat s (gateway_ID gw)))"

definition gateways_LockCapacity :: "svc \<Rightarrow> string \<Rightarrow> unit M" where
  "gateways_LockCapacity s i = query s (\<lambda>_. Inr ())"

datatype claim_outcome = ClaimedOn session gateway | Replaced session | NoCandidate

definition claim_tx :: "svc \<Rightarrow> session \<Rightarrow> gateway \<Rightarrow> string \<Rightarrow> int option \<Rightarrow> session M" where
  "claim_tx s session candidate assetID after =
     thenM (gateways_LockCapacity s (gateway_ID candidate))
     (bindM (clock s) (\<lambda>now.
      sessions_ClaimProvisioningOnGateway s (sess_ID session) (sess_Version session) (now - provisioningLease)
        (gateway_ID candidate) assetID after))"

fun claim_gateway :: "svc \<Rightarrow> session \<Rightarrow> string \<Rightarrow> int option \<Rightarrow> gateway list \<Rightarrow> claim_outcome M" where
  "claim_gateway s session assetID after [] = returnM NoCandidate"
| "claim_gateway s session assetID after (candidate # rest) =
     bindM (tryM (whenM (svc_readinessSupported s) (probeGateway s candidate))) (\<lambda>probe.
     case probe of
       Inl _ \<Rightarrow> claim_gateway s session assetID after rest
     | Inr _ \<Rightarrow>
         bindM (tryM (InTx s (claim_tx s session candidate assetID after))) (\<lambda>claim.
         case claim of
           Inr claimed \<Rightarrow> returnM (ClaimedOn claimed candidate)
         | Inl e \<Rightarrow>
             if \<not> err_Is e ErrNotFound then failM e
             else bindM (auto_tx s (sessions_GetByID s (sess_ID session))) (\<lambda>current.
                  if sess_Status current \<noteq> SessionProvisioning \<or> sess_Version current \<noteq> sess_Version session
                  then returnM (Replaced current)
                  else claim_gateway s session assetID after rest)))"

subsection \<open>Create call under the lease heartbeat\<close>

text \<open>The renewals the heartbeat makes while the call is pending, up to the first failure.\<close>

primrec renew_lease :: "svc \<Rightarrow> session \<Rightarrow> nat \<Rightarrow> err option M" where
  "renew_lease s session 0 = returnM None"
| "renew_lease s session (Suc n) =
     bindM (tryM (auto_tx s (sessions_RenewProvisioningLease s (sess_ID session) (sess_Version session)))) (\<lambda>r.
     case r of Inl e \<Rightarrow> returnM (Some e) | Inr _ \<Rightarrow> renew_lease s session n)"

definition requestSourceIP :: "access_request \<Rightarrow> string" where
  "requestSourceIP request = (case req_SourceIP request of Some v \<Rightarrow> v | None \<Rightarrow> [])"

definition gateway_request :: "session \<Rightarrow> access_request \<Rightarrow> asset \<Rightarrow> int \<Rightarrow> create_request" where
  "gateway_request session request asset approvalExpiry =
     \<lparr>cq_ConnectionMode = sess_ConnectionMode session, cq_AuditPolicy = sess_AuditPolicy session,
      cq_SessionID = sess_ID session, cq_TargetID = asset_ID asset, cq_TargetPort = req_TargetPort request,
      cq_SourceIP = requestSourceIP request, cq_WebOnly = (req_SourceIP request = None),
      cq_TargetAccount = (case req_TargetAccount request of None \<Rightarrow> [] | Some v \<Rightarrow> v),
      cq_TTLSeconds = req_TTLSeconds request, cq_ExpiresAt = Some approvalExpiry,
      cq_MaxConnections = MaxSessionConnections\<rparr>"

definition create_remote ::
  "svc \<Rightarrow> session \<Rightarrow> access_request \<Rightarrow> asset \<Rightarrow> gateway \<Rightarrow> int \<Rightarrow> (err + create_response) M" where
  "create_remote s session request asset gw approvalExpiry =
     bindM (observe (svc_renewals s)) (\<lambda>n.
     bindM (renew_lease s session n) (\<lambda>leaseErr.
     bindM (observe (\<lambda>p. svc_create s p gw asset (gateway_request session request asset approvalExpiry))) (\<lambda>r.
     returnM (case leaseErr of
                None \<Rightarrow> r
              | Some le \<Rightarrow> (case r of Inr _ \<Rightarrow> Inl le | Inl e \<Rightarrow> Inl (Joined e le))))))"

subsection \<open>Start and expiry of the remote session\<close>

definition gatewayClockSkew :: int where
  "gatewayClockSkew = 120 * second"

definition started_at :: "create_response \<Rightarrow> int \<Rightarrow> int" where
  "started_at response now = (if cr_StartedAt response = 0 then now else cr_StartedAt response)"

definition valid_start :: "int \<Rightarrow> int \<Rightarrow> bool" where
  "valid_start startedAt now \<longleftrightarrow> \<not> (startedAt < now - gatewayClockSkew \<or> startedAt > now + gatewayClockSkew)"

definition expires_at :: "create_response \<Rightarrow> int \<Rightarrow> int" where
  "expires_at response approvalExpiry = (if cr_ExpiresAt response = 0 then approvalExpiry else cr_ExpiresAt response)"

definition valid_expiry :: "int \<Rightarrow> int \<Rightarrow> int \<Rightarrow> int \<Rightarrow> int \<Rightarrow> bool" where
  "valid_expiry expiresAt startedAt now approvalExpiry ttl \<longleftrightarrow>
     \<not> (\<not> expiresAt > startedAt \<or> \<not> expiresAt > now \<or> expiresAt > approvalExpiry \<or>
        expiresAt > startedAt + ttl * second)"

subsection \<open>The transaction that completes an attempt\<close>

text \<open>The first resource that was withdrawn while the gateway created the session; empty if none.\<close>

definition withdrawn_resource :: "user \<Rightarrow> region \<Rightarrow> asset \<Rightarrow> gateway \<Rightarrow> string" where
  "withdrawn_resource applicant region asset gw =
     (if user_Status applicant \<noteq> UserStatusActive then ''applicant_inactive_after_gateway_session_creation''
      else if region_Status region \<noteq> ResourceStatusEnabled then ''region_disabled_after_gateway_session_creation''
      else if asset_Status asset \<noteq> ResourceStatusEnabled then ''asset_disabled_after_gateway_session_creation''
      else if gateway_Status gw \<noteq> ResourceStatusEnabled then ''gateway_disabled_after_gateway_session_creation''
      else [])"

definition binding_reason :: "svc \<Rightarrow> string \<Rightarrow> string \<Rightarrow> string M" where
  "binding_reason s assetID gatewayID =
     bindM (tryM (gateways_GetAssetBindingForUpdate s assetID gatewayID)) (\<lambda>r.
     case r of
       Inl e \<Rightarrow> if err_Is e ErrNotFound then returnM ''gateway_binding_removed_after_gateway_session_creation'' else failM e
     | Inr b \<Rightarrow> returnM (if \<not> agb_Enabled b then ''gateway_binding_disabled_after_gateway_session_creation'' else []))"

definition port_reason :: "svc \<Rightarrow> string \<Rightarrow> int \<Rightarrow> string M" where
  "port_reason s assetID port =
     bindM (tryM (assets_GetPortForUpdate s assetID port ''tcp'')) (\<lambda>r.
     case r of
       Inl e \<Rightarrow> if err_Is e ErrNotFound then returnM ''asset_port_removed_after_gateway_session_creation'' else failM e
     | Inr p \<Rightarrow> returnM (if \<not> port_Enabled p then ''asset_port_disabled_after_gateway_session_creation'' else []))"

definition safety_reason :: "svc \<Rightarrow> access_request \<Rightarrow> asset \<Rightarrow> gateway \<Rightarrow> string M" where
  "safety_reason s request asset gw =
     bindM (users_GetByIDForUpdate s (req_ApplicantID request)) (\<lambda>latestApplicant.
     bindM (regions_GetByIDForUpdate s (asset_RegionID asset)) (\<lambda>latestRegion.
     bindM (assets_GetByIDForUpdate s (asset_ID asset)) (\<lambda>latestAsset.
     bindM (gateways_GetByIDForUpdate s (gateway_ID gw)) (\<lambda>latestGateway.
     let r0 = withdrawn_resource latestApplicant latestRegion latestAsset latestGateway in
     bindM (if r0 = [] then binding_reason s (asset_ID asset) (gateway_ID gw) else returnM r0) (\<lambda>r1.
     if r1 = [] then port_reason s (asset_ID asset) (req_TargetPort request) else returnM r1)))))"

text \<open>Authorisation was withdrawn: the session stays revocable and its revocation is queued.\<close>

definition withdraw_started :: "svc \<Rightarrow> session \<Rightarrow> access_request \<Rightarrow> string \<Rightarrow> session M" where
  "withdraw_started s session request safetyReason =
     (let approved = (safetyReason \<noteq> [] \<and> req_Status request = AccessRequestApproved);
          revokeReason = (if approved then safetyReason else ''access request cancelled after gateway session creation'');
          outboxReason = (if approved then ''authorization_changed'' else ''request_cancelled'')
      in thenM (sessions_MarkProvisionRevokeFailed s (sess_ID session) (sess_Version session) revokeReason)
         (bindM (sessions_GetByID s (sess_ID session)) (\<lambda>running.
          thenM (append_session_event s (sess_ID session) ''session.revoke_failed'' ''system'' None
                  (reason_metadata revokeReason))
          (thenM (appendAudit s (session_audit ''session.revoke_failed'' request (sess_ID session) ''failed'' revokeReason))
          (thenM (queue_session_command s (sess_ID session) outboxSessionRevoke
                   (revoke_payload (sess_ID session) outboxReason))
          (returnM running))))))"

definition started_metadata :: "session \<Rightarrow> gateway \<Rightarrow> create_response \<Rightarrow> metadata" where
  "started_metadata session gw response =
     [(''connection_mode'', JStr (NormalizeConnectionMode (sess_ConnectionMode session))),
      (''gateway_id'', JStr (gateway_ID gw)), (''process_id'', JStr (cr_ProcessID response)),
      (''listener_port'', JInt (cr_ListenerPort response)), (''external_port'', JInt (cr_ExternalPort response)),
      (''exposure_mode'', JStr (cr_ExposureMode response)), (''exposure_ref'', JStr (cr_ExposureRef response))]"

definition started_audit :: "access_request \<Rightarrow> session \<Rightarrow> asset \<Rightarrow> audit_event" where
  "started_audit request session asset =
     no_audit\<lparr>audit_EventType := ''session.started'', audit_ActorType := ''system'',
       audit_SubjectUserID := Some (req_ApplicantID request), audit_RequestID := Some (req_ID request),
       audit_SessionID := Some (sess_ID session), audit_RegionID := Some (asset_RegionID asset),
       audit_AssetID := Some (asset_ID asset), audit_TargetPort := Some (req_TargetPort request),
       audit_SourceIP := req_SourceIP request, audit_Result := Some ''success''\<rparr>"

text \<open>The request changed under the transaction after the session became running.\<close>

definition revoke_started :: "svc \<Rightarrow> session \<Rightarrow> access_request \<Rightarrow> session M" where
  "revoke_started s session request =
     bindM (sessions_BeginRevoke s (sess_ID session)) (\<lambda>running.
     thenM (append_session_event s (sess_ID session) ''session.revoke_requested'' ''system'' None
             (reason_metadata ''request_cancelled''))
     (thenM (appendAudit s (session_audit ''session.revoke_requested'' request (sess_ID session) ''queued'' ''request_cancelled''))
     (thenM (queue_session_command s (sess_ID session) outboxSessionRevoke
              (revoke_payload (sess_ID session) ''request_cancelled''))
     (returnM running))))"

definition mark_started ::
  "svc \<Rightarrow> session \<Rightarrow> access_request \<Rightarrow> asset \<Rightarrow> gateway \<Rightarrow> create_response \<Rightarrow> int \<Rightarrow> int \<Rightarrow> session M" where
  "mark_started s session request asset gw response startedAt expiresAt =
     bindM (sessions_MarkDirectRunning s (sess_ID session) (sess_Version session) response startedAt expiresAt) (\<lambda>running.
     thenM (append_session_event s (sess_ID session) ''session.started'' ''system'' None
             (started_metadata session gw response))
     (thenM (appendAudit s (started_audit request session asset))
     (bindM (requests_GetByID s (req_ID request)) (\<lambda>latestRequest.
      if req_Status latestRequest \<noteq> AccessRequestApproved then revoke_started s session request
      else thenM (appendOutbox s ''session'' (sess_ID session) outboxNotifySessionReady (session_payload (sess_ID session)))
             (returnM running)))))"

definition running_tx ::
  "svc \<Rightarrow> session \<Rightarrow> access_request \<Rightarrow> asset \<Rightarrow> gateway \<Rightarrow> create_response \<Rightarrow> int \<Rightarrow> int \<Rightarrow> session M" where
  "running_tx s session request0 asset gw response startedAt expiresAt =
     bindM (requests_GetByIDForUpdate s (req_ID request0)) (\<lambda>request.
     bindM (sessions_GetByIDForUpdate s (sess_ID session)) (\<lambda>current.
     if sess_Status current \<noteq> SessionProvisioning \<or> sess_Version current \<noteq> sess_Version session then
       if sess_Status current = SessionRevokeFailed \<or> sess_Status current = SessionRevoking \<or>
          isTerminalSession (sess_Status current)
       then returnM current else failM ErrStateConflict
     else
       bindM (safety_reason s request asset gw) (\<lambda>safetyReason.
       if req_Status request \<noteq> AccessRequestApproved \<or> safetyReason \<noteq> []
       then withdraw_started s session request safetyReason
       else mark_started s session request asset gw response startedAt expiresAt)))"

text \<open>The path after the transaction failed.\<close>

definition join_failure :: "svc \<Rightarrow> err \<Rightarrow> session M \<Rightarrow> session M" where
  "join_failure s err m =
     bindM (tryM m) (\<lambda>r. case r of Inl e \<Rightarrow> failM (Joined err e) | Inr _ \<Rightarrow> failM err)"

definition persist_failed :: "svc \<Rightarrow> session \<Rightarrow> access_request \<Rightarrow> gateway \<Rightarrow> err \<Rightarrow> session M" where
  "persist_failed s session request gw err =
     bindM (tryM (auto_tx s (sessions_GetByID s (sess_ID session)))) (\<lambda>r.
     case r of
       Inl stateErr \<Rightarrow> failM (Joined err stateErr)
     | Inr current \<Rightarrow>
         if sess_Status current = SessionRunning \<or> isTerminalSession (sess_Status current) then returnM current
         else if sess_Status current \<noteq> SessionProvisioning \<or> sess_Version current \<noteq> sess_Version session then failM err
         else join_failure s err (compensate_or_fail s gw session request ''persist running session failed''))"

definition complete_attempt ::
  "svc \<Rightarrow> session \<Rightarrow> access_request \<Rightarrow> asset \<Rightarrow> gateway \<Rightarrow> int \<Rightarrow> create_response \<Rightarrow> session M" where
  "complete_attempt s session request asset gw approvalExpiry response =
     bindM (clock s) (\<lambda>now.
     let startedAt = started_at response now; expiresAt = expires_at response approvalExpiry in
     if \<not> valid_start startedAt now then
       abandon_attempt s session ErrStateConflict
         (compensate_or_fail s gw session request ''gateway returned an invalid start time'')
     else if \<not> valid_expiry expiresAt startedAt now approvalExpiry (req_TTLSeconds request) then
       abandon_attempt s session ErrStateConflict
         (compensate_or_fail s gw session request ''gateway expiry exceeds requested TTL'')
     else
       bindM (tryM (InTx s (running_tx s session request asset gw response startedAt expiresAt))) (\<lambda>r.
       case r of
         Inr running \<Rightarrow> returnM running
       | Inl err \<Rightarrow> persist_failed s session request gw err))"

definition provision_claimed ::
  "svc \<Rightarrow> session \<Rightarrow> access_request \<Rightarrow> asset \<Rightarrow> gateway \<Rightarrow> int \<Rightarrow> session M" where
  "provision_claimed s session request asset gw approvalExpiry =
     (if ValidateConnectionIdentity (sess_ConnectionMode session) [] \<noteq> None
      then failProvision s session request ''unsupported session protocol; request a new session''
      else
        bindM (create_remote s session request asset gw approvalExpiry) (\<lambda>r.
        case r of
          Inl err \<Rightarrow> abandon_attempt s session err (cleanup_create s gw session request)
        | Inr response \<Rightarrow>
            if \<not> validGatewayCreateResponse response (sess_ID session) (sess_ConnectionMode session)
            then abandon_attempt s session ErrStateConflict
                   (compensate_or_fail s gw session request ''gateway returned an invalid session response'')
            else complete_attempt s session request asset gw approvalExpiry response))"

definition provision_on :: "svc \<Rightarrow> session \<Rightarrow> access_request \<Rightarrow> asset \<Rightarrow> int option \<Rightarrow> gateway list \<Rightarrow> session M" where
  "provision_on s session request asset heartbeatAfter candidates =
     bindM (claim_gateway s session (asset_ID asset) heartbeatAfter candidates) (\<lambda>outcome.
     case outcome of
       Replaced current \<Rightarrow> returnM current
     | NoCandidate \<Rightarrow> failM ErrUnavailable
     | ClaimedOn claimed gw \<Rightarrow>
         provision_claimed s claimed request asset gw (approvedSessionExpiry session request))"

definition heartbeat_after :: "svc \<Rightarrow> int option M" where
  "heartbeat_after s =
     (if svc_readinessSupported s
      then bindM (clock s) (\<lambda>now. returnM (Some (now - svc_heartbeatMaxAge s)))
      else returnM None)"

definition provision_pending :: "svc \<Rightarrow> session \<Rightarrow> session M" where
  "provision_pending s session =
     bindM (auto_tx s (requests_GetByID s (sess_RequestID session))) (\<lambda>request.
     bindM (provision_preflight s session request) (\<lambda>asset.
     bindM (heartbeat_after s) (\<lambda>heartbeatAfter.
     bindM (auto_tx s (gateways_ListAvailableForAsset s (asset_ID asset) (sess_ID session) heartbeatAfter)) (\<lambda>candidates.
     provision_on s session request asset heartbeatAfter candidates))))"

definition ProvisionSession :: "svc \<Rightarrow> string \<Rightarrow> session M" where
  "ProvisionSession s sessionID =
     thenM (checkM (validateUUID sessionID))
     (bindM (auto_tx s (sessions_GetByID s sessionID)) (\<lambda>session.
      if sess_Status session \<noteq> SessionProvisioning then returnM session
      else provision_pending s session))"

subsection \<open>Steps of provisioning\<close>

lemma keeps_failProvision [frame]: "peers s \<Longrightarrow> keeps db_steps (failProvision s v r t)"
  unfolding failProvision_def by (intro frame)

lemma keeps_failProvisionRevokeFailed [frame]: "peers s \<Longrightarrow> keeps db_steps (failProvisionRevokeFailed s v r t e)"
  unfolding failProvisionRevokeFailed_def by (intro frame)

context db_relation
begin

lemma resp_compensateGatewaySession [frame]: "keeps R (compensateGatewaySession s e i)"
  unfolding compensateGatewaySession_def by (intro frame)

lemma resp_provisioningLeaseState [frame]: "others_keep R s \<Longrightarrow> keeps R (provisioningLeaseState s v)"
  unfolding provisioningLeaseState_def by (intro frame)

lemma resp_abandon_attempt [frame]:
  "others_keep R s \<Longrightarrow> keeps R cleanup \<Longrightarrow> keeps R (abandon_attempt s v e cleanup)"
  unfolding abandon_attempt_def by (intro frame)

lemma resp_gateways_LockCapacity [frame]: "keeps R (gateways_LockCapacity s i)"
  unfolding gateways_LockCapacity_def by (intro frame)

lemma resp_heartbeat_after [frame]: "keeps R (heartbeat_after s)"
  unfolding heartbeat_after_def by (intro frame)

lemma resp_safety_reason [frame]: "keeps R (safety_reason s r a g)"
  unfolding safety_reason_def binding_reason_def port_reason_def by (intro frame)

end

lemma keeps_compensate_or_fail [frame]: "peers s \<Longrightarrow> keeps db_steps (compensate_or_fail s g v r t)"
  unfolding compensate_or_fail_def by (intro frame)

lemma keeps_cleanup_create [frame]: "peers s \<Longrightarrow> keeps db_steps (cleanup_create s g v r)"
  unfolding cleanup_create_def by (intro frame)

lemma keeps_reject [frame]: "peers s \<Longrightarrow> keeps db_steps (reject s v r t)"
  unfolding reject_def by (intro frame)

lemma keeps_provision_preflight [frame]: "peers s \<Longrightarrow> keeps db_steps (provision_preflight s v r)"
  unfolding provision_preflight_def by (intro frame)

lemma keeps_probeGateway [frame]: "peers s \<Longrightarrow> keeps db_steps (probeGateway s g)"
  unfolding probeGateway_def by (intro frame)

lemma keeps_claim_tx [frame]: "keeps db_steps (claim_tx s v g a after)"
  unfolding claim_tx_def by (intro frame)

lemma keeps_claim_gateway [frame]: "peers s \<Longrightarrow> keeps db_steps (claim_gateway s v a after gs)"
  by (induction gs) (auto intro!: frame)

lemma keeps_renew_lease [frame]: "peers s \<Longrightarrow> keeps db_steps (renew_lease s v n)"
  by (induction n) (auto intro!: frame)

lemma keeps_create_remote [frame]: "peers s \<Longrightarrow> keeps db_steps (create_remote s v r a g e)"
  unfolding create_remote_def by (intro frame)

lemma keeps_persist_failed [frame]: "peers s \<Longrightarrow> keeps db_steps (persist_failed s v r g e)"
  unfolding persist_failed_def join_failure_def by (intro frame)

lemma keeps_withdraw_started [frame]: "keeps db_steps (withdraw_started s v r t)"
  unfolding withdraw_started_def by (intro frame)

lemma keeps_revoke_started [frame]: "keeps db_steps (revoke_started s v r)"
  unfolding revoke_started_def by (intro frame)

lemma mark_started_steps:
  assumes "startable (w_db w) (sess_ID v) (sess_Version v) started expires"
  shows "db_steps (w_db w) (w_db (snd (mark_started s v r a g resp started expires w)))"
  unfolding mark_started_def sessions_MarkDirectRunning_def thenM_def
proof (intro steps.resp_bind_at)
  show "db_steps (w_db w) (w_db (snd (stmt s (sess_MarkDirectRunning (sess_ID v) (sess_Version v) resp started expires) w)))"
    using assms by (auto simp: stmt_def Let_def split: prod.split intro!: r_into_rtranclp
      dest!: db_step.session_direct [of _ _ _ _ _ resp "w_now w"])
qed (rule keepsD_at, intro frame)+

subsection \<open>Start of a session\<close>

text \<open>An attempt works on the row it claimed and on the request it read. Both may move on under it, so
  what it knows is that the rows of now are later versions of them.\<close>

definition linked :: "db \<Rightarrow> session \<Rightarrow> access_request \<Rightarrow> bool" where
  "linked d v q \<longleftrightarrow> req_ID q = sess_RequestID v \<and>
     (\<exists>r p. find (\<lambda>x. sess_ID x = sess_ID v) (db_sessions d) = Some r \<and> session_update\<^sup>*\<^sup>* v r \<and>
        find (\<lambda>x. req_ID x = req_ID q) (db_requests d) = Some p \<and> request_update\<^sup>*\<^sup>* q p)"

definition attempt :: "session \<Rightarrow> access_request \<Rightarrow> string \<Rightarrow> int \<Rightarrow> db \<Rightarrow> bool" where
  "attempt v q g e d \<longleftrightarrow> (distinct (map sess_ID (db_sessions d)) \<longrightarrow>
     linked d v q \<and> sess_GatewayID v = g \<and> approvedSessionExpiry v q = e)"

lemma linked_steps:
  assumes "db_steps d d'" "linked d v q"
  shows "linked d' v q"
proof -
  have e: "rows_evolve d d'" by (rule rows_evolve_steps [OF assms(1)])
  from assms(2) obtain r p where q: "req_ID q = sess_RequestID v"
    and r: "find (\<lambda>x. sess_ID x = sess_ID v) (db_sessions d) = Some r" "session_update\<^sup>*\<^sup>* v r"
    and p: "find (\<lambda>x. req_ID x = req_ID q) (db_requests d) = Some p" "request_update\<^sup>*\<^sup>* q p"
    unfolding linked_def by blast
  obtain r' where r': "find (\<lambda>x. sess_ID x = sess_ID v) (db_sessions d') = Some r'" "session_update\<^sup>*\<^sup>* r r'"
    using grows_find [OF _ r(1)] e session_updates_ID unfolding rows_evolve_def by blast
  obtain p' where p': "find (\<lambda>x. req_ID x = req_ID q) (db_requests d') = Some p'" "request_update\<^sup>*\<^sup>* p p'"
    using grows_find [OF _ p(1)] e request_updates_ID unfolding rows_evolve_def by blast
  show ?thesis unfolding linked_def using q r' p' rtranclp_trans [OF r(2) r'(2)] rtranclp_trans [OF p(2) p'(2)] by blast
qed

lemma distinct_before:
  assumes "db_steps d d'" "distinct (map sess_ID (db_sessions d'))"
  shows "distinct (map sess_ID (db_sessions d))"
proof -
  have "grows session_update\<^sup>*\<^sup>* (db_sessions d) (db_sessions d')"
    using rows_evolve_steps [OF assms(1)] by (simp add: rows_evolve_def)
  then obtain us where "map sess_ID (db_sessions d') = map sess_ID (db_sessions d) @ us"
    using grows_keys session_updates_ID by blast
  then show ?thesis using assms(2) by simp
qed

lemma attempt_steps: "db_steps d d' \<Longrightarrow> attempt v q g e d \<Longrightarrow> attempt v q g e d'"
  unfolding attempt_def using distinct_before linked_steps by blast

text \<open>The steps of an attempt, from every state in which it is under way.\<close>

definition during :: "(db \<Rightarrow> bool) \<Rightarrow> db \<Rightarrow> db \<Rightarrow> bool" where
  "during P d d' \<longleftrightarrow> (P d \<longrightarrow> db_steps d d')"

interpretation attempted: db_relation "during (attempt v q g e)" for v q g e
proof
  show "during (attempt v q g e) d d" for d by (simp add: during_def)
  show "during (attempt v q g e) d d''" if "during (attempt v q g e) d d'" "during (attempt v q g e) d' d''" for d d' d''
    using that attempt_steps unfolding during_def by (meson rtranclp_trans)
qed

lemma during_keeps: "keeps db_steps m \<Longrightarrow> keeps (during P) m"
  by (simp add: keeps_def during_def)

lemma during_others: "peers s \<Longrightarrow> others_keep (during P) s"
  by (simp add: others_keep_def during_def)


lemma withdrawn_resource_Nil:
  "withdrawn_resource u r a g = [] \<longleftrightarrow> user_Status u = UserStatusActive \<and> region_Status r = ResourceStatusEnabled \<and>
     asset_Status a = ResourceStatusEnabled \<and> gateway_Status g = ResourceStatusEnabled"
  by (simp add: withdrawn_resource_def)

lemma run_binding_reason:
  assumes "binding_reason s a g w = (Inr [], w')"
  shows "\<exists>b\<in>set (db_asset_gateways (w_db w)). agb_AssetID b = a \<and> agb_GatewayID b = g \<and> agb_Enabled b"
proof -
  obtain x w1 where "gateways_GetAssetBindingForUpdate s a g w = (x, w1)"
    "(case x of Inl e \<Rightarrow> if err_Is e ErrNotFound then returnM ''gateway_binding_removed_after_gateway_session_creation'' else failM e
      | Inr b \<Rightarrow> returnM (if \<not> agb_Enabled b then ''gateway_binding_disabled_after_gateway_session_creation'' else [])) w1 = (Inr [], w')"
    using assms by (auto simp: binding_reason_def run_bind run_try)
  then show ?thesis
    by (cases x) (auto simp: gateways_GetAssetBindingForUpdate_def run split: if_splits dest!: find_SomeD)
qed

lemma run_port_reason:
  assumes "port_reason s a n w = (Inr [], w')"
  shows "\<exists>p\<in>set (db_ports (w_db w)). port_AssetID p = a \<and> port_Port p = n \<and> port_Protocol p = ''tcp'' \<and> port_Enabled p"
proof -
  obtain x w1 where "assets_GetPortForUpdate s a n ''tcp'' w = (x, w1)"
    "(case x of Inl e \<Rightarrow> if err_Is e ErrNotFound then returnM ''asset_port_removed_after_gateway_session_creation'' else failM e
      | Inr p \<Rightarrow> returnM (if \<not> port_Enabled p then ''asset_port_disabled_after_gateway_session_creation'' else [])) w1 = (Inr [], w')"
    using assms by (auto simp: port_reason_def run_bind run_try)
  then show ?thesis by (cases x) (auto simp: assets_GetPortForUpdate_def run split: if_splits dest!: find_SomeD)
qed

lemma run_safety_reason:
  assumes run_it: "safety_reason s q a g w = (Inr [], w')" and a: "asset_ID a = req_AssetID q"
  shows "in_service (w_db w) q (gateway_ID g)"
proof -
  from run_it obtain u r x c w1 w2 w3 where
      u: "find (\<lambda>r. user_ID r = req_ApplicantID q) (db_users (w_db w)) = Some u"
    and x: "find (\<lambda>r. asset_ID r = asset_ID a \<and> asset_DeletedAt r = None) (db_assets (w_db w)) = Some x"
    and c: "find (\<lambda>r. gateway_ID r = gateway_ID g) (db_gateways (w_db w)) = Some c"
    and ok: "withdrawn_resource u r x c = []"
    and b: "binding_reason s (asset_ID a) (gateway_ID g) w1 = (Inr [], w2)" "w_db w1 = w_db w"
    and p: "port_reason s (asset_ID a) (req_TargetPort q) w2 = (Inr [], w3)"
    by (auto simp: safety_reason_def users_GetByIDForUpdate_def regions_GetByIDForUpdate_def
        assets_GetByIDForUpdate_def gateways_GetByIDForUpdate_def Let_def run split: if_splits elim!: that)
  have "keeps (=) (binding_reason s (asset_ID a) (gateway_ID g))" unfolding binding_reason_def by (intro frame)
  from keepsD [OF this b(1)] have "w_db w2 = w_db w" using b(2) by simp
  then show ?thesis
    using find_SomeD [OF u] find_SomeD [OF x] find_SomeD [OF c] ok run_binding_reason [OF b(1)] run_port_reason [OF p] b(2) a
    unfolding in_service_def withdrawn_resource_Nil by metis
qed

text \<open>The checks of the transaction make the start safe.\<close>

lemma attempt_startable:
  assumes at: "attempt v q g e d"
    and cur: "find (\<lambda>x. sess_ID x = sess_ID v) (db_sessions d) = Some cur" "sess_Status cur = SessionProvisioning"
      "sess_Version cur = sess_Version v"
    and p: "find (\<lambda>x. req_ID x = req_ID q) (db_requests d) = Some p" "req_Status p = AccessRequestApproved"
    and sv: "in_service d p g" and ex: "valid_expiry expires started now e (req_TTLSeconds q)"
  shows "startable d (sess_ID v) (sess_Version v) started expires"
  unfolding startable_def
proof (intro impI ballI)
  fix r assume dis: "distinct (map sess_ID (db_sessions d))" and r: "r \<in> set (db_sessions d)" "provisioning_at (sess_ID v) (sess_Version v) r"
  have l: "session_update\<^sup>*\<^sup>* v cur" "request_update\<^sup>*\<^sup>* q p" "req_ID q = sess_RequestID v" "sess_GatewayID v = g"
      "approvedSessionExpiry v q = e"
    using at dis cur(1) p(1) by (auto simp: attempt_def linked_def)
  have "r = cur" using unique_row [OF dis _ r(1), of cur] r(2) find_SomeD [OF cur(1)] by (simp add: provisioning_at_def)
  moreover have "sess_ExpiresAt cur = sess_ExpiresAt v" "session_identity cur = session_identity v"
    using session_updates [OF l(1)] cur(2) by auto
  moreover have "sess_GatewayID cur = g" using session_updates_gateway [OF l(1)] cur(3) l(4) by simp
  moreover have "\<exists>st t. p = q\<lparr>req_Status := st, req_UpdatedAt := t\<rparr>" using request_updates [OF l(2)] by blast
  moreover have "p \<in> set (db_requests d)" using find_SomeD [OF p(1)] by blast
  ultimately show "safe_start d r started expires"
    using l p(2) sv ex
    by (auto simp: safe_start_def valid_expiry_def approvedSessionExpiry_def session_identity_def intro!: bexI [of _ p]
        split: option.splits)
qed

lemma attempt_asset:
  "attempt v q g e d \<Longrightarrow> find (\<lambda>x. req_ID x = req_ID q) (db_requests d) = Some p \<Longrightarrow>
   distinct (map sess_ID (db_sessions d)) \<Longrightarrow> req_AssetID p = req_AssetID q"
  by (auto simp: attempt_def linked_def dest!: request_updates)

lemma running_tx_steps:
  assumes at: "attempt v q (gateway_ID g) e (w_db w)" and a: "asset_ID a = req_AssetID q"
    and ex: "valid_expiry expires started now e (req_TTLSeconds q)"
  shows "db_steps (w_db w) (w_db (snd (running_tx s v q a g resp started expires w)))"
  unfolding running_tx_def
proof (intro steps.resp_bind_at)
  fix p w1 cur w2
  assume r1: "requests_GetByIDForUpdate s (req_ID q) w = (Inr p, w1)"
    and r2: "sessions_GetByIDForUpdate s (sess_ID v) w1 = (Inr cur, w2)"
  have d: "w_db w2 = w_db w" and p: "find (\<lambda>x. req_ID x = req_ID q) (db_requests (w_db w)) = Some p"
    and cur: "find (\<lambda>x. sess_ID x = sess_ID v) (db_sessions (w_db w)) = Some cur"
    using r1 r2 by (auto simp: requests_GetByIDForUpdate_def sessions_GetByIDForUpdate_def run)
  have mark: "db_steps (w_db w3) (w_db (snd (mark_started s v p a g resp started expires w3)))"
    if now: "\<not> (sess_Status cur \<noteq> SessionProvisioning \<or> sess_Version cur \<noteq> sess_Version v)"
      and sr: "safety_reason s p a g w2 = (Inr sr, w3)" and ok: "\<not> (req_Status p \<noteq> AccessRequestApproved \<or> sr \<noteq> [])" for sr w3
  proof (rule mark_started_steps)
    have d3: "w_db w3 = w_db w" using keepsD [OF same.resp_safety_reason sr] d by simp
    have "in_service (w_db w) p (gateway_ID g)" if "distinct (map sess_ID (db_sessions (w_db w)))"
      using run_safety_reason [of s p a g w2 w3] sr ok d attempt_asset [OF at p that] a by simp
    then show "startable (w_db w3) (sess_ID v) (sess_Version v) started expires"
      using attempt_startable [OF at cur _ _ p _ _ ex] now ok unfolding d3
      by (cases "distinct (map sess_ID (db_sessions (w_db w)))") (simp_all add: startable_def)
  qed
  show "db_steps (w_db w2) (w_db (snd ((if sess_Status cur \<noteq> SessionProvisioning \<or> sess_Version cur \<noteq> sess_Version v then
       if sess_Status cur = SessionRevokeFailed \<or> sess_Status cur = SessionRevoking \<or> isTerminalSession (sess_Status cur)
       then returnM cur else failM ErrStateConflict
     else bindM (safety_reason s p a g) (\<lambda>safetyReason.
       if req_Status p \<noteq> AccessRequestApproved \<or> safetyReason \<noteq> [] then withdraw_started s v p safetyReason
       else mark_started s v p a g resp started expires)) w2)))"
    using mark by (auto simp: returnM_def failM_def split del: if_split intro!: steps.resp_bind_at keepsD_at [OF steps.resp_safety_reason]
        keepsD_at [OF keeps_withdraw_started] split: if_splits)
qed (rule keepsD_at, intro frame)+

lemma attempt_InTx_running:
  assumes "peers s" "asset_ID a = req_AssetID q" "valid_expiry expires started now e (req_TTLSeconds q)"
  shows "keeps (during (attempt v q (gateway_ID g) e)) (InTx s (running_tx s v q a g resp started expires))"
proof (rule attempted.resp_InTx_run [OF during_others [OF assms(1)]])
  fix w x w' assume "running_tx s v q a g resp started expires w = (Inr x, w')"
  then show "during (attempt v q (gateway_ID g) e) (w_db w) (w_db w')"
    using running_tx_steps [OF _ assms(2,3), of v g w s resp] by (simp add: during_def)
qed

lemma attempt_complete:
  assumes "peers s" "asset_ID a = req_AssetID q"
  shows "keeps (during (attempt v q (gateway_ID g) e)) (complete_attempt s v q a g e resp)"
  unfolding complete_attempt_def Let_def
  by (intro frame attempt_InTx_running during_others during_keeps [OF keeps_compensate_or_fail]
      during_keeps [OF keeps_persist_failed] assms) blast

lemma attempt_claimed:
  assumes "peers s" "asset_ID a = req_AssetID q"
  shows "keeps (during (attempt v q (gateway_ID g) e)) (provision_claimed s v q a g e)"
  unfolding provision_claimed_def
  by (intro frame attempt_complete during_others during_keeps [OF keeps_failProvision] during_keeps [OF keeps_cleanup_create]
      during_keeps [OF keeps_compensate_or_fail] during_keeps [OF keeps_create_remote] assms)

text \<open>The claim starts an attempt.\<close>

lemma claim_tx_attempt:
  assumes l: "linked (w_db w) v q" and cl: "claim_tx s v g a after w = (Inr claimed, w')"
  shows "attempt claimed q (gateway_ID g) (approvedSessionExpiry v q) (w_db w')"
  unfolding attempt_def
proof (intro impI)
  assume dis: "distinct (map sess_ID (db_sessions (w_db w')))"
  have st: "db_steps (w_db w) (w_db w')" by (rule keepsD [OF keeps_claim_tx cl])
  have l': "linked (w_db w') v q" by (rule linked_steps [OF st l])
  from cl obtain stale now where
      c: "fst (sess_ClaimOnGateway (sess_ID v) (sess_Version v) stale (gateway_ID g) a after now (w_db w)) = Inr ()"
    and d': "w_db w' = snd (sess_ClaimOnGateway (sess_ID v) (sess_Version v) stale (gateway_ID g) a after now (w_db w))"
    and f: "find (\<lambda>x. sess_ID x = sess_ID v) (db_sessions (w_db w')) = Some claimed"
    by (auto simp: claim_tx_def gateways_LockCapacity_def sessions_ClaimProvisioningOnGateway_def sessions_GetByID_def run
        elim!: that)
  from c obtain r where r: "r \<in> set (db_sessions (w_db w))" "claimable (sess_ID v) (sess_Version v) stale r"
      "gateway_accepts (w_db w) (sess_ID v) (gateway_ID g) a after"
    by (auto simp: sess_ClaimOnGateway_def update_sessions_def run)
  have "(touch now r)\<lparr>sess_GatewayID := gateway_ID g\<rparr> \<in> set (db_sessions (w_db w'))"
    using r by (force simp: d' sess_ClaimOnGateway_def update_sessions_def update_where_def)
  moreover have "sess_ID ((touch now r)\<lparr>sess_GatewayID := gateway_ID g\<rparr>) = sess_ID claimed"
    using r(2) find_SomeD [OF f] by (simp add: touch_def claimable_def)
  ultimately have "claimed = (touch now r)\<lparr>sess_GatewayID := gateway_ID g\<rparr>"
    using unique_row [OF dis] find_SomeD [OF f] by blast
  then have g: "sess_GatewayID claimed = gateway_ID g" and pr: "sess_Status claimed = SessionProvisioning"
    using r(2) by (simp_all add: claimable_def touch_def)
  from l' f have u: "session_update\<^sup>*\<^sup>* v claimed" by (simp add: linked_def)
  have i: "sess_ID claimed = sess_ID v" "sess_RequestID claimed = sess_RequestID v" using session_updates_ID [OF u] by simp_all
  have "linked (w_db w') claimed q" using l' f i unfolding linked_def by fastforce
  moreover have "approvedSessionExpiry claimed q = approvedSessionExpiry v q"
    using session_updates [OF u] pr by (auto simp: approvedSessionExpiry_def session_identity_def split: option.splits)
  ultimately show "linked (w_db w') claimed q \<and> sess_GatewayID claimed = gateway_ID g \<and>
      approvedSessionExpiry claimed q = approvedSessionExpiry v q" using g by blast
qed

lemma claim_gateway_attempt:
  assumes "peers s" "linked (w_db w) v q" "claim_gateway s v a after gs w = (Inr (ClaimedOn claimed g), w')"
  shows "attempt claimed q (gateway_ID g) (approvedSessionExpiry v q) (w_db w')"
  using assms(2,3)
proof (induction gs arbitrary: w)
  case Nil
  then show ?case by (simp add: run)
next
  case (Cons c rest)
  from Cons.prems(2) obtain probe w1 where pr: "tryM (whenM (svc_readinessSupported s) (probeGateway s c)) w = (Inr probe, w1)"
    and cont: "(case probe of Inl _ \<Rightarrow> claim_gateway s v a after rest
     | Inr _ \<Rightarrow> bindM (tryM (InTx s (claim_tx s v c a after))) (\<lambda>claim. case claim of
         Inr claimed \<Rightarrow> returnM (ClaimedOn claimed c)
       | Inl e \<Rightarrow> if \<not> err_Is e ErrNotFound then failM e
           else bindM (auto_tx s (sessions_GetByID s (sess_ID v))) (\<lambda>current.
                  if sess_Status current \<noteq> SessionProvisioning \<or> sess_Version current \<noteq> sess_Version v
                  then returnM (Replaced current) else claim_gateway s v a after rest))) w1 = (Inr (ClaimedOn claimed g), w')"
    by (auto simp: run_bind)
  have k0: "keeps db_steps (tryM (whenM (svc_readinessSupported s) (probeGateway s c)))" using assms(1) by (intro frame)
  have l1: "linked (w_db w1) v q" by (rule linked_steps [OF keepsD [OF k0 pr] Cons.prems(1)])
  have k: "keeps db_steps (InTx s (claim_tx s v c a after))" using assms(1) by (intro frame)
  have k': "keeps db_steps (auto_tx s (sessions_GetByID s (sess_ID v)))" using assms(1) by (intro frame)
  show ?case
  proof (cases probe)
    case (Inl e)
    then show ?thesis using cont l1 Cons.IH by simp
  next
    case (Inr u)
    then obtain claim w2 where tx: "InTx s (claim_tx s v c a after) w1 = (claim, w2)"
      using cont by (auto simp: run_bind run_try)
    have l2: "linked (w_db w2) v q" by (rule linked_steps [OF keepsD [OF k tx] l1])
    show ?thesis
    proof (cases claim)
      case cl: (Inr x)
      then have "x = claimed" "c = g" "w' = w2" using cont Inr tx by (auto simp: run_bind run_try run_return)
      moreover have "linked (w_db (tx_start s w1)) v q"
        using linked_steps [OF _ l1] assms(1) by (simp add: others_keep_def)
      ultimately show ?thesis using tx cl claim_tx_attempt [of "tx_start s w1" v q s c a after x] by (auto simp: run_InTx)
    next
      case e: (Inl err)
      then obtain cur w3 where get: "auto_tx s (sessions_GetByID s (sess_ID v)) w2 = (Inr cur, w3)"
        and "claim_gateway s v a after rest w3 = (Inr (ClaimedOn claimed g), w')"
        using cont Inr tx by (auto simp: run_bind run_try run_return run_fail split: if_splits)
      then show ?thesis using Cons.IH linked_steps [OF keepsD [OF k' get] l2] by blast
    qed
  qed
qed

lemma yields_provision_preflight: "yields (\<lambda>a. asset_ID a = req_AssetID q) (provision_preflight s v q)"
proof -
  have get: "yields (\<lambda>r. \<forall>a. r = Inr a \<longrightarrow> asset_ID a = req_AssetID q) (tryM (auto_tx s (assets_GetByID s (req_AssetID q))))"
    by (auto simp: yields_def tryM_def assets_GetByID_def run_InTx run_query find_row_Inr dest!: find_SomeD
        split: prod.splits)
  have asset: "yields (\<lambda>a. asset_ID a = req_AssetID q) (case r of Inr a \<Rightarrow> returnM a
      | Inl e \<Rightarrow> if err_Is e ErrNotFound then thenM (reject s v q t) (failM e) else failM e)"
    if "\<forall>a. r = Inr a \<longrightarrow> asset_ID a = req_AssetID q" for r t
    using that by (intro yield yields_return) auto
  show ?thesis
    unfolding provision_preflight_def
    by (rule yields_then, rule yields_then, rule yields_bind, rule yields_then, rule yields_bind, rule yields_then,
        rule yields_then, rule yields_bind_post [OF get], rule yields_bind_post [OF asset], assumption,
        intro yields_then yields_bind yields_return)
qed

lemma linked_read:
  assumes "peers s" "find (\<lambda>x. sess_ID x = i) (db_sessions (w_db w)) = Some v"
    and "auto_tx s (requests_GetByID s (sess_RequestID v)) w = (Inr q, w')"
  shows "linked (w_db w') v q"
proof -
  have k: "keeps db_steps (auto_tx s (requests_GetByID s (sess_RequestID v)))" using assms(1) by (intro frame)
  have "rows_evolve (w_db w) (w_db w')" by (rule rows_evolve_steps [OF keepsD [OF k assms(3)]])
  then obtain r where "find (\<lambda>x. sess_ID x = i) (db_sessions (w_db w')) = Some r" "session_update\<^sup>*\<^sup>* v r"
    using grows_find [OF _ assms(2)] session_updates_ID unfolding rows_evolve_def by blast
  moreover have "find (\<lambda>x. req_ID x = sess_RequestID v) (db_requests (w_db w')) = Some q"
    using assms(3) by (auto simp: requests_GetByID_def run)
  ultimately show ?thesis using find_SomeD [OF assms(2)] find_SomeD unfolding linked_def by fastforce
qed

lemma provision_on_steps:
  assumes "peers s" "linked (w_db w) v q" "asset_ID a = req_AssetID q"
  shows "db_steps (w_db w) (w_db (snd (provision_on s v q a after gs w)))"
  unfolding provision_on_def
proof (rule steps.resp_bind_at)
  show "db_steps (w_db w) (w_db (snd (claim_gateway s v (asset_ID a) after gs w)))"
    by (rule keepsD_at, rule keeps_claim_gateway, rule assms(1))
  fix x w' assume cl: "claim_gateway s v (asset_ID a) after gs w = (Inr x, w')"
  show "db_steps (w_db w') (w_db (snd ((case x of Replaced current \<Rightarrow> returnM current | NoCandidate \<Rightarrow> failM ErrUnavailable
        | ClaimedOn claimed gw \<Rightarrow> provision_claimed s claimed q a gw (approvedSessionExpiry v q)) w')))"
  proof (cases x)
    case (ClaimedOn c g)
    have "attempt c q (gateway_ID g) (approvedSessionExpiry v q) (w_db w')"
      using claim_gateway_attempt [OF assms(1,2)] cl ClaimedOn by blast
    then show ?thesis
      using keepsD_at [OF attempt_claimed [OF assms(1,3), of c g "approvedSessionExpiry v q"], of w']
      by (simp add: during_def ClaimedOn)
  qed (simp_all add: returnM_def failM_def)
qed

lemma provision_pending_steps:
  assumes "peers s" and f: "find (\<lambda>x. sess_ID x = i) (db_sessions (w_db w)) = Some v"
  shows "db_steps (w_db w) (w_db (snd (provision_pending s v w)))"
  unfolding provision_pending_def
proof (intro steps.resp_bind_at)
  fix q w1 a w2 after w3 gs w4
  assume r1: "auto_tx s (requests_GetByID s (sess_RequestID v)) w = (Inr q, w1)"
    and r2: "provision_preflight s v q w1 = (Inr a, w2)"
    and r3: "heartbeat_after s w2 = (Inr after, w3)"
    and r4: "auto_tx s (gateways_ListAvailableForAsset s (asset_ID a) (sess_ID v) after) w3 = (Inr gs, w4)"
  have k2: "keeps db_steps (provision_preflight s v q)" and k3: "keeps db_steps (heartbeat_after s)"
    and k4: "keeps db_steps (auto_tx s (gateways_ListAvailableForAsset s (asset_ID a) (sess_ID v) after))"
    by (intro frame assms(1))+
  have "linked (w_db w4) v q"
    by (rule linked_steps [OF keepsD [OF k4 r4]], rule linked_steps [OF keepsD [OF k3 r3]],
        rule linked_steps [OF keepsD [OF k2 r2]], rule linked_read [OF assms(1) f r1])
  moreover have "asset_ID a = req_AssetID q"
    using yields_provision_preflight [of q s v] r2 unfolding yields_def by (auto dest!: spec [of _ w1])
  ultimately show "db_steps (w_db w4) (w_db (snd (provision_on s v q a after gs w4)))"
    by (rule provision_on_steps [OF assms(1)])
qed (rule keepsD_at, intro frame assms(1))+

lemma keeps_ProvisionSession [frame]:
  assumes "peers s"
  shows "keeps db_steps (ProvisionSession s i)"
  unfolding ProvisionSession_def keeps_def thenM_def
proof (intro allI steps.resp_bind_at)
  fix w u w1 v w2
  assume "auto_tx s (sessions_GetByID s i) w1 = (Inr v, w2)"
  then have "find (\<lambda>x. sess_ID x = i) (db_sessions (w_db w2)) = Some v" by (auto simp: sessions_GetByID_def run)
  then show "db_steps (w_db w2) (w_db (snd ((if sess_Status v \<noteq> SessionProvisioning then returnM v
      else provision_pending s v) w2)))"
    using provision_pending_steps [OF assms] by (simp add: returnM_def)
qed (rule keepsD_at, intro frame assms)+

end
