(* ===== verification/Revoke.thy ===== *)
theory Revoke
  imports Requests Provision
begin

text \<open>
  Closing a session (\<open>service/access.go\<close>): the close of the applicant, the forced close of an
  administrator, and \<open>RevokeSession\<close>, the worker side that calls the gateway and records the
  outcome. Every path that may leave a remote process behind records a durable revoke command.
\<close>

subsection \<open>Close by the applicant or an administrator\<close>

definition owner_or_admin :: "svc \<Rightarrow> string \<Rightarrow> access_request \<Rightarrow> unit M" where
  "owner_or_admin s userID request =
     (if req_ApplicantID request \<noteq> userID
      then bindM (isAdminUser s userID) (\<lambda>admin. unlessM admin ErrForbidden) else returnM ())"

definition close_audit :: "string \<Rightarrow> access_request \<Rightarrow> string \<Rightarrow> audit_event" where
  "close_audit userID request sessionID =
     (session_audit ''session.revoke_requested'' request sessionID ''queued'' [])
       \<lparr>audit_ActorType := ''user'', audit_ActorID := Some userID, audit_Reason := None\<rparr>"

definition close_tx :: "svc \<Rightarrow> string \<Rightarrow> access_request \<Rightarrow> string \<Rightarrow> session M" where
  "close_tx s userID request sessionID =
     bindM (sessions_GetByIDForUpdate s sessionID) (\<lambda>current.
     if isTerminalSession (sess_Status current) then returnM current
     else if sess_Status current = SessionProvisioning then failM ErrStateConflict
     else if sess_Status current \<in> {SessionRunning, SessionRevokeFailed} then
       bindM (sessions_BeginRevoke s (sess_ID current)) (\<lambda>transitioned.
       thenM (append_session_event s (sess_ID current) ''session.revoke_requested'' ''user'' (Some userID)
               (reason_metadata ''user_closed''))
       (thenM (appendAudit s (close_audit userID request sessionID))
       (thenM (queue_session_command s sessionID outboxSessionRevoke (revoke_payload sessionID ''user_closed''))
       (returnM transitioned))))
     else if sess_Status current = SessionRevoking then
       thenM (queue_session_command s sessionID outboxSessionRevoke (revoke_payload sessionID ''user_closed''))
       (returnM current)
     else failM ErrStateConflict)"

definition CloseSession :: "svc \<Rightarrow> string \<Rightarrow> string \<Rightarrow> session M" where
  "CloseSession s userID sessionID =
     thenM (requireActiveUser s userID)
     (thenM (checkM (validateUUID sessionID))
     (bindM (auto_tx s (sessions_GetByID s sessionID)) (\<lambda>session.
      bindM (auto_tx s (requests_GetByID s (sess_RequestID session))) (\<lambda>request.
      thenM (owner_or_admin s userID request)
      (if isTerminalSession (sess_Status session) then returnM session
       else if sess_Status session = SessionProvisioning then failM ErrStateConflict
       else bindM (InTx s (close_tx s userID request sessionID)) (\<lambda>transitioned.
            thenM (discardSessionToken s sessionID) (returnM transitioned)))))))"

subsection \<open>Forced close\<close>

definition force_payload :: "string \<Rightarrow> string \<Rightarrow> string \<Rightarrow> metadata" where
  "force_payload sessionID adminID reason =
     [(''session_id'', JStr sessionID), (''reason'', JStr ''admin_force_close''),
      (''operator_id'', JStr adminID), (''operator_reason'', JStr reason)]"

definition force_audit :: "string \<Rightarrow> string \<Rightarrow> access_request \<Rightarrow> string \<Rightarrow> string \<Rightarrow> string \<Rightarrow> audit_event" where
  "force_audit eventType adminID request sessionID result reason =
     (session_audit eventType request sessionID result reason)
       \<lparr>audit_ActorType := ''admin'', audit_ActorID := Some adminID\<rparr>"

definition queue_forced :: "svc \<Rightarrow> string \<Rightarrow> string \<Rightarrow> session \<Rightarrow> bool M" where
  "queue_forced s adminID reason current =
     queue_session_command s (sess_ID current) outboxSessionRevoke (force_payload (sess_ID current) adminID reason)"

definition force_unclaimed :: "svc \<Rightarrow> string \<Rightarrow> string \<Rightarrow> access_request \<Rightarrow> session \<Rightarrow> session M" where
  "force_unclaimed s adminID reason request current =
     thenM (sessions_MarkProvisionFailed s (sess_ID current) (sess_Version current) ''force-closed before provisioning'')
     (bindM (sessions_GetByID s (sess_ID current)) (\<lambda>transitioned.
      thenM (append_session_event s (sess_ID current) ''session.force_closed_before_start'' ''admin'' (Some adminID)
              (reason_metadata reason))
      (thenM (appendAudit s (force_audit ''session.force_close_requested'' adminID request (sess_ID current)
                 ''no_remote_session'' reason))
      (returnM transitioned))))"

definition force_claimed :: "svc \<Rightarrow> string \<Rightarrow> string \<Rightarrow> access_request \<Rightarrow> session \<Rightarrow> session M" where
  "force_claimed s adminID reason request current =
     (let revokeReason = ''force-closed during provisioning'' in
      thenM (sessions_MarkProvisionRevokeFailed s (sess_ID current) (sess_Version current) revokeReason)
      (bindM (sessions_GetByID s (sess_ID current)) (\<lambda>transitioned.
       thenM (append_session_event s (sess_ID current) ''session.revoke_failed'' ''admin'' (Some adminID)
               [(''reason'', JStr revokeReason), (''operator_reason'', JStr reason)])
       (thenM (appendAudit s (force_audit ''session.revoke_failed'' adminID request (sess_ID current) ''failed'' reason))
       (thenM (queue_forced s adminID reason current)
       (returnM transitioned))))))"

definition force_tx :: "svc \<Rightarrow> string \<Rightarrow> string \<Rightarrow> access_request \<Rightarrow> string \<Rightarrow> session M" where
  "force_tx s adminID reason request sessionID =
     bindM (sessions_GetByIDForUpdate s sessionID) (\<lambda>current.
     if sess_Status current = SessionProvisioning then
       if sess_Version current = 0 then force_unclaimed s adminID reason request current
       else force_claimed s adminID reason request current
     else if sess_Status current \<in> {SessionRunning, SessionRevokeFailed, SessionManualIntervention} then
       bindM (sessions_BeginRevoke s (sess_ID current)) (\<lambda>transitioned.
       thenM (append_session_event s (sess_ID current) ''session.force_close_requested'' ''admin'' (Some adminID)
               (reason_metadata reason))
       (thenM (appendAudit s (force_audit ''session.force_close_requested'' adminID request (sess_ID current)
                 ''queued'' reason))
       (thenM (queue_forced s adminID reason current)
       (returnM transitioned))))
     else if sess_Status current = SessionRevoking then
       thenM (queue_forced s adminID reason current) (returnM current)
     else returnM current)"

text \<open>After a failed transaction the state is read again: a session that ended in the meantime is
  the answer. \<open>manual_intervention\<close> is terminal for the other handlers, but not for revocation.\<close>

definition ended :: "session_status \<Rightarrow> bool" where
  "ended st \<longleftrightarrow> isTerminalSession st \<and> st \<noteq> SessionManualIntervention"

definition refreshed_or :: "svc \<Rightarrow> string \<Rightarrow> (session \<Rightarrow> session M) \<Rightarrow> (session_status \<Rightarrow> bool) \<Rightarrow> session M \<Rightarrow> session M" where
  "refreshed_or s sessionID found ok otherwise =
     bindM (tryM (auto_tx s (sessions_GetByID s sessionID))) (\<lambda>r.
     case r of
       Inr refreshed \<Rightarrow> if ok (sess_Status refreshed) then found refreshed else otherwise
     | Inl _ \<Rightarrow> otherwise)"

definition force_reason :: "string \<Rightarrow> string" where
  "force_reason reason = (if TrimSpace reason = [] then ''administrator_force_close'' else TrimSpace reason)"

definition ForceCloseSession :: "svc \<Rightarrow> string \<Rightarrow> string \<Rightarrow> string \<Rightarrow> session M" where
  "ForceCloseSession s adminID sessionID0 reason0 =
     (let sessionID = TrimSpace sessionID0; reason = force_reason reason0 in
      thenM (Authorize s adminID PermissionSessionOverride)
      (thenM (unlessM (sessionID \<noteq> []) ErrValidation)
      (thenM (checkM (validateUUID sessionID))
      (thenM (unlessM (\<not> int (rune_count reason) > 4000) ErrValidation)
      (bindM (auto_tx s (sessions_GetByID s sessionID)) (\<lambda>session.
       bindM (auto_tx s (requests_GetByID s (sess_RequestID session))) (\<lambda>request.
       bindM (tryM (InTx s (force_tx s adminID reason request (sess_ID session)))) (\<lambda>r.
       case r of
         Inl e \<Rightarrow> refreshed_or s (sess_ID session) returnM ended (failM e)
       | Inr transitioned \<Rightarrow> thenM (discardSessionToken s (sess_ID session)) (returnM transitioned)))))))))"

subsection \<open>RevokeSession\<close>

definition revoke_reason :: "string \<Rightarrow> string" where
  "revoke_reason reason =
     (let r = (if TrimSpace reason = [] then ''requested'' else TrimSpace reason)
      in if int (length r) > 128 then take (nat 128) r else r)"

definition queue_revoke :: "svc \<Rightarrow> session \<Rightarrow> string \<Rightarrow> bool M" where
  "queue_revoke s current reason =
     queue_session_command s (sess_ID current) outboxSessionRevoke (revoke_payload (sess_ID current) reason)"

definition revoke_unclaimed :: "svc \<Rightarrow> string \<Rightarrow> access_request \<Rightarrow> session \<Rightarrow> session M" where
  "revoke_unclaimed s reason request current =
     thenM (sessions_MarkProvisionFailed s (sess_ID current) (sess_Version current) ''revoked before provisioning'')
     (bindM (sessions_GetByID s (sess_ID current)) (\<lambda>transitioned.
      thenM (append_session_event s (sess_ID current) ''session.cancelled_before_start'' ''system'' None
              (reason_metadata reason))
      (thenM (appendAudit s (session_audit ''session.revoke_requested'' request (sess_ID current)
                ''no_remote_session'' reason))
      (returnM transitioned))))"

definition revoke_claimed :: "svc \<Rightarrow> string \<Rightarrow> access_request \<Rightarrow> session \<Rightarrow> session M" where
  "revoke_claimed s reason request current =
     (let revokeReason = ''revoke requested during provisioning'' in
      thenM (sessions_MarkProvisionRevokeFailed s (sess_ID current) (sess_Version current) revokeReason)
      (bindM (sessions_GetByID s (sess_ID current)) (\<lambda>transitioned.
       thenM (append_session_event s (sess_ID current) ''session.revoke_failed'' ''system'' None
               (reason_metadata revokeReason))
       (thenM (appendAudit s (session_audit ''session.revoke_failed'' request (sess_ID current) ''failed'' revokeReason))
       (thenM (queue_revoke s current reason)
       (returnM transitioned))))))"

definition begin_revoke :: "svc \<Rightarrow> string \<Rightarrow> access_request \<Rightarrow> session \<Rightarrow> session M" where
  "begin_revoke s reason request current =
     bindM (sessions_BeginRevoke s (sess_ID current)) (\<lambda>transitioned.
     bindM (queue_revoke s current reason) (\<lambda>created.
     thenM (whenM created
             (thenM (append_session_event s (sess_ID current) ''session.revoke_requested'' ''system'' None
                      (reason_metadata reason))
             (appendAudit s (session_audit ''session.revoke_requested'' request (sess_ID current) ''queued'' reason))))
     (returnM transitioned)))"

definition revoke_tx :: "svc \<Rightarrow> string \<Rightarrow> access_request \<Rightarrow> string \<Rightarrow> session M" where
  "revoke_tx s reason request sessionID =
     bindM (sessions_GetByIDForUpdate s sessionID) (\<lambda>current.
     if sess_Status current = SessionProvisioning then
       if sess_Version current = 0 then revoke_unclaimed s reason request current
       else revoke_claimed s reason request current
     else if sess_Status current \<in> {SessionRunning, SessionRevokeFailed, SessionManualIntervention} then
       begin_revoke s reason request current
     else if sess_Status current = SessionRevoking then
       thenM (queue_revoke s current reason) (returnM current)
     else returnM current)"

text \<open>\<open>persistRevokeFailure\<close>: the transaction returns the session and whether it had ended already.\<close>

definition revoke_failure_tx :: "svc \<Rightarrow> session \<Rightarrow> access_request \<Rightarrow> string \<Rightarrow> (session \<times> bool) M" where
  "revoke_failure_tx s session request reason =
     bindM (sessions_GetByIDForUpdate s (sess_ID session)) (\<lambda>current0.
     if ended (sess_Status current0) then returnM (current0, True)
     else
       bindM (if sess_Status current0 \<in> {SessionRunning, SessionRevokeFailed, SessionManualIntervention}
              then sessions_BeginRevoke s (sess_ID current0) else returnM current0) (\<lambda>current.
       thenM (unlessM (sess_Status current = SessionRevoking) ErrStateConflict)
       (thenM (sessions_MarkRevokeFailed s (sess_ID current) ''gateway_session_revoke_failed'')
       (bindM (sessions_GetByID s (sess_ID current)) (\<lambda>failed.
        thenM (append_session_event s (sess_ID current) ''session.revoke_failed'' ''system'' None
                (reason_metadata reason))
        (thenM (appendAudit s (session_audit ''session.revoke_failed'' request (sess_ID current) ''failed'' reason))
        (thenM (queue_revoke s current reason)
        (returnM (failed, False)))))))))"

definition persistRevokeFailure :: "svc \<Rightarrow> session \<Rightarrow> access_request \<Rightarrow> string \<Rightarrow> err \<Rightarrow> session M" where
  "persistRevokeFailure s session request reason cause =
     bindM (tryM (InTx s (revoke_failure_tx s session request reason))) (\<lambda>r.
     case r of
       Inl persistErr \<Rightarrow> failM (Joined cause persistErr)
     | Inr v \<Rightarrow> if snd v then thenM (discardSessionToken s (sess_ID session)) (returnM (fst v)) else failM cause)"

definition terminal_status :: "close_response \<Rightarrow> string \<Rightarrow> session_status" where
  "terminal_status response reason =
     (if cl_Status response = ''expired'' \<or> reason = ''expired'' \<or> reason = ''ttl_expired''
      then SessionExpired else SessionClosed)"

fun session_status_string :: "session_status \<Rightarrow> string" where
  "session_status_string SessionProvisioning = ''provisioning''"
| "session_status_string SessionRunning = ''running''"
| "session_status_string SessionRevoking = ''revoking''"
| "session_status_string SessionRevokeFailed = ''revoke_failed''"
| "session_status_string SessionManualIntervention = ''manual_intervention''"
| "session_status_string SessionExpired = ''expired''"
| "session_status_string SessionClosed = ''closed''"
| "session_status_string SessionFailed = ''failed''"

definition closed_tx :: "svc \<Rightarrow> string \<Rightarrow> access_request \<Rightarrow> string \<Rightarrow> session_status \<Rightarrow> session M" where
  "closed_tx s sessionID request reason st =
     bindM (sessions_GetByIDForUpdate s sessionID) (\<lambda>current.
     if sess_Status current \<noteq> SessionRevoking then
       if ended (sess_Status current) then returnM current else failM ErrStateConflict
     else
       thenM (sessions_MarkClosed s sessionID st)
       (bindM (sessions_GetByID s sessionID) (\<lambda>closed.
        thenM (append_session_event s sessionID ''session.closed'' ''system'' None (reason_metadata reason))
        (thenM (appendAudit s (session_audit ''session.closed'' request sessionID (session_status_string st) reason))
        (thenM (appendOutbox s ''session'' sessionID outboxNotifySessionClosed (session_payload sessionID))
        (returnM closed))))))"

definition discard_and_return :: "svc \<Rightarrow> string \<Rightarrow> session \<Rightarrow> session M" where
  "discard_and_return s sessionID v = thenM (discardSessionToken s sessionID) (returnM v)"

text \<open>The gateway call and its outcome, for a session in \<open>revoking\<close>.\<close>

definition revoke_remote :: "svc \<Rightarrow> string \<Rightarrow> session \<Rightarrow> access_request \<Rightarrow> string \<Rightarrow> session M" where
  "revoke_remote s sessionID session request reason =
     bindM (tryM (auto_tx s (gateways_GetByID s (sess_GatewayID session)))) (\<lambda>g.
     case g of
       Inl e \<Rightarrow> persistRevokeFailure s session request reason e
     | Inr gw \<Rightarrow>
         bindM (observe (\<lambda>p. svc_close s p (gateway_ManagementEndpoint gw) sessionID (''revoke-'' @ sessionID))) (\<lambda>r.
         case r of
           Inl gatewayErr \<Rightarrow> persistRevokeFailure s session request reason gatewayErr
         | Inr response \<Rightarrow>
             if \<not> validGatewayCloseResponse response sessionID
             then persistRevokeFailure s session request reason ErrStateConflict
             else
               bindM (tryM (InTx s (closed_tx s sessionID request reason (terminal_status response reason)))) (\<lambda>c.
               case c of
                 Inr closed \<Rightarrow> discard_and_return s sessionID closed
               | Inl err \<Rightarrow> refreshed_or s sessionID (discard_and_return s sessionID) isTerminalSession
                   (join_failure s err (persistRevokeFailure s session request reason err)))))"

definition RevokeSession :: "svc \<Rightarrow> string \<Rightarrow> string \<Rightarrow> session M" where
  "RevokeSession s sessionID reason0 =
     (let reason = revoke_reason reason0 in
      thenM (checkM (validateUUID sessionID))
      (bindM (auto_tx s (sessions_GetByID s sessionID)) (\<lambda>session.
       bindM (auto_tx s (requests_GetByID s (sess_RequestID session))) (\<lambda>request.
       if ended (sess_Status session) then discard_and_return s sessionID session
       else
         bindM (tryM (InTx s (revoke_tx s reason request sessionID))) (\<lambda>r.
         case r of
           Inl e \<Rightarrow> refreshed_or s sessionID (discard_and_return s sessionID) ended (failM e)
         | Inr transitioned \<Rightarrow>
             if sess_Status transitioned \<noteq> SessionRevoking then discard_and_return s sessionID transitioned
             else thenM (discardSessionToken s sessionID)
                    (revoke_remote s sessionID transitioned request reason))))))"

subsection \<open>Steps\<close>

context db_relation
begin

lemma resp_owner_or_admin [frame]: "others_keep R s \<Longrightarrow> keeps R (owner_or_admin s u r)"
  unfolding owner_or_admin_def by (intro frame)

lemma resp_refreshed_or [frame]:
  "others_keep R s \<Longrightarrow> (\<And>v. keeps R (f v)) \<Longrightarrow> keeps R m \<Longrightarrow> keeps R (refreshed_or s i f ok m)"
  unfolding refreshed_or_def by (intro frame)

lemma resp_join_failure [frame]: "keeps R m \<Longrightarrow> keeps R (join_failure s e m)"
  unfolding join_failure_def by (intro frame)

end

lemma keeps_close_tx [frame]: "keeps db_steps (close_tx s u r i)"
  unfolding close_tx_def by (intro frame)

lemma keeps_CloseSession [frame]: "peers s \<Longrightarrow> keeps db_steps (CloseSession s u i)"
  unfolding CloseSession_def by (intro frame)

lemma keeps_force_tx [frame]: "keeps db_steps (force_tx s a t r i)"
  unfolding force_tx_def force_unclaimed_def force_claimed_def queue_forced_def by (intro frame)

lemma keeps_ForceCloseSession [frame]: "peers s \<Longrightarrow> keeps db_steps (ForceCloseSession s a i t)"
  unfolding ForceCloseSession_def by (intro frame)

lemma keeps_queue_revoke [frame]: "keeps db_steps (queue_revoke s v t)"
  unfolding queue_revoke_def by (intro frame)

lemma keeps_revoke_tx [frame]: "keeps db_steps (revoke_tx s t r i)"
  unfolding revoke_tx_def revoke_unclaimed_def revoke_claimed_def begin_revoke_def by (intro frame)

lemma keeps_revoke_failure_tx [frame]: "keeps db_steps (revoke_failure_tx s v r t)"
  unfolding revoke_failure_tx_def by (intro frame)

lemma keeps_persistRevokeFailure [frame]: "peers s \<Longrightarrow> keeps db_steps (persistRevokeFailure s v r t e)"
  unfolding persistRevokeFailure_def by (intro frame)

lemma keeps_closed_tx [frame]: "keeps db_steps (closed_tx s i r t st)"
  unfolding closed_tx_def by (intro frame)

lemma keeps_discard_and_return [frame]: "peers s \<Longrightarrow> keeps db_steps (discard_and_return s i v)"
  unfolding discard_and_return_def by (intro frame)

lemma keeps_revoke_remote [frame]: "peers s \<Longrightarrow> keeps db_steps (revoke_remote s i v r t)"
  unfolding revoke_remote_def by (intro frame)

lemma keeps_RevokeSession [frame]: "peers s \<Longrightarrow> keeps db_steps (RevokeSession s i t)"
  unfolding RevokeSession_def by (intro frame)

end
