(* ===== verification/Outbox.thy ===== *)
theory Outbox
  imports Revoke
begin

text \<open>
  The background workers (\<open>service/access.go\<close>, \<open>session_runtime.go\<close>): delivery of outbox commands
  with retry and escalation, the reapers for expired sessions, expired approvals and interrupted
  provisioning, the queueing of revocations when a user, asset, gateway or region is withdrawn,
  and the reconciliation with the local runtime. A worker that counts successes and joins errors
  returns both: the number and the list of the errors in order.
\<close>

subsection \<open>Payloads and delays\<close>

definition outboxString :: "metadata \<Rightarrow> string \<Rightarrow> string \<Rightarrow> string" where
  "outboxString payload key fallback =
     (case map_of payload key of
        Some (JStr value) \<Rightarrow> if TrimSpace value = [] then fallback else value
      | _ \<Rightarrow> fallback)"

definition outboxReference :: "outbox_event \<Rightarrow> string \<Rightarrow> string" where
  "outboxReference event key =
     (let value = outboxString (outbox_Payload event) key [] in
      if value \<noteq> [] then value else outbox_AggregateID event)"

definition retry_delays :: "int list" where
  "retry_delays = [10 * second, 30 * second, 60 * second, 300 * second]"

definition outboxRetryDelay :: "int \<Rightarrow> int" where
  "outboxRetryDelay retryCount0 =
     (let retryCount = (if retryCount0 < 0 then 0 else retryCount0) in
      if retryCount \<ge> int (length retry_delays) then last retry_delays
      else retry_delays ! nat retryCount)"

subsection \<open>Delivery\<close>

definition notify :: "svc \<Rightarrow> outbox_type \<Rightarrow> access_request \<Rightarrow> session option \<Rightarrow> approval list \<Rightarrow> unit M" where
  "notify s t request session approvals =
     bindM (observe (\<lambda>p. svc_notify s p t request session approvals)) checkM"

definition dispatch_approval :: "svc \<Rightarrow> outbox_event \<Rightarrow> unit M" where
  "dispatch_approval s event =
     bindM (auto_tx s (requests_GetByID s (outboxReference event ''request_id''))) (\<lambda>request.
     if req_ApprovalMode request = ''admin_test'' \<or> req_Status request \<noteq> AccessRequestPendingApproval then returnM ()
     else bindM (auto_tx s (approvals_ListByRequest s (req_ID request))) (\<lambda>approvals.
       let level = fst (nextApprovalLevel approvals); complete = snd (nextApprovalLevel approvals) in
       if complete then returnM ()
       else notify s outboxNotifyApproval request None
              (filter (\<lambda>a. appr_ApprovalLevel a = level \<and> appr_Decision a = None) approvals)))"

definition dispatch_result :: "svc \<Rightarrow> outbox_event \<Rightarrow> unit M" where
  "dispatch_result s event =
     bindM (auto_tx s (requests_GetByID s (outboxReference event ''request_id''))) (\<lambda>request.
     if req_ApprovalMode request = ''admin_test'' then returnM ()
     else notify s outboxNotifyRequestResult request None [])"

definition dispatch_session :: "svc \<Rightarrow> outbox_event \<Rightarrow> unit M" where
  "dispatch_session s event =
     bindM (auto_tx s (sessions_GetByID s (outboxReference event ''session_id''))) (\<lambda>session.
     bindM (auto_tx s (requests_GetByID s (sess_RequestID session))) (\<lambda>request.
     if req_ApprovalMode request = ''admin_test'' then returnM ()
     else if outbox_EventType event = outboxNotifySessionReady then
       if sess_Status session \<noteq> SessionRunning then returnM ()
       else notify s outboxNotifySessionReady request (Some session) []
     else notify s outboxNotifySessionClosed request (Some session) []))"

definition dispatchOutboxEvent :: "svc \<Rightarrow> outbox_event \<Rightarrow> unit M" where
  "dispatchOutboxEvent s event =
     (case outbox_EventType event of
        outboxSessionProvision \<Rightarrow>
          thenM (ProvisionSession s (outboxReference event ''session_id'')) (returnM ())
      | outboxSessionRevoke \<Rightarrow>
          thenM (RevokeSession s (outboxReference event ''session_id'')
                   (outboxString (outbox_Payload event) ''reason'' ''requested'')) (returnM ())
      | outboxNotifyApproval \<Rightarrow> dispatch_approval s event
      | outboxNotifyRequestResult \<Rightarrow> dispatch_result s event
      | outboxNotifySessionReady \<Rightarrow> dispatch_session s event
      | outboxNotifySessionClosed \<Rightarrow> dispatch_session s event
      | outboxOther _ \<Rightarrow> failM ErrUnsupportedOutbox)"

definition manual_tx :: "svc \<Rightarrow> outbox_event \<Rightarrow> string \<Rightarrow> int \<Rightarrow> unit M" where
  "manual_tx s event reason nextRetryAt =
     bindM (sessions_GetByID s (outboxReference event ''session_id'')) (\<lambda>session.
     if isTerminalSession (sess_Status session) then outbox_Reschedule s (outbox_ID event) nextRetryAt True
     else
       thenM (unlessM (\<not> (sess_Status session \<noteq> SessionRevokeFailed \<and> sess_Status session \<noteq> SessionRevoking))
               ErrStateConflict)
       (bindM (requests_GetByID s (sess_RequestID session)) (\<lambda>request.
        thenM (sessions_MarkManualIntervention s (sess_ID session) reason)
        (thenM (append_session_event s (sess_ID session) ''session.manual_intervention'' ''system'' None
                 (reason_metadata reason))
        (thenM (appendAudit s (session_audit ''session.manual_intervention'' request (sess_ID session) ''failed'' reason))
        (outbox_Reschedule s (outbox_ID event) nextRetryAt True))))))"

definition markRevokeManualIntervention :: "svc \<Rightarrow> outbox_event \<Rightarrow> err \<Rightarrow> int \<Rightarrow> unit M" where
  "markRevokeManualIntervention s event dispatchErr nextRetryAt =
     InTx s (manual_tx s event (''automatic revoke retries exhausted: '' @ svc_errorText s dispatchErr) nextRetryAt)"

definition errs_of :: "err + 'a \<Rightarrow> err list" where
  "errs_of r = (case r of Inl e \<Rightarrow> [e] | Inr _ \<Rightarrow> [])"

definition retries_exhausted :: "outbox_event \<Rightarrow> bool" where
  "retries_exhausted event \<longleftrightarrow> outbox_RetryCount event \<ge> 4"

definition process_failed :: "svc \<Rightarrow> outbox_event \<Rightarrow> err \<Rightarrow> (int \<times> err list) M" where
  "process_failed s event dispatchErr =
     (let terminal = err_Is dispatchErr ErrUnsupportedOutbox \<or> retries_exhausted event in
      bindM (clock s) (\<lambda>now.
      let nextRetryAt = now + outboxRetryDelay (outbox_RetryCount event) in
      bindM (tryM (if retries_exhausted event \<and> outbox_EventType event = outboxSessionRevoke
                   then markRevokeManualIntervention s event dispatchErr nextRetryAt
                   else auto_tx s (outbox_Reschedule s (outbox_ID event) nextRetryAt terminal))) (\<lambda>r.
      returnM (0, errs_of r @ [dispatchErr]))))"

definition process_event :: "svc \<Rightarrow> outbox_event \<Rightarrow> (int \<times> err list) M" where
  "process_event s event =
     bindM (tryM (dispatchOutboxEvent s event)) (\<lambda>r.
     case r of
       Inr _ \<Rightarrow> bindM (tryM (auto_tx s (outbox_MarkProcessed s (outbox_ID event)))) (\<lambda>m.
                returnM (case m of Inl e \<Rightarrow> (0, [e]) | Inr _ \<Rightarrow> (1, [])))
     | Inl dispatchErr \<Rightarrow> process_failed s event dispatchErr)"

definition tally :: "(int \<times> err list) list \<Rightarrow> int \<times> err list" where
  "tally rs = (sum_list (map fst rs), concat (map snd rs))"

definition ProcessOutbox :: "svc \<Rightarrow> int \<Rightarrow> (int \<times> err list) M" where
  "ProcessOutbox s limit =
     bindM (InTx s (outbox_ClaimPending s limit (60 * second))) (\<lambda>events.
     bindM (mapM (process_event s) events) (\<lambda>rs. returnM (tally rs)))"

subsection \<open>Reapers\<close>

definition purge :: "svc \<Rightarrow> unit M" where
  "purge s = bindM (observe (svc_purge s)) checkM"

definition expire_tx :: "svc \<Rightarrow> access_request \<Rightarrow> string \<Rightarrow> bool M" where
  "expire_tx s request sessionID =
     bindM (sessions_GetByIDForUpdate s sessionID) (\<lambda>current.
     bindM (clock s) (\<lambda>now.
     if sess_Status current \<noteq> SessionRunning \<or>
        (case sess_ExpiresAt current of None \<Rightarrow> True | Some e \<Rightarrow> e > now) then returnM False
     else
       thenM (sessions_BeginRevoke s (sess_ID current))
       (thenM (appendAudit s (session_audit ''session.revoke_requested'' request (sess_ID current) ''queued'' ''expired''))
       (thenM (queue_revoke s current ''expired'')
       (returnM True)))))"

definition expire_one :: "svc \<Rightarrow> session \<Rightarrow> (int \<times> err list) M" where
  "expire_one s session =
     bindM (tryM (auto_tx s (requests_GetByID s (sess_RequestID session)))) (\<lambda>q.
     case q of
       Inl e \<Rightarrow> returnM (0, [e])
     | Inr request \<Rightarrow>
         bindM (tryM (InTx s (expire_tx s request (sess_ID session)))) (\<lambda>r.
         case r of
           Inl e \<Rightarrow> returnM (0, [e])
         | Inr transitioned \<Rightarrow>
             if transitioned then thenM (discardSessionToken s (sess_ID session)) (returnM (1, []))
             else returnM (0, [])))"

definition ReapExpired :: "svc \<Rightarrow> int \<Rightarrow> (int \<times> err list) M" where
  "ReapExpired s limit =
     bindM (clock s) (\<lambda>now.
     thenM (purge s) (thenM (purge s) (thenM (purge s)
     (thenM (auto_tx s (tokenDeliveries_DeleteExpired s now 5000))
     (thenM (purge s)
     (bindM (auto_tx s (sessions_ListExpired s limit)) (\<lambda>sessions.
      bindM (mapM (expire_one s) sessions) (\<lambda>rs. returnM (tally rs)))))))))"

definition approval_expired_audit :: "access_request \<Rightarrow> audit_event" where
  "approval_expired_audit request =
     no_audit\<lparr>audit_EventType := ''access_request.approval_expired'', audit_ActorType := ''system'',
       audit_SubjectUserID := Some (req_ApplicantID request), audit_RequestID := Some (req_ID request),
       audit_AssetID := Some (req_AssetID request), audit_TargetPort := Some (req_TargetPort request),
       audit_Result := Some ''expired'', audit_Reason := Some ''approval_timeout''\<rparr>"

definition approval_expired_tx :: "svc \<Rightarrow> access_request \<Rightarrow> bool M" where
  "approval_expired_tx s request =
     bindM (tryM (requests_TransitionStatus s (req_ID request) AccessRequestPendingApproval AccessRequestApprovalExpired)) (\<lambda>r.
     case r of
       Inl e \<Rightarrow> if err_Is e ErrNotFound then returnM False else failM e
     | Inr _ \<Rightarrow>
         thenM (appendAudit s (approval_expired_audit request))
         (thenM (appendOutbox s ''access_request'' (req_ID request) outboxNotifyRequestResult
                  (request_payload (req_ID request)))
         (returnM True)))"

definition counted :: "err + bool \<Rightarrow> int \<times> err list" where
  "counted r = (case r of Inl e \<Rightarrow> (0, [e]) | Inr b \<Rightarrow> (if b then 1 else 0, []))"

definition ReapApprovalExpired :: "svc \<Rightarrow> int \<Rightarrow> (int \<times> err list) M" where
  "ReapApprovalExpired s limit =
     bindM (clock s) (\<lambda>now.
     bindM (auto_tx s (requests_ListApprovalExpired s (now - svc_approvalTimeout s) limit)) (\<lambda>requests.
     bindM (mapM (\<lambda>q. bindM (tryM (InTx s (approval_expired_tx s q))) (\<lambda>r. returnM (counted r))) requests) (\<lambda>rs.
     returnM (tally rs))))"

definition recover_tx :: "svc \<Rightarrow> string \<Rightarrow> bool M" where
  "recover_tx s sessionID =
     queue_session_command s sessionID outboxSessionProvision (revoke_payload sessionID ''provisioning_recovery'')"

definition ReapProvisioning :: "svc \<Rightarrow> int \<Rightarrow> (int \<times> err list) M" where
  "ReapProvisioning s limit =
     bindM (auto_tx s (sessions_ListProvisioning s limit)) (\<lambda>sessions.
     bindM (mapM (\<lambda>v. bindM (tryM (InTx s (recover_tx s (sess_ID v)))) (\<lambda>r. returnM (counted r))) sessions) (\<lambda>rs.
     returnM (tally rs)))"

subsection \<open>Withdrawn users, assets, gateways and regions\<close>

definition enqueue_tx :: "svc \<Rightarrow> access_request \<Rightarrow> string \<Rightarrow> string \<Rightarrow> unit M" where
  "enqueue_tx s request reason sessionID =
     bindM (sessions_GetByIDForUpdate s sessionID) (\<lambda>current.
     let transitioned = sess_Status current \<in> {SessionRunning, SessionRevokeFailed, SessionManualIntervention} in
     if \<not> transitioned \<and> sess_Status current \<noteq> SessionRevoking then returnM ()
     else
       thenM (whenM transitioned
               (thenM (sessions_BeginRevoke s (sess_ID current))
                 (appendAudit s (session_audit ''session.revoke_requested'' request (sess_ID current) ''queued'' reason))))
       (thenM (queue_revoke s current reason)
       (returnM ())))"

definition enqueue_one :: "svc \<Rightarrow> string \<Rightarrow> session \<Rightarrow> err list M" where
  "enqueue_one s reason session =
     bindM (tryM (auto_tx s (requests_GetByID s (sess_RequestID session)))) (\<lambda>q.
     case q of
       Inl e \<Rightarrow> returnM [e]
     | Inr request \<Rightarrow>
         bindM (tryM (InTx s (enqueue_tx s request reason (sess_ID session)))) (\<lambda>r.
         case r of
           Inl e \<Rightarrow> returnM [e]
         | Inr _ \<Rightarrow> thenM (discardSessionToken s (sess_ID session)) (returnM [])))"

text \<open>\<open>errors.Join\<close> of a non-empty list.\<close>

fun join_errs :: "err list \<Rightarrow> err" where
  "join_errs [e] = e"
| "join_errs (e # es) = Joined e (join_errs es)"
| "join_errs [] = ErrOther"

definition enqueueSessionRevocations :: "svc \<Rightarrow> session list \<Rightarrow> string \<Rightarrow> unit M" where
  "enqueueSessionRevocations s sessions reason =
     bindM (mapM (enqueue_one s reason) sessions) (\<lambda>es.
     let errors = concat es in if errors \<noteq> [] then failM (join_errs errors) else returnM ())"

definition revocationBatchSize :: int where
  "revocationBatchSize = 100"

text \<open>The loop ends when a load returns no session, or with an error; \<open>None\<close> stands for a run that
  does not end.\<close>

partial_function (option) enqueueRevocationBatches ::
  "svc \<Rightarrow> (int \<Rightarrow> session list M) \<Rightarrow> string \<Rightarrow> world \<Rightarrow> ((err + unit) \<times> world) option" where
  "enqueueRevocationBatches s load reason w =
     (case load revocationBatchSize w of
        (Inl e, w1) \<Rightarrow> Some (Inl e, w1)
      | (Inr sessions, w1) \<Rightarrow>
          if sessions = [] then Some (Inr (), w1)
          else (case enqueueSessionRevocations s sessions reason w1 of
                  (Inl e, w2) \<Rightarrow> Some (Inl e, w2)
                | (Inr _, w2) \<Rightarrow> enqueueRevocationBatches s load reason w2))"

definition enqueueUserRevocations :: "svc \<Rightarrow> string \<Rightarrow> world \<Rightarrow> ((err + unit) \<times> world) option" where
  "enqueueUserRevocations s userID =
     enqueueRevocationBatches s (\<lambda>limit. auto_tx s (sessions_ListRevocationsToQueueByApplicant s userID limit)) ''user_inactive''"

definition enqueueAssetRevocations :: "svc \<Rightarrow> string \<Rightarrow> string \<Rightarrow> world \<Rightarrow> ((err + unit) \<times> world) option" where
  "enqueueAssetRevocations s assetID reason =
     enqueueRevocationBatches s (\<lambda>limit. auto_tx s (sessions_ListRevocationsToQueueByAsset s assetID limit)) reason"

definition enqueueGatewayRevocations :: "svc \<Rightarrow> string \<Rightarrow> string \<Rightarrow> world \<Rightarrow> ((err + unit) \<times> world) option" where
  "enqueueGatewayRevocations s gatewayID reason =
     enqueueRevocationBatches s (\<lambda>limit. auto_tx s (sessions_ListRevocationsToQueueByGateway s gatewayID limit)) reason"

definition enqueueRegionRevocations :: "svc \<Rightarrow> string \<Rightarrow> string \<Rightarrow> world \<Rightarrow> ((err + unit) \<times> world) option" where
  "enqueueRegionRevocations s regionID reason =
     enqueueRevocationBatches s (\<lambda>limit. auto_tx s (sessions_ListRevocationsToQueueByRegion s regionID limit)) reason"

subsection \<open>Reconciliation with the local runtime\<close>

definition reconcile_one :: "svc \<Rightarrow> string \<Rightarrow> err list M" where
  "reconcile_one s sessionID =
     bindM (tryM (RevokeSession s sessionID ''session_agent_stopped'')) (\<lambda>r.
     case r of
       Inl e \<Rightarrow> returnM [e]
     | Inr closed \<Rightarrow>
         if \<not> ended (sess_Status closed) then returnM []
         else bindM (observe (\<lambda>p. svc_acknowledge s p sessionID)) (\<lambda>a.
              returnM (case a of None \<Rightarrow> [] | Some e \<Rightarrow> [e])))"

definition ReconcileSessionResources :: "svc \<Rightarrow> err list M" where
  "ReconcileSessionResources s =
     (case svc_reconcile s of
        None \<Rightarrow> returnM []
      | Some reconcile \<Rightarrow>
          bindM (observe reconcile) (\<lambda>(e, stopped).
          bindM (mapM (reconcile_one s) stopped) (\<lambda>es.
          returnM ((case e of None \<Rightarrow> [] | Some e \<Rightarrow> [e]) @ concat es))))"

subsection \<open>Steps of the workers\<close>

context db_relation
begin

lemma resp_notify [frame]: "keeps R (notify s t r v as)"
  unfolding notify_def by (intro frame)

lemma resp_purge [frame]: "keeps R (purge s)"
  unfolding purge_def by (intro frame)

lemma resp_dispatch_notices [frame]:
  "others_keep R s \<Longrightarrow> keeps R (dispatch_approval s e)" "others_keep R s \<Longrightarrow> keeps R (dispatch_result s e)"
  "others_keep R s \<Longrightarrow> keeps R (dispatch_session s e)"
  unfolding dispatch_approval_def dispatch_result_def dispatch_session_def by (intro frame; assumption)+

end

lemma keeps_dispatchOutboxEvent [frame]: "peers s \<Longrightarrow> keeps db_steps (dispatchOutboxEvent s e)"
  unfolding dispatchOutboxEvent_def by (intro frame)

lemma keeps_markRevokeManualIntervention [frame]:
  "peers s \<Longrightarrow> keeps db_steps (markRevokeManualIntervention s e x t)"
  unfolding markRevokeManualIntervention_def manual_tx_def by (intro frame)

lemma keeps_process_event [frame]: "peers s \<Longrightarrow> keeps db_steps (process_event s e)"
  unfolding process_event_def process_failed_def by (intro frame)

lemma keeps_ProcessOutbox [frame]: "peers s \<Longrightarrow> keeps db_steps (ProcessOutbox s n)"
  unfolding ProcessOutbox_def by (intro frame)

lemma keeps_expire_tx [frame]: "keeps db_steps (expire_tx s r i)"
  unfolding expire_tx_def by (intro frame)

lemma keeps_ReapExpired [frame]: "peers s \<Longrightarrow> keeps db_steps (ReapExpired s n)"
  unfolding ReapExpired_def expire_one_def by (intro frame)

lemma keeps_approval_expired_tx [frame]: "keeps db_steps (approval_expired_tx s r)"
  unfolding approval_expired_tx_def by (intro frame) (simp add: request_decision_def)

lemma keeps_ReapApprovalExpired [frame]: "peers s \<Longrightarrow> keeps db_steps (ReapApprovalExpired s n)"
  unfolding ReapApprovalExpired_def by (intro frame)

lemma keeps_ReapProvisioning [frame]: "peers s \<Longrightarrow> keeps db_steps (ReapProvisioning s n)"
  unfolding ReapProvisioning_def recover_tx_def by (intro frame)

lemma keeps_enqueue_tx [frame]: "keeps db_steps (enqueue_tx s r t i)"
  unfolding enqueue_tx_def by (intro frame)

lemma keeps_enqueueSessionRevocations [frame]: "peers s \<Longrightarrow> keeps db_steps (enqueueSessionRevocations s vs t)"
  unfolding enqueueSessionRevocations_def enqueue_one_def by (intro frame)

lemma keeps_reconcile_one [frame]: "peers s \<Longrightarrow> keeps db_steps (reconcile_one s i)"
  unfolding reconcile_one_def by (intro frame)

lemma keeps_ReconcileSessionResources [frame]: "peers s \<Longrightarrow> keeps db_steps (ReconcileSessionResources s)"
  unfolding ReconcileSessionResources_def by (intro frame)

end
