(* ===== verification/Evidence.thy ===== *)
theory Evidence
  imports Outbox
begin

text \<open>
  Access evidence: connection events reported by gateways, operation events reported by asset
  collectors and their correlation with sessions (\<open>service/access.go\<close>,
  \<open>repository/access_evidence.go\<close>), and the queries on the audit log and on operation events with
  the rule that a user without the audit permission reads only what belongs to them
  (\<open>service/operation_audit_sessions.go\<close>, \<open>domain/audit.go\<close>).
\<close>

subsection \<open>Repository (repository/access evidence)\<close>

definition conns_Append :: "gateway_connection_event \<Rightarrow> int \<Rightarrow> db \<Rightarrow> (err + bool) \<times> db" where
  "conns_Append v now d =
     (if list_ex (\<lambda>r. gce_EventID r = gce_EventID v) (db_connection_events d) then (Inr False, d)
      else (Inr True, d\<lparr>db_connection_events := db_connection_events d @ [v\<lparr>gce_CreatedAt := now\<rparr>]\<rparr>))"

definition evidence_AppendConnectionEvent :: "svc \<Rightarrow> gateway_connection_event \<Rightarrow> bool M" where
  "evidence_AppendConnectionEvent s v = stmt s (conns_Append v)"

text \<open>A backend connection that was open at time \<open>t\<close>: connected within 25 hours before, and not
  disconnected before.\<close>

definition open_connection :: "db \<Rightarrow> string \<Rightarrow> int \<Rightarrow> int \<Rightarrow> gateway_connection_event \<Rightarrow> bool" where
  "open_connection d ip port t c \<longleftrightarrow>
     gce_EventType c = ''backend_connected'' \<and> gce_BackendSourceIP c = Some ip \<and> gce_BackendSourcePort c = Some port \<and>
     gce_OccurredAt c \<le> t \<and> gce_OccurredAt c \<ge> t - 25 * 3600 * second \<and>
     \<not> list_ex (\<lambda>f. gce_ConnectionID f = gce_ConnectionID c \<and> gce_EventType f = ''disconnected'' \<and>
          gce_OccurredAt f < t) (db_connection_events d)"

definition correlations ::
  "db \<Rightarrow> string \<Rightarrow> int \<Rightarrow> string \<Rightarrow> int \<Rightarrow> int \<Rightarrow> (gateway_connection_event \<times> session \<times> access_request) list" where
  "correlations d assetID targetPort ip port t =
     filter (\<lambda>(c, v, q). open_connection d ip port t c \<and> sess_ID v = gce_SessionID c \<and> req_ID q = sess_RequestID v \<and>
         req_AssetID q = assetID \<and> req_TargetPort q = targetPort)
       (List.product (db_connection_events d) (List.product (db_sessions d) (db_requests d)))"

definition evidence_CorrelateOperation ::
  "svc \<Rightarrow> string \<Rightarrow> int \<Rightarrow> string \<Rightarrow> int \<Rightarrow> int \<Rightarrow> (string \<times> string \<times> string) M" where
  "evidence_CorrelateOperation s assetID targetPort ip port t = query s (\<lambda>d.
     case take 2 (rev (sort_key (\<lambda>(c, v, q). (gce_OccurredAt c, gce_EventID c)) (correlations d assetID targetPort ip port t))) of
       [] \<Rightarrow> Inl ErrNotFound
     | [(c, v, q)] \<Rightarrow> Inr (gce_ConnectionID c, gce_SessionID c, case req_TargetAccount q of None \<Rightarrow> [] | Some a \<Rightarrow> a)
     | _ \<Rightarrow> Inl ErrConflict)"

definition ops_Append :: "operation_audit_event \<Rightarrow> int \<Rightarrow> db \<Rightarrow> (err + bool) \<times> db" where
  "ops_Append v now d =
     (if list_ex (\<lambda>r. oae_EventID r = oae_EventID v) (db_operation_events d) then (Inr False, d)
      else (Inr True, d\<lparr>db_operation_events := db_operation_events d @ [v\<lparr>oae_CreatedAt := now\<rparr>]\<rparr>))"

definition evidence_AppendOperationEvent :: "svc \<Rightarrow> operation_audit_event \<Rightarrow> bool M" where
  "evidence_AppendOperationEvent s v = stmt s (ops_Append v)"

subsection \<open>Connection events of a gateway\<close>

record gateway_event_input =
  ge_EventID :: string
  ge_GatewayID :: string
  ge_ConnectionID :: string
  ge_SessionID :: string
  ge_EventType :: string
  ge_SourceIP :: "string option"
  ge_BackendSourceIP :: "string option"
  ge_BackendSourcePort :: "int option"
  ge_BytesUp :: "int option"
  ge_BytesDown :: "int option"
  ge_DurationMS :: "int option"
  ge_Result :: "string option"
  ge_Reason :: "string option"
  ge_OccurredAt :: int

definition trim_event :: "gateway_event_input \<Rightarrow> gateway_event_input" where
  "trim_event i =
     i\<lparr>ge_EventID := TrimSpace (ge_EventID i), ge_GatewayID := TrimSpace (ge_GatewayID i),
       ge_ConnectionID := TrimSpace (ge_ConnectionID i), ge_SessionID := TrimSpace (ge_SessionID i),
       ge_EventType := TrimSpace (ge_EventType i)\<rparr>"

definition gateway_event_types :: "string list" where
  "gateway_event_types = [''connect_attempt'', ''source_rejected'', ''capacity_rejected'', ''auth_rejected'',
     ''backend_connected'', ''backend_failed'', ''disconnected'']"

definition event_identity :: "gateway_event_input \<Rightarrow> err option" where
  "event_identity i =
     (let ids = [ge_EventID i, ge_GatewayID i, ge_ConnectionID i, ge_SessionID i] in
      if [] \<in> set (ids @ [ge_EventType i]) then Some ErrValidation
      else if list_ex (\<lambda>v. validateUUID v \<noteq> None) ids then Some ErrValidation
      else if ge_EventType i \<notin> set gateway_event_types then Some ErrValidation
      else None)"

definition negative :: "int option \<Rightarrow> bool" where
  "negative v = (case v of None \<Rightarrow> False | Some n \<Rightarrow> n < 0)"

definition event_counters :: "gateway_event_input \<Rightarrow> err option" where
  "event_counters i =
     (if (ge_BackendSourceIP i = None) \<noteq> (ge_BackendSourcePort i = None) then Some ErrValidation
      else if (case ge_BackendSourcePort i of None \<Rightarrow> False | Some p \<Rightarrow> p < 1 \<or> p > 65535) then Some ErrValidation
      else if ge_EventType i = ''backend_connected'' \<and> ge_BackendSourceIP i = None then Some ErrValidation
      else if negative (ge_BytesUp i) \<or> negative (ge_BytesDown i) \<or> negative (ge_DurationMS i) then Some ErrValidation
      else if ge_EventType i \<noteq> ''disconnected'' \<and>
        (ge_BytesUp i \<noteq> None \<or> ge_BytesDown i \<noteq> None \<or> ge_DurationMS i \<noteq> None) then Some ErrValidation
      else None)"

text \<open>An optional text: blank is absent, a text that is too long or has a forbidden byte is refused.\<close>

definition optional_text :: "string option \<Rightarrow> int \<Rightarrow> (string \<Rightarrow> bool) \<Rightarrow> err + string option" where
  "optional_text v maxBytes bad =
     (case v of
        None \<Rightarrow> Inr None
      | Some t \<Rightarrow>
          let value = TrimSpace t in
          if value = [] then Inr None
          else if int (length value) > maxBytes \<or> bad value then Inl ErrValidation
          else Inr (Some value))"

definition validate_gateway_event :: "gateway_event_input \<Rightarrow> int \<Rightarrow> err + gateway_event_input" where
  "validate_gateway_event input0 now =
     (let i = trim_event input0 in
      case event_identity i of
        Some e \<Rightarrow> Inl e
      | None \<Rightarrow>
          if ge_OccurredAt i = 0 \<or> ge_OccurredAt i > now + 300 * second then Inl ErrValidation
          else bindE (normalizeOptionalIP (ge_SourceIP i)) (\<lambda>src.
               bindE (normalizeOptionalIP (ge_BackendSourceIP i)) (\<lambda>backend.
               let j = i\<lparr>ge_SourceIP := src, ge_BackendSourceIP := backend\<rparr> in
               case event_counters j of
                 Some e \<Rightarrow> Inl e
               | None \<Rightarrow>
                   bindE (optional_text (ge_Result j) 32 (\<lambda>_. False)) (\<lambda>result.
                   bindE (optional_text (ge_Reason j) 256 has_control) (\<lambda>reason.
                   Inr (j\<lparr>ge_Result := result, ge_Reason := reason\<rparr>))))))"

definition connection_event :: "gateway_event_input \<Rightarrow> gateway_connection_event" where
  "connection_event i =
     \<lparr>gce_EventID = ge_EventID i, gce_ConnectionID = ge_ConnectionID i, gce_SessionID = ge_SessionID i,
      gce_EventType = ge_EventType i, gce_SourceIP = ge_SourceIP i, gce_BackendSourceIP = ge_BackendSourceIP i,
      gce_BackendSourcePort = ge_BackendSourcePort i, gce_BytesUp = ge_BytesUp i, gce_BytesDown = ge_BytesDown i,
      gce_DurationMS = ge_DurationMS i, gce_Result = ge_Result i, gce_Reason = ge_Reason i,
      gce_OccurredAt = ge_OccurredAt i, gce_CreatedAt = 0\<rparr>"

definition opt_entry :: "string \<Rightarrow> int option \<Rightarrow> metadata" where
  "opt_entry k v = (case v of None \<Rightarrow> [] | Some n \<Rightarrow> [(k, JInt n)])"

definition connection_metadata :: "gateway_event_input \<Rightarrow> metadata" where
  "connection_metadata i =
     [(''connection_id'', JStr (ge_ConnectionID i)), (''occurred_at'', JStr (RFC3339Nano (ge_OccurredAt i)))] @
     (case ge_BackendSourceIP i of
        None \<Rightarrow> []
      | Some ip \<Rightarrow> (''backend_source_ip'', JStr ip) # opt_entry ''backend_source_port'' (ge_BackendSourcePort i)) @
     opt_entry ''bytes_up'' (ge_BytesUp i) @ opt_entry ''bytes_down'' (ge_BytesDown i) @
     opt_entry ''duration_ms'' (ge_DurationMS i)"

definition connection_audit :: "gateway_event_input \<Rightarrow> access_request \<Rightarrow> asset \<Rightarrow> audit_event" where
  "connection_audit i request asset =
     no_audit\<lparr>audit_EventType := ''connection.'' @ ge_EventType i, audit_ActorType := ''gateway'',
       audit_ActorID := Some (ge_GatewayID i), audit_SubjectUserID := Some (req_ApplicantID request),
       audit_RequestID := Some (req_ID request), audit_SessionID := Some (ge_SessionID i),
       audit_RegionID := Some (asset_RegionID asset), audit_AssetID := Some (req_AssetID request),
       audit_TargetPort := Some (req_TargetPort request), audit_SourceIP := ge_SourceIP i,
       audit_Result := ge_Result i, audit_Reason := ge_Reason i, audit_Metadata := connection_metadata i\<rparr>"

definition gateway_event_tx :: "svc \<Rightarrow> gateway_event_input \<Rightarrow> access_request \<Rightarrow> asset \<Rightarrow> unit M" where
  "gateway_event_tx s i request asset =
     bindM (sessions_GetByID s (ge_SessionID i)) (\<lambda>current.
     thenM (unlessM (sess_GatewayID current = ge_GatewayID i) ErrForbidden)
     (bindM (evidence_AppendConnectionEvent s (connection_event i)) (\<lambda>inserted.
      whenM inserted
        (thenM (sessionEvents_Append s
                 \<lparr>sev_ID = ge_EventID i, sev_SessionID = ge_SessionID i, sev_EventType = ''connection.'' @ ge_EventType i,
                  sev_ActorType = ''gateway'', sev_ActorID = Some (ge_GatewayID i),
                  sev_Metadata = connection_metadata i, sev_CreatedAt = 0\<rparr>)
        (appendAudit s (connection_audit i request asset))))))"

definition RecordGatewayEvent :: "svc \<Rightarrow> gateway_event_input \<Rightarrow> unit M" where
  "RecordGatewayEvent s input0 =
     bindM (clock s) (\<lambda>now.
     bindM (liftE (validate_gateway_event input0 now)) (\<lambda>i.
     bindM (auto_tx s (sessions_GetByID s (ge_SessionID i))) (\<lambda>session.
     thenM (unlessM (sess_GatewayID session = ge_GatewayID i) ErrForbidden)
     (bindM (auto_tx s (requests_GetByID s (sess_RequestID session))) (\<lambda>request.
      bindM (auto_tx s (assets_GetIncludingDeleted s (req_AssetID request))) (\<lambda>asset.
      InTx s (gateway_event_tx s i request asset)))))))"

subsection \<open>Operation events of an asset collector\<close>

record operation_input =
  oi_EventID :: string
  oi_Protocol :: string
  oi_AssetID :: string
  oi_TargetPort :: int
  oi_ActualAccount :: string
  oi_OperationType :: string
  oi_StatementFingerprint :: "string option"
  oi_NormalizedOperation :: "string option"
  oi_ObjectName :: "string option"
  oi_Result :: string
  oi_DurationMS :: "int option"
  oi_BackendSourceIP :: string
  oi_BackendSourcePort :: int
  oi_SourceRecordID :: string
  oi_OccurredAt :: int
  oi_Metadata :: metadata

definition validAuditToken :: "string \<Rightarrow> int \<Rightarrow> bool" where
  "validAuditToken value maxBytes \<longleftrightarrow>
     \<not> (value = [] \<or> int (length value) > maxBytes) \<and> list_all process_id_char value"

definition normalizeOptionalAuditText :: "string option \<Rightarrow> int \<Rightarrow> err + string option" where
  "normalizeOptionalAuditText value maxBytes = optional_text value maxBytes has_control"

definition trim_operation :: "operation_input \<Rightarrow> operation_input" where
  "trim_operation i =
     i\<lparr>oi_EventID := TrimSpace (oi_EventID i), oi_Protocol := ToLower (TrimSpace (oi_Protocol i)),
       oi_AssetID := TrimSpace (oi_AssetID i), oi_ActualAccount := TrimSpace (oi_ActualAccount i),
       oi_OperationType := TrimSpace (oi_OperationType i), oi_Result := TrimSpace (oi_Result i),
       oi_BackendSourceIP := TrimSpace (oi_BackendSourceIP i), oi_SourceRecordID := TrimSpace (oi_SourceRecordID i)\<rparr>"

definition bounded_text :: "string \<Rightarrow> int \<Rightarrow> bool" where
  "bounded_text v maxBytes \<longleftrightarrow> \<not> (v = [] \<or> int (length v) > maxBytes \<or> has_control v)"

definition bad_port :: "int \<Rightarrow> bool" where
  "bad_port p \<longleftrightarrow> p < 1 \<or> p > 65535"

definition validateOperationAuditInput :: "operation_input \<Rightarrow> int \<Rightarrow> err + operation_input" where
  "validateOperationAuditInput input0 now =
     (let i = trim_operation input0 in
      if validateUUID (oi_EventID i) \<noteq> None \<or> validateUUID (oi_AssetID i) \<noteq> None then Inl ErrValidation
      else if \<not> ValidProtocol (oi_Protocol i) then Inl ErrValidation
      else if bad_port (oi_TargetPort i) \<or> bad_port (oi_BackendSourcePort i) then Inl ErrValidation
      else case ParseIP (oi_BackendSourceIP i) of
        None \<Rightarrow> Inl ErrValidation
      | Some ip \<Rightarrow>
          if IsUnspecified ip then Inl ErrValidation
          else if \<not> bounded_text (oi_ActualAccount i) 128 then Inl ErrValidation
          else if \<not> validAuditToken (oi_OperationType i) 64 \<or> \<not> validAuditToken (oi_Result i) 32 then Inl ErrValidation
          else if \<not> bounded_text (oi_SourceRecordID i) 512 then Inl ErrValidation
          else if oi_OccurredAt i = 0 \<or> oi_OccurredAt i > now + 300 * second then Inl ErrValidation
          else if negative (oi_DurationMS i) then Inl ErrValidation
          else bindE (normalizeOptionalAuditText (oi_StatementFingerprint i) 128) (\<lambda>fp.
               bindE (normalizeOptionalAuditText (oi_NormalizedOperation i) 4096) (\<lambda>op.
               bindE (normalizeOptionalAuditText (oi_ObjectName i) 512) (\<lambda>obj.
               bindE (sanitizeEventMetadata (oi_Metadata i)) (\<lambda>m.
               Inr (i\<lparr>oi_BackendSourceIP := ip_String ip, oi_StatementFingerprint := fp,
                      oi_NormalizedOperation := op, oi_ObjectName := obj, oi_Metadata := m\<rparr>))))))"

text \<open>\<open>metadata[key] = value\<close>.\<close>

fun put :: "string \<Rightarrow> json \<Rightarrow> metadata \<Rightarrow> metadata" where
  "put k v [] = [(k, v)]"
| "put k v ((k', v') # m) = (if k' = k then (k, v) # m else (k', v') # put k v m)"

record correlation =
  co_Connection :: "string option"
  co_Session :: "string option"
  co_Status :: string
  co_Metadata :: metadata

definition correlate :: "operation_input \<Rightarrow> err + string \<times> string \<times> string \<Rightarrow> err + correlation" where
  "correlate i r =
     (let m = put ''source'' (JStr ''asset_collector'') (oi_Metadata i);
          unmatched = (\<lambda>reason. Inr \<lparr>co_Connection = None, co_Session = None, co_Status = ''unmatched'',
                                     co_Metadata = put ''correlation_reason'' (JStr reason) m\<rparr>)
      in case r of
           Inr (conn, sess, account) \<Rightarrow>
             Inr \<lparr>co_Connection = Some conn, co_Session = Some sess,
                  co_Status = (if account \<noteq> oi_ActualAccount i then ''identity_mismatch'' else ''matched''),
                  co_Metadata = m\<rparr>
         | Inl e \<Rightarrow>
             if err_Is e ErrNotFound then unmatched ''connection_not_found''
             else if err_Is e ErrConflict then unmatched ''ambiguous_connection''
             else Inl e)"

definition operation_event :: "operation_input \<Rightarrow> correlation \<Rightarrow> operation_audit_event" where
  "operation_event i c =
     \<lparr>oae_EventID = oi_EventID i, oae_ConnectionID = co_Connection c, oae_SessionID = co_Session c,
      oae_Protocol = oi_Protocol i, oae_AssetID = oi_AssetID i, oae_TargetPort = oi_TargetPort i,
      oae_ActualAccount = oi_ActualAccount i, oae_OperationType = oi_OperationType i,
      oae_StatementFingerprint = oi_StatementFingerprint i, oae_NormalizedOperation = oi_NormalizedOperation i,
      oae_ObjectName = oi_ObjectName i, oae_Result = oi_Result i, oae_DurationMS = oi_DurationMS i,
      oae_BackendSourceIP = oi_BackendSourceIP i, oae_BackendSourcePort = oi_BackendSourcePort i,
      oae_SourceRecordID = oi_SourceRecordID i, oae_CorrelationStatus = co_Status c,
      oae_OccurredAt = oi_OccurredAt i, oae_Metadata = co_Metadata c, oae_CreatedAt = 0\<rparr>"

definition record_operation :: "svc \<Rightarrow> operation_input \<Rightarrow> bool M" where
  "record_operation s i =
     bindM (tryM (evidence_CorrelateOperation s (oi_AssetID i) (oi_TargetPort i) (oi_BackendSourceIP i)
                    (oi_BackendSourcePort i) (oi_OccurredAt i))) (\<lambda>r.
     bindM (liftE (correlate i r)) (\<lambda>c. evidence_AppendOperationEvent s (operation_event i c)))"

definition RecordOperationAuditBatch :: "svc \<Rightarrow> operation_input list \<Rightarrow> int M" where
  "RecordOperationAuditBatch s inputs =
     thenM (unlessM (\<not> (int (length inputs) < 1 \<or> int (length inputs) > 500)) ErrValidation)
     (bindM (mapM (\<lambda>i. bindM (clock s) (\<lambda>now. liftE (validateOperationAuditInput i now))) inputs) (\<lambda>validated.
      bindM (InTx s (mapM (record_operation s) validated)) (\<lambda>created.
      returnM (int (length (filter id created))))))"

subsection \<open>Reading the audit log\<close>

record audit_filter =
  af_Category :: string
  af_Action :: string
  af_UserMutationsOnly :: bool
  af_EventTypes :: "string list"
  af_EventType :: string
  af_ActorID :: string
  af_SubjectUserID :: string
  af_RequestID :: string
  af_SessionID :: string
  af_RegionID :: string
  af_AssetID :: string
  af_SourceIP :: string
  af_Result :: string
  af_From :: "int option"
  af_To :: "int option"
  af_Limit :: int
  af_Offset :: int

text \<open>Category and action of the user-initiated event types; display labels are left out.\<close>

definition auditClassifications :: "(string \<times> string \<times> string) list" where
  "auditClassifications =
    [(''access_request.created'', ''access'', ''create''),
     (''access_request.approval_decided'', ''access'', ''update''),
     (''access_request.cancelled'', ''access'', ''update''),
     (''session.revoke_requested'', ''access'', ''update''),
     (''session.revoke_failed'', ''access'', ''update''),
     (''session.force_close_requested'', ''access'', ''update''),
     (''region.created'', ''resources'', ''create''),
     (''region.status_updated'', ''resources'', ''update''),
     (''gateway.created'', ''resources'', ''create''),
     (''gateway.status_updated'', ''resources'', ''update''),
     (''gateway.capacity_updated'', ''resources'', ''update''),
     (''gateway.credential_reference_updated'', ''resources'', ''update''),
     (''asset.created'', ''resources'', ''create''),
     (''asset.updated'', ''resources'', ''update''),
     (''asset.deleted'', ''resources'', ''delete''),
     (''asset.status_updated'', ''resources'', ''update''),
     (''asset.gateway_bound'', ''resources'', ''update''),
     (''asset.gateway_binding_updated'', ''resources'', ''update''),
     (''asset_port.created'', ''resources'', ''create''),
     (''asset_port.deleted'', ''resources'', ''delete''),
     (''asset_approver.created'', ''access'', ''create''),
     (''workflow.asset_labels_saved'', ''access'', ''update''),
     (''cloud_account.saved'', ''resources'', ''update''),
     (''cloud_sync.queued'', ''resources'', ''update''),
     (''iam.role_saved'', ''permissions'', ''update''),
     (''iam.binding_saved'', ''permissions'', ''update''),
     (''rbac.role_granted'', ''permissions'', ''create''),
     (''rbac.role_revoked'', ''permissions'', ''delete''),
     (''iam.user_updated'', ''users'', ''update''),
     (''user.local_created'', ''users'', ''create''),
     (''user.invitation_created'', ''users'', ''create''),
     (''user.invitation_resent'', ''users'', ''update''),
     (''user.invitation_revoked'', ''users'', ''update''),
     (''user.invitation_accepted'', ''users'', ''update''),
     (''user.mfa_bound'', ''users'', ''update''),
     (''user.mfa_unbound'', ''users'', ''update''),
     (''user.mfa_reset'', ''users'', ''update''),
     (''user.mfa_recovery_regenerated'', ''users'', ''update''),
     (''user.mfa_recovery_used'', ''users'', ''update''),
     (''user.external_created'', ''users'', ''create''),
     (''user.password_changed'', ''users'', ''update''),
     (''user.feishu_bound'', ''users'', ''update''),
     (''user.feishu_unbound'', ''users'', ''update''),
     (''system.settings_updated'', ''settings'', ''update'')]"

definition UserMutationEventTypes :: "string \<Rightarrow> string \<Rightarrow> string list" where
  "UserMutationEventTypes category action =
     sort (map fst (filter (\<lambda>(t, c, a). (category = [] \<or> c = category) \<and> (action = [] \<or> a = action)) auditClassifications))"

definition ValidAuditCategory :: "string \<Rightarrow> bool" where
  "ValidAuditCategory v \<longleftrightarrow> v \<in> {[], ''access'', ''resources'', ''permissions'', ''users'', ''settings''}"

definition ValidAuditAction :: "string \<Rightarrow> bool" where
  "ValidAuditAction v \<longleftrightarrow> v \<in> {[], ''create'', ''update'', ''delete''}"

definition maxAuditPageSize :: int where
  "maxAuditPageSize = 200"

definition bad_identifier :: "string \<Rightarrow> bool" where
  "bad_identifier v \<longleftrightarrow> v \<noteq> [] \<and> (v \<noteq> TrimSpace v \<or> validateUUID v \<noteq> None)"

definition reversed_range :: "int option \<Rightarrow> int option \<Rightarrow> bool" where
  "reversed_range from to = (case (from, to) of (Some a, Some b) \<Rightarrow> a > b | _ \<Rightarrow> False)"

definition validateAuditFilter :: "audit_filter \<Rightarrow> err option" where
  "validateAuditFilter f =
     (if list_ex bad_identifier [af_ActorID f, af_SubjectUserID f, af_RequestID f, af_SessionID f, af_RegionID f, af_AssetID f]
      then Some ErrValidation
      else if list_ex (\<lambda>(v, m). int (rune_count v) > m \<or> has_control v)
        [(af_EventType f, 64), (af_SourceIP f, 128), (af_Result f, 32)] then Some ErrValidation
      else if af_SourceIP f \<noteq> [] \<and> (af_SourceIP f \<noteq> TrimSpace (af_SourceIP f) \<or> ParseIP (af_SourceIP f) = None)
      then Some ErrValidation
      else if af_Limit f < 0 \<or> af_Limit f > maxAuditPageSize then Some ErrValidation
      else if af_Offset f < 0 then Some ErrValidation
      else if reversed_range (af_From f) (af_To f) then Some ErrValidation
      else None)"

definition filter_eq :: "string \<Rightarrow> string option \<Rightarrow> bool" where
  "filter_eq v field \<longleftrightarrow> v = [] \<or> field = Some v"

definition audit_matches :: "audit_filter \<Rightarrow> audit_event \<Rightarrow> bool" where
  "audit_matches f e \<longleftrightarrow>
     (af_UserMutationsOnly f \<longrightarrow> audit_ActorType e \<in> {''user'', ''admin''} \<and> audit_EventType e \<in> set (af_EventTypes f)) \<and>
     filter_eq (af_EventType f) (Some (audit_EventType e)) \<and> filter_eq (af_ActorID f) (audit_ActorID e) \<and>
     filter_eq (af_SubjectUserID f) (audit_SubjectUserID e) \<and> filter_eq (af_RequestID f) (audit_RequestID e) \<and>
     filter_eq (af_SessionID f) (audit_SessionID e) \<and> filter_eq (af_RegionID f) (audit_RegionID e) \<and>
     filter_eq (af_AssetID f) (audit_AssetID e) \<and> filter_eq (af_SourceIP f) (audit_SourceIP e) \<and>
     filter_eq (af_Result f) (audit_Result e) \<and>
     (case af_From f of None \<Rightarrow> True | Some t \<Rightarrow> audit_CreatedAt e \<ge> t) \<and>
     (case af_To f of None \<Rightarrow> True | Some t \<Rightarrow> audit_CreatedAt e < t)"

text \<open>The display name joined to each row is left out.\<close>

definition audits_List :: "svc \<Rightarrow> audit_filter \<Rightarrow> audit_event list M" where
  "audits_List s f = query s (\<lambda>d. Inr (take (nat (page (af_Limit f) 200)) (drop (nat (max (af_Offset f) 0))
     (rev (sort_key (\<lambda>e. (audit_CreatedAt e, audit_ID e)) (filter (audit_matches f) (db_audit_events d)))))))"

definition ListAuditEvents :: "svc \<Rightarrow> string \<Rightarrow> audit_filter \<Rightarrow> audit_event list M" where
  "ListAuditEvents s userID f =
     thenM (Authorize s userID PermissionAuditRead)
     (thenM (checkM (validateAuditFilter f))
     (thenM (unlessM (ValidAuditCategory (af_Category f) \<and> ValidAuditAction (af_Action f)) ErrValidation)
     (auto_tx s (audits_List s (f\<lparr>af_UserMutationsOnly := True,
        af_EventTypes := UserMutationEventTypes (af_Category f) (af_Action f)\<rparr>)))))"

subsection \<open>Reading operation events\<close>

record operation_filter =
  of_SubjectUserID :: string
  of_ActualAccount :: string
  of_AssetID :: string
  of_SessionID :: string
  of_Protocol :: string
  of_Result :: string
  of_CorrelationStatus :: string
  of_From :: "int option"
  of_To :: "int option"
  of_Limit :: int
  of_Offset :: int

definition validateOperationAuditFilter :: "operation_filter \<Rightarrow> err option" where
  "validateOperationAuditFilter f =
     (if list_ex bad_identifier [of_SubjectUserID f, of_AssetID f, of_SessionID f] then Some ErrValidation
      else if of_Protocol f \<noteq> [] \<and> \<not> ValidProtocol (of_Protocol f) then Some ErrValidation
      else if of_CorrelationStatus f \<notin> {[], ''matched'', ''identity_mismatch'', ''unmatched''} then Some ErrValidation
      else if list_ex (\<lambda>(v, m). int (length v) > m \<or> has_control v) [(of_ActualAccount f, 128), (of_Result f, 32)]
      then Some ErrValidation
      else if of_Limit f < 0 \<or> of_Limit f > maxAuditPageSize \<or> of_Offset f < 0 then Some ErrValidation
      else if reversed_range (of_From f) (of_To f) then Some ErrValidation
      else None)"

definition operationAuditReadFilter :: "svc \<Rightarrow> string \<Rightarrow> operation_filter \<Rightarrow> operation_filter M" where
  "operationAuditReadFilter s userID f =
     bindM (EffectivePermissions s userID) (\<lambda>permissions.
     bindM (if PermissionAuditRead \<notin> set permissions then
              thenM (unlessM (PermissionSessionManage \<in> set permissions) ErrForbidden)
              (thenM (unlessM (\<not> (of_SubjectUserID f \<noteq> [] \<and> of_SubjectUserID f \<noteq> userID)) ErrForbidden)
              (returnM (f\<lparr>of_SubjectUserID := userID\<rparr>)))
            else returnM f) (\<lambda>g.
     thenM (checkM (validateOperationAuditFilter g)) (returnM g)))"

text \<open>The operator \<open>->>\<close> on a metadata column.\<close>

definition meta_text :: "metadata \<Rightarrow> string \<Rightarrow> string option" where
  "meta_text m k =
     (case map_of m k of
        None \<Rightarrow> None
      | Some JNull \<Rightarrow> None
      | Some (JStr t) \<Rightarrow> Some t
      | Some j \<Rightarrow> Some (json_encode j))"

text \<open>Equality of two columns that may be null.\<close>

definition sql_eq :: "string option \<Rightarrow> string option \<Rightarrow> bool" where
  "sql_eq a b \<longleftrightarrow> a \<noteq> None \<and> a = b"

definition superseded_start :: "db \<Rightarrow> operation_audit_event \<Rightarrow> bool" where
  "superseded_start d e \<longleftrightarrow>
     meta_text (oae_Metadata e) ''source'' = Some ''session_proxy'' \<and> meta_text (oae_Metadata e) ''phase'' = Some ''started'' \<and>
     list_ex (\<lambda>c. sql_eq (oae_SessionID c) (oae_SessionID e) \<and>
        meta_text (oae_Metadata c) ''source'' = Some ''session_proxy'' \<and>
        sql_eq (meta_text (oae_Metadata c) ''operation_id'') (meta_text (oae_Metadata e) ''operation_id'') \<and>
        meta_text (oae_Metadata c) ''phase'' = Some ''completed'') (db_operation_events d)"

definition transport_frame :: "db \<Rightarrow> operation_audit_event \<Rightarrow> bool" where
  "transport_frame d e \<longleftrightarrow>
     oae_OperationType e = ''terminal_output'' \<and>
     list_ex (\<lambda>p. sql_eq (oae_SessionID p) (oae_SessionID e) \<and> oae_OperationType p \<in> {''client'', ''shell'', ''exec''} \<and>
        meta_text (oae_Metadata p) ''source'' = Some ''session_proxy'' \<and>
        sql_eq (meta_text (oae_Metadata p) ''operation_id'') (meta_text (oae_Metadata e) ''channel_id'')) (db_operation_events d)"

definition visible_operation :: "db \<Rightarrow> operation_audit_event \<Rightarrow> bool" where
  "visible_operation d e \<longleftrightarrow>
     \<not> superseded_start d e \<and> oae_OperationType e \<notin> {''client_version_probe'', ''client_syntax_probe''} \<and>
     \<not> transport_frame d e"

text \<open>The join with the session and its request, which the query adds for a subject filter.\<close>

definition operation_subject :: "db \<Rightarrow> operation_audit_event \<Rightarrow> string \<Rightarrow> bool" where
  "operation_subject d e u =
     list_ex (\<lambda>v. oae_SessionID e = Some (sess_ID v) \<and> session_request d (\<lambda>q. req_ApplicantID q = u) v) (db_sessions d)"

definition operationAuditWhere :: "db \<Rightarrow> operation_filter \<Rightarrow> operation_audit_event \<Rightarrow> bool" where
  "operationAuditWhere d f e \<longleftrightarrow>
     visible_operation d e \<and>
     (of_SubjectUserID f \<noteq> [] \<longrightarrow> operation_subject d e (of_SubjectUserID f)) \<and>
     filter_eq (of_ActualAccount f) (Some (oae_ActualAccount e)) \<and> filter_eq (of_AssetID f) (Some (oae_AssetID e)) \<and>
     filter_eq (of_SessionID f) (oae_SessionID e) \<and> filter_eq (of_Protocol f) (Some (oae_Protocol e)) \<and>
     filter_eq (of_Result f) (Some (oae_Result e)) \<and>
     filter_eq (of_CorrelationStatus f) (Some (oae_CorrelationStatus e)) \<and>
     (case of_From f of None \<Rightarrow> True | Some t \<Rightarrow> oae_OccurredAt e \<ge> t) \<and>
     (case of_To f of None \<Rightarrow> True | Some t \<Rightarrow> oae_OccurredAt e < t)"

definition evidence_ListOperationEvents :: "svc \<Rightarrow> operation_filter \<Rightarrow> operation_audit_event list M" where
  "evidence_ListOperationEvents s f = query s (\<lambda>d. Inr (take (nat (page (of_Limit f) 200)) (drop (nat (max (of_Offset f) 0))
     (rev (sort_key (\<lambda>e. (oae_OccurredAt e, oae_EventID e)) (filter (operationAuditWhere d f) (db_operation_events d)))))))"

definition ListOperationAuditEvents :: "svc \<Rightarrow> string \<Rightarrow> operation_filter \<Rightarrow> operation_audit_event list M" where
  "ListOperationAuditEvents s userID f =
     bindM (operationAuditReadFilter s userID f) (\<lambda>g. auto_tx s (evidence_ListOperationEvents s g))"

definition ListSessionEvents :: "svc \<Rightarrow> string \<Rightarrow> string \<Rightarrow> int \<Rightarrow> int \<Rightarrow> session_event list M" where
  "ListSessionEvents s userID sessionID limit offset =
     thenM (requireActiveUser s userID)
     (thenM (checkM (validateUUID sessionID))
     (bindM (auto_tx s (sessions_GetByID s sessionID)) (\<lambda>session.
      bindM (auto_tx s (requests_GetByID s (sess_RequestID session))) (\<lambda>request.
      thenM (owner_or_admin s userID request)
      (auto_tx s (sessionEvents_ListBySession s sessionID limit offset))))))"

subsection \<open>Steps\<close>

lemma keeps_evidence_writes [frame]:
  "keeps db_steps (evidence_AppendConnectionEvent s c)" "keeps db_steps (evidence_AppendOperationEvent s e)"
  unfolding evidence_AppendConnectionEvent_def evidence_AppendOperationEvent_def conns_Append_def ops_Append_def
  by (intro keeps_config; simp add: lifecycle_def)+

lemma keeps_gateway_event_tx [frame]: "keeps db_steps (gateway_event_tx s i r a)"
  unfolding gateway_event_tx_def by (intro frame)

lemma keeps_RecordGatewayEvent [frame]: "peers s \<Longrightarrow> keeps db_steps (RecordGatewayEvent s i)"
  unfolding RecordGatewayEvent_def by (intro frame)

lemma keeps_record_operation [frame]: "keeps db_steps (record_operation s i)"
  unfolding record_operation_def evidence_CorrelateOperation_def by (intro frame)

lemma keeps_RecordOperationAuditBatch [frame]: "peers s \<Longrightarrow> keeps db_steps (RecordOperationAuditBatch s is)"
  unfolding RecordOperationAuditBatch_def by (intro frame)

end
