(* ===== verification/Governance.thy ===== *)
theory Governance
  imports Evidence
begin

text \<open>
  Administration of access rights: roles, role bindings, role assignments, user profiles, approval
  workflows, ownership rules and asset labels (\<open>service/iam.go\<close>, \<open>roles.go\<close>, \<open>workflows.go\<close>,
  \<open>workflow_owners.go\<close>, \<open>asset_workflows.go\<close>, with the statements of \<open>repository/iam.go\<close>, \<open>roles.go\<close>,
  \<open>workflows.go\<close>, \<open>user_directory.go\<close>). Every change runs in \<open>mutateIAM\<close>, which keeps one explicit
  administrator, and uses the revision number of the row as an optimistic lock.
\<close>

subsection \<open>Statements\<close>

text \<open>Revision 0 inserts unless the key exists, a positive revision updates the row that has it; no
  row is \<open>ErrNotFound\<close>.\<close>

definition save_revision ::
  "('a \<Rightarrow> bool) \<Rightarrow> ('a \<Rightarrow> int) \<Rightarrow> int \<Rightarrow> 'a \<Rightarrow> ('a \<Rightarrow> 'a) \<Rightarrow> 'a list \<Rightarrow> (err + 'a) \<times> 'a list" where
  "save_revision same ver revision fresh upd rows =
     (if revision > 0 then
        (case find (\<lambda>r. same r \<and> ver r = revision) rows of
           None \<Rightarrow> (Inl ErrNotFound, rows)
         | Some r \<Rightarrow> (Inr (upd r), map (\<lambda>x. if same x \<and> ver x = revision then upd x else x) rows))
      else if revision = 0 \<and> \<not> list_ex same rows then (Inr fresh, rows @ [fresh])
      else (Inl ErrNotFound, rows))"

definition roles_Save :: "role \<Rightarrow> int \<Rightarrow> db \<Rightarrow> (err + role) \<times> db" where
  "roles_Save v now d =
     (let (r, rows) = save_revision (\<lambda>x. role_Name x = role_Name v) role_Revision (role_Revision v)
            (v\<lparr>role_BuiltIn := False, role_Revision := 1, role_CreatedAt := now, role_UpdatedAt := now\<rparr>)
            (\<lambda>x. x\<lparr>role_Description := role_Description v, role_Permissions := role_Permissions v,
                   role_Labels := role_Labels v, role_Enabled := role_Enabled v,
                   role_Revision := role_Revision x + 1, role_UpdatedAt := now\<rparr>) (db_iam_roles d)
      in (r, d\<lparr>db_iam_roles := rows\<rparr>))"

definition iam_SaveRole :: "svc \<Rightarrow> role \<Rightarrow> role M" where
  "iam_SaveRole s v = stmt s (roles_Save v)"

definition bindings_Save :: "binding \<Rightarrow> int \<Rightarrow> db \<Rightarrow> (err + binding) \<times> db" where
  "bindings_Save v now d =
     (let (r, rows) = save_revision (\<lambda>x. binding_ID x = binding_ID v) binding_Revision (binding_Revision v)
            (v\<lparr>binding_Revision := 1, binding_CreatedAt := now, binding_UpdatedAt := now\<rparr>)
            (\<lambda>x. x\<lparr>binding_Name := binding_Name v, binding_UserSelector := binding_UserSelector v,
                   binding_RoleSelector := binding_RoleSelector v, binding_Enabled := binding_Enabled v,
                   binding_Revision := binding_Revision x + 1, binding_UpdatedAt := now\<rparr>) (db_iam_bindings d)
      in (r, d\<lparr>db_iam_bindings := rows\<rparr>))"

definition iam_SaveBinding :: "svc \<Rightarrow> binding \<Rightarrow> binding M" where
  "iam_SaveBinding s v = stmt s (bindings_Save v)"

text \<open>A user has at most one active assignment of a role.\<close>

definition assignments_Create :: "role_assignment \<Rightarrow> int \<Rightarrow> db \<Rightarrow> (err + role_assignment) \<times> db" where
  "assignments_Create v now d =
     (let row = v\<lparr>asg_CreatedAt := now, asg_RevokedAt := None\<rparr> in
      if list_ex (\<lambda>a. asg_ID a = asg_ID v \<or>
           (asg_UserID a = asg_UserID v \<and> asg_Role a = asg_Role v \<and> asg_RevokedAt a = None)) (db_assignments d)
      then (Inl ErrConflict, d)
      else (Inr row, d\<lparr>db_assignments := db_assignments d @ [row]\<rparr>))"

definition roles_Create :: "svc \<Rightarrow> role_assignment \<Rightarrow> role_assignment M" where
  "roles_Create s v = stmt s (assignments_Create v)"

definition roles_GetByID :: "svc \<Rightarrow> string \<Rightarrow> role_assignment M" where
  "roles_GetByID s i = query s (\<lambda>d. find_row (\<lambda>a. asg_ID a = i) (db_assignments d))"

definition assignments_Revoke :: "string \<Rightarrow> int \<Rightarrow> db \<Rightarrow> (err + role_assignment) \<times> db" where
  "assignments_Revoke i now d =
     (let p = (\<lambda>a. asg_ID a = i \<and> asg_RevokedAt a = None); f = (\<lambda>a. a\<lparr>asg_RevokedAt := Some now\<rparr>)
      in (case find p (db_assignments d) of None \<Rightarrow> Inl ErrNotFound | Some a \<Rightarrow> Inr (f a),
          d\<lparr>db_assignments := update_where p f (db_assignments d)\<rparr>))"

definition roles_Revoke :: "svc \<Rightarrow> string \<Rightarrow> role_assignment M" where
  "roles_Revoke s i = stmt s (assignments_Revoke i)"

definition profiles_Update :: "user \<Rightarrow> int \<Rightarrow> db \<Rightarrow> (err + unit) \<times> db" where
  "profiles_Update v now d =
     (let p = (\<lambda>u. user_ID u = user_ID v \<and> user_Revision u = user_Revision v)
      in (affected p (db_users d),
          d\<lparr>db_users := update_where p
              (\<lambda>u. u\<lparr>user_Nickname := user_Nickname v, user_Email := user_Email v, user_Department := user_Department v,
                     user_Status := user_Status v, user_Labels := user_Labels v, user_Revision := user_Revision u + 1,
                     user_AuthVersion := user_AuthVersion u + (if user_Status u \<noteq> user_Status v then 1 else 0),
                     user_UpdatedAt := now\<rparr>) (db_users d)\<rparr>))"

definition users_UpdateProfile :: "svc \<Rightarrow> user \<Rightarrow> unit M" where
  "users_UpdateProfile s v = stmt s (profiles_Update v)"

definition flows_Save :: "flow_definition \<Rightarrow> int \<Rightarrow> db \<Rightarrow> (err + flow_definition) \<times> db" where
  "flows_Save v now d =
     (let (r, rows) = save_revision (\<lambda>x. def_ID x = def_ID v) def_Revision (def_Revision v)
            (v\<lparr>def_BuiltIn := False, def_Revision := 1, def_CreatedAt := now, def_UpdatedAt := now\<rparr>)
            (\<lambda>x. x\<lparr>def_Name := def_Name v, def_Description := def_Description v, def_Labels := def_Labels v,
                   def_AssetSelector := def_AssetSelector v, def_TimeoutSeconds := def_TimeoutSeconds v,
                   def_Steps := def_Steps v, def_Enabled := def_Enabled v, def_BuiltIn := False,
                   def_Revision := def_Revision x + 1, def_UpdatedAt := now\<rparr>) (db_workflows d)
      in (r, d\<lparr>db_workflows := rows\<rparr>))"

definition workflows_Save :: "svc \<Rightarrow> flow_definition \<Rightarrow> flow_definition M" where
  "workflows_Save s v = stmt s (flows_Save v)"

definition owners_Save :: "ownership \<Rightarrow> int \<Rightarrow> db \<Rightarrow> (err + ownership) \<times> db" where
  "owners_Save v now d =
     (let (r, rows) = save_revision (\<lambda>x. own_ID x = own_ID v) own_Revision (own_Revision v)
            (v\<lparr>own_Revision := 1, own_CreatedAt := now, own_UpdatedAt := now\<rparr>)
            (\<lambda>x. x\<lparr>own_Name := own_Name v, own_AssetSelector := own_AssetSelector v,
                   own_UserSelector := own_UserSelector v, own_Enabled := own_Enabled v,
                   own_Revision := own_Revision x + 1, own_UpdatedAt := now\<rparr>) (db_ownerships d)
      in (r, d\<lparr>db_ownerships := rows\<rparr>))"

definition workflows_SaveOwnership :: "svc \<Rightarrow> ownership \<Rightarrow> ownership M" where
  "workflows_SaveOwnership s v = stmt s (owners_Save v)"

text \<open>The trigger \<open>ensure_asset_audit_profile\<close>: an absent audit profile becomes \<open>auto\<close>.\<close>

definition audit_profile_label :: string where
  "audit_profile_label = ''security.access-gateway.io/audit-profile''"

definition ensure_profile :: "labels \<Rightarrow> labels" where
  "ensure_profile l =
     (if Get l audit_profile_label = []
      then filter (\<lambda>kv. fst kv \<noteq> audit_profile_label) l @ [(audit_profile_label, ''auto'')] else l)"

definition policies_Save :: "asset_policy \<Rightarrow> int \<Rightarrow> db \<Rightarrow> (err + asset_policy) \<times> db" where
  "policies_Save v now d =
     (let claim = (\<lambda>x. policy_AssetID x = policy_AssetID v \<and>
                       (if policy_Revision v > 0 then policy_Revision x = policy_Revision v
                        else policy_Revision v = 0 \<and> policy_DefaultsOnly x));
          f = (\<lambda>x. x\<lparr>policy_Labels := ensure_profile (policy_Labels v), policy_DefaultsOnly := False,
                    policy_Revision := policy_Revision x + (if policy_Revision v > 0 then 1 else 0),
                    policy_UpdatedAt := now\<rparr>);
          fresh = \<lparr>policy_DefaultsOnly = False, policy_AssetID = policy_AssetID v,
                   policy_Labels = ensure_profile (policy_Labels v), policy_Revision = 1, policy_UpdatedAt = now\<rparr>
      in if policy_Revision v = 0 \<and> \<not> list_ex (\<lambda>x. policy_AssetID x = policy_AssetID v) (db_asset_policies d)
         then (Inr fresh, d\<lparr>db_asset_policies := db_asset_policies d @ [fresh]\<rparr>)
         else (case find claim (db_asset_policies d) of None \<Rightarrow> Inl ErrNotFound | Some x \<Rightarrow> Inr (f x),
               d\<lparr>db_asset_policies := update_where claim f (db_asset_policies d)\<rparr>))"

definition workflows_SaveAssetPolicy :: "svc \<Rightarrow> asset_policy \<Rightarrow> asset_policy M" where
  "workflows_SaveAssetPolicy s v = stmt s (policies_Save v)"

subsection \<open>The administrator that remains\<close>

definition explicit_admins :: "svc \<Rightarrow> user list \<Rightarrow> role_assignment list \<Rightarrow> user list" where
  "explicit_admins s users assignments =
     filter (\<lambda>u. list_ex (\<lambda>a. asg_Role a = ''admin'' \<and> asg_UserID a = user_ID u) assignments \<or> configuredAdmin s u) users"

definition explicitAdmins :: "svc \<Rightarrow> int M" where
  "explicitAdmins s =
     bindM (iam_ListSubjects s) (\<lambda>users.
     bindM (iam_ListAssignments s) (\<lambda>assignments.
     thenM (unlessM (\<not> (length users > 10000 \<or> length assignments > 100000)) ErrStateConflict)
     (returnM (int (length (explicit_admins s users assignments))))))"

definition mutateIAM :: "svc \<Rightarrow> string \<Rightarrow> permission \<Rightarrow> 'a M \<Rightarrow> 'a M" where
  "mutateIAM s actor p mutate =
     InTx s (thenM (iam_Lock s False)
       (thenM (authorizeIn s actor p)
       (bindM (explicitAdmins s) (\<lambda>before.
        bindM mutate (\<lambda>r.
        bindM (explicitAdmins s) (\<lambda>after.
        thenM (unlessM (\<not> (before > 0 \<and> after = 0)) ErrValidation)
        (returnM r)))))))"

definition revisionError :: "'a M \<Rightarrow> 'a M" where
  "revisionError m = bindM (tryM m) (\<lambda>r.
     case r of Inr v \<Rightarrow> returnM v | Inl e \<Rightarrow> failM (if err_Is e ErrNotFound then ErrStateConflict else e))"

definition prepareRevisionID :: "svc \<Rightarrow> string \<Rightarrow> int \<Rightarrow> string M" where
  "prepareRevisionID s value revision =
     thenM (unlessM (\<not> revision < 0) ErrValidation)
     (bindM (if revision = 0 \<and> value = [] then id_New s else returnM value) (\<lambda>i.
      thenM (checkM (validateUUID i)) (returnM i)))"

definition json_labels :: "labels \<Rightarrow> json" where
  "json_labels l = JObj (map (\<lambda>(k, v). (k, JStr v)) l)"

definition iamAudit :: "svc \<Rightarrow> string \<Rightarrow> string \<Rightarrow> metadata \<Rightarrow> unit M" where
  "iamAudit s actor event metadata =
     appendAudit s (no_audit\<lparr>audit_EventType := event, audit_ActorType := ''admin'', audit_ActorID := Some actor,
       audit_Result := Some ''success'', audit_Metadata := metadata\<rparr>)"

subsection \<open>Roles and bindings\<close>

definition system_labels :: "labels \<Rightarrow> labels" where
  "system_labels l = filter (\<lambda>kv. IsSystemKey (fst kv)) l"

text \<open>Both loops over the labels: a system label is kept as it is stored.\<close>

definition system_labels_kept :: "labels \<Rightarrow> role option \<Rightarrow> bool" where
  "system_labels_kept l existing =
     (case existing of
        None \<Rightarrow> system_labels l = []
      | Some e \<Rightarrow> list_all (\<lambda>(k, v). map_of (role_Labels e) k = Some v) (system_labels l) \<and>
                 list_all (\<lambda>(k, v). map_of l k = Some v) (system_labels (role_Labels e)))"

definition validateRoleChange :: "role \<Rightarrow> role option \<Rightarrow> bool" where
  "validateRoleChange input existing =
     (if existing = None \<and> role_BuiltIn input then False
      else if labels_Validate (role_Labels input) \<noteq> None then False
      else if \<not> system_labels_kept (role_Labels input) existing then False
      else if (case existing of None \<Rightarrow> False
               | Some e \<Rightarrow> role_BuiltIn e \<and> role_Name e \<in> {''admin'', ''user''} \<and> \<not> role_Enabled input) then False
      else if role_Validate (input\<lparr>role_Labels := filter (\<lambda>kv. \<not> IsSystemKey (fst kv)) (role_Labels input)\<rparr>) \<noteq> None
      then False
      else \<not> (case existing of None \<Rightarrow> False
              | Some e \<Rightarrow> role_BuiltIn e \<and> role_Name e = ''admin'' \<and>
                  PermissionRoleManage \<notin> set (role_Permissions input)))"

definition role_metadata :: "role \<Rightarrow> metadata" where
  "role_metadata r =
     [(''role'', JStr (role_Name r)), (''revision'', JInt (role_Revision r)),
      (''permissions'', JList (map JStr (role_Permissions r))), (''labels'', json_labels (role_Labels r)),
      (''enabled'', JBool (role_Enabled r))]"

definition save_role :: "svc \<Rightarrow> string \<Rightarrow> role \<Rightarrow> role M" where
  "save_role s actor input =
     bindM (iam_ListRoles s) (\<lambda>roles.
     thenM (unlessM (\<not> (length roles \<ge> 1000 \<and> role_Revision input = 0)) ErrValidation)
     (let existing = find (\<lambda>r. role_Name r = role_Name input) roles in
      thenM (unlessM (validateRoleChange input existing) ErrValidation)
      (bindM (revisionError (iam_SaveRole s
          (input\<lparr>role_BuiltIn := (case existing of None \<Rightarrow> False | Some e \<Rightarrow> role_BuiltIn e)\<rparr>))) (\<lambda>r.
       thenM (iamAudit s actor ''iam.role_saved'' (role_metadata r)) (returnM r)))))"

definition SaveIAMRole :: "svc \<Rightarrow> string \<Rightarrow> role \<Rightarrow> role M" where
  "SaveIAMRole s actor input =
     thenM (unlessM (\<not> role_Revision input < 0) ErrValidation)
     (mutateIAM s actor PermissionRoleManage (save_role s actor input))"

definition ListIAMRoles :: "svc \<Rightarrow> string \<Rightarrow> role list M" where
  "ListIAMRoles s actor =
     thenM (Authorize s actor PermissionRoleManage)
     (bindM (auto_tx s (iam_ListRoles s)) (\<lambda>roles.
      thenM (unlessM (\<not> length roles > 1000) ErrStateConflict) (returnM roles)))"

definition binding_metadata :: "binding \<Rightarrow> metadata" where
  "binding_metadata b =
     [(''binding_id'', JStr (binding_ID b)), (''revision'', JInt (binding_Revision b)),
      (''user_selector'', JStr (binding_UserSelector b)), (''role_selector'', JStr (binding_RoleSelector b)),
      (''enabled'', JBool (binding_Enabled b))]"

definition save_binding :: "svc \<Rightarrow> string \<Rightarrow> binding \<Rightarrow> binding M" where
  "save_binding s actor input =
     bindM (iam_ListBindings s) (\<lambda>bindings.
     thenM (unlessM (\<not> (length bindings \<ge> 1000 \<and> binding_Revision input = 0)) ErrValidation)
     (bindM (iam_ListRoles s) (\<lambda>roles.
      thenM (unlessM (\<not> (binding_Enabled input \<and> \<not> MatchesRole (binding_RoleSelector input) roles)) ErrValidation)
      (bindM (revisionError (iam_SaveBinding s input)) (\<lambda>b.
       thenM (iamAudit s actor ''iam.binding_saved'' (binding_metadata b)) (returnM b))))))"

definition SaveIAMBinding :: "svc \<Rightarrow> string \<Rightarrow> binding \<Rightarrow> binding M" where
  "SaveIAMBinding s actor input =
     thenM (unlessM (binding_Validate input = None) ErrValidation)
     (bindM (prepareRevisionID s (binding_ID input) (binding_Revision input)) (\<lambda>i.
      mutateIAM s actor PermissionRoleManage (save_binding s actor (input\<lparr>binding_ID := i\<rparr>))))"

definition ListIAMBindings :: "svc \<Rightarrow> string \<Rightarrow> binding list M" where
  "ListIAMBindings s actor =
     thenM (Authorize s actor PermissionRoleManage)
     (bindM (auto_tx s (iam_ListBindings s)) (\<lambda>bindings.
      thenM (unlessM (\<not> length bindings > 1000) ErrStateConflict) (returnM bindings)))"

subsection \<open>Role assignments (service/roles.go)\<close>

definition assignment_audit :: "string \<Rightarrow> string \<Rightarrow> role_assignment \<Rightarrow> audit_event" where
  "assignment_audit event actorID v =
     no_audit\<lparr>audit_EventType := event, audit_ActorType := ''admin'', audit_ActorID := Some actorID,
       audit_SubjectUserID := Some (asg_UserID v), audit_Result := Some ''success'',
       audit_Metadata := [(''assignment_id'', JStr (asg_ID v)), (''role'', JStr (asg_Role v))]\<rparr>"

definition grant_role :: "svc \<Rightarrow> string \<Rightarrow> role_assignment \<Rightarrow> role_assignment M" where
  "grant_role s actorID v0 =
     bindM (iam_ListRoles s) (\<lambda>definitions.
     thenM (unlessM (list_ex (\<lambda>r. role_Name r = asg_Role v0 \<and> role_Enabled r) definitions) ErrValidation)
     (bindM (roles_Create s v0) (\<lambda>v.
      thenM (appendAudit s (assignment_audit ''rbac.role_granted'' actorID v)) (returnM v))))"

definition GrantRole :: "svc \<Rightarrow> string \<Rightarrow> string \<Rightarrow> string \<Rightarrow> role_assignment M" where
  "GrantRole s actorID userID0 role0 =
     (let userID = TrimSpace userID0; role = TrimSpace role0 in
      thenM (Authorize s actorID PermissionRoleManage)
      (thenM (checkM (validateUUID userID))
      (thenM (auto_tx s (users_GetByID s userID))
      (bindM (id_New s) (\<lambda>i.
       mutateIAM s actorID PermissionRoleManage (grant_role s actorID
         \<lparr>asg_ID = i, asg_UserID = userID, asg_Role = role, asg_GrantedBy = actorID, asg_CreatedAt = 0,
          asg_RevokedAt = None\<rparr>))))))"

definition revoke_role :: "svc \<Rightarrow> string \<Rightarrow> string \<Rightarrow> role_assignment M" where
  "revoke_role s actorID assignmentID =
     bindM (roles_Revoke s assignmentID) (\<lambda>v.
     thenM (appendAudit s (assignment_audit ''rbac.role_revoked'' actorID v)) (returnM v))"

definition RevokeRole :: "svc \<Rightarrow> string \<Rightarrow> string \<Rightarrow> role_assignment M" where
  "RevokeRole s actorID assignmentID =
     thenM (Authorize s actorID PermissionRoleManage)
     (thenM (checkM (validateUUID assignmentID))
     (bindM (auto_tx s (roles_GetByID s assignmentID)) (\<lambda>existing.
      if asg_RevokedAt existing \<noteq> None then returnM existing
      else if asg_UserID existing = actorID \<and> asg_Role existing = ''admin'' then failM ErrValidation
      else mutateIAM s actorID PermissionRoleManage (revoke_role s actorID assignmentID))))"

definition ListRoleAssignments :: "svc \<Rightarrow> string \<Rightarrow> string \<Rightarrow> role_assignment list M" where
  "ListRoleAssignments s actorID userID =
     thenM (Authorize s actorID PermissionRoleManage)
     (thenM (checkM (validateUUID userID))
     (auto_tx s (roles_ListActiveByUser s userID)))"

subsection \<open>User profiles\<close>

record update_user_input =
  uu_Nickname :: string
  uu_Email :: string
  uu_Department :: string
  uu_Status :: user_status
  uu_Labels :: labels
  uu_Revision :: int

record user_detail =
  detail_User :: user
  detail_Roles :: "role list"
  detail_RoleGrants :: "role_grant list"
  detail_Permissions :: "permission list"
  detail_CanEdit :: bool
  detail_CanLabel :: bool

definition privileged_roles :: "role list \<Rightarrow> bool" where
  "privileged_roles roles = list_ex (\<lambda>r. role_Name r \<noteq> ''user'') roles"

definition managedUserDetail :: "svc \<Rightarrow> string \<Rightarrow> string \<Rightarrow> user_detail M" where
  "managedUserDetail s actor userID =
     bindM (users_GetByID s userID) (\<lambda>summary.
     bindM (users_GetByID s userID) (\<lambda>u.
     bindM (userRoleGrants s u) (\<lambda>grants.
     bindM (users_GetByID s actor) (\<lambda>viewer.
     bindM (resolvedRoles s viewer) (\<lambda>viewerRoles.
     let active = user_Status u = UserStatusActive; roles = (if active then map grant_Role grants else []);
         canLabel = allowedRoles s viewerRoles PermissionRoleManage \<and> allowedRoles s viewerRoles PermissionUserManage;
         privileged = privileged_roles (map grant_Role grants)
     in returnM \<lparr>detail_User = summary, detail_Roles = roles, detail_RoleGrants = (if active then grants else []),
          detail_Permissions = (if active then rolePermissions s roles else []),
          detail_CanEdit = (allowedRoles s viewerRoles PermissionUserManage \<and> (\<not> privileged \<or> canLabel)),
          detail_CanLabel = canLabel\<rparr>)))))"

definition GetManagedUser :: "svc \<Rightarrow> string \<Rightarrow> string \<Rightarrow> user_detail M" where
  "GetManagedUser s actor userID =
     thenM (checkM (validateUUID userID))
     (readIAM s (thenM (authorizeIn s actor PermissionUserRead) (managedUserDetail s actor userID)))"

definition validate_profile :: "svc \<Rightarrow> update_user_input \<Rightarrow> bool" where
  "validate_profile s i \<longleftrightarrow>
     \<not> (int (length (uu_Nickname i)) > 128 \<or> int (length (uu_Department i)) > 128 \<or> uu_Revision i < 1) \<and>
     (uu_Email i \<noteq> [] \<longrightarrow> svc_mailAddress s (uu_Email i) = Some (uu_Email i) \<and> int (length (uu_Email i)) \<le> 254) \<and>
     ValidateEditable (uu_Labels i) = None"

fun user_status_string :: "user_status \<Rightarrow> string" where
  "user_status_string UserStatusActive = ''active''"
| "user_status_string UserStatusInactive = ''inactive''"

definition user_audit :: "string \<Rightarrow> string \<Rightarrow> update_user_input \<Rightarrow> audit_event" where
  "user_audit actor userID i =
     no_audit\<lparr>audit_EventType := ''iam.user_updated'', audit_ActorType := ''admin'', audit_ActorID := Some actor,
       audit_SubjectUserID := Some userID, audit_Result := Some ''success'',
       audit_Metadata := [(''revision'', JInt (uu_Revision i + 1)), (''labels'', json_labels (uu_Labels i)),
                          (''status'', JStr (user_status_string (uu_Status i)))]\<rparr>"

definition maps_Equal :: "labels \<Rightarrow> labels \<Rightarrow> bool" where
  "maps_Equal a b \<longleftrightarrow> length a = length b \<and> list_all (\<lambda>(k, v). map_of b k = Some v) a"

definition update_user :: "svc \<Rightarrow> string \<Rightarrow> string \<Rightarrow> update_user_input \<Rightarrow> user_detail M" where
  "update_user s actor userID i =
     bindM (users_GetByIDForUpdate s userID) (\<lambda>u.
     bindM (resolvedRoles s u) (\<lambda>roles.
     thenM (whenM (\<not> maps_Equal (user_Labels u) (uu_Labels i) \<or> privileged_roles roles)
             (authorizeIn s actor PermissionRoleManage))
     (thenM (unlessM (\<not> (actor = userID \<and> uu_Status i = UserStatusInactive)) ErrValidation)
     (thenM (revisionError (users_UpdateProfile s
        (u\<lparr>user_Nickname := (if uu_Nickname i = [] then user_Username u else uu_Nickname i),
           user_Email := optionalString (uu_Email i), user_Department := optionalString (uu_Department i),
           user_Status := uu_Status i, user_Labels := uu_Labels i, user_Revision := uu_Revision i\<rparr>)))
     (thenM (appendAudit s (user_audit actor userID i))
     (managedUserDetail s actor userID))))))"

definition trim_profile :: "update_user_input \<Rightarrow> update_user_input" where
  "trim_profile i =
     i\<lparr>uu_Nickname := TrimSpace (uu_Nickname i), uu_Email := TrimSpace (uu_Email i),
       uu_Department := TrimSpace (uu_Department i)\<rparr>"

text \<open>A deactivated user's sessions are queued for revocation after the transaction; \<open>None\<close> is a
  queueing loop that does not end.\<close>

definition UpdateManagedUser ::
  "svc \<Rightarrow> string \<Rightarrow> string \<Rightarrow> update_user_input \<Rightarrow> world \<Rightarrow> ((err + user_detail) \<times> world) option" where
  "UpdateManagedUser s actor userID input0 w =
     (let i = trim_profile input0 in
      case thenM (checkM (validateUUID userID))
             (thenM (unlessM (validate_profile s i) ErrValidation)
               (mutateIAM s actor PermissionUserManage (update_user s actor userID i))) w of
        (Inl e, w1) \<Rightarrow> Some (Inl e, w1)
      | (Inr detail, w1) \<Rightarrow>
          if uu_Status i = UserStatusInactive then
            (case enqueueUserRevocations s userID w1 of
               None \<Rightarrow> None
             | Some (Inl e, w2) \<Rightarrow> Some (Inl e, w2)
             | Some (Inr _, w2) \<Rightarrow> Some (Inr detail, w2))
          else Some (Inr detail, w1))"

subsection \<open>Approval workflows, ownership rules, asset labels\<close>

definition flow_metadata :: "flow_definition \<Rightarrow> metadata" where
  "flow_metadata f =
     [(''workflow_id'', JStr (def_ID f)), (''revision'', JInt (def_Revision f)),
      (''asset_selector'', JStr (def_AssetSelector f)), (''enabled'', JBool (def_Enabled f))]"

definition save_workflow :: "svc \<Rightarrow> string \<Rightarrow> flow_definition \<Rightarrow> flow_definition M" where
  "save_workflow s actor v =
     bindM (workflows_List s) (\<lambda>values.
     thenM (unlessM (\<not> (length values \<ge> 1000 \<and> def_Revision v = 0)) ErrValidation)
     (bindM (revisionError (workflows_Save s v)) (\<lambda>r.
      thenM (iamAudit s actor ''workflow.saved'' (flow_metadata r)) (returnM r))))"

definition SaveWorkflow :: "svc \<Rightarrow> string \<Rightarrow> flow_definition \<Rightarrow> flow_definition M" where
  "SaveWorkflow s actor v0 =
     (let v = v0\<lparr>def_AssetSelector := TrimSpace (def_AssetSelector v0)\<rparr> in
      thenM (unlessM (definition_Validate v = None) ErrValidation)
      (bindM (prepareRevisionID s (def_ID v) (def_Revision v)) (\<lambda>i.
       mutateIAM s actor PermissionWorkflowManage (save_workflow s actor (v\<lparr>def_ID := i\<rparr>)))))"

definition ListWorkflows :: "svc \<Rightarrow> string \<Rightarrow> flow_definition list M" where
  "ListWorkflows s actor =
     thenM (Authorize s actor PermissionWorkflowManage)
     (bindM (auto_tx s (workflows_List s)) (\<lambda>values.
      thenM (unlessM (\<not> length values > 1000) ErrStateConflict) (returnM values)))"

definition ownership_metadata :: "ownership \<Rightarrow> metadata" where
  "ownership_metadata v =
     [(''ownership_id'', JStr (own_ID v)), (''revision'', JInt (own_Revision v)),
      (''asset_selector'', JStr (own_AssetSelector v)), (''user_selector'', JStr (own_UserSelector v)),
      (''enabled'', JBool (own_Enabled v))]"

definition save_ownership :: "svc \<Rightarrow> string \<Rightarrow> ownership \<Rightarrow> ownership M" where
  "save_ownership s actor v =
     bindM (workflows_ListOwnerships s) (\<lambda>values.
     thenM (unlessM (\<not> (length values \<ge> 1000 \<and> own_Revision v = 0)) ErrValidation)
     (bindM (revisionError (workflows_SaveOwnership s v)) (\<lambda>r.
      thenM (iamAudit s actor ''workflow.ownership_saved'' (ownership_metadata r)) (returnM r))))"

definition SaveOwnership :: "svc \<Rightarrow> string \<Rightarrow> ownership \<Rightarrow> ownership M" where
  "SaveOwnership s actor v =
     thenM (unlessM (ownership_Validate v = None) ErrValidation)
     (bindM (prepareRevisionID s (own_ID v) (own_Revision v)) (\<lambda>i.
      mutateIAM s actor PermissionWorkflowManage (save_ownership s actor (v\<lparr>own_ID := i\<rparr>))))"

definition ListOwnerships :: "svc \<Rightarrow> string \<Rightarrow> ownership list M" where
  "ListOwnerships s actor =
     thenM (Authorize s actor PermissionWorkflowManage)
     (bindM (auto_tx s (workflows_ListOwnerships s)) (\<lambda>values.
      thenM (unlessM (\<not> length values > 1000) ErrStateConflict) (returnM values)))"

definition validateAssetOwner :: "svc \<Rightarrow> labels \<Rightarrow> unit M" where
  "validateAssetOwner s labels =
     (let ownerID = Get labels assetOwnerLabel in
      if ownerID = [] then returnM ()
      else if validateUUID ownerID \<noteq> None then failM ErrValidation
      else
        bindM (tryM (users_GetByID s ownerID)) (\<lambda>r.
        case r of
          Inl e \<Rightarrow> failM (if err_Is e ErrNotFound then ErrValidation else e)
        | Inr u \<Rightarrow>
            if user_Status u \<noteq> UserStatusActive then failM ErrValidation
            else bindM (tryM (authorizeIn s ownerID PermissionApprovalManage)) (\<lambda>a.
                 case a of
                   Inr _ \<Rightarrow> returnM ()
                 | Inl e \<Rightarrow> failM (if err_Is e ErrForbidden then ErrValidation else e))))"

definition policy_audit :: "string \<Rightarrow> asset_policy \<Rightarrow> audit_event" where
  "policy_audit actor r =
     no_audit\<lparr>audit_EventType := ''workflow.asset_labels_saved'', audit_ActorType := ''admin'',
       audit_ActorID := Some actor, audit_AssetID := Some (policy_AssetID r), audit_Result := Some ''success'',
       audit_Metadata := [(''revision'', JInt (policy_Revision r)), (''labels'', json_labels (policy_Labels r))]\<rparr>"

definition save_policy :: "svc \<Rightarrow> string \<Rightarrow> asset_policy \<Rightarrow> asset_policy M" where
  "save_policy s actor v =
     thenM (assets_GetByID s (policy_AssetID v))
     (thenM (validateAssetOwner s (policy_Labels v))
     (bindM (revisionError (workflows_SaveAssetPolicy s v)) (\<lambda>r.
      thenM (appendAudit s (policy_audit actor r)) (returnM r))))"

definition SaveAssetPolicy :: "svc \<Rightarrow> string \<Rightarrow> string \<Rightarrow> asset_policy \<Rightarrow> asset_policy M" where
  "SaveAssetPolicy s actor assetID v =
     thenM (checkM (validateUUID assetID))
     (thenM (unlessM (\<not> policy_Revision v < 0) ErrValidation)
     (thenM (unlessM (ValidateEditable (policy_Labels v) = None) ErrValidation)
     (mutateIAM s actor PermissionWorkflowManage (save_policy s actor (v\<lparr>policy_AssetID := assetID\<rparr>)))))"

definition GetAssetPolicy :: "svc \<Rightarrow> string \<Rightarrow> string \<Rightarrow> asset_policy M" where
  "GetAssetPolicy s actor assetID =
     thenM (Authorize s actor PermissionDirectoryRead)
     (thenM (checkM (validateUUID assetID))
     (thenM (auto_tx s (assets_GetByID s assetID))
     (auto_tx s (workflows_AssetPolicy s assetID))))"

definition ListAssetWorkflows :: "svc \<Rightarrow> string \<Rightarrow> flow_definition list M" where
  "ListAssetWorkflows s actor =
     thenM (Authorize s actor PermissionCatalogManage)
     (bindM (auto_tx s (workflows_List s)) (\<lambda>values.
      thenM (unlessM (\<not> length values > 1000) ErrStateConflict) (returnM values)))"

definition validateAssetWorkflow :: "svc \<Rightarrow> string \<Rightarrow> string option M" where
  "validateAssetWorkflow s workflowID0 =
     (let workflowID = TrimSpace workflowID0 in
      if workflowID = [] then returnM None
      else if validateUUID workflowID \<noteq> None then failM ErrValidation
      else
        bindM (workflows_List s) (\<lambda>values.
        thenM (unlessM (\<not> length values > 1000) ErrStateConflict)
        (case find (\<lambda>f. def_ID f = workflowID) values of
           None \<Rightarrow> failM ErrValidation
         | Some f \<Rightarrow> if \<not> def_Enabled f then failM ErrValidation else returnM (Some workflowID))))"

subsection \<open>Steps\<close>

text \<open>The statements of this theory write only configuration tables.\<close>

lemma keeps_governance_writes [frame]:
  "keeps db_steps (iam_SaveRole s r)" "keeps db_steps (iam_SaveBinding s b)" "keeps db_steps (roles_Create s a)"
  "keeps db_steps (roles_Revoke s i)" "keeps db_steps (users_UpdateProfile s u)" "keeps db_steps (workflows_Save s f)"
  "keeps db_steps (workflows_SaveOwnership s v)" "keeps db_steps (workflows_SaveAssetPolicy s p)"
  unfolding iam_SaveRole_def iam_SaveBinding_def roles_Create_def roles_Revoke_def users_UpdateProfile_def
    workflows_Save_def workflows_SaveOwnership_def workflows_SaveAssetPolicy_def
  by (intro keeps_config; simp add: roles_Save_def bindings_Save_def assignments_Create_def assignments_Revoke_def
      profiles_Update_def flows_Save_def owners_Save_def policies_Save_def lifecycle_def Let_def case_prod_beta)+

context db_relation
begin

lemma resp_revisionError [frame]: "keeps R m \<Longrightarrow> keeps R (revisionError m)"
  unfolding revisionError_def by (intro frame)

lemma resp_prepareRevisionID [frame]: "keeps R (prepareRevisionID s v r)"
  unfolding prepareRevisionID_def by (intro frame)

lemma resp_explicitAdmins [frame]: "keeps R (explicitAdmins s)"
  unfolding explicitAdmins_def by (intro frame)

lemma resp_mutateIAM [frame]: "others_keep R s \<Longrightarrow> keeps R m \<Longrightarrow> keeps R (mutateIAM s actor p m)"
  unfolding mutateIAM_def by (intro frame)

lemma resp_roles_GetByID [frame]: "keeps R (roles_GetByID s i)"
  unfolding roles_GetByID_def by (intro frame)

lemma resp_managedUserDetail [frame]: "keeps R (managedUserDetail s a u)"
  unfolding managedUserDetail_def by (intro frame)

lemma resp_validateAssetOwner [frame]: "keeps R (validateAssetOwner s l)"
  unfolding validateAssetOwner_def by (intro frame)

end

lemma keeps_iamAudit [frame]: "keeps db_steps (iamAudit s a e m)"
  unfolding iamAudit_def by (intro frame)

lemma keeps_SaveIAMRole [frame]: "peers s \<Longrightarrow> keeps db_steps (SaveIAMRole s a r)"
  unfolding SaveIAMRole_def save_role_def by (intro frame)

lemma keeps_SaveIAMBinding [frame]: "peers s \<Longrightarrow> keeps db_steps (SaveIAMBinding s a b)"
  unfolding SaveIAMBinding_def save_binding_def by (intro frame)

lemma keeps_GrantRole [frame]: "peers s \<Longrightarrow> keeps db_steps (GrantRole s a u r)"
  unfolding GrantRole_def grant_role_def by (intro frame)

lemma keeps_RevokeRole [frame]: "peers s \<Longrightarrow> keeps db_steps (RevokeRole s a i)"
  unfolding RevokeRole_def revoke_role_def by (intro frame)

lemma keeps_update_user [frame]: "keeps db_steps (update_user s a u i)"
  unfolding update_user_def by (intro frame)

lemma keeps_SaveWorkflow [frame]: "peers s \<Longrightarrow> keeps db_steps (SaveWorkflow s a f)"
  unfolding SaveWorkflow_def save_workflow_def by (intro frame)

lemma keeps_SaveOwnership [frame]: "peers s \<Longrightarrow> keeps db_steps (SaveOwnership s a v)"
  unfolding SaveOwnership_def save_ownership_def by (intro frame)

lemma keeps_SaveAssetPolicy [frame]: "peers s \<Longrightarrow> keeps db_steps (SaveAssetPolicy s a i p)"
  unfolding SaveAssetPolicy_def save_policy_def by (intro frame)

end
