(* ===== verification/Views.thy ===== *)
theory Views
  imports Governance
begin

text \<open>
  What a caller is shown: sessions (\<open>GetSession\<close>, \<open>sessionView\<close>, the terminal check), the progress of
  an approval (\<open>GetRequestWorkflow\<close>, \<open>workflowView\<close>, \<open>workflowDecision\<close>), the asset directory
  (\<open>ListAssets\<close>, \<open>ListAssetPorts\<close>) and the health probe of the gateways.
\<close>

subsection \<open>Sessions\<close>

record session_view =
  view_Session :: session
  view_Request :: access_request
  view_GatewayHost :: string
  view_GatewayPort :: int
  view_CanConnect :: bool
  view_CanWebConnect :: bool

definition can_connect :: "string \<Rightarrow> session \<Rightarrow> access_request \<Rightarrow> int \<Rightarrow> bool" where
  "can_connect userID session request now \<longleftrightarrow>
     req_ApplicantID request = userID \<and> req_Status request = AccessRequestApproved \<and>
     sess_Status session = SessionRunning \<and>
     (case sess_ExpiresAt session of None \<Rightarrow> False | Some e \<Rightarrow> e > now) \<and>
     (sess_ConnectionMode session = ''native'' \<or> sess_ConnectionMode session = ''audit'') \<and>
     req_SourceIP request \<noteq> None"

text \<open>The endpoint is the host and the port joined; it is not kept separately.\<close>

definition sessionView :: "svc \<Rightarrow> string \<Rightarrow> session \<Rightarrow> access_request \<Rightarrow> session_view M" where
  "sessionView s userID session request =
     bindM (auto_tx s (gateways_GetByID s (sess_GatewayID session))) (\<lambda>gw.
     bindM (observe (\<lambda>p. svc_gatewayHost s p gw)) (\<lambda>h.
     bindM (liftE h) (\<lambda>host.
     thenM (whenM (sess_ConnectionMode session = ''audit'')
             (bindM (observe (\<lambda>p. svc_auditTrust s p session (req_AssetID request))) checkM))
     (bindM (clock s) (\<lambda>now1.
      bindM (clock s) (\<lambda>now2.
      returnM \<lparr>view_Session = session, view_Request = request,
        view_GatewayHost = (if req_SourceIP request = None then [] else host),
        view_GatewayPort = (case (sess_ExternalPort session, req_SourceIP request) of (Some p, Some _) \<Rightarrow> p | _ \<Rightarrow> 0),
        view_CanConnect = can_connect userID session request now1,
        view_CanWebConnect = canUseWebTerminal userID session request now2\<rparr>))))))"

definition GetSession :: "svc \<Rightarrow> string \<Rightarrow> string \<Rightarrow> session_view M" where
  "GetSession s userID sessionID =
     thenM (requireActiveUser s userID)
     (thenM (checkM (validateUUID sessionID))
     (bindM (auto_tx s (sessions_GetByID s sessionID)) (\<lambda>session.
      bindM (auto_tx s (requests_GetByID s (sess_RequestID session))) (\<lambda>request.
      thenM (owner_or_admin s userID request)
      (sessionView s userID session request)))))"

definition GetSessionByRequest :: "svc \<Rightarrow> string \<Rightarrow> string \<Rightarrow> session_view M" where
  "GetSessionByRequest s userID requestID =
     thenM (checkM (validateUUID requestID))
     (bindM (GetAccessRequest s userID requestID) (\<lambda>request.
      thenM (owner_or_admin s userID request)
      (bindM (auto_tx s (sessions_GetByRequestID s (req_ID request))) (\<lambda>session.
       GetSession s userID (sess_ID session)))))"

definition AuthorizeTerminal :: "svc \<Rightarrow> string \<Rightarrow> string \<Rightarrow> int M" where
  "AuthorizeTerminal s actor sessionID =
     thenM (Authorize s actor PermissionSessionManage)
     (bindM (GetSession s actor sessionID) (\<lambda>view.
      if \<not> view_CanWebConnect view then failM ErrForbidden
      else case sess_ExpiresAt (view_Session view) of Some e \<Rightarrow> returnM e | None \<Rightarrow> failM ErrOther))"

subsection \<open>Progress of an approval\<close>

text \<open>Why the caller cannot decide now; texts are not modelled.\<close>

datatype decision_reason =
    NoReason | ApprovalEnded | ApprovalTimedOut | OwnRequest | NotAssigned | AlreadyDecided
  | EligibilityChanged | StateChanged

record workflow_approval =
  wa_ID :: string
  wa_UserID :: string
  wa_Name :: string
  wa_Level :: int
  wa_Required :: int
  wa_StepName :: string
  wa_Decision :: "approval_decision option"
  wa_Comment :: "string option"
  wa_DecidedAt :: "int option"

record workflow_view =
  wv_Snapshot :: "snapshot option"
  wv_Approvals :: "workflow_approval list"
  wv_CurrentLevel :: int
  wv_ExpiresAt :: "int option"
  wv_Status :: request_status
  wv_Stages :: "workflow_stage list"
  wv_CanDecide :: bool
  wv_ApprovalID :: string
  wv_DecisionReason :: decision_reason

definition view_deadline :: "svc \<Rightarrow> access_request \<Rightarrow> int option" where
  "view_deadline s request =
     (case req_ApprovalExpiresAt request of
        Some e \<Rightarrow> Some e
      | None \<Rightarrow> if req_CreatedAt request = 0 then None else Some (req_CreatedAt request + svc_approvalTimeout s))"

definition view_status :: "access_request \<Rightarrow> int option \<Rightarrow> int \<Rightarrow> request_status" where
  "view_status request deadline now =
     (case deadline of
        Some e \<Rightarrow> if req_Status request = AccessRequestPendingApproval \<and> \<not> now < e
                  then AccessRequestApprovalExpired else req_Status request
      | None \<Rightarrow> req_Status request)"

text \<open>The name recorded in the snapshot: the last matching candidate wins.\<close>

definition snapshot_name :: "snapshot option \<Rightarrow> approval \<Rightarrow> string" where
  "snapshot_name snap a =
     (case snap of
        None \<Rightarrow> []
      | Some sn \<Rightarrow>
          foldl (\<lambda>name c. if candidate_UserID c = appr_ApproverID a then candidate_Name c else name) []
            (concat (map resolved_Candidates (filter (\<lambda>r. resolved_Level r = appr_ApprovalLevel a) (snap_Steps sn)))))"

definition view_approval :: "svc \<Rightarrow> access_request \<Rightarrow> approval \<Rightarrow> workflow_approval M" where
  "view_approval s request a =
     bindM (if snapshot_name (req_WorkflowSnapshot request) a = []
            then bindM (users_GetByID s (appr_ApproverID a)) (\<lambda>u. returnM (user_Nickname u))
            else returnM (snapshot_name (req_WorkflowSnapshot request) a)) (\<lambda>name.
     returnM \<lparr>wa_ID = appr_ID a, wa_UserID = appr_ApproverID a, wa_Name = name, wa_Level = appr_ApprovalLevel a,
       wa_Required = appr_RequiredApprovals a, wa_StepName = appr_StepName a, wa_Decision = appr_Decision a,
       wa_Comment = appr_Comment a, wa_DecidedAt = appr_DecidedAt a\<rparr>)"

definition workflowView :: "svc \<Rightarrow> access_request \<Rightarrow> approval list \<Rightarrow> workflow_view M" where
  "workflowView s request approvals =
     bindM (clock s) (\<lambda>now.
     let level = fst (nextApprovalLevel approvals); deadline = view_deadline s request;
         status = view_status request deadline now
     in bindM (mapM (view_approval s request) approvals) (\<lambda>as.
        returnM \<lparr>wv_Snapshot = req_WorkflowSnapshot request, wv_Approvals = as,
          wv_CurrentLevel = (if status \<noteq> AccessRequestPendingApproval then 0 else level), wv_ExpiresAt = deadline,
          wv_Status = status, wv_Stages = workflowStages approvals status level, wv_CanDecide = False,
          wv_ApprovalID = [], wv_DecisionReason = NoReason\<rparr>))"

definition decide_own :: "svc \<Rightarrow> access_request \<Rightarrow> workflow_view \<Rightarrow> approval \<Rightarrow> workflow_view M" where
  "decide_own s request view a =
     (if appr_Decision a \<noteq> None then returnM (view\<lparr>wv_DecisionReason := AlreadyDecided\<rparr>)
      else bindM (tryM (validateWorkflowVoter s request a)) (\<lambda>r.
           case r of
             Inr _ \<Rightarrow> returnM (view\<lparr>wv_CanDecide := True, wv_ApprovalID := appr_ID a, wv_DecisionReason := NoReason\<rparr>)
           | Inl e \<Rightarrow> if err_Is e ErrForbidden then returnM (view\<lparr>wv_DecisionReason := EligibilityChanged\<rparr>)
                      else if err_Is e ErrStateConflict then returnM (view\<lparr>wv_DecisionReason := StateChanged\<rparr>)
                      else failM e))"

definition workflowDecision :: "svc \<Rightarrow> string \<Rightarrow> access_request \<Rightarrow> approval list \<Rightarrow> workflow_view \<Rightarrow> workflow_view M" where
  "workflowDecision s actor request approvals view =
     (if wv_Status view \<noteq> AccessRequestPendingApproval
      then returnM (view\<lparr>wv_DecisionReason :=
             (if wv_Status view = AccessRequestApprovalExpired then ApprovalTimedOut else ApprovalEnded)\<rparr>)
      else if actor = req_ApplicantID request then returnM (view\<lparr>wv_DecisionReason := OwnRequest\<rparr>)
      else case find (\<lambda>a. \<not> (appr_ApproverID a \<noteq> actor \<or> appr_ApprovalLevel a \<noteq> wv_CurrentLevel view)) approvals of
             None \<Rightarrow> returnM (view\<lparr>wv_DecisionReason := NotAssigned\<rparr>)
           | Some a \<Rightarrow> decide_own s request view a)"

definition view_allowed :: "svc \<Rightarrow> string \<Rightarrow> access_request \<Rightarrow> approval list \<Rightarrow> unit M" where
  "view_allowed s actor request approvals =
     whenM (req_ApplicantID request \<noteq> actor \<and> \<not> list_ex (\<lambda>a. appr_ApproverID a = actor) approvals)
       (bindM (users_GetByID s actor) (\<lambda>u.
        bindM (resolvedRoles s u) (\<lambda>roles.
        unlessM (list_ex (\<lambda>r. role_Name r = ''admin'') roles) ErrForbidden)))"

definition GetRequestWorkflow :: "svc \<Rightarrow> string \<Rightarrow> string \<Rightarrow> workflow_view M" where
  "GetRequestWorkflow s actor requestID =
     thenM (checkM (validateUUID requestID))
     (readIAM s
       (thenM (authorizeIn s actor PermissionRequestManage)
       (bindM (requests_GetByIDForUpdate s requestID) (\<lambda>request.
        bindM (approvals_ListByRequest s requestID) (\<lambda>approvals.
        thenM (view_allowed s actor request approvals)
        (bindM (workflowView s request approvals) (\<lambda>view.
         workflowDecision s actor request approvals view)))))))"

subsection \<open>Asset directory\<close>

definition regions_ListActive :: "svc \<Rightarrow> region list M" where
  "regions_ListActive s =
     query s (\<lambda>d. Inr (sort_key region_Code (filter (\<lambda>r. region_Status r = ResourceStatusEnabled) (db_regions d))))"

definition ListRegions :: "svc \<Rightarrow> region list M" where
  "ListRegions s = auto_tx s (regions_ListActive s)"

definition assets_ListActiveByRegion :: "svc \<Rightarrow> string \<Rightarrow> asset list M" where
  "assets_ListActiveByRegion s regionID = query s (\<lambda>d. Inr (sort_key (\<lambda>a. (asset_Name a, asset_ID a))
     (filter (\<lambda>a. asset_RegionID a = regionID \<and> asset_Status a = ResourceStatusEnabled \<and> asset_DeletedAt a = None)
       (db_assets d))))"

definition assets_ListPorts :: "svc \<Rightarrow> string \<Rightarrow> asset_port list M" where
  "assets_ListPorts s assetID = query s (\<lambda>d. Inr (sort_key (\<lambda>p. (port_Port p, port_Protocol p, port_ID p))
     (filter (\<lambda>p. port_AssetID p = assetID \<and> port_Enabled p) (db_ports d))))"

definition ListAssets :: "svc \<Rightarrow> string \<Rightarrow> string \<Rightarrow> asset list M" where
  "ListAssets s userID regionID =
     thenM (requireActiveUser s userID)
     (thenM (checkM (validateUUID regionID))
     (bindM (auto_tx s (regions_GetByID s regionID)) (\<lambda>region.
      thenM (unlessM (region_Status region = ResourceStatusEnabled) ErrValidation)
      (bindM (auto_tx s (assets_ListActiveByRegion s regionID)) (\<lambda>assets.
       returnM (map (\<lambda>a. a\<lparr>asset_TargetCiphertext := []\<rparr>) assets))))))"

text \<open>Each port with its field \<open>TargetAccountRequired\<close>.\<close>

definition ListAssetPorts :: "svc \<Rightarrow> string \<Rightarrow> string \<Rightarrow> (asset_port \<times> bool) list M" where
  "ListAssetPorts s userID assetID =
     thenM (requireActiveUser s userID)
     (thenM (checkM (validateUUID assetID))
     (bindM (auto_tx s (assets_GetByID s assetID)) (\<lambda>asset.
      thenM (unlessM (asset_Status asset = ResourceStatusEnabled) ErrValidation)
      (bindM (auto_tx s (regions_GetByID s (asset_RegionID asset))) (\<lambda>region.
       thenM (unlessM (region_Status region = ResourceStatusEnabled) ErrValidation)
       (bindM (auto_tx s (assets_ListPorts s assetID)) (\<lambda>ports.
        bindM (loadSessionAudit s assetID) (\<lambda>audit.
        returnM (map (\<lambda>p. (p, port_Protocol p = ''tcp'' \<and> targetAccountRequired audit (port_Port p))) ports)))))))))"

definition preview_request :: "string \<Rightarrow> string \<Rightarrow> access_request" where
  "preview_request actor assetID =
     \<lparr>req_WorkflowSnapshot = None, req_ApprovalExpiresAt = None, req_ApprovalMode = [], req_ID = [],
      req_ApplicantID = actor, req_AssetID = assetID, req_TargetPort = 0, req_Reason = [], req_TicketNo = None,
      req_Emergency = False, req_RequestedStartAt = None, req_TTLSeconds = 0,
      req_Status = AccessRequestPendingApproval, req_IdempotencyKey = [], req_SourceIP = None,
      req_TargetAccount = None, req_CreatedAt = 0, req_UpdatedAt = 0\<rparr>"

definition PreviewAssetWorkflow :: "svc \<Rightarrow> string \<Rightarrow> string \<Rightarrow> workflow_view M" where
  "PreviewAssetWorkflow s actor assetID =
     thenM (ListAssetPorts s actor assetID)
     (readIAM s
       (thenM (authorizeIn s actor PermissionDirectoryRead)
       (bindM (materializeApproval s (preview_request actor assetID)) (\<lambda>(request, approvals).
        workflowView s request approvals))))"

subsection \<open>Health of the gateways\<close>

text \<open>The probes of one round run concurrently; each writes only the row of its gateway. The model
  runs them in the order of the list.\<close>

definition ProbeGateways :: "svc \<Rightarrow> (string \<times> err option) list M" where
  "ProbeGateways s =
     (if \<not> svc_readinessSupported s then returnM []
      else bindM (auto_tx s (gateways_ListEnabled s)) (\<lambda>gws.
           mapM (\<lambda>g. bindM (tryM (probeGateway s g)) (\<lambda>r.
             returnM (gateway_ID g, case r of Inl e \<Rightarrow> Some e | Inr _ \<Rightarrow> None))) gws))"

end
