(* ===== verification/System.thy ===== *)
theory System
  imports Grants Views
begin

text \<open>
  The control plane as a whole: \<open>control_step\<close> has one rule per handler and worker, in any order and
  with any outcome. Every run moves the database along the steps of theory \<open>Steps\<close>, so the state
  machines, the append-only logs and the invariant of theory \<open>Grants\<close> hold of every reachable state,
  whatever fails and whatever other workers do in between.
\<close>

subsection \<open>Queueing of revocations\<close>

lemma enqueueRevocationBatches_steps:
  assumes "peers s" "\<forall>n. keeps db_steps (load n)" "enqueueRevocationBatches s load reason w = Some y"
  shows "db_steps (w_db w) (w_db (snd y))"
proof -
  have "peers s \<and> (\<forall>n. keeps db_steps (load n)) \<longrightarrow> db_steps (w_db w) (w_db (snd y))"
    using assms(3)
  proof (rule enqueueRevocationBatches.raw_induct [rotated])
    fix f :: "svc \<Rightarrow> (int \<Rightarrow> session list M) \<Rightarrow> string \<Rightarrow> world \<Rightarrow> ((err + unit) \<times> world) option"
    fix s :: svc and load :: "int \<Rightarrow> session list M" and reason :: string and w :: world and y :: "(err + unit) \<times> world"
    assume IH: "\<And>s load reason w y. f s load reason w = Some y \<Longrightarrow>
        peers s \<and> (\<forall>n. keeps db_steps (load n)) \<longrightarrow> db_steps (w_db w) (w_db (snd y))"
      and eq: "(case load revocationBatchSize w of
        (Inl e, w1) \<Rightarrow> Some (Inl e, w1)
      | (Inr sessions, w1) \<Rightarrow>
          if sessions = [] then Some (Inr (), w1)
          else (case enqueueSessionRevocations s sessions reason w1 of
                  (Inl e, w2) \<Rightarrow> Some (Inl e, w2)
                | (Inr _, w2) \<Rightarrow> f s load reason w2)) = Some y"
    show "peers s \<and> (\<forall>n. keeps db_steps (load n)) \<longrightarrow> db_steps (w_db w) (w_db (snd y))"
    proof (intro impI, elim conjE)
      assume p: "peers s" and l: "\<forall>n. keeps db_steps (load n)"
      obtain a w1 where 1: "load revocationBatchSize w = (a, w1)" by fastforce
      then have d1: "db_steps (w_db w) (w_db w1)" using l keepsD by blast
      show "db_steps (w_db w) (w_db (snd y))"
      proof (cases "\<exists>sessions. a = Inr sessions \<and> sessions \<noteq> []")
        case True
        then obtain sessions where a: "a = Inr sessions" "sessions \<noteq> []" by blast
        obtain b w2 where 2: "enqueueSessionRevocations s sessions reason w1 = (b, w2)" by fastforce
        have "db_steps (w_db w1) (w_db w2)" by (rule keepsD [OF keeps_enqueueSessionRevocations [OF p] 2])
        moreover have "db_steps (w_db w2) (w_db (snd y))"
          using eq 1 2 a IH [of s load reason w2 y] p l by (cases b) auto
        ultimately show ?thesis using d1 by (meson rtranclp_trans)
      next
        case False
        then show ?thesis using eq 1 d1 by (cases a) auto
      qed
    qed
  qed
  then show ?thesis using assms(1,2) by blast
qed

lemma enqueue_steps:
  assumes "peers s"
  shows "enqueueUserRevocations s u w = Some y \<Longrightarrow> db_steps (w_db w) (w_db (snd y))"
    "enqueueAssetRevocations s a t w = Some y \<Longrightarrow> db_steps (w_db w) (w_db (snd y))"
    "enqueueGatewayRevocations s g t w = Some y \<Longrightarrow> db_steps (w_db w) (w_db (snd y))"
    "enqueueRegionRevocations s r t w = Some y \<Longrightarrow> db_steps (w_db w) (w_db (snd y))"
  unfolding enqueueUserRevocations_def enqueueAssetRevocations_def enqueueGatewayRevocations_def enqueueRegionRevocations_def
  by (erule enqueueRevocationBatches_steps [OF assms, rotated]; intro allI frame assms)+

lemma UpdateManagedUser_steps:
  assumes p: "peers s" and u: "UpdateManagedUser s actor userID input w = Some y"
  shows "db_steps (w_db w) (w_db (snd y))"
proof -
  let ?i = "trim_profile input"
  let ?m = "thenM (checkM (validateUUID userID)) (thenM (unlessM (validate_profile s ?i) ErrValidation)
    (mutateIAM s actor PermissionUserManage (update_user s actor userID ?i)))"
  obtain r w1 where m: "?m w = (r, w1)" by fastforce
  have "keeps db_steps ?m" by (intro frame p)
  then have d1: "db_steps (w_db w) (w_db w1)" using m by (rule keepsD)
  have "db_steps (w_db w1) (w_db (snd y))"
    using u enqueue_steps(1) [OF p, of userID w1] unfolding UpdateManagedUser_def Let_def m
    by (cases r) (auto split: sum.splits if_splits option.splits prod.splits)
  then show ?thesis using d1 by simp
qed

lemma keeps_ProbeGateways [frame]: "peers s \<Longrightarrow> keeps db_steps (ProbeGateways s)"
  unfolding ProbeGateways_def by (intro frame)

subsection \<open>Runs of the control plane\<close>

inductive control_step :: "svc \<Rightarrow> world \<Rightarrow> world \<Rightarrow> bool" for s :: svc where
  create: "CreateAccessRequest s input w = (r, w') \<Longrightarrow> control_step s w w'"
| create_test: "CreateTestAccessRequest s input w = (r, w') \<Longrightarrow> control_step s w w'"
| cancel: "CancelAccessRequest s user i w = (r, w') \<Longrightarrow> control_step s w w'"
| decide: "DecideApproval s user i decision comment w = (dr, w') \<Longrightarrow> control_step s w w'"
| decide_external: "DecideApprovalByExternalUser s user i decision comment w = (dr, w') \<Longrightarrow> control_step s w w'"
| close_session: "CloseSession s user i w = (v, w') \<Longrightarrow> control_step s w w'"
| force_close: "ForceCloseSession s user i reason w = (v, w') \<Longrightarrow> control_step s w w'"
| provision: "ProvisionSession s i w = (v, w') \<Longrightarrow> control_step s w w'"
| revoke: "RevokeSession s i reason w = (v, w') \<Longrightarrow> control_step s w w'"
| process_outbox: "ProcessOutbox s limit w = (n, w') \<Longrightarrow> control_step s w w'"
| reap_expired: "ReapExpired s limit w = (n, w') \<Longrightarrow> control_step s w w'"
| reap_approvals: "ReapApprovalExpired s limit w = (n, w') \<Longrightarrow> control_step s w w'"
| reap_provisioning: "ReapProvisioning s limit w = (n, w') \<Longrightarrow> control_step s w w'"
| reconcile: "ReconcileSessionResources s w = (es, w') \<Longrightarrow> control_step s w w'"
| probe: "ProbeGateways s w = (ps, w') \<Longrightarrow> control_step s w w'"
| gateway_event: "RecordGatewayEvent s event w = (u, w') \<Longrightarrow> control_step s w w'"
| operation_batch: "RecordOperationAuditBatch s batch w = (m, w') \<Longrightarrow> control_step s w w'"
| save_role: "SaveIAMRole s user role w = (ro, w') \<Longrightarrow> control_step s w w'"
| save_binding: "SaveIAMBinding s user binding w = (b, w') \<Longrightarrow> control_step s w w'"
| grant_role: "GrantRole s user target name w = (ra, w') \<Longrightarrow> control_step s w w'"
| revoke_role: "RevokeRole s user i w = (ra, w') \<Longrightarrow> control_step s w w'"
| update_user: "UpdateManagedUser s user target profile w = Some (ud, w') \<Longrightarrow> control_step s w w'"
| save_workflow: "SaveWorkflow s user flow w = (f, w') \<Longrightarrow> control_step s w w'"
| save_ownership: "SaveOwnership s user owner w = (ow, w') \<Longrightarrow> control_step s w w'"
| save_policy: "SaveAssetPolicy s user i policy w = (pl, w') \<Longrightarrow> control_step s w w'"
| withdraw_asset: "enqueueAssetRevocations s i reason w = Some (u, w') \<Longrightarrow> control_step s w w'"
| withdraw_gateway: "enqueueGatewayRevocations s i reason w = Some (u, w') \<Longrightarrow> control_step s w w'"
| withdraw_region: "enqueueRegionRevocations s i reason w = Some (u, w') \<Longrightarrow> control_step s w w'"

lemmas handler_frames = keeps_CreateAccessRequest keeps_CreateTestAccessRequest keeps_CancelAccessRequest keeps_DecideApproval
  keeps_DecideApprovalByExternalUser keeps_CloseSession keeps_ForceCloseSession keeps_ProvisionSession keeps_RevokeSession
  keeps_ProcessOutbox keeps_ReapExpired keeps_ReapApprovalExpired keeps_ReapProvisioning keeps_ReconcileSessionResources
  keeps_ProbeGateways keeps_RecordGatewayEvent keeps_RecordOperationAuditBatch keeps_SaveIAMRole keeps_SaveIAMBinding
  keeps_GrantRole keeps_RevokeRole keeps_SaveWorkflow keeps_SaveOwnership keeps_SaveAssetPolicy

lemma control_step_steps:
  assumes "peers s" "control_step s w w'"
  shows "db_steps (w_db w) (w_db w')"
  using assms(2)
proof cases
  case update_user
  then show ?thesis using UpdateManagedUser_steps [OF assms(1)] by fastforce
next
  case withdraw_asset
  then show ?thesis using enqueue_steps(2) [OF assms(1)] by fastforce
next
  case withdraw_gateway
  then show ?thesis using enqueue_steps(3) [OF assms(1)] by fastforce
next
  case withdraw_region
  then show ?thesis using enqueue_steps(4) [OF assms(1)] by fastforce
qed (erule keepsD [rotated], rule handler_frames [OF assms(1)])+

abbreviation control_runs :: "svc \<Rightarrow> world \<Rightarrow> world \<Rightarrow> bool" where
  "control_runs s \<equiv> (control_step s)\<^sup>*\<^sup>*"

lemma control_runs_steps:
  assumes "control_runs s w w'" "peers s"
  shows "db_steps (w_db w) (w_db w')"
  using assms(1)
proof (induction rule: rtranclp_induct)
  case (step y z)
  then show ?case using control_step_steps [OF assms(2)] by (meson rtranclp_trans)
qed simp

definition fresh_system :: "db \<Rightarrow> bool" where
  "fresh_system d \<longleftrightarrow> lifecycle d = ([], [], [], [], [], [])"

lemma sound_fresh: "fresh_system d \<Longrightarrow> sound d"
  by (simp add: fresh_system_def lifecycle_def sound_def unique_keys_def granted_def asks_others_def single_sessions_def)

lemma reachable_sound:
  "peers s \<Longrightarrow> fresh_system (w_db w) \<Longrightarrow> control_runs s w w' \<Longrightarrow> sound (w_db w')"
  using sound_steps [OF control_runs_steps sound_fresh] .

text \<open>C1. No session without approval: in every state the control plane can reach from an empty database,
  every session belongs to a request that was approved (and at most cancelled since). If the
  request had to be approved, every level of its chain has reached its threshold and carries at
  least one approving vote. This holds whatever statements fail, whatever the gateways and the
  clock return, and whatever the other workers commit in between.\<close>

theorem no_session_without_approval:
  assumes "peers s" "fresh_system (w_db w)" "control_runs s w w'" "v \<in> set (db_sessions (w_db w'))"
  shows "\<exists>q\<in>set (db_requests (w_db w')). req_ID q = sess_RequestID v \<and>
    req_Status q \<in> {AccessRequestApproved, AccessRequestCancelled} \<and>
    (req_ApprovalMode q = ''required'' \<longrightarrow>
       (\<forall>l. \<not> open_level (request_approvals (w_db w') (req_ID q)) l) \<and>
       (\<exists>a\<in>set (request_approvals (w_db w') (req_ID q)). is_approved a))"
  using reachable_sound [OF assms(1-3)] assms(4)
  unfolding sound_def granted_def approved_chain_def nextApprovalLevel_complete by blast


text \<open>C17. Nobody decides about their own request: in every reachable state, every approval belongs to a
  request whose applicant is not the approver.\<close>

theorem nobody_decides_own_request:
  assumes "peers s" "fresh_system (w_db w)" "control_runs s w w'"
    and "a \<in> set (db_approvals (w_db w'))" "q \<in> set (db_requests (w_db w'))" "req_ID q = appr_RequestID a"
  shows "req_ApplicantID q \<noteq> appr_ApproverID a"
proof -
  have so: "sound (w_db w')" by (rule reachable_sound [OF assms(1-3)])
  then obtain p where "p \<in> set (db_requests (w_db w'))" "req_ID p = appr_RequestID a" "req_ApplicantID p \<noteq> appr_ApproverID a"
    using assms(4) unfolding sound_def asks_others_def by blast
  moreover have "distinct (map req_ID (db_requests (w_db w')))" using so by (simp add: sound_def unique_keys_def)
  ultimately show ?thesis using unique_row [of req_ID "db_requests (w_db w')" p q] assms(5,6) by simp
qed

text \<open>C16. One active session per target: in every reachable state, two active sessions that belong to
  requests of the same applicant for the same asset and port are the same session.\<close>

theorem one_active_session:
  assumes "peers s" "fresh_system (w_db w)" "control_runs s w w'"
    and "v \<in> set (db_sessions (w_db w'))" "v' \<in> set (db_sessions (w_db w'))"
    and "is_active_status (sess_Status v)" "is_active_status (sess_Status v')"
    and "q \<in> set (db_requests (w_db w'))" "req_ID q = sess_RequestID v"
    and "q' \<in> set (db_requests (w_db w'))" "req_ID q' = sess_RequestID v'"
    and "(req_ApplicantID q, req_AssetID q, req_TargetPort q) = (req_ApplicantID q', req_AssetID q', req_TargetPort q')"
  shows "v = v'"
proof -
  have "same_target q q'" using assms(12) by (simp add: same_target_def)
  moreover have "single_sessions (w_db w')" using reachable_sound [OF assms(1-3)] by (simp add: sound_def)
  ultimately show ?thesis using assms(4-11) unfolding single_sessions_def by blast
qed


subsection \<open>Histories\<close>

text \<open>C3. The life of a session: along every run of the control plane, whatever fails and whatever other
  workers do, a session stays the only row with its identifier and keeps the request it was granted
  for, its status moves only along the edges of the session state machine, its claim counter never
  decreases, a closed, expired or failed session never changes again, and its expiry is only ever
  set by the provisioning that starts it.\<close>

theorem session_history:
  assumes "peers s" "unique_keys (w_db w)" "control_runs s w w'" "r \<in> set (db_sessions (w_db w))"
  shows "\<exists>r'\<in>set (db_sessions (w_db w')). (\<forall>x\<in>set (db_sessions (w_db w')). sess_ID x = sess_ID r \<longrightarrow> x = r') \<and>
    session_identity r' = session_identity r \<and> session_edge\<^sup>*\<^sup>* (sess_Status r) (sess_Status r') \<and>
    sess_Version r \<le> sess_Version r' \<and> (session_final (sess_Status r) \<longrightarrow> r' = r) \<and>
    (sess_ExpiresAt r' \<noteq> sess_ExpiresAt r \<longrightarrow> sess_Status r = SessionProvisioning \<and> sess_Status r' \<noteq> SessionProvisioning)"
  by (rule session_history_steps [OF assms(2) control_runs_steps [OF assms(3,1)] assms(4)])

text \<open>C21. The life of a request: along every run only its status and its time stamp change, the status
  along the edges from pending to a decision or cancellation and from approved to cancelled; a
  rejected, cancelled or expired request never changes again.\<close>

theorem request_history:
  assumes "peers s" "unique_keys (w_db w)" "control_runs s w w'" "r \<in> set (db_requests (w_db w))"
  shows "\<exists>r'\<in>set (db_requests (w_db w')). (\<forall>x\<in>set (db_requests (w_db w')). req_ID x = req_ID r \<longrightarrow> x = r') \<and>
    (\<exists>st t. r' = r\<lparr>req_Status := st, req_UpdatedAt := t\<rparr>) \<and> request_edge\<^sup>*\<^sup>* (req_Status r) (req_Status r') \<and>
    (req_Status r \<notin> {AccessRequestPendingApproval, AccessRequestApproved} \<longrightarrow> r' = r)"
  by (rule request_history_steps [OF assms(2) control_runs_steps [OF assms(3,1)] assms(4)])

text \<open>C22. A vote is final: along every run an approval is never removed or reassigned, and a recorded
  decision never changes.\<close>

theorem approval_history:
  assumes "peers s" "unique_keys (w_db w)" "control_runs s w w'" "a \<in> set (db_approvals (w_db w))"
  shows "\<exists>a'\<in>set (db_approvals (w_db w')). (\<forall>x\<in>set (db_approvals (w_db w')). appr_ID x = appr_ID a \<longrightarrow> x = a') \<and>
    (a' = a \<or> appr_Decision a = None \<and>
       (\<exists>dec c t. a' = a\<lparr>appr_Decision := Some dec, appr_Comment := c, appr_DecidedAt := Some t\<rparr>))"
  by (rule approval_history_steps [OF assms(2) control_runs_steps [OF assms(3,1)] assms(4)])

text \<open>C23. The audit trail is append-only: no run removes, reorders or rewrites an audit event or a
  session event.\<close>

theorem logs_append_only:
  assumes "peers s" "unique_keys (w_db w)" "control_runs s w w'"
  shows "\<exists>audit events. db_audit_events (w_db w') = db_audit_events (w_db w) @ audit \<and>
    db_session_events (w_db w') = db_session_events (w_db w) @ events"
  by (rule logs_append_only_steps [OF assms(2) control_runs_steps [OF assms(3,1)]])

text \<open>C24. An outbox command is never lost or altered: along every run it stays in the table with its
  payload, its retry count never decreases, and a processed or failed command keeps that status.\<close>

theorem outbox_history:
  assumes "peers s" "unique_keys (w_db w)" "control_runs s w w'" "e \<in> set (db_outbox (w_db w))"
  shows "\<exists>e'\<in>set (db_outbox (w_db w')). (\<forall>x\<in>set (db_outbox (w_db w')). outbox_ID x = outbox_ID e \<longrightarrow> x = e') \<and>
    outbox_identity e' = outbox_identity e \<and> outbox_RetryCount e \<le> outbox_RetryCount e' \<and>
    (outbox_Status e \<in> {OutboxProcessed, OutboxFailed} \<longrightarrow> outbox_Status e' = outbox_Status e)"
  by (rule outbox_history_steps [OF assms(2) control_runs_steps [OF assms(3,1)] assms(4)])

end
