(* ===== verification/Queueing.thy ===== *)
theory Queueing
  imports System
begin

text \<open>
  The loops that queue revocations when a user, an asset, a gateway or a region is withdrawn
  (\<open>service/admin.go\<close>, \<open>enqueueRevocationBatches\<close>). Each round takes the sessions that still need a
  command and queues one for each; \<open>queueing\<close> is what the statements of a round do to the tables.
  The loop ends because a round that succeeds removes every session it took from the list, and it
  ends with nothing left to queue.
\<close>

subsection \<open>What a round does to the tables\<close>

definition due :: "session \<Rightarrow> bool" where
  "due r \<longleftrightarrow> sess_Status r \<in> {SessionRunning, SessionRevoking, SessionRevokeFailed, SessionManualIntervention}"

definition queueing_row :: "session \<Rightarrow> session \<Rightarrow> bool" where
  "queueing_row r r' \<longleftrightarrow> sess_ID r' = sess_ID r \<and> sess_RequestID r' = sess_RequestID r \<and>
     sess_GatewayID r' = sess_GatewayID r \<and> (due r' \<longrightarrow> due r)"

definition queueing :: "db \<Rightarrow> db \<Rightarrow> bool" where
  "queueing d d' \<longleftrightarrow> db_requests d' = db_requests d \<and> db_assets d' = db_assets d \<and>
     list_all2 queueing_row (db_sessions d) (db_sessions d') \<and>
     (\<forall>i. active_command d i outboxSessionRevoke \<longrightarrow> active_command d' i outboxSessionRevoke)"

lemma queueing_row_refl: "list_all2 queueing_row xs xs"
  by (rule list.rel_refl) (simp add: queueing_row_def)

interpretation queue: db_relation queueing
proof
  show "queueing d d" for d by (simp add: queueing_def queueing_row_refl)
  show "queueing d d''" if "queueing d d'" "queueing d' d''" for d d' d''
  proof -
    have "list_all2 queueing_row (db_sessions d) (db_sessions d'')"
      by (rule list_all2_trans [of queueing_row queueing_row]) (use that in \<open>auto simp: queueing_def queueing_row_def\<close>)
    then show ?thesis using that by (simp add: queueing_def)
  qed
qed

lemma queueing_other:
  "db_requests d' = db_requests d \<Longrightarrow> db_assets d' = db_assets d \<Longrightarrow> db_sessions d' = db_sessions d \<Longrightarrow>
   db_outbox d' = db_outbox d \<Longrightarrow> queueing d d'"
  by (simp add: queueing_def active_command_def queueing_row_refl)

lemma queueing_stmt: "(\<And>now d. queueing d (snd (f now d))) \<Longrightarrow> keeps queueing (stmt s f)"
  by (rule keeps_stmt) (rule queue.R_refl)

lemma queueing_BeginRevoke [frame]: "keeps queueing (sessions_BeginRevoke s i)"
proof -
  have "queueing d (snd (sess_BeginRevoke i now d))" for now d
    unfolding sess_BeginRevoke_def update_sessions_def update_where_def queueing_def active_command_def
    by (auto simp: list_all2_conv_all_nth queueing_row_def due_def touch_def)
  then show ?thesis unfolding sessions_BeginRevoke_def by (intro frame queueing_stmt)
qed

lemma queueing_writes [frame]:
  "keeps queueing (audits_Append s au)" "keeps queueing (tokenDeliveries_Delete s i)"
  unfolding audits_Append_def tokenDeliveries_Delete_def
  by (intro queueing_stmt queueing_other; simp add: auds_Append_def tokens_Delete_def Let_def)+

lemma queueing_queue [frame]: "keeps queueing (queue_session_command s i t p)"
proof -
  have "queueing d (snd (outs_CreateIfNoActive e now d))" for e now d
    by (auto simp: outs_CreateIfNoActive_def outs_Create_def queueing_def queueing_row_refl active_command_def)
  then show ?thesis
    unfolding queue_session_command_def outbox_CreateIfNoActive_def by (intro frame queueing_stmt)
qed

lemma queueing_enqueue [frame]:
  "others_keep queueing s \<Longrightarrow> keeps queueing (enqueue_one s reason v)"
  "others_keep queueing s \<Longrightarrow> keeps queueing (enqueueSessionRevocations s vs reason)"
  unfolding enqueueSessionRevocations_def enqueue_one_def enqueue_tx_def queue_revoke_def appendAudit_def discardSessionToken_def
  by (intro frame; assumption)+

subsection \<open>A session that was taken is settled\<close>

definition settled :: "db \<Rightarrow> string \<Rightarrow> bool" where
  "settled d i \<longleftrightarrow> (\<forall>r\<in>set (db_sessions d). sess_ID r = i \<and> due r \<longrightarrow> active_command d i outboxSessionRevoke)"

lemma queueing_row_before:
  assumes "queueing d d'" "r' \<in> set (db_sessions d')"
  shows "\<exists>r\<in>set (db_sessions d). queueing_row r r'"
  using assms by (fastforce simp: queueing_def list_all2_conv_all_nth in_set_conv_nth)

lemma settled_kept:
  assumes "queueing d d'" "settled d i"
  shows "settled d' i"
  unfolding settled_def
proof (intro ballI impI)
  fix r' assume "r' \<in> set (db_sessions d')" "sess_ID r' = i \<and> due r'"
  moreover from this(1) obtain r where "r \<in> set (db_sessions d)" "queueing_row r r'"
    using queueing_row_before [OF assms(1)] by blast
  ultimately have "active_command d i outboxSessionRevoke" using assms(2) by (auto simp: settled_def queueing_row_def)
  then show "active_command d' i outboxSessionRevoke" using assms(1) by (simp add: queueing_def)
qed

lemma queueing_ids:
  assumes "queueing d d'"
  shows "map sess_ID (db_sessions d') = map sess_ID (db_sessions d)"
proof -
  have "list_all2 queueing_row (db_sessions d) (db_sessions d')" using assms by (simp add: queueing_def)
  then show ?thesis by (induction rule: list_all2_induct) (simp_all add: queueing_row_def)
qed

lemma run_queue_session_command:
  "queue_session_command s i t p w = (Inr x, w') \<Longrightarrow> active_command (w_db w') i t"
  by (auto simp: queue_session_command_def outbox_CreateIfNoActive_def outs_CreateIfNoActive_def outs_Create_def
      same_command_active_def active_command_def outbox_command_def run split: if_splits)

lemma run_session_read:
  "sessions_GetByID s i w = (Inr v, w') \<Longrightarrow> find (\<lambda>r. sess_ID r = i) (db_sessions (w_db w)) = Some v \<and> w_db w' = w_db w"
  "sessions_GetByIDForUpdate s i w = (Inr v, w') \<Longrightarrow> find (\<lambda>r. sess_ID r = i) (db_sessions (w_db w)) = Some v"
  "sessions_GetByIDForUpdate s i w = (Inr v, w') \<Longrightarrow> w_db w' = w_db w"
  by (auto simp: sessions_GetByID_def sessions_GetByIDForUpdate_def run)

lemma run_enqueue_tx:
  assumes dis: "distinct (map sess_ID (db_sessions (w_db w)))" and tx: "enqueue_tx s q reason i w = (Inr u, w')"
  shows "settled (w_db w') i"
proof -
  from tx obtain cur w1 where get: "sessions_GetByIDForUpdate s i w = (Inr cur, w1)"
    and rest: "(let transitioned = sess_Status cur \<in> {SessionRunning, SessionRevokeFailed, SessionManualIntervention} in
     if \<not> transitioned \<and> sess_Status cur \<noteq> SessionRevoking then returnM ()
     else thenM (whenM transitioned (thenM (sessions_BeginRevoke s (sess_ID cur))
                 (appendAudit s (session_audit ''session.revoke_requested'' q (sess_ID cur) ''queued'' reason))))
       (thenM (queue_revoke s cur reason) (returnM ()))) w1 = (Inr u, w')"
    unfolding enqueue_tx_def run_bind by blast
  note cur = run_session_read(2) [OF get] and d1 = run_session_read(3) [OF get]
  show ?thesis
  proof (cases "due cur")
    case True
    then show ?thesis
      using rest find_SomeD [OF cur]
      by (auto simp: Let_def run due_def queue_revoke_def settled_def dest: run_queue_session_command split: if_splits)
  next
    case False
    then have "w_db w' = w_db w" using rest d1 by (auto simp: due_def Let_def run split: if_splits)
    moreover have "r = cur" if "r \<in> set (db_sessions (w_db w))" "sess_ID r = i" for r
      using unique_row [OF dis _ that(1), of cur] find_SomeD [OF cur] that(2) by simp
    ultimately show ?thesis using False by (auto simp: settled_def)
  qed
qed

lemma run_enqueue_one:
  assumes s: "others_keep queueing s" and dis: "distinct (map sess_ID (db_sessions (w_db w)))"
    and en: "enqueue_one s reason v w = (Inr [], w')"
  shows "settled (w_db w') (sess_ID v)"
proof -
  from en obtain q w1 where g: "auto_tx s (requests_GetByID s (sess_RequestID v)) w = (q, w1)"
    and c1: "(case q of Inl e \<Rightarrow> returnM [e] | Inr request \<Rightarrow>
         bindM (tryM (InTx s (enqueue_tx s request reason (sess_ID v)))) (\<lambda>r.
         case r of Inl e \<Rightarrow> returnM [e] | Inr _ \<Rightarrow> thenM (discardSessionToken s (sess_ID v)) (returnM []))) w1 = (Inr [], w')"
    unfolding enqueue_one_def run_bind run_try by blast
  then obtain request where q: "q = Inr request" by (cases q) (auto simp: run)
  then obtain r w2 where tx: "InTx s (enqueue_tx s request reason (sess_ID v)) w1 = (r, w2)"
    and c2: "(case r of Inl e \<Rightarrow> returnM [e] | Inr _ \<Rightarrow> thenM (discardSessionToken s (sess_ID v)) (returnM [])) w2 = (Inr [], w')"
    using c1 by (auto simp: run_bind run_try)
  then obtain u where r: "r = Inr u" by (cases r) (auto simp: run)
  have k1: "keeps queueing (auto_tx s (requests_GetByID s (sess_RequestID v)))" using s by (intro frame)
  have "queueing (w_db w) (w_db (tx_start s w1))"
    using queue.R_trans [OF keepsD [OF k1 g]] s by (simp add: others_keep_def)
  from queueing_ids [OF this] have d1: "distinct (map sess_ID (db_sessions (w_db (tx_start s w1))))" using dis by simp
  have st: "settled (w_db w2) (sess_ID v)"
    using tx r run_enqueue_tx [OF d1] by (auto simp: run_InTx)
  have k2: "keeps queueing (thenM (discardSessionToken s (sess_ID v)) (returnM ([] :: err list)))"
    unfolding discardSessionToken_def using s by (intro frame)
  have c3: "thenM (discardSessionToken s (sess_ID v)) (returnM ([] :: err list)) w2 = (Inr [], w')" using c2 r by simp
  show ?thesis by (rule settled_kept [OF keepsD [OF k2 c3] st])
qed

lemma run_enqueue_all:
  assumes "others_keep queueing s" "distinct (map sess_ID (db_sessions (w_db w)))"
    and "mapM (enqueue_one s reason) vs w = (Inr es, w')" "concat es = []"
  shows "\<forall>v\<in>set vs. settled (w_db w') (sess_ID v)"
  using assms(2-4)
proof (induction vs arbitrary: w es)
  case (Cons v vs)
  from Cons.prems(2) obtain e w1 es' where one: "enqueue_one s reason v w = (Inr e, w1)"
    and all: "mapM (enqueue_one s reason) vs w1 = (Inr es', w')" and es: "es = e # es'"
    by (auto simp: run)
  have k: "keeps queueing (enqueue_one s reason v)" "keeps queueing (mapM (enqueue_one s reason) vs)"
    using assms(1) by (intro frame; assumption)+
  have "distinct (map sess_ID (db_sessions (w_db w1)))"
    using queueing_ids [OF keepsD [OF k(1) one]] Cons.prems(1) by simp
  from Cons.IH [OF this all] es Cons.prems(3) have "\<forall>v\<in>set vs. settled (w_db w') (sess_ID v)" by simp
  moreover have "settled (w_db w') (sess_ID v)"
    using settled_kept [OF keepsD [OF k(2) all]] run_enqueue_one [OF assms(1) Cons.prems(1)] one es Cons.prems(3) by simp
  ultimately show ?case by simp
qed simp

subsection \<open>The loop\<close>

locale revocation_trigger =
  fixes s :: svc and due_to :: "db \<Rightarrow> session \<Rightarrow> bool" and load :: "int \<Rightarrow> session list M"
  assumes due_to_cong: "db_requests d' = db_requests d \<Longrightarrow> db_assets d' = db_assets d \<Longrightarrow>
      sess_RequestID r' = sess_RequestID r \<Longrightarrow> sess_GatewayID r' = sess_GatewayID r \<Longrightarrow> due_to d' r' = due_to d r"
    and load_query: "load n = auto_tx s (query s (\<lambda>d. Inr (take (nat (page n 500)) (revocations_to_queue d (due_to d)))))"
begin

definition open_ids :: "db \<Rightarrow> string set" where
  "open_ids d = sess_ID ` set (revocations_to_queue d (due_to d))"

lemma open_ids_iff:
  "i \<in> open_ids d \<longleftrightarrow> (\<exists>r\<in>set (db_sessions d). sess_ID r = i \<and> due_to d r \<and> due r) \<and> \<not> active_command d i outboxSessionRevoke"
  by (auto simp: open_ids_def revocations_to_queue_def due_def)

lemma open_ids_shrink:
  assumes "queueing d d'"
  shows "open_ids d' \<subseteq> open_ids d"
proof
  fix i assume "i \<in> open_ids d'"
  then obtain r' where r': "r' \<in> set (db_sessions d')" "sess_ID r' = i" "due_to d' r'" "due r'"
    and n: "\<not> active_command d' i outboxSessionRevoke" unfolding open_ids_iff by blast
  obtain r where r: "r \<in> set (db_sessions d)" "queueing_row r r'" using queueing_row_before [OF assms r'(1)] by blast
  have "due_to d' r' = due_to d r"
    by (rule due_to_cong) (use assms r(2) in \<open>simp_all add: queueing_def queueing_row_def\<close>)
  then show "i \<in> open_ids d"
    using r r' n assms unfolding open_ids_iff by (auto simp: queueing_def queueing_row_def)
qed

lemma settled_closed: "settled d i \<Longrightarrow> i \<notin> open_ids d"
  by (auto simp: open_ids_iff settled_def)

lemma run_load:
  assumes "load revocationBatchSize w = (Inr vs, w')"
  shows "sess_ID ` set vs \<subseteq> open_ids (w_db w')" "vs = [] \<Longrightarrow> revocations_to_queue (w_db w') (due_to (w_db w')) = []"
proof -
  have vs: "vs = take 100 (revocations_to_queue (w_db w') (due_to (w_db w')))"
    using assms by (auto simp: load_query run page_def revocationBatchSize_def)
  show "sess_ID ` set vs \<subseteq> open_ids (w_db w')" unfolding vs open_ids_def by (auto dest: in_set_takeD)
  show "vs = [] \<Longrightarrow> revocations_to_queue (w_db w') (due_to (w_db w')) = []" using vs by simp
qed

lemma returns:
  assumes "others_keep queueing s" "distinct (map sess_ID (db_sessions (w_db w)))"
  shows "\<exists>r w'. enqueueRevocationBatches s load reason w = Some (r, w') \<and>
    (r = Inr () \<longrightarrow> revocations_to_queue (w_db w') (due_to (w_db w')) = [])"
  using assms(2)
proof (induction "card (open_ids (w_db w))" arbitrary: w rule: less_induct)
  case less
  obtain a w1 where l: "load revocationBatchSize w = (a, w1)" by fastforce
  have kl: "keeps queueing (load revocationBatchSize)" unfolding load_query using assms(1) by (intro frame)
  note q1 = keepsD [OF kl l]
  show ?case
  proof (cases "\<exists>vs. a = Inr vs \<and> vs \<noteq> []")
    case False
    then show ?thesis using l run_load(2) [of w "[]" w1]
      by (subst enqueueRevocationBatches.simps) (cases a; auto)
  next
    case True
    then obtain vs where vs: "a = Inr vs" "vs \<noteq> []" by blast
    obtain b w2 where e: "enqueueSessionRevocations s vs reason w1 = (b, w2)" by fastforce
    have ke: "keeps queueing (enqueueSessionRevocations s vs reason)" using assms(1) by (intro frame)
    note q2 = keepsD [OF ke e]
    show ?thesis
    proof (cases b)
      case (Inl x)
      then show ?thesis using l vs e by (subst enqueueRevocationBatches.simps) simp
    next
      case (Inr u)
      have d1: "distinct (map sess_ID (db_sessions (w_db w1)))" using queueing_ids [OF q1] less.prems by simp
      have "\<forall>v\<in>set vs. settled (w_db w2) (sess_ID v)"
        using run_enqueue_all [OF assms(1) d1, of reason vs] e Inr
        by (auto simp: enqueueSessionRevocations_def run Let_def split: if_splits)
      then have gone: "sess_ID (hd vs) \<notin> open_ids (w_db w2)" using settled_closed vs(2) by simp
      have was: "sess_ID (hd vs) \<in> open_ids (w_db w)"
        using run_load(1) [of w vs w1] l vs open_ids_shrink [OF q1] hd_in_set [OF vs(2)] by blast
      have "open_ids (w_db w2) \<subset> open_ids (w_db w)"
        using open_ids_shrink [OF queue.R_trans [OF q1 q2]] gone was by blast
      then have "card (open_ids (w_db w2)) < card (open_ids (w_db w))"
        by (rule psubset_card_mono [rotated]) (simp add: open_ids_def)
      moreover have "distinct (map sess_ID (db_sessions (w_db w2)))" using queueing_ids [OF q2] d1 by simp
      ultimately show ?thesis using less.hyps l vs e Inr by (subst enqueueRevocationBatches.simps) simp
    qed
  qed
qed

end

interpretation by_applicant: revocation_trigger s "\<lambda>d. session_request d (\<lambda>q. req_ApplicantID q = u)"
    "\<lambda>n. auto_tx s (sessions_ListRevocationsToQueueByApplicant s u n)" for s u
  by unfold_locales (simp_all add: session_request_def sessions_ListRevocationsToQueueByApplicant_def)

interpretation by_asset: revocation_trigger s "\<lambda>d. session_request d (\<lambda>q. req_AssetID q = a)"
    "\<lambda>n. auto_tx s (sessions_ListRevocationsToQueueByAsset s a n)" for s a
  by unfold_locales (simp_all add: session_request_def sessions_ListRevocationsToQueueByAsset_def)

interpretation by_gateway: revocation_trigger s "\<lambda>d r. sess_GatewayID r = g"
    "\<lambda>n. auto_tx s (sessions_ListRevocationsToQueueByGateway s g n)" for s g
  by unfold_locales (simp_all add: sessions_ListRevocationsToQueueByGateway_def)

interpretation by_region: revocation_trigger s "\<lambda>d. session_request d (\<lambda>q.
      list_ex (\<lambda>a. asset_ID a = req_AssetID q \<and> asset_RegionID a = reg) (db_assets d))"
    "\<lambda>n. auto_tx s (sessions_ListRevocationsToQueueByRegion s reg n)" for s reg
  by unfold_locales (simp_all add: session_request_def sessions_ListRevocationsToQueueByRegion_def)


end
