(* ===== verification/Guarantees.thy ===== *)
theory Guarantees
  imports Queueing
begin

text \<open>
  Guarantees of the handlers one by one, on top of the invariants of the whole: bounds of what is
  granted, failed commands without effect, leases and capacity, and the refinement of the session
  table to the session state machine.
\<close>

subsection \<open>Bounds of a grant\<close>

definition requests_bounded :: "db \<Rightarrow> bool" where
  "requests_bounded d \<longleftrightarrow> (\<forall>q\<in>set (db_requests d). bounded_request q)"

lemma requests_bounded_update:
  "requests_bounded d \<Longrightarrow> (\<And>q. bounded_request (f q) = bounded_request q) \<Longrightarrow>
   requests_bounded (d\<lparr>db_requests := update_where p f (db_requests d)\<rparr>)"
  by (auto simp: requests_bounded_def set_update_where)

lemma requests_bounded_step:
  assumes "db_step d d'" "requests_bounded d"
  shows "requests_bounded d'"
  using assms(1)
proof cases
  case config
  then show ?thesis using assms(2) by (simp add: requests_bounded_def lifecycle_def)
next
  case (request_create q now)
  then show ?thesis using assms(2)
    by (auto simp: requests_bounded_def reqs_Create_def fresh_request_def bounded_request_def Let_def)
qed (use assms(2) in \<open>auto simp: session_stmts reqs_Transition_def reqs_Cancel_def update_requests_def bounded_request_def
  intro!: requests_bounded_update\<close>, auto simp: requests_bounded_def apprs_Create_def apprs_Decide_def sevs_Append_def
  auds_Append_def outs_Create_def outs_CreateIfNoActive_def outs_ClaimPending_def outs_MarkProcessed_def
  outs_Reschedule_def update_outbox_def Let_def)

lemma requests_bounded_steps: "db_steps d d' \<Longrightarrow> requests_bounded d \<Longrightarrow> requests_bounded d'"
  by (induction rule: rtranclp_induct) (auto intro: requests_bounded_step)

text \<open>C5. What is granted is bounded: in every reachable state every request asks for between one second
  and five hours on a port between 1 and 65535, and a session that was started ends at most five hours
  after its start.\<close>

theorem access_is_bounded:
  assumes "peers s" "fresh_system (w_db w)" "control_runs s w w'"
  shows "(\<forall>q\<in>set (db_requests (w_db w')). 1 \<le> req_TTLSeconds q \<and> req_TTLSeconds q \<le> 5 * 3600 \<and>
      1 \<le> req_TargetPort q \<and> req_TargetPort q \<le> 65535) \<and>
    (\<forall>v\<in>set (db_sessions (w_db w')). \<forall>started. sess_StartedAt v = Some started \<longrightarrow>
      (\<exists>expires. sess_ExpiresAt v = Some expires \<and> started < expires \<and> expires \<le> started + 5 * 3600 * second))"
proof
  have st: "db_steps (w_db w) (w_db w')" by (rule control_runs_steps [OF assms(3,1)])
  have f: "db_sessions (w_db w) = []" "unique_keys (w_db w)" "requests_bounded (w_db w)"
    using assms(2) sound_fresh by (simp_all add: fresh_system_def lifecycle_def sound_def requests_bounded_def)
  show "\<forall>q\<in>set (db_requests (w_db w')). 1 \<le> req_TTLSeconds q \<and> req_TTLSeconds q \<le> 5 * 3600 \<and>
      1 \<le> req_TargetPort q \<and> req_TargetPort q \<le> 65535"
    using requests_bounded_steps [OF st f(3)] by (simp add: requests_bounded_def bounded_request_def)
  show "\<forall>v\<in>set (db_sessions (w_db w')). \<forall>started. sess_StartedAt v = Some started \<longrightarrow>
      (\<exists>expires. sess_ExpiresAt v = Some expires \<and> started < expires \<and> expires \<le> started + 5 * 3600 * second)"
  proof (intro ballI allI impI)
    fix v started assume v: "v \<in> set (db_sessions (w_db w'))" "sess_StartedAt v = Some started"
    then obtain x where x: "db_steps (w_db w) x" "starts_now x v" using started_safely [OF st f(2,1)] by blast
    then obtain q expires where q: "q \<in> set (db_requests x)" "sess_ExpiresAt v = Some expires" "started < expires"
        "expires \<le> started + req_TTLSeconds q * second"
      using v(2) unfolding starts_now_def safe_start_def by fastforce
    have "req_TTLSeconds q \<le> 5 * 3600"
      using requests_bounded_steps [OF x(1) f(3)] q(1) by (simp add: requests_bounded_def bounded_request_def)
    then show "\<exists>expires. sess_ExpiresAt v = Some expires \<and> started < expires \<and> expires \<le> started + 5 * 3600 * second"
      using q by simp
  qed
qed

subsection \<open>Failed commands\<close>

text \<open>What the other workers commit while a handler runs.\<close>

definition others_only :: "svc \<Rightarrow> db \<Rightarrow> db \<Rightarrow> bool" where
  "others_only s = (\<lambda>d d'. \<exists>p. d' = svc_others s p d)\<^sup>*\<^sup>*"

interpretation idle: db_relation "others_only s" for s
  by unfold_locales (auto simp: others_only_def)

lemma idle_others [frame]: "others_keep (others_only s) s"
  by (auto simp: others_keep_def others_only_def)

text \<open>A handler is traceless if a failure leaves nothing of its own behind, and sure if it never fails.\<close>

definition traceless :: "svc \<Rightarrow> 'a M \<Rightarrow> bool" where
  "traceless s m \<longleftrightarrow> (\<forall>w e w'. m w = (Inl e, w') \<longrightarrow> others_only s (w_db w) (w_db w'))"

definition sure :: "'a M \<Rightarrow> bool" where
  "sure m \<longleftrightarrow> (\<forall>w. \<exists>x w'. m w = (Inr x, w'))"

named_theorems clean

lemma clean_keeps: "keeps (others_only s) m \<Longrightarrow> traceless s m"
  unfolding traceless_def by (blast dest: keepsD)

lemma tracelessD: "traceless s m \<Longrightarrow> m w = (Inl e, w') \<Longrightarrow> others_only s (w_db w) (w_db w')"
  by (simp add: traceless_def)

lemma clean_InTx [clean]: "traceless s (InTx s m)"
  unfolding traceless_def by (auto dest!: InTx_rollback simp: others_only_def)

lemma run_error:
  "bindM m f w = (Inl e, w') \<Longrightarrow> m w = (Inl e, w') \<or> (\<exists>x w1. m w = (Inr x, w1) \<and> f x w1 = (Inl e, w'))"
  by (auto simp: bindM_def split: prod.splits sum.splits)

lemma clean_bind:
  assumes "keeps (others_only s) m" "\<And>x. traceless s (f x)"
  shows "traceless s (bindM m f)"
  unfolding traceless_def
proof (intro allI impI)
  fix w e w' assume "bindM m f w = (Inl e, w')"
  then consider "m w = (Inl e, w')" | x w1 where "m w = (Inr x, w1)" "f x w1 = (Inl e, w')" using run_error by blast
  then show "others_only s (w_db w) (w_db w')"
    using assms by cases (auto simp: traceless_def dest: keepsD intro: idle.R_trans)
qed

lemma clean_then: "keeps (others_only s) m \<Longrightarrow> traceless s n \<Longrightarrow> traceless s (thenM m n)"
  unfolding thenM_def by (rule clean_bind)

lemma clean_commit: "traceless s m \<Longrightarrow> (\<And>x. sure (f x)) \<Longrightarrow> traceless s (bindM m f)"
  unfolding traceless_def sure_def by (metis Inl_Inr_False fst_conv run_error)

lemma clean_try:
  assumes "traceless s m" "\<And>e. traceless s (f (Inl e))" "\<And>x. sure (f (Inr x))"
  shows "traceless s (bindM (tryM m) f)"
  unfolding traceless_def
proof (intro allI impI)
  fix w e w' assume "bindM (tryM m) f w = (Inl e, w')"
  then obtain r w1 where r: "m w = (r, w1)" "f r w1 = (Inl e, w')"
    by (auto simp: bindM_def tryM_def split: prod.splits)
  show "others_only s (w_db w) (w_db w')"
  proof (cases r)
    case (Inl x)
    then have "others_only s (w_db w) (w_db w1)" "others_only s (w_db w1) (w_db w')"
      using assms(1,2) r unfolding traceless_def by blast+
    then show ?thesis by (rule idle.R_trans)
  next
    case (Inr x)
    then show ?thesis using assms(3) [of x] r(2) unfolding sure_def by (metis Inl_Inr_False fst_conv)
  qed
qed

lemma clean_if [clean]: "traceless s m \<Longrightarrow> traceless s n \<Longrightarrow> traceless s (if c then m else n)"
  by simp

lemma clean_case_prod [clean]: "(\<And>a b. traceless s (f a b)) \<Longrightarrow> traceless s (case x of (a, b) \<Rightarrow> f a b)"
  by (cases x) simp

lemma clean_case_sum [clean]:
  "(\<And>x. traceless s (f x)) \<Longrightarrow> (\<And>x. traceless s (g x)) \<Longrightarrow> traceless s (case r of Inl x \<Rightarrow> f x | Inr x \<Rightarrow> g x)"
  by (cases r) simp_all

lemma sure_return [clean]: "sure (returnM x)"
  by (simp add: sure_def returnM_def)

lemma sure_bind [clean]: "sure m \<Longrightarrow> (\<And>x. sure (f x)) \<Longrightarrow> sure (bindM m f)"
  unfolding sure_def bindM_def by (metis (mono_tags, lifting) case_prod_conv sum.case(2))

lemma sure_then [clean]: "sure m \<Longrightarrow> sure n \<Longrightarrow> sure (thenM m n)"
  unfolding thenM_def by (rule sure_bind)

lemma sure_try [clean]: "sure (tryM m)"
  by (auto simp: sure_def tryM_def split: prod.split)

lemma sure_case_option [clean]: "sure m \<Longrightarrow> (\<And>x. sure (f x)) \<Longrightarrow> sure (case y of None \<Rightarrow> m | Some x \<Rightarrow> f x)"
  by (cases y) simp_all

lemma sure_case_prod [clean]: "(\<And>a b. sure (f a b)) \<Longrightarrow> sure (case x of (a, b) \<Rightarrow> f a b)"
  by (cases x) simp

lemma sure_discard [clean]: "sure (discardSessionToken s i)"
  unfolding discardSessionToken_def by (intro clean)

lemma clean_createAccessRequest [clean]: "traceless s (createAccessRequest s input mode)"
proof -
  have checks: "keeps (others_only s) (create_checks s i)" for i unfolding create_checks_def by (intro frame)
  have "traceless s (create_fresh s i mode)" for i
    unfolding create_fresh_def
    by (rule clean_bind [OF checks], rule clean_bind [OF idle.resp_id_New], rule clean_try [OF clean_InTx])
       (auto intro!: clean clean_keeps frame)
  then show ?thesis
    unfolding createAccessRequest_def Let_def
    by (intro clean_then clean_bind clean frame clean_keeps [OF idle.resp_fail] clean_keeps [OF idle.resp_liftE])
qed

lemma clean_requests [clean]:
  "traceless s (CreateAccessRequest s input)" "traceless s (CreateTestAccessRequest s input)"
  "traceless s (CancelAccessRequest s user i)"
  unfolding CreateAccessRequest_def CreateTestAccessRequest_def CancelAccessRequest_def
  subgoal by (intro clean)
  subgoal by (intro clean_then clean frame)
  subgoal by (intro clean_then clean_bind [OF idle.resp_InTx] clean_commit [OF clean_InTx] clean_bind [OF idle.resp_if] clean frame)
  done

lemma clean_decisions [clean]:
  "traceless s (DecideApproval s user i decision comment)" "traceless s (DecideApprovalByExternalUser s user i decision comment)"
proof -
  have "keeps (others_only s) (decide_preflight s u a c)" for u a c
    unfolding decide_preflight_def decision_guards_def level_guard_def by (intro frame)
  then show d: "traceless s (DecideApproval s user i decision comment)" for user
    unfolding DecideApproval_def by (intro clean_bind clean)
  show "traceless s (DecideApprovalByExternalUser s user i decision comment)"
    unfolding DecideApprovalByExternalUser_def Let_def by (intro clean_then clean_bind d frame)
qed

lemma clean_closes [clean]:
  "traceless s (CloseSession s user i)" "traceless s (ForceCloseSession s user i reason)"
proof -
  show "traceless s (CloseSession s user i)"
    unfolding CloseSession_def
    by (intro clean_then clean_bind [OF idle.resp_InTx] clean clean_commit [OF clean_InTx]
        clean_keeps [OF idle.resp_return] clean_keeps [OF idle.resp_fail] frame)
  show "traceless s (ForceCloseSession s user i reason)"
    unfolding ForceCloseSession_def Let_def
    by (intro clean_then clean_bind [OF idle.resp_InTx] frame clean_try [OF clean_InTx])
       (auto intro!: clean clean_keeps frame)
qed

lemma clean_mutateIAM [clean]: "traceless s (mutateIAM s actor p m)"
  unfolding mutateIAM_def by (rule clean_InTx)

lemma clean_governance [clean]:
  "traceless s (SaveIAMRole s actor role)" "traceless s (SaveIAMBinding s actor b)"
  "traceless s (GrantRole s actor user name)" "traceless s (RevokeRole s actor i)"
  "traceless s (SaveWorkflow s actor f)" "traceless s (SaveOwnership s actor ow)" "traceless s (SaveAssetPolicy s actor i pl)"
  unfolding SaveIAMRole_def SaveIAMBinding_def GrantRole_def RevokeRole_def SaveWorkflow_def SaveOwnership_def
    SaveAssetPolicy_def Let_def
  by (intro clean_then clean_bind clean frame clean_keeps [OF idle.resp_return] clean_keeps [OF idle.resp_fail])+

text \<open>The commands of users and administrators that end with an error.\<close>

inductive command_fails :: "svc \<Rightarrow> world \<Rightarrow> err \<Rightarrow> world \<Rightarrow> bool" for s w e w' where
  "CreateAccessRequest s input w = (Inl e, w') \<Longrightarrow> command_fails s w e w'"
| "CreateTestAccessRequest s input w = (Inl e, w') \<Longrightarrow> command_fails s w e w'"
| "CancelAccessRequest s user i w = (Inl e, w') \<Longrightarrow> command_fails s w e w'"
| "DecideApproval s user i decision comment w = (Inl e, w') \<Longrightarrow> command_fails s w e w'"
| "DecideApprovalByExternalUser s user i decision comment w = (Inl e, w') \<Longrightarrow> command_fails s w e w'"
| "CloseSession s user i w = (Inl e, w') \<Longrightarrow> command_fails s w e w'"
| "ForceCloseSession s user i reason w = (Inl e, w') \<Longrightarrow> command_fails s w e w'"
| "SaveIAMRole s user role w = (Inl e, w') \<Longrightarrow> command_fails s w e w'"
| "SaveIAMBinding s user binding w = (Inl e, w') \<Longrightarrow> command_fails s w e w'"
| "GrantRole s user target name w = (Inl e, w') \<Longrightarrow> command_fails s w e w'"
| "RevokeRole s user i w = (Inl e, w') \<Longrightarrow> command_fails s w e w'"
| "SaveWorkflow s user flow w = (Inl e, w') \<Longrightarrow> command_fails s w e w'"
| "SaveOwnership s user owner w = (Inl e, w') \<Longrightarrow> command_fails s w e w'"
| "SaveAssetPolicy s user i policy w = (Inl e, w') \<Longrightarrow> command_fails s w e w'"


subsection \<open>The administrator that remains\<close>

definition has_admin :: "svc \<Rightarrow> db \<Rightarrow> bool" where
  "has_admin s d \<longleftrightarrow> (\<exists>u\<in>set (db_users d). user_Status u = UserStatusActive \<and>
     (configuredAdmin s u \<or> (\<exists>a\<in>set (db_assignments d). asg_RevokedAt a = None \<and> asg_Role a = ''admin'' \<and>
        asg_UserID a = user_ID u)))"

definition admin_kept :: "svc \<Rightarrow> db \<Rightarrow> db \<Rightarrow> bool" where
  "admin_kept s d d' \<longleftrightarrow> (has_admin s d \<longrightarrow> has_admin s d')"

interpretation admin: db_relation "admin_kept s" for s
  by unfold_locales (auto simp: admin_kept_def)

lemma take_all_sorted: "\<not> n < length (take m (sort_key k xs)) \<Longrightarrow> n < m \<Longrightarrow> set (take m (sort_key k xs)) = set xs"
  by (cases "length xs \<le> n") auto

lemma run_explicitAdmins:
  assumes "explicitAdmins s w = (Inr n, w')"
  shows "(n > 0) = has_admin s (w_db w) \<and> w_db w' = w_db w \<and> n \<ge> 0"
proof -
  let ?us = "take 10001 (sort_key user_ID (filter (\<lambda>u. user_Status u = UserStatusActive) (db_users (w_db w))))"
  let ?as = "take 100001 (sort_key (\<lambda>a. (asg_UserID a, asg_ID a)) (filter (\<lambda>a. asg_RevokedAt a = None) (db_assignments (w_db w))))"
  have e: "n = int (length (explicit_admins s ?us ?as))" and d: "w_db w' = w_db w"
    and l: "\<not> 10000 < length ?us" "\<not> 100000 < length ?as"
    using assms by (auto simp: explicitAdmins_def iam_ListSubjects_def iam_ListAssignments_def run)
  have us: "set ?us = set (filter (\<lambda>u. user_Status u = UserStatusActive) (db_users (w_db w)))"
    by (rule take_all_sorted [OF l(1)]) simp
  have as: "set ?as = set (filter (\<lambda>a. asg_RevokedAt a = None) (db_assignments (w_db w)))"
    by (rule take_all_sorted [OF l(2)]) simp
  have "n > 0 \<longleftrightarrow> explicit_admins s ?us ?as \<noteq> []" using e by simp
  also have "\<dots> \<longleftrightarrow> (\<exists>u\<in>set ?us. (\<exists>a\<in>set ?as. asg_Role a = ''admin'' \<and> asg_UserID a = user_ID u) \<or> configuredAdmin s u)"
    unfolding explicit_admins_def filter_empty_conv list_ex_iff by blast
  also have "\<dots> \<longleftrightarrow> has_admin s (w_db w)" unfolding us as has_admin_def by auto
  finally show ?thesis using d e by simp
qed

lemma admin_mutateIAM [frame]:
  assumes "others_keep (admin_kept s) s"
  shows "keeps (admin_kept s) (mutateIAM s actor p m)"
  unfolding mutateIAM_def
proof (rule admin.resp_InTx_run [OF assms])
  fix w x w'
  assume tx: "thenM (iam_Lock s False) (thenM (authorizeIn s actor p) (bindM (explicitAdmins s) (\<lambda>before.
    bindM m (\<lambda>r. bindM (explicitAdmins s) (\<lambda>after.
    thenM (unlessM (\<not> (before > 0 \<and> after = 0)) ErrValidation) (returnM r)))))) w = (Inr x, w')"
  obtain u w1 u2 w2 n w3 w4 n' w5 where
    r: "iam_Lock s False w = (Inr u, w1)" "authorizeIn s actor p w1 = (Inr u2, w2)" "explicitAdmins s w2 = (Inr n, w3)"
      "m w3 = (Inr x, w4)" "explicitAdmins s w4 = (Inr n', w5)" and ok: "\<not> (n > 0 \<and> n' = 0)" "w' = w5"
    using tx unfolding run_bind run_then run_unless run_return by blast
  have "w_db w2 = w_db w"
    using keepsD [OF same.resp_authorisation(1) r(1)] keepsD [OF same.resp_authorizeIn r(2)] by simp
  then show "admin_kept s (w_db w) (w_db w')"
    using run_explicitAdmins [OF r(3)] run_explicitAdmins [OF r(5)] ok by (auto simp: admin_kept_def)
qed


subsection \<open>Capacity and leases\<close>

lemma length_filter_one_key:
  "distinct (map k xs) \<Longrightarrow> length (filter P xs) \<le> Suc (length (filter (\<lambda>x. P x \<and> k x \<noteq> i) xs))"
proof (induction xs)
  case (Cons x xs)
  have "filter (\<lambda>y. P y \<and> k y \<noteq> i) xs = filter P xs" if "k x = i"
    using Cons.prems that by (intro filter_cong) (force simp: image_iff)+
  then show ?case using Cons by auto
qed simp

lemma filter_update_other:
  "(\<And>r. p r \<Longrightarrow> k r = i \<and> k (f r) = i) \<Longrightarrow>
   filter (\<lambda>r. P r \<and> k r \<noteq> i) (update_where p f xs) = filter (\<lambda>r. P r \<and> k r \<noteq> i) xs"
  by (induction xs) (auto simp: update_where_def)

text \<open>C14. A claim never overfills a gateway: the transaction that claims a session for a gateway leaves the
  gateway with at most as many claimed, running or not yet revoked sessions as its capacity, and the
  gateway is enabled and bound to the asset.\<close>

theorem claim_within_capacity:
  assumes "distinct (map sess_ID (db_sessions (w_db w)))" "claim_tx s v g a after w = (Inr claimed, w')"
  shows "\<exists>c\<in>set (db_gateways (w_db w')). gateway_ID c = gateway_ID g \<and> gateway_Status c = ResourceStatusEnabled \<and>
    (\<exists>b\<in>set (db_asset_gateways (w_db w')). agb_AssetID b = a \<and> agb_GatewayID b = gateway_ID g \<and> agb_Enabled b) \<and>
    int (length (filter (\<lambda>r. sess_GatewayID r = gateway_ID g \<and> occupies_gateway r) (db_sessions (w_db w')))) \<le> gateway_MaxSessions c"
proof -
  let ?p = "\<lambda>r. sess_GatewayID r = gateway_ID g \<and> occupies_gateway r" and ?i = "sess_ID v"
  from assms(2) obtain stale now where
      c: "fst (sess_ClaimOnGateway ?i (sess_Version v) stale (gateway_ID g) a after now (w_db w)) = Inr ()"
    and d': "w_db w' = snd (sess_ClaimOnGateway ?i (sess_Version v) stale (gateway_ID g) a after now (w_db w))"
    by (auto simp: claim_tx_def gateways_LockCapacity_def sessions_ClaimProvisioningOnGateway_def sessions_GetByID_def run
        elim!: that)
  obtain row where upd: "db_sessions (w_db w') = update_where (\<lambda>r. claimable ?i (sess_Version v) stale r \<and>
      gateway_accepts (w_db w) ?i (gateway_ID g) a after) (\<lambda>r. (touch now r)\<lparr>sess_GatewayID := gateway_ID g\<rparr>) (db_sessions (w_db w))"
    and acc: "gateway_accepts (w_db w) ?i (gateway_ID g) a after"
    and same: "db_gateways (w_db w') = db_gateways (w_db w)" "db_asset_gateways (w_db w') = db_asset_gateways (w_db w)"
    using c d' by (auto simp: sess_ClaimOnGateway_def update_sessions_def run)
  have ids: "map sess_ID (db_sessions (w_db w')) = map sess_ID (db_sessions (w_db w))"
    unfolding upd by (rule map_update_where) (simp add: touch_def)
  have "length (filter ?p (db_sessions (w_db w'))) \<le> Suc (length (filter (\<lambda>r. ?p r \<and> sess_ID r \<noteq> ?i) (db_sessions (w_db w'))))"
    by (rule length_filter_one_key) (simp add: ids assms(1))
  also have "filter (\<lambda>r. ?p r \<and> sess_ID r \<noteq> ?i) (db_sessions (w_db w')) = filter (\<lambda>r. ?p r \<and> sess_ID r \<noteq> ?i) (db_sessions (w_db w))"
    unfolding upd by (rule filter_update_other) (simp add: claimable_def touch_def)
  also have "length \<dots> = gateway_load (w_db w) (gateway_ID g) ?i"
    unfolding gateway_load_def by (rule arg_cong [of _ _ length], rule filter_cong) auto
  finally have "int (length (filter ?p (db_sessions (w_db w')))) \<le> int (gateway_load (w_db w) (gateway_ID g) ?i) + 1" by simp
  then show ?thesis using acc unfolding gateway_accepts_def list_ex_iff same by force
qed


subsection \<open>Identifiers\<close>

lemma hex_char_digit: "n < 16 \<Longrightarrow> hex_digit (hex_char n)"
  by (simp add: hex_char_def hex_digit_def in_range_def)

text \<open>C34. Every generated identifier is a UUID: given sixteen random bytes, \<open>id.New\<close> returns a text that
  \<open>IsUUID\<close> accepts.\<close>

theorem id_New_IsUUID:
  assumes "length (svc_rand s (w_pos w)) = 16" "id_New s w = (Inr i, w')"
  shows "IsUUID i"
proof -
  obtain b0 b1 b2 b3 b4 b5 b6 b7 b8 b9 b10 b11 b12 b13 b14 b15 where
    b: "svc_rand s (w_pos w) = [b0, b1, b2, b3, b4, b5, b6, b7, b8, b9, b10, b11, b12, b13, b14, b15]"
    using assms(1) by (auto simp: length_Suc_conv eval_nat_numeral)
  have "i = uuid_of_bytes (svc_rand s (w_pos w))" using assms(2) by (simp add: run)
  then show ?thesis
    by (simp add: b uuid_of_bytes_def Let_def hex_byte_def IsUUID_def uuid_dash_def hex_char_digit upt_rec)
qed

subsection \<open>Refinement to the session state machine\<close>

text \<open>The abstract machine: a session is opened as provisioning under a new identifier, and moves along
  the edges of the state machine.\<close>

type_synonym session_map = "string \<rightharpoonup> session_status"

inductive session_spec :: "session_map \<Rightarrow> session_map \<Rightarrow> bool" where
  opens: "m i = None \<Longrightarrow> session_spec m (m(i \<mapsto> SessionProvisioning))"
| moves: "m i = Some st \<Longrightarrow> session_edge st st' \<Longrightarrow> session_spec m (m(i \<mapsto> st'))"

definition status_rows :: "session list \<Rightarrow> session_map" where
  "status_rows rs = map_of (map (\<lambda>r. (sess_ID r, sess_Status r)) rs)"

definition abs_sessions :: "db \<Rightarrow> session_map" where
  "abs_sessions d = status_rows (db_sessions d)"

lemma status_rows_simps [simp]:
  "status_rows [] = Map.empty" "status_rows (r # rs) = (status_rows rs)(sess_ID r \<mapsto> sess_Status r)"
  by (simp_all add: status_rows_def)

lemma status_rows_None: "status_rows rs i = None \<longleftrightarrow> i \<notin> sess_ID ` set rs"
  by (auto simp: status_rows_def map_of_eq_None_iff image_image)

lemma spec_edges: "session_edge\<^sup>*\<^sup>* st st' \<Longrightarrow> session_spec\<^sup>*\<^sup>* (m(i \<mapsto> st)) (m(i \<mapsto> st'))"
proof (induction rule: rtranclp_induct)
  case (step y z)
  have "session_spec (m(i \<mapsto> y)) ((m(i \<mapsto> y))(i \<mapsto> z))" by (rule session_spec.moves [of _ _ y]) (simp_all add: step)
  then show ?case using step.IH unfolding fun_upd_upd by (rule rtranclp.rtrancl_into_rtrancl [rotated])
qed simp

lemma spec_under:
  assumes "session_spec m m'" "m' i = None"
  shows "session_spec (m(i \<mapsto> st)) (m'(i \<mapsto> st))"
  using assms(1)
proof cases
  case (opens j)
  then have "j \<noteq> i" using assms(2) by auto
  then show ?thesis using session_spec.opens [of "m(i \<mapsto> st)" j] opens by (simp add: fun_upd_twist)
next
  case (moves j x y)
  then have "j \<noteq> i" using assms(2) by auto
  then show ?thesis using session_spec.moves [of "m(i \<mapsto> st)" j x y] moves by (simp add: fun_upd_twist)
qed

lemma spec_grows:
  assumes "session_spec m m'" "m' i = None"
  shows "m i = None"
  using assms(1) by cases (use assms(2) in \<open>auto split: if_splits\<close>)

lemma status_rows_snoc:
  "sess_ID r \<notin> sess_ID ` set rs \<Longrightarrow> status_rows (rs @ [r]) = (status_rows rs)(sess_ID r \<mapsto> sess_Status r)"
  by (induction rs) (auto simp: fun_upd_twist)

lemma spec_under_steps:
  "session_spec\<^sup>*\<^sup>* m m' \<Longrightarrow> m' i = None \<Longrightarrow> session_spec\<^sup>*\<^sup>* (m(i \<mapsto> st)) (m'(i \<mapsto> st))"
proof (induction rule: rtranclp_induct)
  case (step y z)
  have "y i = None" by (rule spec_grows [OF step(2) step.prems])
  then show ?case using step spec_under by (meson rtranclp.rtrancl_into_rtrancl)
qed simp

lemma spec_rows:
  "list_all2 session_update\<^sup>*\<^sup>* rs rs' \<Longrightarrow> distinct (map sess_ID rs) \<Longrightarrow>
   session_spec\<^sup>*\<^sup>* (status_rows rs) (status_rows rs')"
proof (induction rule: list_all2_induct)
  case (Cons r rs r' rs')
  have u: "sess_ID r' = sess_ID r" "session_edge\<^sup>*\<^sup>* (sess_Status r) (sess_Status r')"
    using session_updates [OF Cons(1)] by (simp_all add: session_identity_def)
  have "map sess_ID rs' = map sess_ID rs"
    using Cons(2) by (induction rule: list_all2_induct) (auto dest: session_updates_ID)
  then have "status_rows rs' (sess_ID r) = None" using Cons.prems by (metis distinct.simps(2) list.set_map list.simps(9) status_rows_None)
  from spec_under_steps [OF Cons.IH this] Cons.prems
  have "session_spec\<^sup>*\<^sup>* (status_rows (r # rs)) ((status_rows rs')(sess_ID r \<mapsto> sess_Status r))" by simp
  then show ?case unfolding status_rows_simps(2) [of r'] u(1) using spec_edges [OF u(2)] by (rule rtranclp_trans)
qed simp

lemma spec_step:
  assumes "db_step d d'" "unique_keys d"
  shows "session_spec\<^sup>*\<^sup>* (abs_sessions d) (abs_sessions d')"
  using step_creates [OF assms(1)]
proof (elim disjE exE conjE)
  assume "length (db_sessions d') = length (db_sessions d)"
  then have "list_all2 session_update\<^sup>*\<^sup>* (db_sessions d) (db_sessions d')"
    using evolves_step [OF assms] by (simp add: evolves_def grows_same_length)
  then show ?thesis unfolding abs_sessions_def by (rule spec_rows) (use assms(2) in \<open>simp add: unique_keys_def\<close>)
next
  fix v q now assume v: "fresh_session v" and d': "d' = snd (sess_Create v now d)"
  show ?thesis
  proof (cases "list_ex (\<lambda>r. sess_ID r = sess_ID v \<or> sess_RequestID r = sess_RequestID v) (db_sessions d)")
    case True
    then show ?thesis by (simp add: d' sess_Create_def Let_def)
  next
    case False
    obtain row where r: "db_sessions d' = db_sessions d @ [row]" "sess_ID row = sess_ID v" "sess_Status row = SessionProvisioning"
      using False v by (simp add: d' sess_Create_def Let_def fresh_session_def)
    have n: "sess_ID v \<notin> sess_ID ` set (db_sessions d)" using False by (auto simp: list_ex_iff)
    have "abs_sessions d' = (abs_sessions d)(sess_ID v \<mapsto> SessionProvisioning)"
      using status_rows_snoc [of row "db_sessions d"] n r by (simp add: abs_sessions_def)
    moreover have "abs_sessions d (sess_ID v) = None" using n by (simp add: abs_sessions_def status_rows_None)
    ultimately show ?thesis using session_spec.opens by (metis r_into_rtranclp)
  qed
next
  fix x now assume "d' = snd (apprs_Create x now d)"
  then show ?thesis by (simp add: apprs_Create_def Let_def abs_sessions_def)
qed

lemma spec_steps:
  assumes "db_steps d d'" "unique_keys d"
  shows "session_spec\<^sup>*\<^sup>* (abs_sessions d) (abs_sessions d')"
  using assms
proof (induction rule: rtranclp_induct)
  case (step y z)
  then show ?case using spec_step evolves_steps [OF step(1)] by (meson rtranclp_trans)
qed simp

text \<open>C4. The session table refines the session state machine: whatever the handlers and workers do and
  whatever fails, what a run does to the sessions is a sequence of moves of the abstract machine, which
  opens sessions as provisioning and moves them along its edges.\<close>

theorem sessions_refine_machine:
  assumes "peers s" "unique_keys (w_db w)" "control_runs s w w'"
  shows "session_spec\<^sup>*\<^sup>* (abs_sessions (w_db w)) (abs_sessions (w_db w'))"
  by (rule spec_steps [OF control_runs_steps [OF assms(3,1)] assms(2)])

end
