(* ===== verification/Samples.thy ===== *)
theory Samples
  imports Guarantees "HOL-Library.Code_Target_Nat"
begin

text \<open>
  A small installation on which the theorems are applied: two users, one region, gateway and
  asset, the built-in roles and a one-level workflow, on a service without faults and with
  fixed answers of the clock and of the gateway. The handlers are executed on it: the applicant
  asks for access, the approver approves, the worker opens the session, and the session is
  closed again.
\<close>

subsection \<open>Rows\<close>

definition alice :: string where "alice = ''aaaaaaaa-0000-4000-8000-000000000001''"
definition bob :: string where "bob = ''bbbbbbbb-0000-4000-8000-000000000002''"
definition region1 :: string where "region1 = ''cccccccc-0000-4000-8000-000000000003''"
definition gateway1 :: string where "gateway1 = ''dddddddd-0000-4000-8000-000000000004''"
definition asset1 :: string where "asset1 = ''eeeeeeee-0000-4000-8000-000000000005''"
definition flow1 :: string where "flow1 = ''ffffffff-0000-4000-8000-000000000006''"

definition sample_user :: "string \<Rightarrow> labels \<Rightarrow> user" where
  "sample_user i l = \<lparr>user_Labels = l, user_Revision = 1, user_ID = i, user_AuthVersion = 1, user_FeishuOpenID = [],
     user_FeishuUnionID = None, user_Nickname = [], user_Username = [], user_Email = None, user_Department = None,
     user_Status = UserStatusActive, user_CreatedAt = 1, user_UpdatedAt = 1\<rparr>"

definition sample_role :: "string \<Rightarrow> role" where
  "sample_role n = \<lparr>role_Name = n, role_Description = n,
     role_Permissions = (case map_of NewPolicy n of None \<Rightarrow> [] | Some ps \<Rightarrow> ps), role_Labels = [], role_Enabled = True,
     role_BuiltIn = True, role_Revision = 1, role_CreatedAt = 1, role_UpdatedAt = 1\<rparr>"

definition sample_region :: region where
  "sample_region = \<lparr>region_ID = region1, region_Code = ''r'', region_Name = ''r'', region_Status = ResourceStatusEnabled,
     region_CreatedAt = 1, region_UpdatedAt = 1\<rparr>"

definition sample_gateway :: gateway where
  "sample_gateway = \<lparr>gateway_ID = gateway1, gateway_RegionID = region1, gateway_Name = ''g'',
     gateway_ManagementEndpoint = [], gateway_PublicEndpoint = [], gateway_AuthSecretRef = None,
     gateway_Status = ResourceStatusEnabled, gateway_MaxSessions = 1, gateway_LastHeartbeatAt = Some (100 * second),
     gateway_CreatedAt = 1, gateway_UpdatedAt = 1\<rparr>"

definition sample_asset :: asset where
  "sample_asset = \<lparr>asset_ID = asset1, asset_ApprovalWorkflowID = Some flow1, asset_RegionID = region1,
     asset_GatewayID = gateway1, asset_Name = ''a'', asset_AssetType = ''ssh'', asset_TargetCiphertext = [],
     asset_RiskLevel = RiskLevelCritical, asset_MaxTTLSeconds = 3600, asset_Status = ResourceStatusEnabled,
     asset_ExternalSource = None, asset_DeletedAt = None, asset_CreatedAt = 1, asset_UpdatedAt = 1\<rparr>"

definition sample_step :: step where
  "sample_step = \<lparr>step_Name = ''lead'', step_Kind = ''user_selector'', step_Mode = ''any'', step_Selector = ''team=ops''\<rparr>"

definition sample_flow :: flow_definition where
  "sample_flow = \<lparr>def_ID = flow1, def_Name = ''f'', def_Description = [], def_Labels = [], def_Enabled = True,
     def_BuiltIn = False, def_Revision = 1, def_AssetSelector = [], def_TimeoutSeconds = 3600,
     def_Steps = [sample_step], def_CreatedAt = 1, def_UpdatedAt = 1\<rparr>"

definition sample_db :: db where
  "sample_db = \<lparr>db_users = [sample_user alice [], sample_user bob [(''team'', ''ops'')]],
     db_regions = [sample_region], db_gateways = [sample_gateway], db_assets = [sample_asset],
     db_ports = [\<lparr>port_ID = ''p'', port_AssetID = asset1, port_Port = 22, port_Protocol = ''tcp'', port_Enabled = True,
                 port_CreatedAt = 1\<rparr>],
     db_asset_gateways = [\<lparr>agb_AssetID = asset1, agb_GatewayID = gateway1, agb_Priority = 1, agb_Enabled = True,
                 agb_CreatedAt = 1, agb_UpdatedAt = 1\<rparr>],
     db_iam_roles = [sample_role ''sre'', sample_role ''user''], db_iam_bindings = [],
     db_assignments = [\<lparr>asg_ID = ''x'', asg_UserID = bob, asg_Role = ''sre'', asg_GrantedBy = [], asg_CreatedAt = 1,
                 asg_RevokedAt = None\<rparr>],
     db_workflows = [sample_flow], db_ownerships = [],
     db_asset_policies = [\<lparr>policy_DefaultsOnly = False, policy_AssetID = asset1, policy_Labels = [], policy_Revision = 1,
                 policy_UpdatedAt = 1\<rparr>],
     db_requests = [], db_approvals = [], db_sessions = [], db_session_events = [], db_audit_events = [],
     db_outbox = [], db_notifications = [], db_token_deliveries = [], db_connection_events = [],
     db_operation_events = []\<rparr>"

subsection \<open>The service\<close>

definition sample_svc :: svc where
  "sample_svc = \<lparr>svc_clock = (\<lambda>_. 100 * second), svc_now = (\<lambda>_. 100 * second),
     svc_rand = (\<lambda>k. [0, 0, 0, 0, 0, 0, 0, 0, 0, 0, 0, 0, 0, 0, 0, k]), svc_fault = (\<lambda>_. False), svc_others = (\<lambda>_ d. d),
     svc_permit = (\<lambda>ps p. p \<in> set ps), svc_adminUserIDs = [], svc_defaultTTL = 600 * second,
     svc_maxTTL = 3600 * second, svc_demoMode = False, svc_approvalTimeout = 3600 * second,
     svc_heartbeatMaxAge = 60 * second, svc_hasRuntime = True, svc_readinessSupported = True,
     svc_loadAudit = (\<lambda>_ _. Inr []), svc_selectPolicy = (\<lambda>_ _. Inl ErrOther), svc_clientAccess = (\<lambda>_. Inr True),
     svc_create = (\<lambda>_ _ _ q. Inr \<lparr>cr_ConnectionMode = ''native'', cr_ServerCertificate = [],
        cr_SessionID = cq_SessionID q, cr_Status = ''running'', cr_ProcessID = ''1'', cr_ListenerPort = 40000,
        cr_ExternalPort = 40000, cr_ExposureMode = ''direct'', cr_ExposureRef = ''gw'', cr_StartedAt = 100 * second,
        cr_ExpiresAt = 700 * second\<rparr>),
     svc_close = (\<lambda>_ _ i _. Inr \<lparr>cl_SessionID = i, cl_Status = ''closed''\<rparr>), svc_status = (\<lambda>_ _ _. Inr ''running''),
     svc_probe = (\<lambda>_ _. Inr None), svc_renewals = (\<lambda>_. 0), svc_notify = (\<lambda>_ _ _ _ _. None),
     svc_errorText = (\<lambda>_. []), svc_reconcile = None, svc_acknowledge = (\<lambda>_ _. None), svc_purge = (\<lambda>_. None),
     svc_gatewayHost = (\<lambda>_ _. Inr ''gw''), svc_auditTrust = (\<lambda>_ _ _. None), svc_mailAddress = (\<lambda>_. None)\<rparr>"

definition sample_world :: world where
  "sample_world = \<lparr>w_db = sample_db, w_pos = 10, w_now = 0\<rparr>"

definition sample_input :: create_input where
  "sample_input = \<lparr>in_ApplicantID = alice, in_RegionID = region1, in_AssetID = asset1, in_TargetPort = 22,
     in_SourceIP = ''10.0.0.5'', in_TargetAccount = [], in_Reason = ''deploy'', in_TicketNo = None,
     in_RequestedStartAt = None, in_TTLSeconds = 600, in_Emergency = False, in_IdempotencyKey = ''key-0001''\<rparr>"

subsection \<open>Executing handlers\<close>

named_theorems sample

definition uid :: "nat \<Rightarrow> string" where
  "uid k = uuid_of_bytes ([0, 0, 0, 0, 0, 0, 0, 0, 0, 0, 0, 0, 0, 0, 0, k])"

lemma sample_svc_sel [sample]:
  "svc_adminUserIDs sample_svc = []" "svc_defaultTTL sample_svc = 600 * second" "svc_maxTTL sample_svc = 3600 * second"
  "\<not> svc_demoMode sample_svc" "svc_approvalTimeout sample_svc = 3600 * second"
  "svc_heartbeatMaxAge sample_svc = 60 * second" "svc_hasRuntime sample_svc" "svc_readinessSupported sample_svc"
  "svc_loadAudit sample_svc = (\<lambda>_ _. Inr [])" "svc_clientAccess sample_svc = (\<lambda>_. Inr True)"
  "svc_permit sample_svc = (\<lambda>ps p. p \<in> set ps)"
  by (simp_all add: sample_svc_def)

lemma sample_db_sel [sample]:
  "db_users sample_db = [sample_user alice [], sample_user bob [(''team'', ''ops'')]]"
  "db_regions sample_db = [sample_region]" "db_gateways sample_db = [sample_gateway]" "db_assets sample_db = [sample_asset]"
  "db_iam_roles sample_db = [sample_role ''sre'', sample_role ''user'']" "db_iam_bindings sample_db = []"
  "db_workflows sample_db = [sample_flow]" "db_ownerships sample_db = []" "db_requests sample_db = []"
  "db_approvals sample_db = []" "db_sessions sample_db = []" "db_outbox sample_db = []" "db_audit_events sample_db = []"
  "db_ports sample_db = [\<lparr>port_ID = ''p'', port_AssetID = asset1, port_Port = 22, port_Protocol = ''tcp'', port_Enabled = True,
                 port_CreatedAt = 1\<rparr>]"
  "db_asset_policies sample_db = [\<lparr>policy_DefaultsOnly = False, policy_AssetID = asset1, policy_Labels = [], policy_Revision = 1,
                 policy_UpdatedAt = 1\<rparr>]"
  "db_notifications sample_db = []" "db_session_events sample_db = []" "db_token_deliveries sample_db = []"
  by (simp_all add: sample_db_def)

lemma sample_run [sample]:
  "query sample_svc f \<lparr>w_db = d, w_pos = p, w_now = t\<rparr> = (f d, \<lparr>w_db = d, w_pos = p + 1, w_now = t\<rparr>)"
  "stmt sample_svc g \<lparr>w_db = d, w_pos = p, w_now = t\<rparr> =
     (case g t d of (r, d') \<Rightarrow> (r, \<lparr>w_db = d', w_pos = p + 1, w_now = t\<rparr>))"
  "InTx sample_svc m \<lparr>w_db = d, w_pos = p, w_now = t\<rparr> =
     (case m \<lparr>w_db = d, w_pos = p + 1, w_now = 100 * second\<rparr> of
        (Inl e, w2) \<Rightarrow> (Inl e, w2\<lparr>w_db := d\<rparr>) | (Inr x, w2) \<Rightarrow> (Inr x, w2\<lparr>w_pos := w_pos w2 + 1\<rparr>))"
  "observe h \<lparr>w_db = d, w_pos = p, w_now = t\<rparr> = (Inr (h p), \<lparr>w_db = d, w_pos = p + 1, w_now = t\<rparr>)"
  "clock sample_svc \<lparr>w_db = d, w_pos = p, w_now = t\<rparr> = (Inr (100 * second), \<lparr>w_db = d, w_pos = p + 1, w_now = t\<rparr>)"
  "id_New sample_svc \<lparr>w_db = d, w_pos = p, w_now = t\<rparr> = (Inr (uid p), \<lparr>w_db = d, w_pos = p + 1, w_now = t\<rparr>)"
  by (simp_all add: query_def stmt_def InTx_def observe_def clock_def id_New_def sample_svc_def uid_def Let_def split: prod.split sum.split)

lemma monad_run [sample]:
  "bindM m f w = (case m w of (Inl e, w') \<Rightarrow> (Inl e, w') | (Inr x, w') \<Rightarrow> f x w')"
  "thenM m n w = (case m w of (Inl e, w') \<Rightarrow> (Inl e, w') | (Inr x, w') \<Rightarrow> n w')"
  "tryM m w = (case m w of (r, w') \<Rightarrow> (Inr r, w'))"
  "returnM x w = (Inr x, w)" "failM e w = (Inl e, w)" "liftE r w = (r, w)"
  "unlessM c e w = (if c then (Inr (), w) else (Inl e, w))" "whenM c u w = (if c then u w else (Inr (), w))"
  "checkM None w = (Inr (), w)" "checkM (Some e) w = (Inl e, w)"
  by (simp_all add: bindM_def thenM_def tryM_def returnM_def failM_def liftE_def unlessM_def whenM_def checkM_def)

lemma run_cong:
  "w = w' \<Longrightarrow> bindM m f w = bindM m f w'"
  "w = w' \<Longrightarrow> thenM m n w = thenM m n w'"
  "w = w' \<Longrightarrow> tryM m w = tryM m w'"
  "w = w' \<Longrightarrow> InTx s m w = InTx s m w'"
  by simp_all

lemma sample_row [sample]:
  "user_ID (sample_user i l) = i" "user_Status (sample_user i l) = UserStatusActive" "user_Labels (sample_user i l) = l"
  by (simp_all add: sample_user_def)

lemma sample_flow_sel [sample]:
  "def_ID sample_flow = flow1" "def_Enabled sample_flow" "def_Steps sample_flow = [sample_step]"
  "def_TimeoutSeconds sample_flow = 3600"
  by (simp_all add: sample_flow_def)

lemma sample_ids [sample]:
  "IsUUID alice" "IsUUID bob" "IsUUID asset1" "alice \<noteq> bob" "bob \<noteq> alice" "alice \<noteq> []" "bob \<noteq> []"
  "TrimSpace alice = alice" "TrimSpace bob = bob" "alice \<le> bob"
  by code_simp+

lemma authorizeIn_sample:
  assumes "db_users d = db_users sample_db" "db_iam_roles d = db_iam_roles sample_db"
    "db_iam_bindings d = []" "db_assignments d = db_assignments sample_db"
  shows "authorizeIn sample_svc alice PermissionRequestManage \<lparr>w_db = d, w_pos = p, w_now = t\<rparr> =
      (Inr (), \<lparr>w_db = d, w_pos = p + 4, w_now = t\<rparr>)"
    "authorizeIn sample_svc bob PermissionApprovalManage \<lparr>w_db = d, w_pos = p, w_now = t\<rparr> =
      (Inr (), \<lparr>w_db = d, w_pos = p + 4, w_now = t\<rparr>)"
proof -
  have p: "permit_spec (svc_permit sample_svc)" "distinct (map role_Name (db_iam_roles sample_db))"
    by (simp_all add: permit_spec_def sample_svc_def sample_db_def sample_role_def)
  have a: "authorised sample_svc sample_db alice PermissionRequestManage" "authorised sample_svc sample_db bob PermissionApprovalManage"
    by (simp_all add: authorised_def sample_ids sample_db_def sample_user_def sample_role_def member_role_def explicit_roles_def Known_iff knownPermissions_def NewPolicy_def PermissionRequestManage_def PermissionApprovalManage_def)
  have "authorised sample_svc d u q = authorised sample_svc sample_db u q" for u q
    using assms unfolding authorised_def explicit_roles_def by (simp add: sample_db_def)
  then show "authorizeIn sample_svc alice PermissionRequestManage \<lparr>w_db = d, w_pos = p, w_now = t\<rparr> =
      (Inr (), \<lparr>w_db = d, w_pos = p + 4, w_now = t\<rparr>)"
    "authorizeIn sample_svc bob PermissionApprovalManage \<lparr>w_db = d, w_pos = p, w_now = t\<rparr> =
      (Inr (), \<lparr>w_db = d, w_pos = p + 4, w_now = t\<rparr>)"
    using p a assms by (simp_all add: run_authorizeIn sample_svc_def)
qed

lemma sample_input_sel [sample]:
  "in_ApplicantID sample_input = alice" "in_RegionID sample_input = region1" "in_AssetID sample_input = asset1"
  "in_TargetPort sample_input = 22" "in_SourceIP sample_input = ''10.0.0.5''" "in_TTLSeconds sample_input = 600"
  "in_IdempotencyKey sample_input = ''key-0001''"
  by (simp_all add: sample_input_def)

lemma sample_asset_sel [sample]:
  "asset_ID sample_asset = asset1" "asset_RegionID sample_asset = region1" "asset_Status sample_asset = ResourceStatusEnabled"
  "asset_MaxTTLSeconds sample_asset = 3600" "asset_DeletedAt sample_asset = None" "asset_GatewayID sample_asset = gateway1"
  "asset_ApprovalWorkflowID sample_asset = Some flow1" "asset_AssetType sample_asset = ''ssh''"
  "region_ID sample_region = region1" "region_Status sample_region = ResourceStatusEnabled"
  by (simp_all add: sample_asset_def sample_region_def)

lemma sample_valid [sample]:
  "trim_input sample_input = sample_input" "validateCreateInput sample_input = None"
  "normalize_input sample_svc sample_input = sample_input"
  by code_simp+

lemmas statements [sample] = sessions_FindActiveByApplicantAssetPort_def assets_GetByID_def regions_GetByID_def assets_GetPort_def
  users_GetByID_def requests_GetByIdempotencyKey_def find_row_def assets_GetByIDForUpdate_def

lemma list_update_numeral: "(x # xs)[numeral n := y] = x # xs[pred_numeral n := y]"
  by (simp add: numeral_eq_Suc)

lemma uid_eq [sample]:
  assumes "k < 256" "l < 256"
  shows "uid k = uid l \<longleftrightarrow> k = l"
proof -
  have u: "uid k = ''00000000-0000-4000-8000-0000000000'' @ hex_byte k" for k
  proof -
    have "hex_byte 0 = ''00''" "hex_byte 64 = ''40''" "hex_byte 128 = ''80''" by code_simp+
    then show ?thesis by (simp add: uid_def uuid_of_bytes_def list_update_numeral)
  qed
  have c: "hex_char a = hex_char b \<longleftrightarrow> a = b" if "a < 16" "b < 16" for a b
    using that by (auto simp: hex_char_def char_of_eq_iff take_bit_eq_mod split: if_splits)
  show ?thesis using assms by (simp add: u hex_byte_def c) (metis div_mult_mod_eq)
qed

lemma sample_metadata_clean [sample]:
  "sanitizeEventMetadata [] = Inr []"
  "sanitizeEventMetadata [(''approval_mode'', JStr ''required'')] = Inr [(''approval_mode'', JStr ''required'')]"
  by code_simp+

lemma sample_flow_ids [sample]: "TrimSpace flow1 = flow1" "flow1 \<noteq> []"
  by code_simp+

lemma sample_new_request [sample]:
  "new_request sample_svc sample_input ''required'' i =
   \<lparr>req_WorkflowSnapshot = None, req_ApprovalExpiresAt = None, req_ApprovalMode = ''required'', req_ID = i,
      req_ApplicantID = alice, req_AssetID = asset1, req_TargetPort = 22,
      req_Reason = ''deploy'', req_TicketNo = None, req_Emergency = False,
      req_RequestedStartAt = None, req_TTLSeconds = 600, req_Status = AccessRequestPendingApproval,
      req_IdempotencyKey = ''key-0001'', req_SourceIP = Some ''10.0.0.5'',
      req_TargetAccount = None, req_CreatedAt = 0, req_UpdatedAt = 0\<rparr>"
  by (simp add: new_request_def sample_input_def sample_svc_def optionalString_def effective_ttl_def)

definition sample_dir :: workflow_directory where
  "sample_dir = \<lparr>dir_users = db_users sample_db, dir_assignments = directory_assignments sample_svc (db_users sample_db)
          (db_assignments sample_db), dir_resolver = NewResolver (db_iam_roles sample_db) []\<rparr>"

lemma workflowDirectory_sample [sample]:
  "workflowDirectory sample_svc \<lparr>w_db = sample_db, w_pos = p, w_now = t\<rparr> = (Inr sample_dir, \<lparr>w_db = sample_db, w_pos = p + 4, w_now = t\<rparr>)"
proof -
  have "sort_key role_Name (db_iam_roles sample_db) = db_iam_roles sample_db"
    "sort_key user_ID (filter (\<lambda>u. user_Status u = UserStatusActive) (db_users sample_db)) = db_users sample_db"
    "sort_key (\<lambda>a. (asg_UserID a, asg_ID a)) (filter (\<lambda>a. asg_RevokedAt a = None) (db_assignments sample_db)) =
       db_assignments sample_db" by code_simp+
  moreover have "length (db_iam_roles sample_db) = 2" "length (db_users sample_db) = 2" "length (db_assignments sample_db) = 1"
    "db_iam_bindings sample_db = []" by (simp_all add: sample_db_def)
  ultimately show ?thesis
    by (simp add: workflowDirectory_def iam_ListSubjects_def iam_ListRoles_def iam_ListBindings_def iam_ListAssignments_def
        sample_run monad_run sample_dir_def)
qed

lemma resolve_sample [sample]:
  "resolve_step [] [] (eligibleRoles sample_svc sample_dir alice) (dir_users sample_dir) (Suc 0, sample_step) =
   Inr \<lparr>resolved_Step = sample_step, resolved_Level = 1, resolved_Required = 1,
        resolved_Candidates = [\<lparr>candidate_UserID = bob, candidate_Name = []\<rparr>]\<rparr>"
  by code_simp

lemmas handlers = CreateAccessRequest_def createAccessRequest_def requireActiveUser_def create_fresh_def create_checks_def
  no_active_session_def clientAccessEnabledIn_def effective_ttl_def max_ttl_def maxAccessRequestTTL_def 
  active_sessions_def create_tx_def authorizeIn_sample iam_Lock_def materializeApproval_def workflows_AssetPolicy_def
  workflows_List_def selectApprovalWorkflow_def workflows_ListOwnerships_def materialize_step_def planned_approval_def
  auto_approved_def sessionAuditPolicy_def loadSessionAudit_def sessionPolicy_def validateWebAccess_def
  requests_Create_def reqs_Create_def approvals_Create_def apprs_Create_def appendAudit_def created_audit_def no_audit_def
  unlogged_events_def audits_Append_def auds_Append_def appendOutbox_def appendOutboxAt_def appendInAppNotifications_def
  requests_GetByID_def append_notices_def assets_GetIncludingDeleted_def approvals_ListByRequest_def request_approvals_def
  requestNotifications_def notices_def base_notification_def nextApprovalLevel_def notifications_Append_def notes_Append_def
  outbox_Create_def outs_Create_def outbox_command_def request_payload_def
  levels_def level_required_def level_count_def has_level_def is_approved_def

subsection \<open>A request is created and approved\<close>

definition sample_request :: access_request where
  "sample_request =
     \<lparr>req_WorkflowSnapshot = Some
        \<lparr>snap_WorkflowID = flow1, snap_Name = def_Name sample_flow, snap_Revision = def_Revision sample_flow,
         snap_AssetPolicyRevision = 1, snap_AssetLabels = [],
         snap_Steps = [\<lparr>resolved_Step = sample_step, resolved_Level = 1, resolved_Required = 1,
           resolved_Candidates = [\<lparr>candidate_UserID = bob, candidate_Name = []\<rparr>]\<rparr>]\<rparr>,
      req_ApprovalExpiresAt = Some (3700 * second), req_ApprovalMode = ''required'', req_ID = uid 28,
      req_ApplicantID = alice, req_AssetID = asset1, req_TargetPort = 22, req_Reason = ''deploy'',
      req_TicketNo = None, req_Emergency = False, req_RequestedStartAt = None, req_TTLSeconds = 600,
      req_Status = AccessRequestPendingApproval, req_IdempotencyKey = ''key-0001'',
      req_SourceIP = Some ''10.0.0.5'', req_TargetAccount = None, req_CreatedAt = 100 * second,
      req_UpdatedAt = 100 * second\<rparr>"

definition sample_approval :: approval where
  "sample_approval =
     \<lparr>appr_RequiredApprovals = 1, appr_StepName = step_Name sample_step, appr_ID = uid 44, appr_RequestID = uid 28,
      appr_ApproverID = bob, appr_ApprovalLevel = 1, appr_Decision = None, appr_Comment = None,
      appr_DecidedAt = None, appr_CreatedAt = 100 * second\<rparr>"

definition created_notice :: notification where
  "created_notice = \<lparr>note_ID = uid 55, note_UserID = bob, note_EventType = ''approval_requested'',
     note_DedupeKey = ''approval:'' @ uid 44, note_RequestID = uid 28, note_SessionID = None, note_ReadAt = None,
     note_CreatedAt = 100 * second\<rparr>"

definition created_command :: outbox_event where
  "created_command = \<lparr>outbox_ID = uid 57, outbox_AggregateType = ''access_request'', outbox_AggregateID = uid 28,
     outbox_EventType = outboxNotifyApproval, outbox_Payload = request_payload (uid 28), outbox_Status = OutboxPending,
     outbox_RetryCount = 0, outbox_NextRetryAt = None, outbox_CreatedAt = 100 * second, outbox_ProcessedAt = None\<rparr>"

definition pending_db :: db where
  "pending_db = sample_db\<lparr>db_requests := [sample_request], db_approvals := [sample_approval],
     db_audit_events := [(created_audit sample_input ''required'' sample_request)
       \<lparr>audit_ID := uid 49, audit_CreatedAt := 100 * second\<rparr>],
     db_notifications := [created_notice], db_outbox := [created_command]\<rparr>"

definition pending_world :: world where
  "pending_world = \<lparr>w_db = pending_db, w_pos = 60, w_now = 100 * second\<rparr>"

lemmas pending_defs = sample_request_def sample_approval_def created_notice_def created_command_def pending_db_def
  pending_world_def sample_world_def

lemma create_sample: "CreateAccessRequest sample_svc sample_input sample_world = (Inr sample_request, pending_world)"
  by (simp add: pending_defs handlers sample Let_def cong: run_cong split del: if_split)

lemma sample_uids [sample]:
  "IsUUID (uid 44)" "TrimSpace (uid 44) = uid 44" "uid k \<noteq> []"
  subgoal by code_simp
  subgoal by code_simp
  subgoal by (simp add: uid_def uuid_of_bytes_def hex_byte_def)
  done

lemma sample_permissions [sample]: "Known PermissionApprovalManage"
  by code_simp

lemma sample_step_sel [sample]:
  "step_Kind sample_step = ''user_selector''" "MatchesBinding (step_Selector sample_step) [(''team'', ''ops'')]"
  by code_simp+

lemmas decide_handlers = DecideApproval_def decide_preflight_def decide_tx_def decide_locked_def decision_guards_def
  Authorize_def readIAM_def validateUUID_def approvals_GetByID_def level_guard_def requests_GetByIDForUpdate_def
  validateWorkflowVoter_def approval_deadline_def voter_matches_def record_decision_def approvals_Decide_def apprs_Decide_def
  affected_def update_where_def apply_decision_def requests_TransitionStatus_def reqs_Transition_def update_requests_def
  approved_session_def sessions_LockApplicantAssetPort_def create_grant_def newSession_def newNativeSession_def
  zero_session_def no_policy_def sessions_Create_def sess_Create_def finish_decision_def decided_audit_def
  provisioning_audit_def session_payload_def

definition approved_request :: access_request where
  "approved_request = sample_request\<lparr>req_Status := AccessRequestApproved\<rparr>"

definition given_approval :: approval where
  "given_approval = sample_approval\<lparr>appr_Decision := Some ApprovalApproved, appr_DecidedAt := Some (100 * second)\<rparr>"

definition new_session :: session where
  "new_session = zero_session\<lparr>sess_ConnectionMode := ''native'', sess_ID := uid 96, sess_RequestID := uid 28,
     sess_GatewayID := gateway1, sess_ExpiresAt := Some (700 * second), sess_CreatedAt := 100 * second,
     sess_UpdatedAt := 100 * second\<rparr>"

definition granted_world :: world where
  "granted_world = snd (DecideApproval sample_svc bob (uid 44) ApprovalApproved None pending_world)"

lemma granted_rows:
  "db_requests (w_db granted_world) = [approved_request]" "db_approvals (w_db granted_world) = [given_approval]"
  "db_sessions (w_db granted_world) = [new_session]"
  by (simp_all add: granted_world_def approved_request_def given_approval_def new_session_def pending_defs handlers
      decide_handlers sample Let_def cong: run_cong split del: if_split)

text \<open>The world after the decision, with the logs and the outbox folded.\<close>

definition granted_audits :: "audit_event list" where
  "granted_audits = db_audit_events (w_db granted_world)"

definition granted_notices :: "notification list" where
  "granted_notices = db_notifications (w_db granted_world)"

definition granted_outbox :: "outbox_event list" where
  "granted_outbox = db_outbox (w_db granted_world)"

lemma granted_value:
  "granted_world = \<lparr>w_db = sample_db\<lparr>db_approvals := [given_approval], db_requests := [approved_request],
      db_sessions := [new_session], db_audit_events := granted_audits, db_notifications := granted_notices,
      db_outbox := granted_outbox\<rparr>, w_pos = 115, w_now = 100 * second\<rparr>"
  by (simp add: granted_audits_def granted_notices_def granted_outbox_def granted_world_def approved_request_def
      given_approval_def new_session_def pending_defs handlers decide_handlers sample Let_def cong: run_cong split del: if_split)

lemma granted_keys [sample]:
  "list_ex (\<lambda>r. audit_ID r = i) granted_audits \<longleftrightarrow> uid 49 = i \<or> uid 100 = i \<or> uid 103 = i"
  "list_ex (\<lambda>r. outbox_ID r = i) granted_outbox \<longleftrightarrow> uid 57 = i \<or> uid 106 = i \<or> uid 112 = i"
  "list_ex (\<lambda>r. note_ID r = i) granted_notices \<longleftrightarrow> uid 55 = i \<or> uid 110 = i"
  "\<not> list_ex (\<lambda>r. note_UserID r = u \<and> note_DedupeKey r = CHR ''s'' # x) granted_notices"
  by (simp_all add: granted_audits_def granted_outbox_def granted_notices_def granted_world_def approved_request_def given_approval_def new_session_def pending_defs handlers
      decide_handlers sample Let_def cong: run_cong split del: if_split)

lemma sample_peers: "peers sample_svc"
  by (simp add: others_keep_def sample_svc_def)

lemma sample_fresh: "fresh_system (w_db sample_world)"
  by (simp add: fresh_system_def lifecycle_def sample_world_def sample_db_def)

lemma sample_runs: "control_runs sample_svc sample_world granted_world"
proof -
  have "control_step sample_svc sample_world pending_world" by (rule control_step.create, rule create_sample)
  moreover have "control_step sample_svc pending_world granted_world"
    unfolding granted_world_def by (rule control_step.decide, rule prod.collapse [symmetric])
  ultimately show ?thesis by simp
qed

subsection \<open>The session is opened\<close>

lemma sample_gateway_sel [sample]:
  "gateway_ID sample_gateway = gateway1" "gateway_RegionID sample_gateway = region1"
  "gateway_Status sample_gateway = ResourceStatusEnabled" "gateway_MaxSessions sample_gateway = 1"
  "gateway_LastHeartbeatAt sample_gateway = Some (100 * second)" "gateway_ManagementEndpoint sample_gateway = []"
  by (simp_all add: sample_gateway_def)

lemma sample_binding_sel [sample]:
  "db_asset_gateways sample_db = [\<lparr>agb_AssetID = asset1, agb_GatewayID = gateway1, agb_Priority = 1, agb_Enabled = True,
                 agb_CreatedAt = 1, agb_UpdatedAt = 1\<rparr>]"
  by (simp add: sample_db_def)

lemma approved_request_sel [sample]:
  "req_ID approved_request = uid 28" "req_Status approved_request = AccessRequestApproved"
  "req_ApplicantID approved_request = alice" "req_AssetID approved_request = asset1"
  "req_TargetPort approved_request = 22" "req_SourceIP approved_request = Some ''10.0.0.5''"
  "req_TTLSeconds approved_request = 600" "req_ApprovalMode approved_request = ''required''"
  "req_TargetAccount approved_request = None"
  by (simp_all add: approved_request_def sample_request_def)

lemma sample_uids2 [sample]:
  "IsUUID (uid 96)" "TrimSpace (uid 96) = uid 96"
  by code_simp+

lemma sample_process_id [sample]: "validGatewayProcessID ''1''" "TrimSpace ''gw'' = ''gw''"
  by code_simp+

lemma sample_gateway_calls [sample]:
  "svc_renewals sample_svc p = 0"
  "svc_probe sample_svc p g = Inr None"
  "svc_create sample_svc p g a q = Inr \<lparr>cr_ConnectionMode = ''native'', cr_ServerCertificate = [],
        cr_SessionID = cq_SessionID q, cr_Status = ''running'', cr_ProcessID = ''1'', cr_ListenerPort = 40000,
        cr_ExternalPort = 40000, cr_ExposureMode = ''direct'', cr_ExposureRef = ''gw'', cr_StartedAt = 100 * second,
        cr_ExpiresAt = 700 * second\<rparr>"
  by (simp_all add: sample_svc_def)

lemmas provision_handlers = ProvisionSession_def provision_pending_def provision_on_def heartbeat_after_def
  provision_preflight_def approvedSessionExpiry_def sessions_GetByID_def
  gateways_ListAvailableForAsset_def available_gateways_def gateway_load_def fresh_heartbeat_def probeGateway_def
  gateways_RecordHeartbeat_def gws_RecordHeartbeat_def claim_tx_def gateways_LockCapacity_def
  sessions_ClaimProvisioningOnGateway_def sess_ClaimOnGateway_def claimable_def gateway_accepts_def update_sessions_def
  touch_def provisioningLease_def provision_claimed_def ValidateConnectionIdentity_def NormalizeConnectionMode_def
  create_remote_def gateway_request_def requestSourceIP_def validGatewayCreateResponse_def ValidateConnectionResponse_def
  complete_attempt_def started_at_def expires_at_def valid_start_def valid_expiry_def gatewayClockSkew_def running_tx_def
  sessions_GetByIDForUpdate_def safety_reason_def users_GetByIDForUpdate_def regions_GetByIDForUpdate_def
  gateways_GetByIDForUpdate_def withdrawn_resource_def binding_reason_def gateways_GetAssetBindingForUpdate_def
  port_reason_def assets_GetPortForUpdate_def mark_started_def sessions_MarkDirectRunning_def sess_MarkDirectRunning_def
  provisioning_at_def append_session_event_def sessionEvents_Append_def sevs_Append_def started_metadata_def started_audit_def

definition running_session :: session where
  "running_session = new_session\<lparr>sess_Status := SessionRunning, sess_StartedAt := Some (100 * second), sess_Version := 2,
     sess_RemoteProcessID := Some ''1'', sess_ListenerPort := Some 40000, sess_ExternalPort := Some 40000,
     sess_ExposureMode := Some ''direct'', sess_ExposureRef := Some ''gw''\<rparr>"

definition running_world :: world where
  "running_world = snd (ProvisionSession sample_svc (uid 96) granted_world)"

lemma provision_sample:
  "fst (ProvisionSession sample_svc (uid 96) granted_world) = Inr running_session"
  "db_sessions (w_db running_world) = [running_session]" "db_requests (w_db running_world) = [approved_request]"
  by (simp_all add: running_world_def running_session_def granted_value new_session_def handlers
      decide_handlers provision_handlers sample Let_def cong: run_cong split del: if_split)

lemma running_runs: "control_runs sample_svc sample_world running_world"
proof (rule rtranclp.rtrancl_into_rtrancl [OF sample_runs])
  show "control_step sample_svc granted_world running_world"
    unfolding running_world_def by (rule control_step.provision, rule prod.collapse [symmetric])
qed

end
