(* ===== verification/Witnesses.thy ===== *)
theory Witnesses
  imports Samples
begin

text \<open>
  The theorems of the library applied to the sample installation: each one is used at concrete
  arguments that satisfy its hypotheses.
\<close>

subsection \<open>Reachable states\<close>

theorem no_session_without_approval_witness:
  "control_runs sample_svc sample_world granted_world \<and> new_session \<in> set (db_sessions (w_db granted_world)) \<and>
   (\<exists>q\<in>set (db_requests (w_db granted_world)). req_ID q = sess_RequestID new_session \<and>
     req_Status q \<in> {AccessRequestApproved, AccessRequestCancelled} \<and>
     (req_ApprovalMode q = ''required'' \<longrightarrow>
       (\<forall>l. \<not> open_level (request_approvals (w_db granted_world) (req_ID q)) l) \<and>
       (\<exists>a\<in>set (request_approvals (w_db granted_world) (req_ID q)). is_approved a)))"
proof -
  have v: "new_session \<in> set (db_sessions (w_db granted_world))" by (simp add: granted_rows)
  show ?thesis using no_session_without_approval [OF sample_peers sample_fresh sample_runs v] sample_runs v by blast
qed

theorem nobody_decides_own_request_witness:
  "control_runs sample_svc sample_world granted_world \<and> given_approval \<in> set (db_approvals (w_db granted_world)) \<and>
   req_ApplicantID approved_request \<noteq> appr_ApproverID given_approval"
proof -
  have "req_ID approved_request = appr_RequestID given_approval"
    by (simp add: approved_request_def given_approval_def sample_request_def sample_approval_def)
  then show ?thesis
    using nobody_decides_own_request [OF sample_peers sample_fresh sample_runs, of given_approval approved_request] sample_runs
    by (simp add: granted_rows)
qed

theorem one_active_session_witness:
  "control_runs sample_svc sample_world granted_world \<and> new_session \<in> set (db_sessions (w_db granted_world)) \<and>
   {v \<in> set (db_sessions (w_db granted_world)). is_active_status (sess_Status v) \<and>
      sess_RequestID v = req_ID approved_request} = {new_session}"
proof -
  have r: "new_session \<in> set (db_sessions (w_db granted_world))" "approved_request \<in> set (db_requests (w_db granted_world))"
    by (simp_all add: granted_rows)
  have a: "is_active_status (sess_Status new_session)" "req_ID approved_request = sess_RequestID new_session"
    by (simp_all add: new_session_def zero_session_def is_active_status_def approved_request_def sample_request_def)
  have "new_session = v" if "v \<in> set (db_sessions (w_db granted_world))" "is_active_status (sess_Status v)"
    "sess_RequestID v = req_ID approved_request" for v
    using one_active_session [OF sample_peers sample_fresh sample_runs r(1) that(1) a(1) that(2) r(2) a(2) r(2) that(3) [symmetric]]
    by simp
  then show ?thesis using sample_runs r a by auto
qed


subsection \<open>Histories\<close>

lemma pending_unique: "unique_keys (w_db pending_world)"
  by (simp add: unique_keys_def pending_world_def pending_db_def sample)

lemma decide_runs: "control_runs sample_svc pending_world granted_world"
  unfolding granted_world_def by (rule r_into_rtranclp, rule control_step.decide, rule prod.collapse [symmetric])

lemma granted_unique: "unique_keys (w_db granted_world)"
  using reachable_sound [OF sample_peers sample_fresh sample_runs] by (simp add: sound_def)

lemma provision_runs: "control_runs sample_svc granted_world running_world"
  unfolding running_world_def by (rule r_into_rtranclp, rule control_step.provision, rule prod.collapse [symmetric])

theorem session_history_witness:
  "control_runs sample_svc granted_world running_world \<and> new_session \<in> set (db_sessions (w_db granted_world)) \<and>
   (\<exists>r'\<in>set (db_sessions (w_db running_world)). session_identity r' = session_identity new_session \<and>
      session_edge\<^sup>*\<^sup>* (sess_Status new_session) (sess_Status r') \<and> sess_Version new_session \<le> sess_Version r')"
proof -
  have v: "new_session \<in> set (db_sessions (w_db granted_world))" by (simp add: granted_rows)
  show ?thesis using session_history [OF sample_peers granted_unique provision_runs v] provision_runs v by blast
qed

theorem request_history_witness:
  "control_runs sample_svc pending_world granted_world \<and> sample_request \<in> set (db_requests (w_db pending_world)) \<and>
   (\<exists>r'\<in>set (db_requests (w_db granted_world)). (\<exists>st t. r' = sample_request\<lparr>req_Status := st, req_UpdatedAt := t\<rparr>) \<and>
      request_edge\<^sup>*\<^sup>* (req_Status sample_request) (req_Status r'))"
proof -
  have v: "sample_request \<in> set (db_requests (w_db pending_world))" by (simp add: pending_world_def pending_db_def)
  show ?thesis using request_history [OF sample_peers pending_unique decide_runs v] decide_runs v by blast
qed

theorem approval_history_witness:
  "control_runs sample_svc pending_world granted_world \<and> sample_approval \<in> set (db_approvals (w_db pending_world)) \<and>
   (\<exists>a'\<in>set (db_approvals (w_db granted_world)). a' = sample_approval \<or> appr_Decision sample_approval = None \<and>
      (\<exists>dec c t. a' = sample_approval\<lparr>appr_Decision := Some dec, appr_Comment := c, appr_DecidedAt := Some t\<rparr>))"
proof -
  have v: "sample_approval \<in> set (db_approvals (w_db pending_world))" by (simp add: pending_world_def pending_db_def)
  show ?thesis using approval_history [OF sample_peers pending_unique decide_runs v] decide_runs v by blast
qed

theorem logs_append_only_witness:
  "control_runs sample_svc pending_world granted_world \<and>
   (\<exists>audit events. db_audit_events (w_db granted_world) = db_audit_events (w_db pending_world) @ audit \<and>
      db_session_events (w_db granted_world) = db_session_events (w_db pending_world) @ events)"
  using logs_append_only [OF sample_peers pending_unique decide_runs] decide_runs by blast

theorem outbox_history_witness:
  "control_runs sample_svc pending_world granted_world \<and> created_command \<in> set (db_outbox (w_db pending_world)) \<and>
   (\<exists>e'\<in>set (db_outbox (w_db granted_world)). outbox_identity e' = outbox_identity created_command \<and>
      outbox_RetryCount created_command \<le> outbox_RetryCount e')"
proof -
  have v: "created_command \<in> set (db_outbox (w_db pending_world))" by (simp add: pending_world_def pending_db_def)
  show ?thesis using outbox_history [OF sample_peers pending_unique decide_runs v] decide_runs v by blast
qed

subsection \<open>Authorisation and approval\<close>

theorem Resolve_members_witness:
  "distinct (map role_Name (db_iam_roles sample_db)) \<and>
   Resolve [] (db_iam_roles sample_db) [] [''sre''] =
     filter (member_role [] [] [''sre'']) (db_iam_roles sample_db) \<and>
   map grant_Role (resolver_Explain (NewResolver (db_iam_roles sample_db) []) [] []) = Resolve [] (db_iam_roles sample_db) [] []"
proof -
  have d: "distinct (map role_Name (db_iam_roles sample_db))" by (simp add: sample_db_def sample_role_def)
  show ?thesis
    using d Resolve_members [OF d, of "[]" "[]" "[''sre'']" "[]"] Resolve_members [OF d, of "[]" "[]" "[]" "[]"] by simp
qed

theorem nextApprovalLevel_spec_witness:
  "\<not> snd (nextApprovalLevel [sample_approval]) \<and>
   open_level [sample_approval] (fst (nextApprovalLevel [sample_approval]))"
proof -
  have "\<not> snd (nextApprovalLevel [sample_approval])"
    by (simp add: nextApprovalLevel_def levels_def level_required_def level_count_def has_level_def is_approved_def
        sample_approval_def)
  then show ?thesis using nextApprovalLevel_spec [of "[sample_approval]"] by blast
qed

theorem worklist_is_current_level_witness:
  "approval_pending pending_db 0 bob sample_approval \<longleftrightarrow>
   appr_ApprovalLevel sample_approval = fst (nextApprovalLevel (request_approvals pending_db (appr_RequestID sample_approval)))"
proof -
  have "uniform_levels (request_approvals pending_db (appr_RequestID sample_approval))"
    by (simp add: uniform_levels_def request_approvals_def pending_db_def sample_approval_def)
  moreover have "sample_approval \<in> set (db_approvals pending_db)" "awaiting_vote pending_db 0 bob sample_approval"
    by (simp_all add: pending_db_def awaiting_vote_def sample_approval_def sample_request_def)
  ultimately show ?thesis by (rule worklist_is_current_level)
qed

theorem Authorize_iff_witness:
  "fst (Authorize sample_svc alice PermissionRequestManage sample_world) = Inr () \<longleftrightarrow>
   authorised sample_svc sample_db alice PermissionRequestManage"
proof -
  have "permit_spec (svc_permit sample_svc)" "\<And>k. \<not> svc_fault sample_svc k" "\<And>k d. svc_others sample_svc k d = d"
    "distinct (map role_Name (db_iam_roles (w_db sample_world)))" "w_db sample_world = sample_db"
    by (simp_all add: permit_spec_def sample_svc_def sample_world_def sample_db_def sample_role_def)
  then show ?thesis using Authorize_iff [of sample_svc sample_world alice PermissionRequestManage] by simp
qed

lemma materialize_sample:
  "materializeApproval sample_svc (new_request sample_svc sample_input ''required'' (uid 28)) \<lparr>w_db = sample_db, w_pos = 35, w_now = 0\<rparr> =
   (Inr (sample_request\<lparr>req_CreatedAt := 0, req_UpdatedAt := 0\<rparr>, [sample_approval\<lparr>appr_RequestID := [], appr_CreatedAt := 0\<rparr>]),
    \<lparr>w_db = sample_db, w_pos = 45, w_now = 0\<rparr>)"
  by (simp add: pending_defs handlers sample Let_def cong: run_cong split del: if_split)


lemma decide_sample: "\<exists>res. DecideApproval sample_svc bob (uid 44) ApprovalApproved None pending_world = (Inr res, granted_world)"
proof -
  have "isl (fst (DecideApproval sample_svc bob (uid 44) ApprovalApproved None pending_world)) = False"
    by (simp add: pending_defs handlers decide_handlers sample Let_def cong: run_cong split del: if_split)
  then obtain res where "fst (DecideApproval sample_svc bob (uid 44) ApprovalApproved None pending_world) = Inr res"
    by (cases "fst (DecideApproval sample_svc bob (uid 44) ApprovalApproved None pending_world)") auto
  then show ?thesis unfolding granted_world_def by (metis prod.collapse)
qed

theorem DecideApproval_in_turn_witness:
  "\<exists>res d request approval. DecideApproval sample_svc bob (uid 44) ApprovalApproved None pending_world = (Inr res, granted_world) \<and>
     appr_ID approval = uid 44 \<and> in_turn d bob request approval \<and>
     vote_recorded (uid 44) bob ApprovalApproved d (w_db granted_world)"
  using decide_sample DecideApproval_in_turn [OF sample_peers] by blast

subsection \<open>Guarantees\<close>

lemma sample_running_unique: "unique_keys (w_db running_world)"
  using reachable_sound [OF sample_peers sample_fresh running_runs] by (simp add: sound_def)


theorem access_is_bounded_witness:
  "control_runs sample_svc sample_world running_world \<and> approved_request \<in> set (db_requests (w_db running_world)) \<and>
   1 \<le> req_TTLSeconds approved_request \<and> req_TTLSeconds approved_request \<le> 5 * 3600 \<and>
   running_session \<in> set (db_sessions (w_db running_world)) \<and>
   (\<exists>expires. sess_ExpiresAt running_session = Some expires \<and> 100 * second < expires \<and>
      expires \<le> 100 * second + 5 * 3600 * second)"
proof -
  have "sess_StartedAt running_session = Some (100 * second)" by (simp add: running_session_def)
  then show ?thesis
    using access_is_bounded [OF sample_peers sample_fresh running_runs] running_runs by (simp add: provision_sample)
qed

text \<open>A second request for the same asset and port is refused while the first session is open.\<close>

lemma second_request_fails: "\<exists>e w'. command_fails sample_svc granted_world e w'"
proof -
  have v: "trim_input (sample_input\<lparr>in_IdempotencyKey := ''key-0002''\<rparr>) = sample_input\<lparr>in_IdempotencyKey := ''key-0002''\<rparr>"
    "validateCreateInput (sample_input\<lparr>in_IdempotencyKey := ''key-0002''\<rparr>) = None"
    "normalize_input sample_svc (sample_input\<lparr>in_IdempotencyKey := ''key-0002''\<rparr>) = sample_input\<lparr>in_IdempotencyKey := ''key-0002''\<rparr>"
    by code_simp+
  have k: "req_IdempotencyKey approved_request = ''key-0001''" by (simp add: approved_request_def sample_request_def)
  have "isl (fst (CreateAccessRequest sample_svc (sample_input\<lparr>in_IdempotencyKey := ''key-0002''\<rparr>) granted_world))"
    by (simp add: v k is_active_status_def session_request_def new_session_def granted_value handlers decide_handlers sample Let_def cong: run_cong split del: if_split)
  then obtain e w' where "CreateAccessRequest sample_svc (sample_input\<lparr>in_IdempotencyKey := ''key-0002''\<rparr>) granted_world = (Inl e, w')"
    by (metis isl_def prod.collapse)
  then show ?thesis by (blast intro: command_fails.intros)
qed


definition admin_db :: db where
  "admin_db = sample_db\<lparr>db_assignments := [\<lparr>asg_ID = ''x'', asg_UserID = bob, asg_Role = ''admin'', asg_GrantedBy = [],
     asg_CreatedAt = 1, asg_RevokedAt = None\<rparr>]\<rparr>"


theorem claim_within_capacity_witness:
  "\<exists>claimed w'. claim_tx sample_svc new_session sample_gateway asset1 None granted_world = (Inr claimed, w') \<and>
    (\<exists>c\<in>set (db_gateways (w_db w')). gateway_ID c = gateway1 \<and>
      int (length (filter (\<lambda>r. sess_GatewayID r = gateway1 \<and> occupies_gateway r) (db_sessions (w_db w')))) \<le> gateway_MaxSessions c)"
proof -
  have "distinct (map sess_ID (db_sessions (w_db granted_world)))" by (simp add: granted_rows)
  moreover have "\<not> isl (fst (claim_tx sample_svc new_session sample_gateway asset1 None granted_world))"
    by (simp add: granted_value new_session_def handlers decide_handlers provision_handlers sample Let_def cong: run_cong
        split del: if_split)
  then obtain claimed w' where "claim_tx sample_svc new_session sample_gateway asset1 None granted_world = (Inr claimed, w')"
    by (cases "claim_tx sample_svc new_session sample_gateway asset1 None granted_world"; cases "fst (claim_tx sample_svc new_session sample_gateway asset1 None granted_world)") auto
  ultimately show ?thesis using claim_within_capacity [of granted_world sample_svc new_session sample_gateway asset1 None claimed w']
    by (auto simp: sample)
qed


theorem id_New_IsUUID_witness:
  "\<exists>i w'. id_New sample_svc sample_world = (Inr i, w') \<and> IsUUID i"
proof -
  obtain i w' where i: "id_New sample_svc sample_world = (Inr i, w')" by (simp add: sample_world_def sample_run)
  have "length (svc_rand sample_svc (w_pos sample_world)) = 16" by (simp add: sample_svc_def)
  then show ?thesis using id_New_IsUUID i by blast
qed

theorem sessions_refine_machine_witness:
  "control_runs sample_svc granted_world running_world \<and> abs_sessions (w_db granted_world) (uid 96) = Some SessionProvisioning \<and>
   session_spec\<^sup>*\<^sup>* (abs_sessions (w_db granted_world)) (abs_sessions (w_db running_world))"
  using sessions_refine_machine [OF sample_peers granted_unique provision_runs] provision_runs
  by (simp add: granted_rows abs_sessions_def status_rows_def new_session_def zero_session_def)

end
