(* ===== verification/Agent.thy ===== *)
theory Agent
  imports Provision "HOL-Library.AList"
begin

text \<open>
  The session manager of the gateway agent (\<open>gatewayagent/manager.go\<close>, \<open>store.go\<close>, \<open>catalog.go\<close>). It
  keeps one record per session in memory, writes all of them to a state file on every change, and
  calls a controller that owns the listeners. The manager holds a lock only while it reads and
  changes the records, not while it calls the controller: every operation is a sequence of locked
  sections with calls in between. A locked section is a definition of its own; the operations are
  composed of them. Time stamps are nanoseconds since the zero time.
\<close>

subsection \<open>Records\<close>

datatype agent_status =
    AgentStarting | AgentRunning | AgentStopping | AgentRevokeFailed | AgentClosed | AgentExpired | AgentFailed
  | AgentStatusText string

fun status_text :: "agent_status \<Rightarrow> string" where
  "status_text AgentStarting = ''starting''"
| "status_text AgentRunning = ''running''"
| "status_text AgentStopping = ''stopping''"
| "status_text AgentRevokeFailed = ''revoke_failed''"
| "status_text AgentClosed = ''closed''"
| "status_text AgentExpired = ''expired''"
| "status_text AgentFailed = ''failed''"
| "status_text (AgentStatusText t) = t"

record agent_record =
  ar_WebOnly :: bool
  ar_ConnectionMode :: string
  ar_ClientPublicKey :: string
  ar_ServerCertificate :: string
  ar_SessionID :: string
  ar_TargetID :: string
  ar_TargetPort :: int
  ar_SourceIP :: string
  ar_TargetAccount :: string
  ar_TTLSeconds :: int
  ar_RequestExpiresAt :: "int option"
  ar_MaxConnections :: int
  ar_ProcessID :: string
  ar_ListenerPort :: int
  ar_ExternalPort :: int
  ar_ExposureMode :: string
  ar_ExposureRef :: string
  ar_Status :: agent_status
  ar_CloseReason :: string
  ar_StartedAt :: "int option"
  ar_ExpiresAt :: "int option"
  ar_ClosedAt :: "int option"

definition zero_record :: agent_record where
  "zero_record = \<lparr>ar_WebOnly = False, ar_ConnectionMode = [], ar_ClientPublicKey = [], ar_ServerCertificate = [],
     ar_SessionID = [], ar_TargetID = [], ar_TargetPort = 0, ar_SourceIP = [], ar_TargetAccount = [], ar_TTLSeconds = 0,
     ar_RequestExpiresAt = None, ar_MaxConnections = 0, ar_ProcessID = [], ar_ListenerPort = 0, ar_ExternalPort = 0,
     ar_ExposureMode = [], ar_ExposureRef = [], ar_Status = AgentStatusText [], ar_CloseReason = [], ar_StartedAt = None,
     ar_ExpiresAt = None, ar_ClosedAt = None\<rparr>"

record agent_request = create_request +
  cq_ClientPublicKey :: string

record agent_close =
  ac_SessionID :: string
  ac_Status :: string
  ac_ClosedAt :: int

record agent_reply =
  rp_ConnectionMode :: string
  rp_SessionID :: string
  rp_Status :: string
  rp_ListenerPort :: int
  rp_ExternalPort :: int
  rp_ExposureMode :: string
  rp_ExposureRef :: string
  rp_ExpiresAt :: "int option"

datatype agent_err =
    AgentInvalidInput | AgentTargetNotAllowed | AgentSessionConflict | AgentInProgress | AgentNotFound
  | AgentCapacity | AgentDuplicate | AgentStore | AgentController | AgentRecoveryIncomplete | AgentJoined agent_err agent_err

text \<open>The options of the manager and the entries of its asset catalogue.\<close>

record agent_config =
  cfg_maxTTL :: int
  cfg_maxSessions :: int
  cfg_terminalRetention :: int
  cfg_maxTerminalRecords :: int
  cfg_allowed :: "(string \<times> int list) list"

text \<open>The map \<open>m.sessions\<close> and the contents of the state file.\<close>

record agent_state =
  as_sessions :: "(string \<times> agent_record) list"
  as_file :: "agent_record list"

definition session_of :: "string \<Rightarrow> agent_state \<Rightarrow> agent_record option" where
  "session_of i st = map_of (as_sessions st) i"

text \<open>Reading a missing key of a Go map gives the zero value.\<close>

definition session_or_zero :: "string \<Rightarrow> agent_state \<Rightarrow> agent_record" where
  "session_or_zero i st = (case session_of i st of None \<Rightarrow> zero_record | Some r \<Rightarrow> r)"

definition put_session :: "string \<Rightarrow> agent_record \<Rightarrow> agent_state \<Rightarrow> agent_state" where
  "put_session i r st = st\<lparr>as_sessions := AList.update i r (as_sessions st)\<rparr>"

definition drop_session :: "string \<Rightarrow> agent_state \<Rightarrow> agent_state" where
  "drop_session i st = st\<lparr>as_sessions := AList.delete i (as_sessions st)\<rparr>"

subsection \<open>The asset catalogue\<close>

definition catalog_entry_ok :: "string \<times> int list \<Rightarrow> bool" where
  "catalog_entry_ok e \<longleftrightarrow> IsUUID (fst e) \<and> snd e \<noteq> [] \<and> list_all (\<lambda>p. 1 \<le> p \<and> p \<le> 65535) (snd e) \<and> distinct (snd e)"

definition NewAssetCatalog :: "(string \<times> int list) list \<Rightarrow> agent_err + (string \<times> int list) list" where
  "NewAssetCatalog entries =
     (if entries = [] \<or> \<not> list_all catalog_entry_ok entries \<or> \<not> distinct (map fst entries) then Inl AgentInvalidInput
      else Inr entries)"

definition catalog_Authorize :: "agent_config \<Rightarrow> string \<Rightarrow> int \<Rightarrow> agent_err option" where
  "catalog_Authorize c targetID targetPort =
     (case map_of (cfg_allowed c) targetID of
        None \<Rightarrow> Some AgentTargetNotAllowed
      | Some ports \<Rightarrow> if targetPort \<in> set ports then None else Some AgentTargetNotAllowed)"

subsection \<open>Validation\<close>

definition validGatewayReference :: "string \<Rightarrow> bool" where
  "validGatewayReference v \<longleftrightarrow> v \<noteq> [] \<and> length v \<le> 128 \<and> TrimSpace v = v \<and> list_all process_id_char v"

text \<open>\<open>validTargetAccount\<close> of package \<open>gateway\<close> and of package \<open>gatewayagent\<close>.\<close>

definition client_validTargetAccount :: "string \<Rightarrow> bool" where
  "client_validTargetAccount v \<longleftrightarrow> length v \<le> 128 \<and> TrimSpace v = v \<and> \<not> has_control v"

definition validTargetAccount :: "string \<Rightarrow> bool" where
  "validTargetAccount v \<longleftrightarrow> TrimSpace v = v \<and> length v \<le> 128 \<and> list_all (\<lambda>c. \<not> (byte c < 32 \<or> byte c = 127)) v"

definition exact_address :: "string \<Rightarrow> bool" where
  "exact_address v \<longleftrightarrow>
     (case ParseIP v of None \<Rightarrow> False | Some ip \<Rightarrow> \<not> IsUnspecified ip \<and> \<not> IsMulticast ip) \<and> TrimSpace v = v"

definition ValidateCreateRequest :: "agent_request \<Rightarrow> bool" where
  "ValidateCreateRequest q \<longleftrightarrow>
     ValidateConnectionIdentity (cq_ConnectionMode q) (cq_ClientPublicKey q) = None \<and>
     validGatewayReference (cq_SessionID q) \<and> validGatewayReference (cq_TargetID q) \<and>
     \<not> (cq_TargetPort q < 1 \<or> cq_TargetPort q > 65535) \<and>
     \<not> (cq_TTLSeconds q < 1 \<or> cq_TTLSeconds q > 5 * 60 * 60) \<and>
     \<not> (cq_WebOnly q \<and> (cq_SourceIP q \<noteq> [] \<or> cq_ConnectionMode q \<noteq> ''audit'' \<or>
          \<not> terminal_Supported (audit_Protocol (cq_AuditPolicy q)))) \<and>
     (cq_WebOnly q \<or> exact_address (cq_SourceIP q)) \<and>
     client_validTargetAccount (cq_TargetAccount q) \<and> cq_MaxConnections q = MaxSessionConnections"

text \<open>\<open>now\<close> is the reading of the clock when the request carries an expiry.\<close>

definition validateCreateRequest :: "agent_config \<Rightarrow> int \<Rightarrow> agent_request \<Rightarrow> agent_err option" where
  "validateCreateRequest c now q =
     (if \<not> ValidateCreateRequest q then Some AgentInvalidInput
      else if \<not> IsUUID (cq_SessionID q) \<or> \<not> IsUUID (cq_TargetID q) then Some AgentInvalidInput
      else if cq_TTLSeconds q > cfg_maxTTL c div second then Some AgentInvalidInput
      else if (case cq_ExpiresAt q of None \<Rightarrow> False | Some x \<Rightarrow> \<not> now < x \<or> now + cq_TTLSeconds q * second < x)
        then Some AgentInvalidInput
      else if cq_MaxConnections q \<noteq> MaxSessionConnections then Some AgentInvalidInput
      else catalog_Authorize c (cq_TargetID q) (cq_TargetPort q))"

definition exposure_ref_char :: "char \<Rightarrow> bool" where
  "exposure_ref_char c \<longleftrightarrow> process_id_char c \<or> c = CHR ''/''"

definition validExposureMetadata :: "string \<Rightarrow> string \<Rightarrow> bool" where
  "validExposureMetadata mode reference \<longleftrightarrow>
     (mode = ''direct'' \<or> mode = ''kubernetes_nodeport'') \<and>
     \<not> (TrimSpace reference = [] \<or> TrimSpace reference \<noteq> reference \<or> length reference > 253) \<and>
     list_all exposure_ref_char reference"

definition validProcessID :: "string \<Rightarrow> bool" where
  "validProcessID v \<longleftrightarrow> \<not> (v = [] \<or> length v > 128) \<and> list_all process_id_char v"

definition controllerClockSkew :: int where
  "controllerClockSkew = 5 * second"

text \<open>The start and the expiry of the session the controller reports, if they are acceptable.\<close>

definition validateCreateResponse ::
  "agent_request \<Rightarrow> create_response \<Rightarrow> int \<Rightarrow> int \<Rightarrow> agent_err + int \<times> int" where
  "validateCreateResponse q r acceptedAt completedAt =
     (if cr_SessionID r \<noteq> cq_SessionID q \<or> \<not> validProcessID (cr_ProcessID r) \<or>
         cr_ListenerPort r < 1 \<or> cr_ListenerPort r > 65535 \<or> cr_ExternalPort r < 1 \<or> cr_ExternalPort r > 65535 \<or>
         \<not> validExposureMetadata (cr_ExposureMode r) (cr_ExposureRef r) then Inl AgentController
      else if cr_Status r \<noteq> [] \<and> cr_Status r \<noteq> ''running'' then Inl AgentController
      else
        let startedAt = (if cr_StartedAt r = 0 then completedAt else cr_StartedAt r) in
        if startedAt < acceptedAt - controllerClockSkew \<or> startedAt > completedAt + controllerClockSkew
          then Inl AgentController
        else
          let maximumExpiry = (case cq_ExpiresAt q of None \<Rightarrow> startedAt + cq_TTLSeconds q * second | Some x \<Rightarrow> x);
              expiresAt = (if cr_ExpiresAt r = 0 then maximumExpiry else cr_ExpiresAt r) in
          if \<not> completedAt < expiresAt \<or> maximumExpiry < expiresAt \<or> \<not> startedAt < expiresAt \<or>
              (cq_ExpiresAt q \<noteq> None \<and> expiresAt \<noteq> maximumExpiry) then Inl AgentController
          else if ValidateConnectionResponse (cq_ConnectionMode q) (r\<lparr>cr_ExpiresAt := expiresAt\<rparr>) \<noteq> None
            then Inl AgentController
          else Inr (startedAt, expiresAt))"

definition validateCloseResponse :: "string \<Rightarrow> agent_close \<Rightarrow> int \<Rightarrow> agent_err option" where
  "validateCloseResponse i r now =
     (if ac_SessionID r \<noteq> i then Some AgentController
      else if ac_Status r \<noteq> ''closed'' \<and> ac_Status r \<noteq> ''expired'' \<and> ac_Status r \<noteq> ''not_found'' then Some AgentController
      else if ac_ClosedAt r \<noteq> 0 \<and> now + controllerClockSkew < ac_ClosedAt r then Some AgentController
      else None)"

definition normalizeCloseReason :: "string \<Rightarrow> string" where
  "normalizeCloseReason reason0 =
     (let reason = TrimSpace reason0 in if reason = [] \<or> length reason > 128 then ''requested'' else reason)"

definition terminalStatus :: "string \<Rightarrow> agent_status" where
  "terminalStatus reason = (if reason = ''ttl_expired'' \<or> reason = ''expired'' then AgentExpired else AgentClosed)"

definition terminalSessionStatus :: "agent_status \<Rightarrow> bool" where
  "terminalSessionStatus st \<longleftrightarrow> st = AgentClosed \<or> st = AgentExpired \<or> st = AgentFailed"

text \<open>\<open>netip.ParseAddr\<close> also accepts an IPv6 address with a zone; \<open>netParseIP\<close> is empty for a text that
  is no address, and for an unspecified or multicast one.\<close>

definition netip_ParseAddr :: "string \<Rightarrow> ip option" where
  "netip_ParseAddr s =
     (let host = takeWhile (\<lambda>c. c \<noteq> CHR ''%'') s; zone = dropWhile (\<lambda>c. c \<noteq> CHR ''%'') s in
      if zone = [] then ParseIP s
      else if tl zone = [] then None
      else case ParseIP host of None \<Rightarrow> None | Some ip \<Rightarrow> if find (\<lambda>c. c = CHR ''.'' \<or> c = CHR '':'') host = Some CHR '':''
             then Some ip else None)"

definition netip_unspecified :: "string \<Rightarrow> ip \<Rightarrow> bool" where
  "netip_unspecified s ip \<longleftrightarrow>
     (if find (\<lambda>c. c = CHR ''.'' \<or> c = CHR '':'') s = Some CHR '':''
      then ip = replicate 16 0 \<and> CHR ''%'' \<notin> set s else ip = v4_prefix @ replicate 4 0)"

definition netParseIP_ok :: "string \<Rightarrow> bool" where
  "netParseIP_ok s \<longleftrightarrow>
     (case netip_ParseAddr s of None \<Rightarrow> False | Some ip \<Rightarrow> \<not> netip_unspecified s ip \<and> \<not> IsMulticast ip)"

definition validSessionParameters :: "agent_record \<Rightarrow> bool" where
  "validSessionParameters r \<longleftrightarrow> IsUUID (ar_TargetID r) \<and> 1 \<le> ar_TargetPort r \<and> ar_TargetPort r \<le> 65535 \<and>
     netParseIP_ok (ar_SourceIP r) \<and> validTargetAccount (ar_TargetAccount r) \<and>
     1 \<le> ar_TTLSeconds r \<and> ar_MaxConnections r = MaxSessionConnections"

definition hasAnySessionParameter :: "agent_record \<Rightarrow> bool" where
  "hasAnySessionParameter r \<longleftrightarrow> ar_TargetID r \<noteq> [] \<or> ar_TargetPort r \<noteq> 0 \<or> ar_SourceIP r \<noteq> [] \<or>
     ar_TargetAccount r \<noteq> [] \<or> ar_TTLSeconds r \<noteq> 0 \<or> ar_MaxConnections r \<noteq> 0"

definition validRuntimeMetadata :: "agent_record \<Rightarrow> bool" where
  "validRuntimeMetadata r \<longleftrightarrow> validProcessID (ar_ProcessID r) \<and> 1 \<le> ar_ListenerPort r \<and> ar_ListenerPort r \<le> 65535 \<and>
     1 \<le> ar_ExternalPort r \<and> ar_ExternalPort r \<le> 65535 \<and> validExposureMetadata (ar_ExposureMode r) (ar_ExposureRef r)"

definition validateRecord :: "agent_record \<Rightarrow> bool" where
  "validateRecord r \<longleftrightarrow> IsUUID (ar_SessionID r) \<and>
     (case ar_Status r of
        AgentStarting \<Rightarrow> validSessionParameters r \<and> (\<exists>st\<in>set_option (ar_StartedAt r). \<exists>x\<in>set_option (ar_ExpiresAt r).
          st < x \<and> (\<forall>y\<in>set_option (ar_RequestExpiresAt r). y = x))
      | AgentRunning \<Rightarrow> validSessionParameters r \<and> (\<exists>st\<in>set_option (ar_StartedAt r). \<exists>x\<in>set_option (ar_ExpiresAt r).
          st < x \<and> (\<forall>y\<in>set_option (ar_RequestExpiresAt r). y = x)) \<and> validRuntimeMetadata r
      | AgentStopping \<Rightarrow> hasAnySessionParameter r \<longrightarrow> validSessionParameters r
      | AgentRevokeFailed \<Rightarrow> hasAnySessionParameter r \<longrightarrow> validSessionParameters r
      | AgentClosed \<Rightarrow> ar_ClosedAt r \<noteq> None
      | AgentExpired \<Rightarrow> ar_ClosedAt r \<noteq> None
      | AgentFailed \<Rightarrow> ar_ClosedAt r \<noteq> None
      | AgentStatusText _ \<Rightarrow> False)"

definition responseFromRecord :: "agent_record \<Rightarrow> create_response" where
  "responseFromRecord r =
     \<lparr>cr_ConnectionMode = ar_ConnectionMode r, cr_ServerCertificate = ar_ServerCertificate r,
      cr_SessionID = ar_SessionID r, cr_Status = status_text (ar_Status r), cr_ProcessID = ar_ProcessID r,
      cr_ListenerPort = ar_ListenerPort r, cr_ExternalPort = ar_ExternalPort r, cr_ExposureMode = ar_ExposureMode r,
      cr_ExposureRef = ar_ExposureRef r, cr_StartedAt = (case ar_StartedAt r of None \<Rightarrow> 0 | Some t \<Rightarrow> t),
      cr_ExpiresAt = (case ar_ExpiresAt r of None \<Rightarrow> 0 | Some t \<Rightarrow> t)\<rparr>"

definition statusFromRecord :: "agent_record \<Rightarrow> agent_reply" where
  "statusFromRecord r =
     \<lparr>rp_ConnectionMode = ar_ConnectionMode r, rp_SessionID = ar_SessionID r, rp_Status = status_text (ar_Status r),
      rp_ListenerPort = ar_ListenerPort r, rp_ExternalPort = ar_ExternalPort r, rp_ExposureMode = ar_ExposureMode r,
      rp_ExposureRef = ar_ExposureRef r, rp_ExpiresAt = ar_ExpiresAt r\<rparr>"

definition sameSessionParameters :: "agent_record \<Rightarrow> agent_record \<Rightarrow> bool" where
  "sameSessionParameters l r \<longleftrightarrow> ar_WebOnly l = ar_WebOnly r \<and> ar_SessionID l = ar_SessionID r \<and>
     ar_TargetID l = ar_TargetID r \<and> ar_TargetPort l = ar_TargetPort r \<and> ar_SourceIP l = ar_SourceIP r \<and>
     ar_TargetAccount l = ar_TargetAccount r \<and> ar_TTLSeconds l = ar_TTLSeconds r \<and>
     ar_MaxConnections l = ar_MaxConnections r \<and> ar_ClientPublicKey l = ar_ClientPublicKey r \<and>
     NormalizeConnectionMode (ar_ConnectionMode l) = NormalizeConnectionMode (ar_ConnectionMode r) \<and>
     ar_RequestExpiresAt l = ar_RequestExpiresAt r"

definition sameRecoveredExposure :: "agent_record \<Rightarrow> create_response \<Rightarrow> bool" where
  "sameRecoveredExposure r p \<longleftrightarrow> cr_SessionID p = ar_SessionID r \<and> cr_Status p = ''running'' \<and>
     cr_ProcessID p = ar_ProcessID r \<and> cr_ListenerPort p = ar_ListenerPort r \<and> cr_ExternalPort p = ar_ExternalPort r \<and>
     cr_ExposureMode p = ar_ExposureMode r \<and> cr_ExposureRef p = ar_ExposureRef r \<and>
     cr_ServerCertificate p = ar_ServerCertificate r \<and>
     NormalizeConnectionMode (cr_ConnectionMode p) = NormalizeConnectionMode (ar_ConnectionMode r)"

definition recordWithinCurrentPolicy :: "agent_config \<Rightarrow> agent_record \<Rightarrow> bool" where
  "recordWithinCurrentPolicy c r \<longleftrightarrow>
     \<not> (ValidateConnectionIdentity (ar_ConnectionMode r) (ar_ClientPublicKey r) \<noteq> None \<or> ar_ExpiresAt r = None \<or>
        ValidateConnectionResponse (ar_ConnectionMode r) (responseFromRecord r) \<noteq> None) \<and>
     \<not> (ar_TTLSeconds r < 1 \<or> ar_TTLSeconds r > cfg_maxTTL c div second) \<and>
     catalog_Authorize c (ar_TargetID r) (ar_TargetPort r) = None"

subsection \<open>The state file\<close>

text \<open>A save that fails may have replaced the file already (the directory is synchronised after the
  rename).\<close>

datatype save_result = Saved | NotSaved | ReplacedUnsynced

definition expired_tombstone :: "int \<Rightarrow> agent_record \<Rightarrow> bool" where
  "expired_tombstone cutoff r \<longleftrightarrow> (case ar_ClosedAt r of None \<Rightarrow> True | Some t \<Rightarrow> t < cutoff)"

text \<open>Tombstones, the newest first.\<close>

definition sorted_terminals :: "agent_record list \<Rightarrow> agent_record list" where
  "sorted_terminals rs = sort_key (\<lambda>r. (- (case ar_ClosedAt r of None \<Rightarrow> 0 | Some t \<Rightarrow> t), ar_SessionID r)) rs"

definition recordsForPersistenceLocked ::
  "agent_config \<Rightarrow> int \<Rightarrow> (string \<times> agent_record) list \<Rightarrow> agent_record list \<times> string list" where
  "recordsForPersistenceLocked c now sessions =
     (let all = map snd sessions; cutoff = now - cfg_terminalRetention c;
          live = filter (\<lambda>r. \<not> terminalSessionStatus (ar_Status r)) all;
          old = filter (\<lambda>r. terminalSessionStatus (ar_Status r) \<and> expired_tombstone cutoff r) all;
          kept = sorted_terminals (filter (\<lambda>r. terminalSessionStatus (ar_Status r) \<and> \<not> expired_tombstone cutoff r) all);
          n = nat (cfg_maxTerminalRecords c)
      in (live @ take n kept, map ar_SessionID (old @ drop n kept)))"

definition store_Save :: "agent_record list \<Rightarrow> agent_state \<Rightarrow> agent_state" where
  "store_Save records st = st\<lparr>as_file := sort_key ar_SessionID records\<rparr>"

definition drop_removed :: "string list \<Rightarrow> agent_state \<Rightarrow> agent_state" where
  "drop_removed removed st = st\<lparr>as_sessions := filter (\<lambda>e. fst e \<notin> set removed) (as_sessions st)\<rparr>"

definition saveLocked :: "agent_config \<Rightarrow> int \<Rightarrow> save_result \<Rightarrow> agent_state \<Rightarrow> bool \<times> agent_state" where
  "saveLocked c now res st =
     (let p = recordsForPersistenceLocked c now (as_sessions st) in
      case res of
        NotSaved \<Rightarrow> (False, st)
      | ReplacedUnsynced \<Rightarrow> (False, store_Save (fst p) st)
      | Saved \<Rightarrow> (True, drop_removed (snd p) (store_Save (fst p) st)))"

subsection \<open>Locked sections\<close>

definition active_agent_status :: "agent_status \<Rightarrow> bool" where
  "active_agent_status st \<longleftrightarrow> st \<in> {AgentStarting, AgentRunning, AgentStopping, AgentRevokeFailed}"

definition activeSessionsLocked :: "agent_state \<Rightarrow> int" where
  "activeSessionsLocked st = int (length (filter (\<lambda>e. active_agent_status (ar_Status (snd e))) (as_sessions st)))"

definition start_record :: "agent_request \<Rightarrow> int \<Rightarrow> agent_record" where
  "start_record q acceptedAt =
     zero_record\<lparr>ar_WebOnly := cq_WebOnly q, ar_ConnectionMode := cq_ConnectionMode q,
       ar_ClientPublicKey := cq_ClientPublicKey q, ar_SessionID := cq_SessionID q, ar_TargetID := cq_TargetID q,
       ar_TargetPort := cq_TargetPort q, ar_SourceIP := cq_SourceIP q, ar_TargetAccount := cq_TargetAccount q,
       ar_TTLSeconds := cq_TTLSeconds q, ar_MaxConnections := cq_MaxConnections q, ar_Status := AgentStarting,
       ar_RequestExpiresAt := cq_ExpiresAt q, ar_StartedAt := Some acceptedAt,
       ar_ExpiresAt := Some (case cq_ExpiresAt q of None \<Rightarrow> acceptedAt + cq_TTLSeconds q * second | Some x \<Rightarrow> x)\<rparr>"

datatype start_outcome = StartAnswer "agent_err + create_response" | StartCall

text \<open>The first section of \<open>Start\<close>.\<close>

definition start_begin ::
  "agent_config \<Rightarrow> agent_request \<Rightarrow> int \<Rightarrow> int \<Rightarrow> save_result \<Rightarrow> agent_state \<Rightarrow> start_outcome \<times> agent_state" where
  "start_begin c q acceptedAt now res st =
     (let i = cq_SessionID q; record = start_record q acceptedAt in
      case session_of i st of
        Some existing \<Rightarrow>
          (StartAnswer
             (if \<not> sameSessionParameters existing record then Inl AgentSessionConflict
              else if ar_Status existing \<in> {AgentStarting, AgentStopping, AgentRevokeFailed} then Inl AgentInProgress
              else if ar_Status existing = AgentRunning then Inr (responseFromRecord existing)
              else Inl AgentSessionConflict), st)
      | None \<Rightarrow>
          if activeSessionsLocked st \<ge> cfg_maxSessions c then (StartAnswer (Inl AgentCapacity), st)
          else case saveLocked c now res (put_session i record st) of
                 (True, st') \<Rightarrow> (StartCall, st')
               | (False, st') \<Rightarrow> (StartAnswer (Inl AgentStore), drop_session i st'))"

definition running_record :: "create_response \<Rightarrow> agent_record \<Rightarrow> agent_record" where
  "running_record r current =
     current\<lparr>ar_Status := AgentRunning, ar_ServerCertificate := cr_ServerCertificate r, ar_ProcessID := cr_ProcessID r,
       ar_ListenerPort := cr_ListenerPort r, ar_ExternalPort := cr_ExternalPort r, ar_ExposureMode := cr_ExposureMode r,
       ar_ExposureRef := cr_ExposureRef r, ar_StartedAt := Some (cr_StartedAt r), ar_ExpiresAt := Some (cr_ExpiresAt r)\<rparr>"

text \<open>The last section of \<open>Start\<close>: the reason of the clean-up if the session could not be recorded.\<close>

definition start_end ::
  "agent_config \<Rightarrow> string \<Rightarrow> create_response \<Rightarrow> int \<Rightarrow> save_result \<Rightarrow> agent_state \<Rightarrow> string option \<times> agent_state" where
  "start_end c i r now res st =
     (case session_of i st of
        None \<Rightarrow> (Some ''state_conflict_after_start'', st)
      | Some current \<Rightarrow>
          if ar_Status current \<noteq> AgentStarting then (Some ''state_conflict_after_start'', st)
          else case saveLocked c now res (put_session i (running_record r current) st) of
                 (True, st') \<Rightarrow> (None, st')
               | (False, st') \<Rightarrow> (Some ''persist_running_failed'', st'))"

text \<open>The section of \<open>finishFailedStart\<close>, after the controller was asked to stop.\<close>

definition failed_end ::
  "agent_config \<Rightarrow> string \<Rightarrow> string \<Rightarrow> bool \<Rightarrow> int \<Rightarrow> int \<Rightarrow> save_result \<Rightarrow> agent_state \<Rightarrow> bool \<times> agent_state" where
  "failed_end c i reason stopped closedAt now res st =
     (let record0 = (case session_of i st of None \<Rightarrow> zero_record\<lparr>ar_SessionID := i\<rparr> | Some r \<Rightarrow> r);
          record1 = (if stopped then record0\<lparr>ar_Status := AgentFailed, ar_ClosedAt := Some closedAt\<rparr>
                     else record0\<lparr>ar_Status := AgentRevokeFailed\<rparr>);
          record = record1\<lparr>ar_CloseReason := reason\<rparr>
      in case saveLocked c now res (put_session i record st) of
           (True, st') \<Rightarrow> (True, st')
         | (False, st') \<Rightarrow>
             (False, if stopped then put_session i (record\<lparr>ar_Status := AgentRevokeFailed, ar_ClosedAt := None\<rparr>) st' else st'))"

datatype stop_outcome = StopAnswer "agent_err + agent_close" | StopCall string

text \<open>The first section of \<open>Stop\<close>; \<open>reason0\<close> is normalised, \<open>now\<close> its first reading of the clock.\<close>

definition stop_begin ::
  "agent_config \<Rightarrow> string \<Rightarrow> string \<Rightarrow> int \<Rightarrow> int \<Rightarrow> save_result \<Rightarrow> agent_state \<Rightarrow> stop_outcome \<times> agent_state" where
  "stop_begin c i reason0 now savedAt res st =
     (let found = session_of i st;
          record = (case found of None \<Rightarrow> zero_record\<lparr>ar_SessionID := i\<rparr> | Some r \<Rightarrow> r);
          reason = (case found of
                      None \<Rightarrow> reason0
                    | Some r \<Rightarrow> if ar_CloseReason r \<noteq> [] \<and> ar_Status r = AgentRevokeFailed \<and> reason0 \<noteq> ''ttl_expired'' \<and>
                        reason0 \<noteq> ''expired'' then ar_CloseReason r else reason0)
      in if found \<noteq> None \<and> terminalSessionStatus (ar_Status record)
         then (StopAnswer (Inr \<lparr>ac_SessionID = i, ac_Status = status_text (ar_Status record),
                 ac_ClosedAt = (case ar_ClosedAt record of None \<Rightarrow> now | Some t \<Rightarrow> t)\<rparr>), st)
         else if found \<noteq> None \<and> ar_Status record \<in> {AgentStarting, AgentStopping}
         then (StopAnswer (Inl AgentInProgress), st)
         else case saveLocked c savedAt res
                     (put_session i (record\<lparr>ar_Status := AgentStopping, ar_CloseReason := reason\<rparr>) st) of
                (True, st') \<Rightarrow> (StopCall reason, st')
              | (False, st') \<Rightarrow> (StopAnswer (Inl AgentStore),
                  case found of None \<Rightarrow> drop_session i st' | Some previous \<Rightarrow> put_session i previous st'))"

text \<open>The last section of \<open>Stop\<close> after a stop that succeeded.\<close>

definition stop_end ::
  "agent_config \<Rightarrow> string \<Rightarrow> string \<Rightarrow> int \<Rightarrow> int \<Rightarrow> save_result \<Rightarrow> agent_state \<Rightarrow> bool \<times> agent_state" where
  "stop_end c i reason closedAt now res st =
     (let record = (session_or_zero i st)\<lparr>ar_Status := terminalStatus reason, ar_CloseReason := reason, ar_ClosedAt := Some closedAt\<rparr>
      in case saveLocked c now res (put_session i record st) of
           (True, st') \<Rightarrow> (True, st')
         | (False, st') \<Rightarrow> (False, put_session i (record\<lparr>ar_Status := AgentRevokeFailed, ar_ClosedAt := None\<rparr>) st'))"

definition markRevokeFailed ::
  "agent_config \<Rightarrow> string \<Rightarrow> string \<Rightarrow> int \<Rightarrow> save_result \<Rightarrow> agent_state \<Rightarrow> bool \<times> agent_state" where
  "markRevokeFailed c i reason now res st =
     saveLocked c now res
       (put_session i ((session_or_zero i st)\<lparr>ar_Status := AgentRevokeFailed, ar_CloseReason := reason\<rparr>) st)"

definition prepareRecoveredRetry :: "string \<Rightarrow> string \<Rightarrow> agent_state \<Rightarrow> agent_state" where
  "prepareRecoveredRetry i reason st =
     put_session i ((session_or_zero i st)\<lparr>ar_Status := AgentRevokeFailed, ar_CloseReason := reason\<rparr>) st"

text \<open>The last section of \<open>Get\<close>: the controller reported a session that has ended.\<close>

definition get_end ::
  "agent_config \<Rightarrow> string \<Rightarrow> agent_status \<Rightarrow> int \<Rightarrow> int \<Rightarrow> save_result \<Rightarrow> agent_state \<Rightarrow>
   (agent_err + agent_record) \<times> agent_state" where
  "get_end c i ended closedAt now res st =
     (let current = session_or_zero i st;
          record = current\<lparr>ar_Status := ended, ar_CloseReason := ''controller_status'', ar_ClosedAt := Some closedAt\<rparr>
      in if ar_Status current = AgentRunning
         then case saveLocked c now res (put_session i record st) of
                (True, st') \<Rightarrow> (Inr record, st')
              | (False, st') \<Rightarrow> (Inl AgentStore, put_session i current st')
         else (Inr current, st))"

subsection \<open>Operations\<close>

text \<open>
  What the manager observes, by the position of the observation: the clock, the outcome of a save, the
  answers of the controller, the outcome of reading the state file, and what other goroutines do to
  the state before a section takes the lock. A controller need not be able to restore sessions.
\<close>

record agent_env =
  ae_clock :: "nat \<Rightarrow> int"
  ae_save :: "nat \<Rightarrow> save_result"
  ae_start :: "nat \<Rightarrow> agent_request \<Rightarrow> agent_err + create_response"
  ae_stop :: "nat \<Rightarrow> string \<Rightarrow> agent_err + agent_close"
  ae_status :: "nat \<Rightarrow> string \<Rightarrow> agent_err + agent_reply"
  ae_restore :: "(nat \<Rightarrow> agent_record \<Rightarrow> agent_err + create_response) option"
  ae_load :: "nat \<Rightarrow> agent_err option"
  ae_others :: "nat \<Rightarrow> agent_state \<Rightarrow> agent_state"

record agent_world =
  aw_state :: agent_state
  aw_pos :: nat

type_synonym 'a A = "agent_world \<Rightarrow> 'a \<times> agent_world"

definition returnA :: "'a \<Rightarrow> 'a A" where
  "returnA x w = (x, w)"

definition bindA :: "'a A \<Rightarrow> ('a \<Rightarrow> 'b A) \<Rightarrow> 'b A" where
  "bindA m f w = (case m w of (x, w') \<Rightarrow> f x w')"

primrec mapA :: "('a \<Rightarrow> 'b A) \<Rightarrow> 'a list \<Rightarrow> 'b list A" where
  "mapA f [] = returnA []"
| "mapA f (x # xs) = bindA (f x) (\<lambda>y. bindA (mapA f xs) (\<lambda>ys. returnA (y # ys)))"

definition readA :: "(nat \<Rightarrow> 'a) \<Rightarrow> 'a A" where
  "readA f w = (f (aw_pos w), w\<lparr>aw_pos := Suc (aw_pos w)\<rparr>)"

definition locked :: "agent_env \<Rightarrow> (int \<Rightarrow> save_result \<Rightarrow> agent_state \<Rightarrow> 'a \<times> agent_state) \<Rightarrow> 'a A" where
  "locked e f w =
     (let p = aw_pos w in
      case f (ae_clock e p) (ae_save e p) (ae_others e p (aw_state w)) of
        (x, st) \<Rightarrow> (x, w\<lparr>aw_state := st, aw_pos := Suc p\<rparr>))"

text \<open>\<open>errors.Join\<close>.\<close>

fun join_agent :: "agent_err list \<Rightarrow> agent_err option" where
  "join_agent [] = None"
| "join_agent (e # es) = Some (case join_agent es of None \<Rightarrow> e | Some e' \<Rightarrow> AgentJoined e e')"

fun agent_Is :: "agent_err \<Rightarrow> agent_err \<Rightarrow> bool" where
  "agent_Is (AgentJoined a b) t \<longleftrightarrow> AgentJoined a b = t \<or> agent_Is a t \<or> agent_Is b t"
| "agent_Is e t \<longleftrightarrow> e = t"

definition errs :: "agent_err option \<Rightarrow> agent_err list" where
  "errs e = (case e of None \<Rightarrow> [] | Some x \<Rightarrow> [x])"

definition stop_error :: "string \<Rightarrow> agent_err + agent_close \<Rightarrow> int \<Rightarrow> agent_err option" where
  "stop_error i answer now = (case answer of Inl e \<Rightarrow> Some e | Inr r \<Rightarrow> validateCloseResponse i r now)"

definition stopped_at :: "string \<Rightarrow> agent_err + agent_close \<Rightarrow> int \<Rightarrow> agent_err + int" where
  "stopped_at i answer completedAt =
     (case answer of
        Inl e \<Rightarrow> Inl e
      | Inr r \<Rightarrow>
          (case validateCloseResponse i r completedAt of
             Some e \<Rightarrow> Inl e
           | None \<Rightarrow> Inr (if ac_ClosedAt r = 0 then completedAt else ac_ClosedAt r)))"

definition finishFailedStart :: "agent_env \<Rightarrow> agent_config \<Rightarrow> string \<Rightarrow> string \<Rightarrow> agent_err option A" where
  "finishFailedStart e c i reason =
     bindA (readA (\<lambda>p. ae_stop e p i)) (\<lambda>answer.
     bindA (readA (ae_clock e)) (\<lambda>now.
     let stopErr = stop_error i answer now in
     bindA (locked e (failed_end c i reason (stopErr = None) now)) (\<lambda>persisted.
     returnA (join_agent (errs stopErr @ (if persisted then [] else [AgentStore]))))))"

definition failed_start :: "agent_env \<Rightarrow> agent_config \<Rightarrow> string \<Rightarrow> string \<Rightarrow> agent_err \<Rightarrow> (agent_err + create_response) A" where
  "failed_start e c i reason err =
     bindA (finishFailedStart e c i reason) (\<lambda>cleanupErr.
     returnA (Inl (case join_agent (err # errs cleanupErr) of None \<Rightarrow> err | Some x \<Rightarrow> x)))"

definition Start :: "agent_env \<Rightarrow> agent_config \<Rightarrow> agent_request \<Rightarrow> (agent_err + create_response) A" where
  "Start e c q =
     bindA (if cq_ExpiresAt q = None then returnA 0 else readA (ae_clock e)) (\<lambda>now.
     case validateCreateRequest c now q of
       Some err \<Rightarrow> returnA (Inl err)
     | None \<Rightarrow>
         bindA (readA (ae_clock e)) (\<lambda>acceptedAt.
         bindA (locked e (start_begin c q acceptedAt)) (\<lambda>outcome.
         case outcome of
           StartAnswer a \<Rightarrow> returnA a
         | StartCall \<Rightarrow>
             bindA (readA (\<lambda>p. ae_start e p q)) (\<lambda>answer.
             case answer of
               Inl err \<Rightarrow> failed_start e c (cq_SessionID q) ''controller_start_failed'' err
             | Inr response0 \<Rightarrow>
                 bindA (readA (ae_clock e)) (\<lambda>completedAt.
                 case validateCreateResponse q response0 acceptedAt completedAt of
                   Inl err \<Rightarrow> failed_start e c (cq_SessionID q) ''invalid_controller_response'' err
                 | Inr (startedAt, expiresAt) \<Rightarrow>
                     let response = response0\<lparr>cr_Status := ''running'', cr_StartedAt := startedAt, cr_ExpiresAt := expiresAt\<rparr> in
                     bindA (locked e (start_end c (cq_SessionID q) response)) (\<lambda>failure.
                     case failure of
                       None \<Rightarrow> returnA (Inr response)
                     | Some reason \<Rightarrow>
                         failed_start e c (cq_SessionID q) reason
                           (if reason = ''persist_running_failed'' then AgentStore else AgentSessionConflict)))))))"

definition Stop :: "agent_env \<Rightarrow> agent_config \<Rightarrow> string \<Rightarrow> string \<Rightarrow> (agent_err + agent_close) A" where
  "Stop e c i reason0 =
     (if \<not> IsUUID i then returnA (Inl AgentInvalidInput)
      else
        bindA (readA (ae_clock e)) (\<lambda>now.
        bindA (locked e (stop_begin c i (normalizeCloseReason reason0) now)) (\<lambda>outcome.
        case outcome of
          StopAnswer a \<Rightarrow> returnA a
        | StopCall reason \<Rightarrow>
            bindA (readA (\<lambda>p. ae_stop e p i)) (\<lambda>answer.
            bindA (readA (ae_clock e)) (\<lambda>completedAt.
            case stopped_at i answer completedAt of
              Inl stopErr \<Rightarrow>
                bindA (locked e (markRevokeFailed c i reason)) (\<lambda>persisted.
                returnA (Inl (if persisted then stopErr else AgentJoined stopErr AgentStore)))
            | Inr closedAt \<Rightarrow>
                bindA (locked e (stop_end c i reason closedAt)) (\<lambda>saved.
                returnA (if saved then Inr \<lparr>ac_SessionID = i, ac_Status = status_text (terminalStatus reason), ac_ClosedAt = closedAt\<rparr>
                  else Inl AgentStore)))))))"

text \<open>The status that a report of the controller stands for; a running session and an unknown report are
  handled apart.\<close>

definition reported_end :: "string \<Rightarrow> agent_status option" where
  "reported_end t =
     (if t = ''expired'' then Some AgentExpired else if t = ''failed'' then Some AgentFailed
      else if t = ''closed'' \<or> t = ''not_found'' then Some AgentClosed else None)"

definition overdue :: "int \<Rightarrow> agent_record \<Rightarrow> bool" where
  "overdue now r \<longleftrightarrow> (case ar_ExpiresAt r of None \<Rightarrow> False | Some x \<Rightarrow> \<not> now < x)"

definition agent_Get :: "agent_env \<Rightarrow> agent_config \<Rightarrow> string \<Rightarrow> (agent_err + agent_reply) A" where
  "agent_Get e c i =
     (if \<not> IsUUID i then returnA (Inl AgentInvalidInput)
      else
        bindA (locked e (\<lambda>_ _ st. (session_of i st, st))) (\<lambda>found.
        case found of
          None \<Rightarrow> returnA (Inl AgentNotFound)
        | Some record \<Rightarrow>
            if ar_Status record \<noteq> AgentRunning then returnA (Inr (statusFromRecord record))
            else
              bindA (if ar_ExpiresAt record = None then returnA 0 else readA (ae_clock e)) (\<lambda>now.
              if overdue now record
              then bindA (Stop e c i ''ttl_expired'') (\<lambda>closed.
                   returnA (case closed of
                       Inl err \<Rightarrow> Inl err
                     | Inr r \<Rightarrow> Inr ((statusFromRecord record)\<lparr>rp_Status := ac_Status r\<rparr>)))
              else
                bindA (readA (\<lambda>p. ae_status e p i)) (\<lambda>answer.
                case answer of
                  Inl err \<Rightarrow> returnA (Inl err)
                | Inr remote \<Rightarrow>
                    if rp_SessionID remote \<noteq> i then returnA (Inl AgentController)
                    else if rp_Status remote = ''running'' then
                      if NormalizeConnectionMode (rp_ConnectionMode remote) \<noteq> NormalizeConnectionMode (ar_ConnectionMode record)
                      then returnA (Inl AgentController)
                      else bindA (locked e (\<lambda>_ _ st. (session_or_zero i st, st))) (\<lambda>current.
                           returnA (Inr (statusFromRecord current)))
                    else case reported_end (rp_Status remote) of
                           None \<Rightarrow> returnA (Inl AgentController)
                         | Some ended \<Rightarrow>
                             bindA (readA (ae_clock e)) (\<lambda>closedAt.
                             bindA (locked e (get_end c i ended closedAt)) (\<lambda>r.
                             returnA (case r of Inl err \<Rightarrow> Inl err | Inr current \<Rightarrow> Inr (statusFromRecord current))))))))"

text \<open>The sessions a sweep stops, with the reasons.\<close>

definition retry_of :: "int \<Rightarrow> string \<times> agent_record \<Rightarrow> (string \<times> string) list" where
  "retry_of now k =
     (let r = snd k in
      if ar_Status r = AgentRunning \<and> overdue now r then [(fst k, ''ttl_expired'')]
      else if ar_Status r = AgentRevokeFailed
        then [(fst k, if overdue now r then ''ttl_expired'' else if ar_CloseReason r = [] then ''retry'' else ar_CloseReason r)]
        else [])"

definition retries :: "int \<Rightarrow> agent_state \<Rightarrow> (string \<times> string) list" where
  "retries now st = sort_key fst (concat (map (retry_of now) (as_sessions st)))"

definition sweep_one :: "agent_env \<Rightarrow> agent_config \<Rightarrow> string \<times> string \<Rightarrow> agent_err list A" where
  "sweep_one e c retry =
     bindA (Stop e c (fst retry) (snd retry)) (\<lambda>r.
     returnA (case r of Inl err \<Rightarrow> if agent_Is err AgentInProgress then [] else [err] | Inr _ \<Rightarrow> []))"

definition agent_ReapExpired :: "agent_env \<Rightarrow> agent_config \<Rightarrow> agent_err option A" where
  "agent_ReapExpired e c =
     bindA (readA (ae_clock e)) (\<lambda>now.
     bindA (locked e (\<lambda>_ _ st. (retries now st, st))) (\<lambda>rs.
     bindA (mapA (sweep_one e c) rs) (\<lambda>es. returnA (join_agent (concat es)))))"

text \<open>The loop of \<open>Recover\<close> over the records of the file, with the sessions it has seen.\<close>

fun check_records :: "string list \<Rightarrow> agent_record list \<Rightarrow> agent_err option" where
  "check_records seen [] = None"
| "check_records seen (r # rs) =
     (if \<not> validateRecord r then Some AgentInvalidInput
      else if ar_SessionID r \<in> set seen then Some AgentDuplicate
      else check_records (ar_SessionID r # seen) rs)"

definition recover_begin ::
  "agent_config \<Rightarrow> int \<Rightarrow> save_result \<Rightarrow> agent_state \<Rightarrow> (agent_err + agent_record list) \<times> agent_state" where
  "recover_begin c now res st =
     (let records = as_file st in
      case check_records [] records of
        Some err \<Rightarrow> (Inl err, st)
      | None \<Rightarrow>
          (case saveLocked c now res (st\<lparr>as_sessions := map (\<lambda>r. (ar_SessionID r, r)) records\<rparr>) of
             (True, st') \<Rightarrow> (Inr records, st')
           | (False, st') \<Rightarrow> (Inl AgentStore, st')))"

datatype recovery = RecoverKeep | RecoverStop string bool | RecoverRestore

text \<open>What happens to a recovered record; the flag says whether it is marked for a retry first.\<close>

definition recovery_of :: "agent_config \<Rightarrow> int \<Rightarrow> bool \<Rightarrow> agent_record \<Rightarrow> recovery" where
  "recovery_of c now restorable r =
     (if ar_Status r \<in> {AgentStarting, AgentStopping, AgentRevokeFailed}
      then RecoverStop (if ar_CloseReason r = [] then ''recovery'' else ar_CloseReason r) True
      else if ar_Status r = AgentRunning then
        if overdue now r then RecoverStop ''ttl_expired'' False
        else if \<not> recordWithinCurrentPolicy c r then RecoverStop ''catalog_or_policy_changed'' True
        else if restorable then RecoverRestore else RecoverKeep
      else RecoverKeep)"

definition recover_stop :: "agent_env \<Rightarrow> agent_config \<Rightarrow> string \<Rightarrow> string \<Rightarrow> bool \<Rightarrow> agent_err list A" where
  "recover_stop e c i reason prepare =
     bindA (if prepare then locked e (\<lambda>_ _ st. ((), prepareRecoveredRetry i reason st)) else returnA ()) (\<lambda>_.
     bindA (Stop e c i reason) (\<lambda>r. returnA (case r of Inl err \<Rightarrow> [err] | Inr _ \<Rightarrow> [])))"

definition recover_one :: "agent_env \<Rightarrow> agent_config \<Rightarrow> int \<Rightarrow> agent_record \<Rightarrow> agent_err list A" where
  "recover_one e c now r =
     (case recovery_of c now (ae_restore e \<noteq> None) r of
        RecoverKeep \<Rightarrow> returnA []
      | RecoverStop reason prepare \<Rightarrow> recover_stop e c (ar_SessionID r) reason prepare
      | RecoverRestore \<Rightarrow>
          (case ae_restore e of
             None \<Rightarrow> returnA []
           | Some restore \<Rightarrow>
               bindA (readA (\<lambda>p. restore p r)) (\<lambda>answer.
               if (case answer of Inl _ \<Rightarrow> False | Inr p \<Rightarrow> sameRecoveredExposure r p) then returnA []
               else bindA (recover_stop e c (ar_SessionID r) ''runtime_restore_failed'' True) (\<lambda>es.
                    returnA ((case answer of Inl err \<Rightarrow> err | Inr _ \<Rightarrow> AgentController) # es)))))"

definition Recover :: "agent_env \<Rightarrow> agent_config \<Rightarrow> agent_err option A" where
  "Recover e c =
     bindA (readA (ae_load e)) (\<lambda>loadErr.
     case loadErr of
       Some err \<Rightarrow> returnA (Some err)
     | None \<Rightarrow>
         bindA (locked e (recover_begin c)) (\<lambda>loaded.
         case loaded of
           Inl err \<Rightarrow> returnA (Some err)
         | Inr records \<Rightarrow>
             bindA (readA (ae_clock e)) (\<lambda>now.
             bindA (mapA (recover_one e c now) records) (\<lambda>es.
             returnA (case join_agent (concat es) of None \<Rightarrow> None | Some x \<Rightarrow> Some (AgentJoined AgentRecoveryIncomplete x))))))"

text \<open>\<open>NewManagerWithOptions\<close>: zero values stand for the defaults.\<close>

definition NewManagerWithOptions :: "agent_config \<Rightarrow> agent_err + agent_config" where
  "NewManagerWithOptions c0 =
     (let hour = 3600 * second;
          c = c0\<lparr>cfg_terminalRetention := (if cfg_terminalRetention c0 = 0 then 7 * 24 * hour else cfg_terminalRetention c0),
                 cfg_maxTerminalRecords := (if cfg_maxTerminalRecords c0 = 0 then 10000 else cfg_maxTerminalRecords c0)\<rparr>
      in if cfg_maxTTL c \<le> 0 \<or> cfg_maxTTL c > 5 * hour then Inl AgentInvalidInput
         else if cfg_maxSessions c < 1 \<or> cfg_maxSessions c > 100000 then Inl AgentInvalidInput
         else if cfg_terminalRetention c < cfg_maxTTL c \<or> cfg_terminalRetention c > 90 * 24 * hour then Inl AgentInvalidInput
         else if cfg_maxTerminalRecords c < 1 \<or> cfg_maxTerminalRecords c > 50000 then Inl AgentInvalidInput
         else Inr c)"

definition NewManager :: "int \<Rightarrow> (string \<times> int list) list \<Rightarrow> agent_err + agent_config" where
  "NewManager maxTTL catalog =
     NewManagerWithOptions \<lparr>cfg_maxTTL = maxTTL, cfg_maxSessions = 100, cfg_terminalRetention = 7 * 24 * (3600 * second),
       cfg_maxTerminalRecords = 10000, cfg_allowed = catalog\<rparr>"

text \<open>The loop of \<open>Run\<close> for the given number of ticks, after which its context is done; errors of a sweep are
  logged.\<close>

primrec agent_Run :: "agent_env \<Rightarrow> agent_config \<Rightarrow> nat \<Rightarrow> unit A" where
  "agent_Run e c 0 = returnA ()"
| "agent_Run e c (Suc n) = bindA (agent_ReapExpired e c) (\<lambda>_. agent_Run e c n)"

definition SessionCounts :: "agent_state \<Rightarrow> agent_status \<Rightarrow> nat" where
  "SessionCounts st status = length (filter (\<lambda>k. ar_Status (snd k) = status) (as_sessions st))"

definition Capacity_of :: "agent_config \<Rightarrow> agent_state \<Rightarrow> int \<times> int" where
  "Capacity_of c st = (activeSessionsLocked st, cfg_maxSessions c)"

definition OverdueSessionCount :: "int \<Rightarrow> agent_state \<Rightarrow> int" where
  "OverdueSessionCount now st =
     int (length (filter (\<lambda>k. overdue now (snd k) \<and> active_agent_status (ar_Status (snd k))) (as_sessions st)))"

end
