(* ===== verification/Interleaving.thy ===== *)
theory Interleaving
  imports Agent
begin

text \<open>
  The session manager of the agent with all its goroutines: operations in flight, the listeners the
  controller has open, and crashes. Every locked section, every answer of the controller and every
  crash is a step. \<open>listeners_recorded\<close> is the invariant that a listener that may be open is recorded
  as not ended, in memory and in the state file, so that no crash can lose it.
\<close>

subsection \<open>Steps\<close>

text \<open>Where an operation in flight stands: waiting for the controller (\<open>ActStart\<close>, \<open>ActFail\<close>, \<open>ActStop\<close>,
  \<open>ActStatus\<close>), or with its answer in hand and before its last section (\<open>ActFailed\<close>, \<open>ActStopped\<close>,
  \<open>ActStopFailed\<close>, \<open>ActEnded\<close>); \<open>ActRecover\<close> is the loop of \<open>Recover\<close>.\<close>

datatype activity =
    ActStart agent_request int
  | ActFail string string
  | ActFailed string string bool
  | ActStop string string
  | ActStopped string string
  | ActStopFailed string string
  | ActStatus string
  | ActEnded string agent_status
  | ActRecover "agent_record list" int

fun act_ids :: "activity \<Rightarrow> string set" where
  "act_ids (ActStart q t) = {cq_SessionID q}"
| "act_ids (ActFail i r) = {i}"
| "act_ids (ActFailed i r ok) = {i}"
| "act_ids (ActStop i r) = {i}"
| "act_ids (ActStopped i r) = {i}"
| "act_ids (ActStopFailed i r) = {i}"
| "act_ids (ActStatus i) = {i}"
| "act_ids (ActEnded i st) = {i}"
| "act_ids (ActRecover rs t) = ar_SessionID ` set rs"

fun is_recovery :: "activity \<Rightarrow> bool" where
  "is_recovery (ActRecover rs t) = True"
| "is_recovery _ = False"

record agent_conf =
  cf_state :: agent_state
  cf_live :: "string set"
  cf_acts :: "activity list"
  cf_up :: bool

definition pending :: "agent_conf \<Rightarrow> string set" where
  "pending x = (\<Union>a\<in>set (cf_acts x). act_ids a)"

definition serving :: "agent_conf \<Rightarrow> bool" where
  "serving x \<longleftrightarrow> cf_up x \<and> \<not> list_ex is_recovery (cf_acts x)"

text \<open>Calls of clients; a parameter of the step relation says which of them are made. A client does not
  start a session again, after the record of its end was dropped, while an older call for it is
  still running.\<close>

datatype agent_call = CallStart agent_request int | CallStop string | CallStatus string

inductive agent_step :: "agent_config \<Rightarrow> (agent_conf \<Rightarrow> agent_call \<Rightarrow> bool) \<Rightarrow> agent_conf \<Rightarrow> agent_conf \<Rightarrow> bool"
  for c :: agent_config and admit :: "agent_conf \<Rightarrow> agent_call \<Rightarrow> bool" where
  start_call: "serving x \<Longrightarrow> validateCreateRequest c now0 q = None \<Longrightarrow> admit x (CallStart q t) \<Longrightarrow>
    start_begin c q t now res (cf_state x) = (StartCall, st) \<Longrightarrow> cq_SessionID q \<notin> pending x \<Longrightarrow>
    agent_step c admit x (x\<lparr>cf_state := st, cf_acts := ActStart q t # cf_acts x\<rparr>)"
| start_answer: "serving x \<Longrightarrow> validateCreateRequest c now0 q = None \<Longrightarrow> admit x (CallStart q t) \<Longrightarrow>
    start_begin c q t now res (cf_state x) = (StartAnswer a, st) \<Longrightarrow> agent_step c admit x (x\<lparr>cf_state := st\<rparr>)"
| listener_up: "ActStart q t \<in> set (cf_acts x) \<Longrightarrow>
    agent_step c admit x (x\<lparr>cf_live := insert (cq_SessionID q) (cf_live x)\<rparr>)"
| start_done: "ActStart q t \<in> set (cf_acts x) \<Longrightarrow> validateCreateResponse q r t completed = Inr (s, y) \<Longrightarrow>
    start_end c (cq_SessionID q) (r\<lparr>cr_Status := ''running'', cr_StartedAt := s, cr_ExpiresAt := y\<rparr>) now res (cf_state x) = (None, st) \<Longrightarrow>
    agent_step c admit x (x\<lparr>cf_state := st, cf_acts := remove1 (ActStart q t) (cf_acts x)\<rparr>)"
| start_undone: "ActStart q t \<in> set (cf_acts x) \<Longrightarrow> validateCreateResponse q r t completed = Inr (s, y) \<Longrightarrow>
    start_end c (cq_SessionID q) (r\<lparr>cr_Status := ''running'', cr_StartedAt := s, cr_ExpiresAt := y\<rparr>) now res (cf_state x) = (Some reason, st) \<Longrightarrow>
    agent_step c admit x (x\<lparr>cf_state := st, cf_acts := ActFail (cq_SessionID q) reason # remove1 (ActStart q t) (cf_acts x)\<rparr>)"
| start_refused: "ActStart q t \<in> set (cf_acts x) \<Longrightarrow>
    agent_step c admit x (x\<lparr>cf_acts := ActFail (cq_SessionID q) reason # remove1 (ActStart q t) (cf_acts x)\<rparr>)"
| fail_stopped: "ActFail i reason \<in> set (cf_acts x) \<Longrightarrow> agent_step c admit x
    (x\<lparr>cf_live := cf_live x - {i}, cf_acts := ActFailed i reason True # remove1 (ActFail i reason) (cf_acts x)\<rparr>)"
| fail_not_stopped: "ActFail i reason \<in> set (cf_acts x) \<Longrightarrow> agent_step c admit x
    (x\<lparr>cf_acts := ActFailed i reason False # remove1 (ActFail i reason) (cf_acts x)\<rparr>)"
| fail_done: "ActFailed i reason ok \<in> set (cf_acts x) \<Longrightarrow> failed_end c i reason ok closedAt now res (cf_state x) = (b, st) \<Longrightarrow>
    agent_step c admit x (x\<lparr>cf_state := st, cf_acts := remove1 (ActFailed i reason ok) (cf_acts x)\<rparr>)"
| stop_call: "serving x \<Longrightarrow> IsUUID i \<Longrightarrow> admit x (CallStop i) \<Longrightarrow>
    stop_begin c i (normalizeCloseReason reason0) now0 now res (cf_state x) = (StopCall reason, st) \<Longrightarrow>
    agent_step c admit x (x\<lparr>cf_state := st, cf_acts := ActStop i reason # cf_acts x\<rparr>)"
| stop_answer: "serving x \<Longrightarrow> IsUUID i \<Longrightarrow> admit x (CallStop i) \<Longrightarrow>
    stop_begin c i (normalizeCloseReason reason0) now0 now res (cf_state x) = (StopAnswer a, st) \<Longrightarrow>
    agent_step c admit x (x\<lparr>cf_state := st\<rparr>)"
| stop_stopped: "ActStop i reason \<in> set (cf_acts x) \<Longrightarrow> agent_step c admit x
    (x\<lparr>cf_live := cf_live x - {i}, cf_acts := ActStopped i reason # remove1 (ActStop i reason) (cf_acts x)\<rparr>)"
| stop_not_stopped: "ActStop i reason \<in> set (cf_acts x) \<Longrightarrow> agent_step c admit x
    (x\<lparr>cf_acts := ActStopFailed i reason # remove1 (ActStop i reason) (cf_acts x)\<rparr>)"
| stop_done: "ActStopped i reason \<in> set (cf_acts x) \<Longrightarrow> stop_end c i reason closedAt now res (cf_state x) = (b, st) \<Longrightarrow>
    agent_step c admit x (x\<lparr>cf_state := st, cf_acts := remove1 (ActStopped i reason) (cf_acts x)\<rparr>)"
| stop_failed: "ActStopFailed i reason \<in> set (cf_acts x) \<Longrightarrow> markRevokeFailed c i reason now res (cf_state x) = (b, st) \<Longrightarrow>
    agent_step c admit x (x\<lparr>cf_state := st, cf_acts := remove1 (ActStopFailed i reason) (cf_acts x)\<rparr>)"
| status_call: "serving x \<Longrightarrow> IsUUID i \<Longrightarrow> admit x (CallStatus i) \<Longrightarrow> session_of i (cf_state x) = Some r \<Longrightarrow>
    ar_Status r = AgentRunning \<Longrightarrow> agent_step c admit x (x\<lparr>cf_acts := ActStatus i # cf_acts x\<rparr>)"
| status_running: "ActStatus i \<in> set (cf_acts x) \<Longrightarrow> agent_step c admit x (x\<lparr>cf_acts := remove1 (ActStatus i) (cf_acts x)\<rparr>)"
| status_ended: "ActStatus i \<in> set (cf_acts x) \<Longrightarrow> reported_end text = Some ended \<Longrightarrow> agent_step c admit x
    (x\<lparr>cf_live := cf_live x - {i}, cf_acts := ActEnded i ended # remove1 (ActStatus i) (cf_acts x)\<rparr>)"
| get_done: "ActEnded i ended \<in> set (cf_acts x) \<Longrightarrow> get_end c i ended closedAt now res (cf_state x) = (b, st) \<Longrightarrow>
    agent_step c admit x (x\<lparr>cf_state := st, cf_acts := remove1 (ActEnded i ended) (cf_acts x)\<rparr>)"
| listener_gone: "live \<subseteq> cf_live x \<Longrightarrow> agent_step c admit x (x\<lparr>cf_live := live\<rparr>)"
| crash: "agent_step c admit x (x\<lparr>cf_state := (cf_state x)\<lparr>as_sessions := []\<rparr>, cf_acts := [], cf_up := False\<rparr>)"
| recover_call: "\<not> cf_up x \<Longrightarrow> recover_begin c now res (cf_state x) = (Inr records, st) \<Longrightarrow>
    agent_step c admit x (x\<lparr>cf_state := st, cf_acts := [ActRecover records t], cf_up := True\<rparr>)"
| recover_refused: "\<not> cf_up x \<Longrightarrow> recover_begin c now res (cf_state x) = (Inl err, st) \<Longrightarrow>
    agent_step c admit x (x\<lparr>cf_state := st\<rparr>)"
| recover_keep: "ActRecover (r # rs) t \<in> set (cf_acts x) \<Longrightarrow> recovery_of c t restorable r \<in> {RecoverKeep, RecoverRestore} \<Longrightarrow>
    agent_step c admit x (x\<lparr>cf_acts := ActRecover rs t # remove1 (ActRecover (r # rs) t) (cf_acts x)\<rparr>)"
| recover_restore: "ActRecover (r # rs) t \<in> set (cf_acts x) \<Longrightarrow> recovery_of c t True r = RecoverRestore \<Longrightarrow>
    agent_step c admit x (x\<lparr>cf_live := insert (ar_SessionID r) (cf_live x)\<rparr>)"
| recover_stop: "ActRecover (r # rs) t \<in> set (cf_acts x) \<Longrightarrow>
    recovery_of c t restorable r = RecoverStop reason prepare \<or>
      recovery_of c t True r = RecoverRestore \<and> reason = ''runtime_restore_failed'' \<and> prepare \<Longrightarrow>
    stop_begin c (ar_SessionID r) (normalizeCloseReason reason) now0 now res
      (if prepare then prepareRecoveredRetry (ar_SessionID r) reason (cf_state x) else cf_state x) = (out, st) \<Longrightarrow>
    agent_step c admit x (x\<lparr>cf_state := st,
      cf_acts := (case out of StopCall why \<Rightarrow> [ActStop (ar_SessionID r) why] | StopAnswer _ \<Rightarrow> []) @
        ActRecover rs t # remove1 (ActRecover (r # rs) t) (cf_acts x)\<rparr>)"
| recover_end: "ActRecover [] t \<in> set (cf_acts x) \<Longrightarrow>
    agent_step c admit x (x\<lparr>cf_acts := remove1 (ActRecover [] t) (cf_acts x)\<rparr>)"

definition agent_init :: agent_conf where
  "agent_init = \<lparr>cf_state = \<lparr>as_sessions = [], as_file = []\<rparr>, cf_live = {}, cf_acts = [], cf_up = False\<rparr>"

abbreviation agent_runs :: "agent_config \<Rightarrow> (agent_conf \<Rightarrow> agent_call \<Rightarrow> bool) \<Rightarrow> agent_conf \<Rightarrow> bool" where
  "agent_runs c admit \<equiv> (agent_step c admit)\<^sup>*\<^sup>* agent_init"

text \<open>What every step keeps holds after every run; a step may use what is known of the configurations before it.\<close>

locale agent_invariant =
  fixes c :: agent_config and admit :: "agent_conf \<Rightarrow> agent_call \<Rightarrow> bool" and I :: "agent_conf \<Rightarrow> bool"
  assumes initially: "I agent_init"
    and kept: "agent_runs c admit x \<Longrightarrow> I x \<Longrightarrow> agent_step c admit x y \<Longrightarrow> I y"
begin

lemma always: "agent_runs c admit x \<Longrightarrow> I x"
  by (induction rule: rtranclp_induct) (use initially kept in blast)+

end

subsection \<open>Records in memory and in the file\<close>

definition unended :: "agent_record \<Rightarrow> bool" where
  "unended r \<longleftrightarrow> \<not> terminalSessionStatus (ar_Status r)"

definition keyed :: "agent_state \<Rightarrow> bool" where
  "keyed st \<longleftrightarrow> distinct (map fst (as_sessions st)) \<and>
     (\<forall>k r. session_of k st = Some r \<longrightarrow> k \<noteq> [] \<and> ar_SessionID r \<in> {k, []})"

definition recorded :: "agent_state \<Rightarrow> string \<Rightarrow> bool" where
  "recorded st i \<longleftrightarrow> (\<exists>r. session_of i st = Some r \<and> ar_SessionID r = i \<and> unended r)"

definition in_file :: "agent_state \<Rightarrow> string \<Rightarrow> bool" where
  "in_file st i \<longleftrightarrow> (\<exists>r\<in>set (as_file st). ar_SessionID r = i \<and> unended r)"

definition safe :: "agent_state \<Rightarrow> string \<Rightarrow> bool" where
  "safe st i \<longleftrightarrow> recorded st i \<and> in_file st i"

lemma session_of_put [simp]: "session_of j (put_session i r st) = (if j = i then Some r else session_of j st)"
  by (simp add: session_of_def put_session_def update_conv)

lemma session_of_drop [simp]: "session_of j (drop_session i st) = (if j = i then None else session_of j st)"
  by (simp add: session_of_def drop_session_def delete_conv)

lemma file_put [simp]: "as_file (put_session i r st) = as_file st" "as_file (drop_session i st) = as_file st"
  by (simp_all add: put_session_def drop_session_def)

lemma in_file_put [simp]: "in_file (put_session i r st) j = in_file st j" "in_file (drop_session i st) j = in_file st j"
  by (simp_all add: in_file_def)

lemma keyed_put: "keyed st \<Longrightarrow> i \<noteq> [] \<Longrightarrow> ar_SessionID r \<in> {i, []} \<Longrightarrow> keyed (put_session i r st)"
  by (auto simp: keyed_def put_session_def distinct_update session_of_def update_conv)

lemma keyed_drop: "keyed st \<Longrightarrow> keyed (drop_session i st)"
  by (auto simp: keyed_def drop_session_def distinct_delete session_of_def delete_conv)

lemma map_of_filter_keys: "map_of (filter (\<lambda>e. fst e \<notin> S) xs) k = (if k \<in> S then None else map_of xs k)"
  by (induction xs) auto

lemma session_of_removed:
  "session_of j (drop_removed removed st) = (if j \<in> set removed then None else session_of j st)"
  by (simp add: session_of_def drop_removed_def map_of_filter_keys)

lemma sessions_entry: "keyed st \<Longrightarrow> r \<in> set (map snd (as_sessions st)) \<Longrightarrow> \<exists>k. session_of k st = Some r"
  by (auto simp: keyed_def session_of_def)

lemma removed_terminal:
  assumes "keyed st" "j \<in> set (snd (recordsForPersistenceLocked c now (as_sessions st)))" "session_of j st = Some r"
  shows "\<not> unended r"
proof -
  from assms(2) obtain x where x: "x \<in> set (map snd (as_sessions st))" "terminalSessionStatus (ar_Status x)" "ar_SessionID x = j"
    by (fastforce simp: recordsForPersistenceLocked_def sorted_terminals_def Let_def dest!: in_set_dropD)
  then obtain k where k: "session_of k st = Some x" using sessions_entry [OF assms(1)] by blast
  have "j \<noteq> []" using assms(1,3) by (simp add: keyed_def)
  then have "k = j" using assms(1) k x(3) by (auto simp: keyed_def)
  then show ?thesis using k x(2) assms(3) by (simp add: unended_def)
qed

lemma saved_records:
  assumes "session_of j st = Some r" "ar_SessionID r = j" "unended r"
  shows "in_file (store_Save (fst (recordsForPersistenceLocked c now (as_sessions st))) st') j"
proof -
  have "r \<in> snd ` set (as_sessions st)" using map_of_SomeD [of "as_sessions st" j r] assms(1) by (force simp: session_of_def)
  then show ?thesis using assms(2,3)
    by (auto simp: in_file_def store_Save_def recordsForPersistenceLocked_def unended_def Let_def)
qed

lemma saveLocked_effect:
  assumes "saveLocked c now res st = (b, st')" "keyed st"
  shows "keyed st'"
    and "\<And>j r. session_of j st = Some r \<Longrightarrow> unended r \<Longrightarrow> session_of j st' = Some r"
    and "\<And>j r. session_of j st' = Some r \<Longrightarrow> session_of j st = Some r"
    and "\<And>j. recorded st j \<Longrightarrow> in_file st j \<or> b \<Longrightarrow> in_file st' j"
proof -
  let ?p = "recordsForPersistenceLocked c now (as_sessions st)"
  have s: "session_of j (store_Save rs x) = session_of j x" for j rs x by (simp add: session_of_def store_Save_def)
  have d: "distinct (map fst (as_sessions st'))"
    using assms by (auto simp: saveLocked_def keyed_def store_Save_def drop_removed_def Let_def distinct_map_filter split: save_result.splits)
  show sub: "session_of j st = Some r" if "session_of j st' = Some r" for j r
    using assms(1) that by (auto simp: saveLocked_def Let_def session_of_removed s split: save_result.splits if_splits)
  show "keyed st'" using assms(2) d sub by (fastforce simp: keyed_def)
  show "session_of j st' = Some r" if "session_of j st = Some r" "unended r" for j r
    using assms that removed_terminal [OF assms(2), of j c now r]
    by (auto simp: saveLocked_def Let_def session_of_removed s split: save_result.splits)
  show "in_file st' j" if r: "recorded st j" "in_file st j \<or> b" for j
  proof -
    obtain r where "session_of j st = Some r" "ar_SessionID r = j" "unended r" using r(1) by (auto simp: recorded_def)
    note new = saved_records [OF this]
    show ?thesis
      using assms(1) r(2) new [of c now st]
      by (auto simp: saveLocked_def Let_def in_file_def drop_removed_def split: save_result.splits)
  qed
qed

text \<open>A section on session \<open>i\<close> leaves the other sessions as they are, up to dropped records of ended ones.\<close>

definition touches :: "string \<Rightarrow> agent_state \<Rightarrow> agent_state \<Rightarrow> bool" where
  "touches i st st' \<longleftrightarrow> keyed st' \<and> (\<forall>j. j \<noteq> i \<longrightarrow> (safe st j \<longrightarrow> safe st' j) \<and>
     (\<forall>r. session_of j st = Some r \<and> unended r \<longrightarrow> session_of j st' = Some r))"

lemma touches_refl: "keyed st \<Longrightarrow> touches i st st"
  by (simp add: touches_def)

lemma touches_put:
  "keyed st \<Longrightarrow> i \<noteq> [] \<Longrightarrow> ar_SessionID r \<in> {i, []} \<Longrightarrow> touches i st (put_session i r st)"
  using keyed_put [of st i r] by (simp add: touches_def safe_def recorded_def)

lemma touches_drop: "keyed st \<Longrightarrow> touches i st (drop_session i st)"
  using keyed_drop [of st i] by (simp add: touches_def safe_def recorded_def)

lemma touches_trans: "touches i st st' \<Longrightarrow> touches i st' st'' \<Longrightarrow> touches i st st''"
  by (simp add: touches_def)

lemma save_put:
  assumes save: "saveLocked c now res (put_session i r st) = (b, st')" and k: "keyed st" and i: "i \<noteq> []" "ar_SessionID r \<in> {i, []}"
  shows "touches i st st'"
    and "unended r \<Longrightarrow> ar_SessionID r = i \<Longrightarrow> in_file st i \<or> b \<Longrightarrow> safe st' i"
    and "unended r \<Longrightarrow> session_of i st' = Some r"
    and "unended r \<Longrightarrow> ar_SessionID r = i \<Longrightarrow> in_file st i \<Longrightarrow> in_file st' i"
proof -
  note e = saveLocked_effect [OF save keyed_put [OF k i]]
  have "safe st' j" if "j \<noteq> i" "safe st j" for j
  proof -
    have "recorded (put_session i r st) j" "in_file (put_session i r st) j" using that by (simp_all add: safe_def recorded_def)
    then show ?thesis using e(2,4) by (auto simp: safe_def recorded_def)
  qed
  moreover have "session_of j st' = Some x" if "j \<noteq> i" "session_of j st = Some x" "unended x" for j x
    using that e(2) by simp
  ultimately show "touches i st st'" using e(1) unfolding touches_def by blast
  assume r: "unended r"
  then show s: "session_of i st' = Some r" using e(2) by simp
  assume "ar_SessionID r = i"
  then have "recorded (put_session i r st) i" using r by (simp add: recorded_def)
  then have "in_file st i \<or> b \<Longrightarrow> in_file st' i" using e(4) by simp
  then show "in_file st i \<or> b \<Longrightarrow> safe st' i" "in_file st i \<Longrightarrow> in_file st' i"
    using s r \<open>ar_SessionID r = i\<close> by (auto simp: safe_def recorded_def)
qed

subsection \<open>Sections\<close>

lemma unended_status [simp]:
  "ar_Status r \<in> {AgentStarting, AgentRunning, AgentStopping, AgentRevokeFailed} \<Longrightarrow> unended r"
  by (auto simp: unended_def terminalSessionStatus_def)

lemma keyed_session: "keyed st \<Longrightarrow> session_of i st = Some r \<Longrightarrow> i \<noteq> [] \<and> ar_SessionID r \<in> {i, []}"
  by (simp add: keyed_def)

lemma safe_session: "safe st i \<Longrightarrow> session_of i st = Some r \<Longrightarrow> ar_SessionID r = i \<and> unended r \<and> in_file st i"
  by (auto simp: safe_def recorded_def)

text \<open>Storing an unended record, and then another one, keeps a session safe.\<close>

lemma safe_put: "in_file st i \<Longrightarrow> ar_SessionID r = i \<Longrightarrow> unended r \<Longrightarrow> safe (put_session i r st) i"
  by (simp add: safe_def recorded_def)

lemma safe_found: "safe st i \<Longrightarrow> \<exists>r. session_of i st = Some r"
  by (auto simp: safe_def recorded_def)

lemma touches_save_put:
  assumes "saveLocked c now res (put_session i r st) = (b, st')" "keyed st" "i \<noteq> []" "ar_SessionID r \<in> {i, []}"
  shows "ar_SessionID r' \<in> {i, []} \<Longrightarrow> touches i st (put_session i r' st')" "touches i st (drop_session i st')"
proof -
  have t: "touches i st st'" using save_put(1) assms by blast
  then have k: "keyed st'" by (simp add: touches_def)
  show "ar_SessionID r' \<in> {i, []} \<Longrightarrow> touches i st (put_session i r' st')"
    using touches_trans t touches_put [OF k assms(3)] by blast
  show "touches i st (drop_session i st')" using touches_trans t touches_drop [OF k] by blast
qed

lemma start_begin_call:
  assumes "start_begin c q t now res st = (StartCall, st')" "keyed st" "cq_SessionID q \<noteq> []"
  shows "session_of (cq_SessionID q) st = None \<and> touches (cq_SessionID q) st st' \<and> safe st' (cq_SessionID q) \<and>
    session_of (cq_SessionID q) st' = Some (start_record q t)"
proof -
  let ?i = "cq_SessionID q" and ?r = "start_record q t"
  have n: "session_of ?i st = None" and save: "saveLocked c now res (put_session ?i ?r st) = (True, st')"
    using assms(1) by (auto simp: start_begin_def Let_def split: option.splits if_splits prod.splits bool.splits)
  have r: "ar_SessionID ?r = ?i" "unended ?r" by (simp_all add: start_record_def)
  show ?thesis using n save_put [OF save assms(2,3)] r by simp
qed

lemma start_begin_answer:
  assumes "start_begin c q t now res st = (StartAnswer a, st')" "keyed st" "cq_SessionID q \<noteq> []"
  shows "st' = st \<or> session_of (cq_SessionID q) st = None \<and> touches (cq_SessionID q) st st'"
proof -
  let ?i = "cq_SessionID q" and ?r = "start_record q t"
  consider "st' = st"
    | st1 where "session_of ?i st = None" "saveLocked c now res (put_session ?i ?r st) = (False, st1)" "st' = drop_session ?i st1"
    using assms(1) by (auto simp: start_begin_def Let_def split: option.splits if_splits prod.splits bool.splits)
  then show ?thesis
  proof cases
    case 2
    have "ar_SessionID ?r \<in> {?i, []}" by (simp add: start_record_def)
    then show ?thesis using touches_save_put(2) [OF 2(2) assms(2,3)] 2 by simp
  qed simp
qed

lemma start_end_effect:
  assumes "start_end c i r now res st = (out, st')" "keyed st" "safe st i" "session_of i st = Some x" "ar_Status x = AgentStarting"
  shows "touches i st st' \<and> safe st' i"
proof -
  have x: "i \<noteq> []" "ar_SessionID x = i" "in_file st i" using keyed_session safe_session assms(2-4) by blast+
  have r: "ar_SessionID (running_record r x) = i" "unended (running_record r x)" using x(2) by (simp_all add: running_record_def)
  obtain b where "saveLocked c now res (put_session i (running_record r x) st) = (b, st')"
    using assms(1,4,5) by (auto simp: start_end_def split: prod.splits bool.splits)
  then show ?thesis using save_put [OF _ assms(2) x(1)] r x(3) by simp
qed

lemma failed_end_effect:
  assumes "failed_end c i reason ok closedAt now res st = (b, st')" "keyed st" "i \<noteq> []"
  shows "touches i st st' \<and> (\<not> ok \<longrightarrow> safe st i \<longrightarrow> safe st' i)"
proof -
  define row0 where "row0 = (case session_of i st of None \<Rightarrow> zero_record\<lparr>ar_SessionID := i\<rparr> | Some r \<Rightarrow> r)"
  define row where "row = (if ok then row0\<lparr>ar_Status := AgentFailed, ar_ClosedAt := Some closedAt\<rparr>
      else row0\<lparr>ar_Status := AgentRevokeFailed\<rparr>)\<lparr>ar_CloseReason := reason\<rparr>"
  have r: "ar_SessionID row \<in> {i, []}"
    using keyed_session [OF assms(2)] by (auto simp: row_def row0_def split: option.splits)
  obtain st1 where save: "saveLocked c now res (put_session i row st) = (b, st1)"
    and st': "st' = (if b \<or> \<not> ok then st1 else put_session i (row\<lparr>ar_Status := AgentRevokeFailed, ar_ClosedAt := None\<rparr>) st1)"
    using assms(1) by (auto simp: failed_end_def Let_def row_def row0_def split: prod.splits bool.splits if_splits)
  have "touches i st st'" using save_put(1) [OF save assms(2,3) r] touches_save_put(1) [OF save assms(2,3) r] r st' by auto
  moreover have "safe st' i" if "\<not> ok" "safe st i"
  proof -
    obtain x where x: "session_of i st = Some x" using safe_found [OF \<open>safe st i\<close>] by blast
    have "ar_SessionID row = i" "unended row" "in_file st i"
      using safe_session [OF that(2) x] that(1) x by (simp_all add: row_def row0_def)
    then show ?thesis using save_put(2) [OF save assms(2,3) r] st' that(1) by simp
  qed
  ultimately show ?thesis by blast
qed

text \<open>The first section of \<open>Stop\<close> answers at once, or marks the session and tries to save.\<close>

lemma stop_begin_cases:
  assumes "stop_begin c i reason0 now0 now res st = (out, st')"
  defines "row \<equiv> (case session_of i st of None \<Rightarrow> zero_record\<lparr>ar_SessionID := i\<rparr> | Some r \<Rightarrow> r)"
  obtains (answer) a where "out = StopAnswer a" "st' = st"
    | (saved) reason b st1 where "\<forall>r. session_of i st = Some r \<longrightarrow> ar_Status r \<notin> {AgentStarting, AgentStopping}"
      "saveLocked c now res (put_session i (row\<lparr>ar_Status := AgentStopping, ar_CloseReason := reason\<rparr>) st) = (b, st1)"
      "st' = (if b then st1 else case session_of i st of None \<Rightarrow> drop_session i st1 | Some r \<Rightarrow> put_session i r st1)"
      "out = (if b then StopCall reason else StopAnswer (Inl AgentStore))"
proof (cases "session_of i st")
  case None
  then show ?thesis using assms(1) saved
    by (cases "saveLocked c now res (put_session i (row\<lparr>ar_Status := AgentStopping, ar_CloseReason := reason0\<rparr>) st)")
       (auto simp: stop_begin_def Let_def row_def split: if_splits bool.splits)
next
  case (Some r)
  define reason where "reason = (if ar_CloseReason r \<noteq> [] \<and> ar_Status r = AgentRevokeFailed \<and> reason0 \<noteq> ''ttl_expired'' \<and>
                        reason0 \<noteq> ''expired'' then ar_CloseReason r else reason0)"
  show ?thesis
  proof (cases "terminalSessionStatus (ar_Status r) \<or> ar_Status r \<in> {AgentStarting, AgentStopping}")
    case True
    then show ?thesis using assms(1) Some answer by (auto simp: stop_begin_def Let_def split: if_splits)
  next
    case False
    obtain b st1 where b: "saveLocked c now res (put_session i (r\<lparr>ar_Status := AgentStopping, ar_CloseReason := reason\<rparr>) st) = (b, st1)"
      by fastforce
    then have "stop_begin c i reason0 now0 now res st = (if b then StopCall reason else StopAnswer (Inl AgentStore), if b then st1 else put_session i r st1)"
      using Some False by (simp add: stop_begin_def Let_def reason_def [symmetric] split: bool.splits)
    then show ?thesis using saved [of reason b st1] assms(1) Some False b by (simp add: row_def)
  qed
qed

lemma stop_begin_effect:
  assumes "stop_begin c i reason0 now0 now res st = (out, st')" "keyed st" "i \<noteq> []"
  shows "(out \<noteq> StopCall why \<and> st' = st) \<or> touches i st st' \<and> (safe st i \<longrightarrow> safe st' i) \<and>
    (\<forall>r. session_of i st = Some r \<longrightarrow> ar_Status r \<noteq> AgentStarting)"
proof -
  define row where "row = (case session_of i st of None \<Rightarrow> zero_record\<lparr>ar_SessionID := i\<rparr> | Some r \<Rightarrow> r)"
  have r0: "ar_SessionID row \<in> {i, []}" using keyed_session [OF assms(2)] by (auto simp: row_def split: option.splits)
  from assms(1) show ?thesis
  proof (cases rule: stop_begin_cases)
    case (saved reason b st1)
    note 2 = saved [folded row_def]
    let ?r = "row\<lparr>ar_Status := AgentStopping, ar_CloseReason := reason\<rparr>"
    have r: "ar_SessionID ?r \<in> {i, []}" using r0 by simp
    have "touches i st st'"
      using save_put(1) [OF 2(2) assms(2,3) r] touches_save_put [OF 2(2) assms(2,3) r] keyed_session [OF assms(2)] 2(3)
      by (auto split: option.splits if_splits)
    moreover have "safe st' i" if "safe st i"
    proof -
      obtain x where x: "session_of i st = Some x" using safe_found [OF \<open>safe st i\<close>] by blast
      note sx = safe_session [OF that x]
      have "ar_SessionID ?r = i" "unended ?r" using sx x by (simp_all add: row_def)
      then have "safe st1 i" "in_file st1 i" using save_put [OF 2(2) assms(2,3) r] sx by (auto simp: safe_def)
      then show ?thesis using 2(3) x safe_put [of st1 i x] sx by simp
    qed
    ultimately show ?thesis using 2(1) by blast
  qed simp
qed

lemma session_or_zero_id: "keyed st \<Longrightarrow> ar_SessionID (session_or_zero i st) \<in> {i, []}"
  using keyed_session [of st i] by (auto simp: session_or_zero_def zero_record_def split: option.splits)

lemma stop_end_effect:
  assumes "stop_end c i reason closedAt now res st = (b, st')" "keyed st" "i \<noteq> []"
  shows "touches i st st'"
proof -
  define row where "row = (session_or_zero i st)\<lparr>ar_Status := terminalStatus reason, ar_CloseReason := reason, ar_ClosedAt := Some closedAt\<rparr>"
  have r: "ar_SessionID row \<in> {i, []}" using session_or_zero_id [OF assms(2)] by (simp add: row_def)
  obtain st1 where "saveLocked c now res (put_session i row st) = (b, st1)"
    "st' = (if b then st1 else put_session i (row\<lparr>ar_Status := AgentRevokeFailed, ar_ClosedAt := None\<rparr>) st1)"
    using assms(1) by (auto simp: stop_end_def Let_def row_def split: prod.splits bool.splits)
  then show ?thesis using save_put(1) [OF _ assms(2,3) r] touches_save_put(1) [OF _ assms(2,3) r] r by auto
qed

lemma markRevokeFailed_effect:
  assumes "markRevokeFailed c i reason now res st = (b, st')" "keyed st" "i \<noteq> []"
  shows "touches i st st' \<and> (safe st i \<longrightarrow> safe st' i)"
proof -
  let ?r = "(session_or_zero i st)\<lparr>ar_Status := AgentRevokeFailed, ar_CloseReason := reason\<rparr>"
  have r: "ar_SessionID ?r \<in> {i, []}" using session_or_zero_id [OF assms(2)] by simp
  have save: "saveLocked c now res (put_session i ?r st) = (b, st')" using assms(1) by (simp add: markRevokeFailed_def)
  have "safe st' i" if "safe st i"
  proof -
    obtain x where x: "session_of i st = Some x" using safe_found [OF \<open>safe st i\<close>] by blast
    show ?thesis using save_put(2) [OF save assms(2,3) r] safe_session [OF that x] x by (simp add: session_or_zero_def)
  qed
  then show ?thesis using save_put(1) [OF save assms(2,3) r] by blast
qed

lemma prepareRecoveredRetry_effect:
  assumes "keyed st" "session_of i st = Some r" "safe st i"
  shows "touches i st (prepareRecoveredRetry i reason st) \<and> safe (prepareRecoveredRetry i reason st) i"
proof -
  have r: "i \<noteq> []" "ar_SessionID r = i" "in_file st i" using keyed_session [OF assms(1,2)] safe_session [OF assms(3,2)] by simp_all
  then show ?thesis
    unfolding prepareRecoveredRetry_def session_or_zero_def assms(2)
    by (auto intro!: touches_put safe_put assms(1))
qed

lemma get_end_effect:
  assumes "get_end c i ended closedAt now res st = (b, st')" "keyed st" "i \<noteq> []"
  shows "st' = st \<or> touches i st st' \<and> (\<exists>r. session_of i st = Some r \<and> ar_Status r = AgentRunning)"
proof -
  let ?x = "session_or_zero i st"
  let ?r = "?x\<lparr>ar_Status := ended, ar_CloseReason := ''controller_status'', ar_ClosedAt := Some closedAt\<rparr>"
  have r: "ar_SessionID ?r \<in> {i, []}" "ar_SessionID ?x \<in> {i, []}" using session_or_zero_id [OF assms(2)] by simp_all
  consider "st' = st" | st1 b' where "ar_Status ?x = AgentRunning" "saveLocked c now res (put_session i ?r st) = (b', st1)"
      "st' = (if b' then st1 else put_session i ?x st1)"
    using assms(1) by (auto simp: get_end_def Let_def split: prod.splits bool.splits if_splits)
  then show ?thesis
  proof cases
    case 2
    have "session_of i st = Some ?x" using 2(1) by (auto simp: session_or_zero_def zero_record_def split: option.splits)
    moreover have "touches i st st'"
      using 2(3) save_put(1) [OF 2(2) assms(2,3) r(1)] touches_save_put(1) [OF 2(2) assms(2,3) r] by auto
    ultimately show ?thesis using 2(1) by blast
  qed blast
qed

subsection \<open>The invariant\<close>

text \<open>A start in flight owns its session, and so does the recovery loop the sessions it has not reached.\<close>

fun owns :: "activity \<Rightarrow> bool" where
  "owns (ActStart q t) = True"
| "owns (ActRecover rs t) = (rs \<noteq> [])"
| "owns _ = False"

fun owner_ok :: "agent_state \<Rightarrow> activity \<Rightarrow> bool" where
  "owner_ok st (ActStart q t) \<longleftrightarrow> safe st (cq_SessionID q) \<and>
     (\<exists>r. session_of (cq_SessionID q) st = Some r \<and> ar_Status r = AgentStarting)"
| "owner_ok st (ActRecover rs t) \<longleftrightarrow> distinct (map ar_SessionID rs) \<and>
     (\<forall>r\<in>set rs. unended r \<longrightarrow> session_of (ar_SessionID r) st = Some r \<and> safe st (ar_SessionID r))"
| "owner_ok st _ \<longleftrightarrow> True"

text \<open>An operation that is about to record an end knows that the listener is gone.\<close>

fun ended_ok :: "string set \<Rightarrow> activity \<Rightarrow> bool" where
  "ended_ok live (ActFailed i reason ok) \<longleftrightarrow> ok \<longrightarrow> i \<notin> live"
| "ended_ok live (ActStopped i reason) \<longleftrightarrow> i \<notin> live"
| "ended_ok live (ActEnded i ended) \<longleftrightarrow> i \<notin> live"
| "ended_ok live _ \<longleftrightarrow> True"

definition acts_ok :: "agent_state \<Rightarrow> string set \<Rightarrow> activity list \<Rightarrow> bool" where
  "acts_ok st live acts \<longleftrightarrow> distinct (filter owns acts) \<and>
     (\<forall>a\<in>set acts. owner_ok st a \<and> ended_ok live a \<and> [] \<notin> act_ids a \<and>
        (owns a \<longrightarrow> (\<forall>b\<in>set acts. act_ids a \<inter> act_ids b \<noteq> {} \<longrightarrow> b = a)))"

definition listeners_recorded :: "agent_conf \<Rightarrow> bool" where
  "listeners_recorded x \<longleftrightarrow> (\<forall>i\<in>cf_live x. in_file (cf_state x) i) \<and> (\<not> cf_up x \<longrightarrow> cf_acts x = []) \<and>
     (cf_up x \<longrightarrow> keyed (cf_state x) \<and> (\<forall>i\<in>cf_live x. recorded (cf_state x) i) \<and>
       acts_ok (cf_state x) (cf_live x) (cf_acts x))"

lemma acts_okI:
  assumes "distinct (filter owns acts)" "\<And>a. a \<in> set acts \<Longrightarrow> owner_ok st a \<and> ended_ok live a \<and> [] \<notin> act_ids a"
    "\<And>a b j. a \<in> set acts \<Longrightarrow> owns a \<Longrightarrow> b \<in> set acts \<Longrightarrow> j \<in> act_ids a \<Longrightarrow> j \<in> act_ids b \<Longrightarrow> b = a"
  shows "acts_ok st live acts"
  using assms unfolding acts_ok_def by blast

lemma listeners_recordedI:
  assumes "cf_up x" "keyed st" "\<And>i. i \<in> live \<Longrightarrow> safe st i" "acts_ok st live acts"
  shows "listeners_recorded (x\<lparr>cf_state := st, cf_live := live, cf_acts := acts\<rparr>)"
  using assms by (simp add: listeners_recorded_def safe_def)

lemma recorded_up: "listeners_recorded x \<Longrightarrow> a \<in> set (cf_acts x) \<Longrightarrow> cf_up x"
  by (auto simp: listeners_recorded_def)

lemma recorded_acts:
  assumes "listeners_recorded x" "a \<in> set (cf_acts x)"
  shows "owner_ok (cf_state x) a" "ended_ok (cf_live x) a" "[] \<notin> act_ids a"
    and "owns a \<Longrightarrow> b \<in> set (cf_acts x) \<Longrightarrow> i \<in> act_ids a \<Longrightarrow> i \<in> act_ids b \<Longrightarrow> b = a"
proof -
  have "acts_ok (cf_state x) (cf_live x) (cf_acts x)" using assms(1) recorded_up [OF assms] by (simp add: listeners_recorded_def)
  then show "owner_ok (cf_state x) a" "ended_ok (cf_live x) a" "[] \<notin> act_ids a"
    "owns a \<Longrightarrow> b \<in> set (cf_acts x) \<Longrightarrow> i \<in> act_ids a \<Longrightarrow> i \<in> act_ids b \<Longrightarrow> b = a"
    using assms(2) unfolding acts_ok_def by blast+
qed

lemma owns_once:
  assumes "listeners_recorded x" "owns a"
  shows "a \<notin> set (remove1 a (cf_acts x))"
proof -
  have "distinct (filter owns (cf_acts x))"
    using assms(1) by (cases "cf_up x") (simp_all add: listeners_recorded_def acts_ok_def)
  then have "a \<notin> set (filter owns (remove1 a (cf_acts x)))" by (simp add: filter_remove1 set_remove1_eq)
  then show ?thesis using assms(2) by simp
qed

lemma owner_ok_free: "\<not> owns a \<Longrightarrow> owner_ok st a"
  by (cases a) simp_all

text \<open>A section on session \<open>i\<close> that replaces operations on \<open>i\<close> by others that own nothing.\<close>

lemma recorded_section:
  assumes inv: "listeners_recorded x" "cf_up x" and t: "touches i (cf_state x) st"
    and live: "live \<subseteq> cf_live x" "i \<in> live \<Longrightarrow> safe st i"
    and acts: "\<And>b. b \<in> set acts \<Longrightarrow> b \<in> set (cf_acts x) \<and> (owns b \<longrightarrow> i \<notin> act_ids b) \<or>
      \<not> owns b \<and> act_ids b \<subseteq> {i} \<and> i \<noteq> [] \<and> ended_ok live b"
    and dist: "distinct (filter owns acts)"
  shows "listeners_recorded (x\<lparr>cf_state := st, cf_live := live, cf_acts := acts\<rparr>)"
proof -
  note old = recorded_acts [OF inv(1)]
  have live0: "safe (cf_state x) j" if "j \<in> cf_live x" for j using inv that by (simp add: listeners_recorded_def safe_def)
  have safe: "safe st j" if "j \<in> live" for j using that live live0 t by (cases "j = i") (auto simp: touches_def)
  have own: "owner_ok st b" if "b \<in> set (cf_acts x)" "owns b \<longrightarrow> i \<notin> act_ids b" for b
    using old(1) [OF that(1)] that(2) t by (cases b) (auto simp: touches_def)
  have ended: "ended_ok live b" if "b \<in> set (cf_acts x)" for b
    using old(2) [OF that] live(1) by (cases b) auto
  have each: "owner_ok st a \<and> ended_ok live a \<and> [] \<notin> act_ids a" if "a \<in> set acts" for a
    using acts [OF that]
  proof
    assume "a \<in> set (cf_acts x) \<and> (owns a \<longrightarrow> i \<notin> act_ids a)"
    then show ?thesis using own ended old(3) by blast
  qed (auto simp: owner_ok_free)
  have alone: "b = a" if "a \<in> set acts" "owns a" "b \<in> set acts" "j \<in> act_ids a" "j \<in> act_ids b" for a b j
  proof -
    have a: "a \<in> set (cf_acts x)" "i \<notin> act_ids a" using acts [OF that(1)] that(2) by simp_all
    then have "\<not> act_ids b \<subseteq> {i}" using that(4,5) by fastforce
    then have "b \<in> set (cf_acts x)" using acts [OF that(3)] by simp
    then show ?thesis by (rule old(4) [OF a(1) that(2) _ that(4,5)])
  qed
  have "acts_ok st live acts" by (rule acts_okI [OF dist each alone])
  moreover have "keyed st" using t by (simp add: touches_def)
  ultimately show ?thesis using safe inv(2) by (intro listeners_recordedI)
qed

lemma distinct_owners: "listeners_recorded x \<Longrightarrow> distinct (filter owns (cf_acts x))"
  by (cases "cf_up x") (simp_all add: listeners_recorded_def acts_ok_def)

lemma recorded_live0: "listeners_recorded x \<Longrightarrow> cf_up x \<Longrightarrow> i \<in> cf_live x \<Longrightarrow> safe (cf_state x) i"
  by (simp add: listeners_recorded_def safe_def)

lemma recorded_keyed: "listeners_recorded x \<Longrightarrow> cf_up x \<Longrightarrow> keyed (cf_state x)"
  by (simp add: listeners_recorded_def)

text \<open>An operation on \<open>i\<close> goes on, or ends.\<close>

lemma recorded_replace:
  assumes inv: "listeners_recorded x" "a \<in> set (cf_acts x)" "act_ids a = {i}"
    and t: "touches i (cf_state x) st" and live: "live \<subseteq> cf_live x" "i \<in> live \<Longrightarrow> safe st i"
    and new: "\<And>b. b \<in> set new \<Longrightarrow> \<not> owns b \<and> act_ids b \<subseteq> {i} \<and> ended_ok live b"
  shows "listeners_recorded (x\<lparr>cf_state := st, cf_live := live, cf_acts := new @ remove1 a (cf_acts x)\<rparr>)"
proof (rule recorded_section [OF inv(1) recorded_up [OF inv(1,2)] t live])
  fix b assume b: "b \<in> set (new @ remove1 a (cf_acts x))"
  show "b \<in> set (cf_acts x) \<and> (owns b \<longrightarrow> i \<notin> act_ids b) \<or> \<not> owns b \<and> act_ids b \<subseteq> {i} \<and> i \<noteq> [] \<and> ended_ok live b"
  proof (cases "b \<in> set new")
    case True
    then show ?thesis using new recorded_acts(3) [OF inv(1,2)] inv(3) by auto
  next
    case False
    then have r: "b \<in> set (remove1 a (cf_acts x))" using b by simp
    then have "b \<in> set (cf_acts x)" using notin_set_remove1 by fastforce
    moreover have "i \<notin> act_ids b" if "owns b"
    proof
      assume "i \<in> act_ids b"
      then have "a = b" using recorded_acts(4) [OF inv(1) \<open>b \<in> set (cf_acts x)\<close> that inv(2)] inv(3) by simp
      then show False using owns_once [OF inv(1) that] r by simp
    qed
    ultimately show ?thesis by blast
  qed
next
  have "filter owns new = []" using new by (auto simp: filter_empty_conv)
  then show "distinct (filter owns (new @ remove1 a (cf_acts x)))"
    using distinct_owners [OF inv(1)] by (simp add: filter_remove1 distinct_remove1)
qed

text \<open>The controller opens a listener of a session that is owned.\<close>

lemma recorded_listener:
  assumes inv: "listeners_recorded x" "a \<in> set (cf_acts x)" "owns a" "i \<in> act_ids a" and s: "safe (cf_state x) i"
  shows "listeners_recorded (x\<lparr>cf_live := insert i (cf_live x)\<rparr>)"
proof -
  have up: "cf_up x" by (rule recorded_up [OF inv(1,2)])
  have "ended_ok (insert i (cf_live x)) b" if "b \<in> set (cf_acts x)" for b
  proof (cases "i \<in> act_ids b")
    case True
    then have "b = a" using recorded_acts(4) [OF inv(1-3) that inv(4)] by blast
    then show ?thesis using inv(3) by (cases a) simp_all
  next
    case False
    then show ?thesis using recorded_acts(2) [OF inv(1) that] by (cases b) auto
  qed
  then have "acts_ok (cf_state x) (insert i (cf_live x)) (cf_acts x)"
    using distinct_owners [OF inv(1)] recorded_acts [OF inv(1)] by (intro acts_okI) blast+
  then show ?thesis using inv(1) s up by (simp add: listeners_recorded_def safe_def)
qed

lemma recorded_add_owner:
  assumes inv: "listeners_recorded x" "cf_up x" and a: "owns a" "owner_ok (cf_state x) a" "[] \<notin> act_ids a" "act_ids a \<inter> pending x = {}" "act_ids a \<noteq> {}"
  shows "listeners_recorded (x\<lparr>cf_acts := a # cf_acts x\<rparr>)"
proof -
  have n: "act_ids a \<inter> act_ids b = {}" if "b \<in> set (cf_acts x)" for b using a(4) that by (auto simp: pending_def)
  then have "a \<notin> set (cf_acts x)" using a(5) by auto
  moreover have "ended_ok (cf_live x) a" using a(1) by (cases a) simp_all
  moreover have "b = a'" if "a' \<in> set (a # cf_acts x)" "owns a'" "b \<in> set (a # cf_acts x)" "j \<in> act_ids a'" "j \<in> act_ids b" for a' b j
  proof -
    from that(1,3-) n consider "a' = a" "b = a" | "a' \<in> set (cf_acts x)" "b \<in> set (cf_acts x)" by auto
    then show ?thesis using recorded_acts(4) [OF inv(1) _ that(2) _ that(4,5)] by cases simp_all
  qed
  ultimately have "acts_ok (cf_state x) (cf_live x) (a # cf_acts x)"
    using a recorded_acts(1-3) [OF inv(1)] distinct_owners [OF inv(1)] by (intro acts_okI) (simp, (simp; blast), blast)
  then show ?thesis using inv by (simp add: listeners_recorded_def)
qed

text \<open>Dropping operations, as a crash does to all of them and the end of a recovery to one.\<close>

lemma recorded_fewer:
  assumes inv: "listeners_recorded x" and s: "set acts \<subseteq> set (cf_acts x)" "distinct (filter owns acts)"
  shows "listeners_recorded (x\<lparr>cf_acts := acts\<rparr>)"
proof (cases "cf_up x")
  case True
  have "owner_ok (cf_state x) a \<and> ended_ok (cf_live x) a \<and> [] \<notin> act_ids a" if "a \<in> set acts" for a
    using recorded_acts(1-3) [OF inv] s(1) that by blast
  moreover have "b = a" if "a \<in> set acts" "owns a" "b \<in> set acts" "j \<in> act_ids a" "j \<in> act_ids b" for a b j
    by (rule recorded_acts(4) [OF inv _ that(2) _ that(4,5)]) (use s(1) that in blast)+
  ultimately have "acts_ok (cf_state x) (cf_live x) acts" using s(2) by (intro acts_okI) blast+
  then show ?thesis using inv True by (simp add: listeners_recorded_def)
next
  case False
  then show ?thesis using inv s(1) by (auto simp: listeners_recorded_def)
qed

subsection \<open>Every step keeps the invariant\<close>

lemma owner_starting:
  assumes "listeners_recorded x" "serving x" "b \<in> set (cf_acts x)" "owns b" "i \<in> act_ids b"
  shows "\<exists>r. session_of i (cf_state x) = Some r \<and> ar_Status r = AgentStarting"
proof -
  have "\<not> is_recovery b" using assms(2,3) by (auto simp: serving_def list_ex_iff)
  then show ?thesis using recorded_acts(1) [OF assms(1,3)] assms(4,5) by (cases b) auto
qed

text \<open>A call of a client on a session that is not being started.\<close>

lemma recorded_call:
  assumes inv: "listeners_recorded x" "serving x" and t: "touches i (cf_state x) st" "i \<in> cf_live x \<Longrightarrow> safe st i" "i \<noteq> []"
    and s: "\<And>r. session_of i (cf_state x) = Some r \<Longrightarrow> ar_Status r \<noteq> AgentStarting"
    and new: "\<And>b. b \<in> set new \<Longrightarrow> \<not> owns b \<and> act_ids b \<subseteq> {i} \<and> ended_ok (cf_live x) b"
  shows "listeners_recorded (x\<lparr>cf_state := st, cf_acts := new @ cf_acts x\<rparr>)"
proof -
  have up: "cf_up x" using inv(2) by (simp add: serving_def)
  have "listeners_recorded (x\<lparr>cf_state := st, cf_live := cf_live x, cf_acts := new @ cf_acts x\<rparr>)"
  proof (rule recorded_section [OF inv(1) up t(1)])
    fix b assume "b \<in> set (new @ cf_acts x)"
    then consider "b \<in> set new" | "b \<in> set (cf_acts x)" by auto
    then show "b \<in> set (cf_acts x) \<and> (owns b \<longrightarrow> i \<notin> act_ids b) \<or> \<not> owns b \<and> act_ids b \<subseteq> {i} \<and> i \<noteq> [] \<and> ended_ok (cf_live x) b"
      using new t(3) owner_starting [OF inv, of b i] s by cases blast+
  next
    have "filter owns new = []" using new by (auto simp: filter_empty_conv)
    then show "distinct (filter owns (new @ cf_acts x))" using distinct_owners [OF inv(1)] by simp
  qed (use t(2) in auto)
  then show ?thesis by simp
qed

lemma valid_id: "validateCreateRequest c now q = None \<Longrightarrow> cq_SessionID q \<noteq> []"
  by (auto simp: validateCreateRequest_def ValidateCreateRequest_def validGatewayReference_def split: if_splits)

lemma IsUUID_nonempty: "IsUUID i \<Longrightarrow> i \<noteq> []"
  by (auto simp: IsUUID_def)

lemma recorded_start_call:
  assumes inv: "listeners_recorded x" "serving x" and v: "validateCreateRequest c now0 q = None"
    and b: "start_begin c q t now res (cf_state x) = (StartCall, st)" "cq_SessionID q \<notin> pending x"
  shows "listeners_recorded (x\<lparr>cf_state := st, cf_acts := ActStart q t # cf_acts x\<rparr>)"
proof -
  let ?i = "cq_SessionID q"
  have up: "cf_up x" using inv(2) by (simp add: serving_def)
  note e = start_begin_call [OF b(1) recorded_keyed [OF inv(1) up] valid_id [OF v]]
  have "listeners_recorded (x\<lparr>cf_state := st, cf_acts := [] @ cf_acts x\<rparr>)"
    by (rule recorded_call [OF inv, of ?i]) (use e valid_id [OF v] in simp_all)
  moreover have "owner_ok st (ActStart q t)" using e by (simp add: start_record_def)
  ultimately show ?thesis
    using recorded_add_owner [of "x\<lparr>cf_state := st\<rparr>" "ActStart q t"] up b(2) valid_id [OF v] by (simp add: pending_def)
qed

lemma recorded_start_answer:
  assumes inv: "listeners_recorded x" "serving x" and v: "validateCreateRequest c now0 q = None"
    and b: "start_begin c q t now res (cf_state x) = (StartAnswer a, st)"
  shows "listeners_recorded (x\<lparr>cf_state := st\<rparr>)"
proof -
  have up: "cf_up x" using inv(2) by (simp add: serving_def)
  consider "st = cf_state x" | "session_of (cq_SessionID q) (cf_state x) = None" "touches (cq_SessionID q) (cf_state x) st"
    using start_begin_answer [OF b recorded_keyed [OF inv(1) up] valid_id [OF v]] by auto
  then show ?thesis
  proof cases
    case 2
    have "cq_SessionID q \<notin> cf_live x" using recorded_live0 [OF inv(1) up] safe_found 2(1) by fastforce
    then show ?thesis using recorded_call [OF inv 2(2), of "[]"] 2(1) valid_id [OF v] by simp
  qed (use inv(1) in simp)
qed

lemma recorded_start_end:
  assumes inv: "listeners_recorded x" "ActStart q t \<in> set (cf_acts x)"
    and e: "start_end c (cq_SessionID q) r now res (cf_state x) = (out, st)"
    and new: "new = [] \<or> new = [ActFail (cq_SessionID q) reason]"
  shows "listeners_recorded (x\<lparr>cf_state := st, cf_acts := new @ remove1 (ActStart q t) (cf_acts x)\<rparr>)"
proof -
  have k: "keyed (cf_state x)" using recorded_keyed [OF inv(1) recorded_up [OF inv]] .
  obtain z where z: "safe (cf_state x) (cq_SessionID q)" "session_of (cq_SessionID q) (cf_state x) = Some z" "ar_Status z = AgentStarting"
    using recorded_acts(1) [OF inv] by auto
  have "listeners_recorded (x\<lparr>cf_state := st, cf_live := cf_live x, cf_acts := new @ remove1 (ActStart q t) (cf_acts x)\<rparr>)"
    by (rule recorded_replace [OF inv, of "cq_SessionID q"]) (use start_end_effect [OF e k z] new in auto)
  then show ?thesis by simp
qed

text \<open>An operation gets its answer; only listeners may have gone.\<close>

lemma recorded_answer:
  assumes inv: "listeners_recorded x" "a \<in> set (cf_acts x)" "act_ids a = {i}" and l: "live \<subseteq> cf_live x"
    and new: "\<And>b. b \<in> set new \<Longrightarrow> \<not> owns b \<and> act_ids b \<subseteq> {i} \<and> ended_ok live b"
  shows "listeners_recorded (x\<lparr>cf_live := live, cf_acts := new @ remove1 a (cf_acts x)\<rparr>)"
proof -
  have up: "cf_up x" by (rule recorded_up [OF inv(1,2)])
  have "listeners_recorded (x\<lparr>cf_state := cf_state x, cf_live := live, cf_acts := new @ remove1 a (cf_acts x)\<rparr>)"
    by (rule recorded_replace [OF inv touches_refl l _ new])
       (use recorded_keyed [OF inv(1) up] recorded_live0 [OF inv(1) up] l in auto)
  then show ?thesis by simp
qed

lemma recorded_done:
  assumes inv: "listeners_recorded x" "a \<in> set (cf_acts x)" "act_ids a = {i}"
    and t: "st = cf_state x \<or> touches i (cf_state x) st" "i \<in> cf_live x \<Longrightarrow> safe (cf_state x) i \<Longrightarrow> safe st i"
  shows "listeners_recorded (x\<lparr>cf_state := st, cf_acts := remove1 a (cf_acts x)\<rparr>)"
proof -
  have up: "cf_up x" by (rule recorded_up [OF inv(1,2)])
  have "touches i (cf_state x) st" using t(1) touches_refl [OF recorded_keyed [OF inv(1) up]] by blast
  then have "listeners_recorded (x\<lparr>cf_state := st, cf_live := cf_live x, cf_acts := [] @ remove1 a (cf_acts x)\<rparr>)"
    by (rule recorded_replace [OF inv]) (use t(2) recorded_live0 [OF inv(1) up] in auto)
  then show ?thesis by simp
qed

lemma recorded_gone: "listeners_recorded x \<Longrightarrow> live \<subseteq> cf_live x \<Longrightarrow> listeners_recorded (x\<lparr>cf_live := live\<rparr>)"
proof -
  assume inv: "listeners_recorded x" and l: "live \<subseteq> cf_live x"
  have "ended_ok live a" if "ended_ok (cf_live x) a" for a using that l by (cases a) auto
  then show ?thesis using inv l by (auto simp: listeners_recorded_def acts_ok_def)
qed

lemma recorded_stop_begin:
  assumes inv: "listeners_recorded x" "serving x" and i: "IsUUID i"
    and b: "stop_begin c i reason0 now0 now res (cf_state x) = (out, st)"
    and new: "new = [] \<or> out = StopCall reason \<and> new = [ActStop i reason]"
  shows "listeners_recorded (x\<lparr>cf_state := st, cf_acts := new @ cf_acts x\<rparr>)"
proof -
  have up: "cf_up x" using inv(2) by (simp add: serving_def)
  consider "out \<noteq> StopCall reason" "st = cf_state x"
    | "touches i (cf_state x) st" "safe (cf_state x) i \<longrightarrow> safe st i" "\<forall>r. session_of i (cf_state x) = Some r \<longrightarrow> ar_Status r \<noteq> AgentStarting"
    using stop_begin_effect [OF b recorded_keyed [OF inv(1) up] IsUUID_nonempty [OF i]] by auto
  then show ?thesis
  proof cases
    case 1
    then show ?thesis using inv(1) new by simp
  next
    case 2
    show ?thesis
      by (rule recorded_call [OF inv 2(1)])
         (use 2 recorded_live0 [OF inv(1) up] IsUUID_nonempty [OF i] new in auto)
  qed
qed

lemma recorded_crash:
  "listeners_recorded x \<Longrightarrow>
   listeners_recorded (x\<lparr>cf_state := (cf_state x)\<lparr>as_sessions := []\<rparr>, cf_acts := [], cf_up := False\<rparr>)"
  by (simp add: listeners_recorded_def in_file_def)

text \<open>Recovery reads every record of the file back.\<close>

lemma check_records_ok:
  "check_records seen rs = None \<longleftrightarrow> list_all validateRecord rs \<and> distinct (map ar_SessionID rs) \<and> set seen \<inter> ar_SessionID ` set rs = {}"
  by (induction seen rs rule: check_records.induct) auto

lemma recover_begin_cases:
  assumes "recover_begin c now res st = (out, st')"
  obtains (refused) err where "out = Inl err" "st' = st"
    | (loaded) b where "list_all validateRecord (as_file st)" "distinct (map ar_SessionID (as_file st))"
      "saveLocked c now res (st\<lparr>as_sessions := map (\<lambda>r. (ar_SessionID r, r)) (as_file st)\<rparr>) = (b, st')"
      "out = (if b then Inr (as_file st) else Inl AgentStore)"
proof (cases "check_records [] (as_file st)")
  case None
  obtain b st1 where "saveLocked c now res (st\<lparr>as_sessions := map (\<lambda>r. (ar_SessionID r, r)) (as_file st)\<rparr>) = (b, st1)" by fastforce
  then show ?thesis
    using assms None loaded [of b] by (cases b) (auto simp: recover_begin_def check_records_ok)
qed (use assms refused in \<open>auto simp: recover_begin_def\<close>)

lemma recovered_keyed:
  assumes "list_all validateRecord records" "distinct (map ar_SessionID records)"
  shows "keyed (st\<lparr>as_sessions := map (\<lambda>r. (ar_SessionID r, r)) records\<rparr>)"
proof -
  have "[] \<notin> ar_SessionID ` set records"
    using assms(1) IsUUID_nonempty by (fastforce simp: list_all_iff validateRecord_def)
  then have "session_of k (st\<lparr>as_sessions := map (\<lambda>r. (ar_SessionID r, r)) records\<rparr>) = Some r \<Longrightarrow> ar_SessionID r = k \<and> k \<noteq> []" for k r
    by (force simp: session_of_def dest!: map_of_SomeD)
  then show ?thesis using assms(2) by (simp add: keyed_def comp_def)
qed

lemma recover_begin_effect:
  assumes "recover_begin c now res st = (out, st')"
  shows "in_file st i \<Longrightarrow> in_file st' i"
    and "out = Inr records \<Longrightarrow> keyed st' \<and> distinct (map ar_SessionID records) \<and> [] \<notin> ar_SessionID ` set records \<and>
      (\<forall>r\<in>set records. unended r \<longrightarrow> session_of (ar_SessionID r) st' = Some r \<and> safe st' (ar_SessionID r)) \<and> records = as_file st"
proof -
  let ?st = "st\<lparr>as_sessions := map (\<lambda>r. (ar_SessionID r, r)) (as_file st)\<rparr>"
  from assms have "(in_file st i \<longrightarrow> in_file st' i) \<and> (out = Inr records \<longrightarrow> keyed st' \<and> distinct (map ar_SessionID records) \<and>
    [] \<notin> ar_SessionID ` set records \<and>
    (\<forall>r\<in>set records. unended r \<longrightarrow> session_of (ar_SessionID r) st' = Some r \<and> safe st' (ar_SessionID r)) \<and> records = as_file st)"
  proof (cases rule: recover_begin_cases)
    case (loaded b)
    note 2 = loaded
    have ids: "[] \<notin> ar_SessionID ` set (as_file st)"
      using 2(1) IsUUID_nonempty by (fastforce simp: list_all_iff validateRecord_def)
    have s: "session_of (ar_SessionID r) ?st = Some r" if "r \<in> set (as_file st)" for r
      using that 2(2) by (simp add: session_of_def comp_def)
    have k: "keyed ?st" by (rule recovered_keyed [OF 2(1,2)])
    note e = saveLocked_effect [OF 2(3) k]
    have rec: "recorded ?st (ar_SessionID r) \<and> in_file ?st (ar_SessionID r)" if "r \<in> set (as_file st)" "unended r" for r
      using that s by (auto simp: recorded_def in_file_def)
    have f: "session_of (ar_SessionID r) st' = Some r \<and> safe st' (ar_SessionID r)" if "r \<in> set (as_file st)" "unended r" for r
      using e(2) [OF s [OF that(1)] that(2)] e(4) [of "ar_SessionID r"] rec [OF that] that(2) by (auto simp: safe_def recorded_def)
    have "in_file st i \<longrightarrow> in_file st' i" using f unfolding in_file_def [of st] safe_def by blast
    moreover have "records = as_file st" if "out = Inr records" using 2(4) that by (simp split: if_splits)
    ultimately show ?thesis using f e(1) 2(2) ids by blast
  qed simp
  then show "in_file st i \<Longrightarrow> in_file st' i" "out = Inr records \<Longrightarrow> keyed st' \<and> distinct (map ar_SessionID records) \<and>
    [] \<notin> ar_SessionID ` set records \<and>
    (\<forall>r\<in>set records. unended r \<longrightarrow> session_of (ar_SessionID r) st' = Some r \<and> safe st' (ar_SessionID r)) \<and> records = as_file st"
    by blast+
qed

lemma recorded_recover_call:
  assumes "listeners_recorded x" "recover_begin c now res (cf_state x) = (Inr records, st)"
  shows "listeners_recorded (x\<lparr>cf_state := st, cf_acts := [ActRecover records t], cf_up := True\<rparr>)"
proof -
  note e = recover_begin_effect(2) [OF assms(2) refl]
  have safe: "safe st i" if "i \<in> cf_live x" for i
  proof -
    have "in_file (cf_state x) i" using assms(1) that by (simp add: listeners_recorded_def)
    then show ?thesis using e by (auto simp: in_file_def)
  qed
  have "acts_ok st (cf_live x) [ActRecover records t]" by (rule acts_okI) (use e in auto)
  then show ?thesis using e safe by (simp add: listeners_recorded_def safe_def)
qed

lemma recorded_recover_next:
  assumes inv: "listeners_recorded x" and r: "ActRecover (r # rs) t \<in> set (cf_acts x)"
  shows "listeners_recorded (x\<lparr>cf_acts := ActRecover rs t # remove1 (ActRecover (r # rs) t) (cf_acts x)\<rparr>)"
proof -
  let ?a = "ActRecover (r # rs) t" and ?x = "x\<lparr>cf_acts := remove1 (ActRecover (r # rs) t) (cf_acts x)\<rparr>"
  have up: "cf_up x" by (rule recorded_up [OF inv r])
  have x: "listeners_recorded ?x"
    by (rule recorded_fewer [OF inv set_remove1_subset]) (simp add: filter_remove1 distinct_remove1 distinct_owners [OF inv])
  have o: "owner_ok (cf_state x) (ActRecover rs t)" "[] \<notin> act_ids (ActRecover rs t)" using recorded_acts [OF inv r] by auto
  show ?thesis
  proof (cases "rs = []")
    case True
    have "listeners_recorded (x\<lparr>cf_live := cf_live x, cf_acts := [ActRecover [] t] @ remove1 ?a (cf_acts x)\<rparr>)"
      by (rule recorded_answer [OF inv r, of "ar_SessionID r"]) (use True in auto)
    then show ?thesis using True by simp
  next
    case False
    have "act_ids (ActRecover rs t) \<inter> pending ?x = {}"
    proof -
      have False if "b \<in> set (remove1 ?a (cf_acts x))" "j \<in> act_ids b" "j \<in> act_ids (ActRecover rs t)" for b j
      proof -
        have "b \<in> set (cf_acts x)" using that(1) notin_set_remove1 by fastforce
        then have "b = ?a" using recorded_acts(4) [OF inv r _ _ _ that(2)] that(3) by auto
        then show False using owns_once [OF inv, of ?a] that(1) by simp
      qed
      then show ?thesis by (auto simp: pending_def)
    qed
    then show ?thesis using recorded_add_owner [OF x, of "ActRecover rs t"] up o False by simp
  qed
qed

lemma recorded_recover_stop:
  assumes inv: "listeners_recorded x" and r: "ActRecover (r # rs) t \<in> set (cf_acts x)" and u: "unended r"
    and b: "stop_begin c (ar_SessionID r) reason1 now0 now res
      (if prepare then prepareRecoveredRetry (ar_SessionID r) reason (cf_state x) else cf_state x) = (out, st)"
    and new: "new = (case out of StopCall why \<Rightarrow> [ActStop (ar_SessionID r) why] | StopAnswer _ \<Rightarrow> [])"
  shows "listeners_recorded (x\<lparr>cf_state := st, cf_acts := new @ ActRecover rs t # remove1 (ActRecover (r # rs) t) (cf_acts x)\<rparr>)"
proof -
  let ?i = "ar_SessionID r" and ?a = "ActRecover (r # rs) t"
  let ?acts = "ActRecover rs t # remove1 (ActRecover (r # rs) t) (cf_acts x)"
  let ?st = "if prepare then prepareRecoveredRetry (ar_SessionID r) reason (cf_state x) else cf_state x"
  have up: "cf_up x" by (rule recorded_up [OF inv r])
  have k: "keyed (cf_state x)" by (rule recorded_keyed [OF inv up])
  have s: "session_of ?i (cf_state x) = Some r" "safe (cf_state x) ?i" using recorded_acts(1) [OF inv r] u by auto
  have i: "?i \<noteq> []" using keyed_session [OF k s(1)] by simp
  have p: "touches ?i (cf_state x) ?st \<and> safe ?st ?i"
    using prepareRecoveredRetry_effect [OF k s] touches_refl [OF k] s(2) by simp
  have "keyed ?st" using p by (simp add: touches_def)
  then have "touches ?i ?st st \<and> safe st ?i"
    using stop_begin_effect [OF b _ i] p touches_refl [of ?st] by fast
  then have t: "touches ?i (cf_state x) st" "safe st ?i" using p touches_trans by blast+
  have free: "?i \<notin> act_ids b" if "b \<in> set ?acts" "owns b" for b
  proof (cases "b = ActRecover rs t")
    case True
    then show ?thesis using recorded_acts(1) [OF inv r] by auto
  next
    case False
    then have m: "b \<in> set (remove1 ?a (cf_acts x))" using that(1) by simp
    then have "b \<in> set (cf_acts x)" using notin_set_remove1 by fastforce
    then show ?thesis using recorded_acts(4) [OF inv _ that(2) r, of ?i] owns_once [OF inv, of ?a] m by auto
  qed
  have "listeners_recorded ((x\<lparr>cf_acts := ?acts\<rparr>)\<lparr>cf_state := st, cf_live := cf_live x, cf_acts := new @ ?acts\<rparr>)"
  proof (rule recorded_section [OF recorded_recover_next [OF inv r], of ?i])
    show "distinct (filter owns (new @ ?acts))"
      using distinct_owners [OF recorded_recover_next [OF inv r]] new by (auto split: stop_outcome.splits)
    fix b assume "b \<in> set (new @ ?acts)"
    then show "b \<in> set (cf_acts (x\<lparr>cf_acts := ?acts\<rparr>)) \<and> (owns b \<longrightarrow> ?i \<notin> act_ids b) \<or>
      \<not> owns b \<and> act_ids b \<subseteq> {?i} \<and> ?i \<noteq> [] \<and> ended_ok (cf_live x) b"
      using free i new by (auto split: stop_outcome.splits)
  qed (use t up in auto)
  then show ?thesis by simp
qed

text \<open>An operation ends with a section on its own session.\<close>

lemma recorded_fail_done:
  assumes inv: "listeners_recorded x" "ActFailed i reason ok \<in> set (cf_acts x)"
    and e: "failed_end c i reason ok closedAt now res (cf_state x) = (b, st)"
  shows "listeners_recorded (x\<lparr>cf_state := st, cf_acts := remove1 (ActFailed i reason ok) (cf_acts x)\<rparr>)"
proof -
  have "i \<noteq> []" "ok \<longrightarrow> i \<notin> cf_live x" using recorded_acts(2,3) [OF inv] by auto
  then show ?thesis
    using recorded_done [OF inv, of i st] failed_end_effect [OF e recorded_keyed [OF inv(1) recorded_up [OF inv]]] by auto
qed

lemma recorded_stop_done:
  assumes inv: "listeners_recorded x" "ActStopped i reason \<in> set (cf_acts x)"
    and e: "stop_end c i reason closedAt now res (cf_state x) = (b, st)"
  shows "listeners_recorded (x\<lparr>cf_state := st, cf_acts := remove1 (ActStopped i reason) (cf_acts x)\<rparr>)"
proof -
  have "i \<noteq> []" "i \<notin> cf_live x" using recorded_acts(2,3) [OF inv] by auto
  then show ?thesis
    using recorded_done [OF inv, of i st] stop_end_effect [OF e recorded_keyed [OF inv(1) recorded_up [OF inv]]] by auto
qed

lemma recorded_stop_failed:
  assumes inv: "listeners_recorded x" "ActStopFailed i reason \<in> set (cf_acts x)"
    and e: "markRevokeFailed c i reason now res (cf_state x) = (b, st)"
  shows "listeners_recorded (x\<lparr>cf_state := st, cf_acts := remove1 (ActStopFailed i reason) (cf_acts x)\<rparr>)"
proof -
  have "i \<noteq> []" using recorded_acts(3) [OF inv] by auto
  then show ?thesis
    using recorded_done [OF inv, of i st] markRevokeFailed_effect [OF e recorded_keyed [OF inv(1) recorded_up [OF inv]]] by auto
qed

lemma recorded_get_done:
  assumes inv: "listeners_recorded x" "ActEnded i ended \<in> set (cf_acts x)"
    and e: "get_end c i ended closedAt now res (cf_state x) = (b, st)"
  shows "listeners_recorded (x\<lparr>cf_state := st, cf_acts := remove1 (ActEnded i ended) (cf_acts x)\<rparr>)"
proof -
  have "i \<noteq> []" "i \<notin> cf_live x" using recorded_acts(2,3) [OF inv] by auto
  then show ?thesis
    using recorded_done [OF inv, of i st] get_end_effect [OF e recorded_keyed [OF inv(1) recorded_up [OF inv]]] by auto
qed

lemma recorded_status_call:
  assumes inv: "listeners_recorded x" "serving x" and r: "session_of i (cf_state x) = Some r" "ar_Status r = AgentRunning"
  shows "listeners_recorded (x\<lparr>cf_acts := ActStatus i # cf_acts x\<rparr>)"
proof -
  have up: "cf_up x" using inv(2) by (simp add: serving_def)
  have k: "keyed (cf_state x)" by (rule recorded_keyed [OF inv(1) up])
  have "listeners_recorded (x\<lparr>cf_state := cf_state x, cf_acts := [ActStatus i] @ cf_acts x\<rparr>)"
    by (rule recorded_call [OF inv touches_refl [OF k, of i]])
       (use r keyed_session [OF k r(1)] recorded_live0 [OF inv(1) up] in auto)
  then show ?thesis by simp
qed

lemma recorded_recover_refused:
  assumes "listeners_recorded x" "\<not> cf_up x" "recover_begin c now res (cf_state x) = (Inl err, st)"
  shows "listeners_recorded (x\<lparr>cf_state := st\<rparr>)"
  using assms(1,2) recover_begin_effect(1) [OF assms(3)] by (simp add: listeners_recorded_def)

lemma recovery_unended: "recovery_of c t restorable r \<in> {RecoverRestore, RecoverStop reason prepare} \<Longrightarrow> unended r"
  by (auto simp: recovery_of_def split: if_splits)

lemma recorded_recover_restore:
  assumes inv: "listeners_recorded x" "ActRecover (r # rs) t \<in> set (cf_acts x)" and u: "unended r"
  shows "listeners_recorded (x\<lparr>cf_live := insert (ar_SessionID r) (cf_live x)\<rparr>)"
  by (rule recorded_listener [OF inv]) (use recorded_acts(1) [OF inv] u in auto)

lemma recorded_recover_end:
  assumes "listeners_recorded x"
  shows "listeners_recorded (x\<lparr>cf_acts := remove1 a (cf_acts x)\<rparr>)"
  by (rule recorded_fewer [OF assms set_remove1_subset]) (simp add: filter_remove1 distinct_remove1 distinct_owners [OF assms])

lemma recorded_answer_same:
  assumes "listeners_recorded x" "a \<in> set (cf_acts x)" "act_ids a = {i}" "\<not> owns b" "act_ids b = {i}" "ended_ok (cf_live x) b"
  shows "listeners_recorded (x\<lparr>cf_acts := b # remove1 a (cf_acts x)\<rparr>)"
  using recorded_answer [OF assms(1-3), of "cf_live x" "[b]"] assms(4-) by simp

lemma recorded_answer_ended:
  assumes "listeners_recorded x" "a \<in> set (cf_acts x)" "act_ids a = {i}" "\<not> owns b" "act_ids b = {i}" "ended_ok (cf_live x - {i}) b"
  shows "listeners_recorded (x\<lparr>cf_live := cf_live x - {i}, cf_acts := b # remove1 a (cf_acts x)\<rparr>)"
  using recorded_answer [OF assms(1-3), of "cf_live x - {i}" "[b]"] assms(4-) by auto

lemma step_recorded:
  assumes "agent_step c admit x y" and inv: "listeners_recorded x"
  shows "listeners_recorded y"
  using assms(1)
proof cases
  case (listener_up q t)
  then show ?thesis using recorded_listener [OF inv] recorded_acts(1) [OF inv] by fastforce
next
  case (start_done q t r completed s z now res st)
  then show ?thesis using recorded_start_end [OF inv, of q t c _ now res None st "[]"] by simp
next
  case (start_undone q t r completed s z now res reason st)
  then show ?thesis using recorded_start_end [OF inv, of q t c _ now res _ st "[ActFail (cq_SessionID q) reason]" reason] by simp
next
  case (stop_call i reason0 now0 now res reason st)
  then show ?thesis using recorded_stop_begin [OF inv, of i c _ now0 now res _ st "[ActStop i reason]" reason] by simp
next
  case (stop_answer i reason0 now0 now res a st)
  then show ?thesis using recorded_stop_begin [OF inv, of i c _ now0 now res _ st "[]"] by simp
next
  case (recover_stop r rs t restorable reason prepare now0 now res out st)
  then have "unended r" using recovery_unended [of c t _ r reason prepare] by blast
  then show ?thesis using recorded_recover_stop [OF inv] recover_stop by blast
next
  case (recover_restore r rs t)
  then show ?thesis using recorded_recover_restore [OF inv] recovery_unended [of c t True r] by simp
qed (use inv in \<open>simp_all add: recorded_start_call recorded_start_answer recorded_answer_same recorded_answer_ended
       recorded_fail_done recorded_stop_done recorded_stop_failed recorded_get_done recorded_status_call recorded_gone
       recorded_crash recorded_recover_call recorded_recover_refused recorded_recover_next recorded_recover_end\<close>)

interpretation recording: agent_invariant c admit listeners_recorded for c admit
  by unfold_locales (simp add: listeners_recorded_def agent_init_def, rule step_recorded)

lemma in_remove1: "a \<in> set (remove1 b xs) \<Longrightarrow> a \<in> set xs"
  using notin_set_remove1 by fastforce


end
