(* ===== verification/Capacity.thy ===== *)
theory Capacity
  imports Interleaving
begin

text \<open>
  The limit on the sessions of an agent. A start counts every session that has not ended, and the count is
  taken in the section that also records the new session; \<open>agent_capacity_kept\<close> says that no interleaving, failed
  save, crash or recovery takes the sessions that are starting or running beyond the limit, in memory
  and in the state file.
\<close>

definition started :: "agent_record \<Rightarrow> bool" where
  "started r \<longleftrightarrow> ar_Status r \<in> {AgentStarting, AgentRunning}"

definition started_ids :: "agent_state \<Rightarrow> string set" where
  "started_ids st = {i. \<exists>r. session_of i st = Some r \<and> started r}"

definition started_file :: "agent_state \<Rightarrow> nat" where
  "started_file st = length (filter started (as_file st))"

definition started_memory :: "agent_state \<Rightarrow> nat" where
  "started_memory st = length (filter (started \<circ> snd) (as_sessions st))"

definition within :: "agent_config \<Rightarrow> agent_state \<Rightarrow> bool" where
  "within c st \<longleftrightarrow> keyed st \<and> card (started_ids st) \<le> nat (cfg_maxSessions c) \<and> started_file st \<le> nat (cfg_maxSessions c)"

subsection \<open>Counting\<close>

lemma finite_started: "finite (started_ids st)"
  by (rule finite_subset [of _ "fst ` set (as_sessions st)"])
     (force simp: started_ids_def session_of_def dest!: map_of_SomeD)+

lemma started_count:
  assumes "keyed st"
  shows "card (started_ids st) = started_memory st"
proof -
  have d: "distinct (map fst (as_sessions st))" using assms by (simp add: keyed_def)
  have "started_ids st = set (map fst (filter (started \<circ> snd) (as_sessions st)))"
    using d by (force simp: started_ids_def session_of_def image_iff)
  moreover have "distinct (map fst (filter (started \<circ> snd) (as_sessions st)))" using d by (rule distinct_map_filter)
  ultimately have "card (started_ids st) = length (map fst (filter (started \<circ> snd) (as_sessions st)))"
    using distinct_card by fastforce
  then show ?thesis by (simp add: started_memory_def)
qed

lemma started_active: "keyed st \<Longrightarrow> int (card (started_ids st)) \<le> activeSessionsLocked st"
proof -
  have "length (filter (started \<circ> snd) xs) \<le> length (filter (\<lambda>e. active_agent_status (ar_Status (snd e))) xs)" for xs
    by (induction xs) (auto simp: started_def active_agent_status_def)
  then show "keyed st \<Longrightarrow> int (card (started_ids st)) \<le> activeSessionsLocked st"
    by (simp add: started_count activeSessionsLocked_def started_memory_def)
qed

lemma started_not_terminal: "terminalSessionStatus (ar_Status r) \<Longrightarrow> \<not> started r"
  by (auto simp: started_def terminalSessionStatus_def)

lemma started_saved: "length (filter started (fst (recordsForPersistenceLocked c now xs))) = length (filter started (map snd xs))"
proof -
  have "filter started (filter (\<lambda>r. \<not> terminalSessionStatus (ar_Status r)) ys) = filter started ys" for ys
    by (induction ys) (auto simp: started_not_terminal)
  moreover have "filter started (take n (sorted_terminals (filter (\<lambda>r. terminalSessionStatus (ar_Status r) \<and> P r) ys))) = []" for n ys P
    by (auto simp: filter_empty_conv sorted_terminals_def dest!: in_set_takeD started_not_terminal)
  ultimately show ?thesis by (simp add: recordsForPersistenceLocked_def Let_def)
qed

lemma length_filter_sort: "length (filter P (sort_key f xs)) = length (filter P xs)"
  by (metis filter_sort length_sort)

lemma started_put: "started_ids (put_session i r st) = (if started r then insert i (started_ids st) else started_ids st - {i})"
  by (auto simp: started_ids_def)

lemma started_drop: "started_ids (drop_session i st) = started_ids st - {i}"
  by (auto simp: started_ids_def)

lemma started_file_put [simp]: "started_file (put_session i r st) = started_file st" "started_file (drop_session i st) = started_file st"
  by (simp_all add: started_file_def)

lemma saveLocked_within:
  assumes s: "saveLocked c now res st = (b, st')" and w: "within c st"
  shows "within c st'" "started_ids st' \<subseteq> started_ids st"
proof -
  have k: "keyed st" using w by (simp add: within_def)
  note e = saveLocked_effect [OF s k]
  show sub: "started_ids st' \<subseteq> started_ids st" using e(3) by (auto simp: started_ids_def)
  have "started_file st' = started_file st \<or> started_file st' = card (started_ids st)"
    using s started_count [OF k]
    by (auto simp: saveLocked_def Let_def started_file_def started_memory_def filter_map store_Save_def drop_removed_def started_saved length_filter_sort
        split: save_result.splits)
  then show "within c st'"
    using w e(1) card_mono [OF finite_started sub] by (auto simp: within_def)
qed

text \<open>Storing a record of a session that is counted already, or one that is not counted.\<close>

lemma within_restore:
  assumes w: "within c st" "within c st1" "started_ids st1 \<subseteq> started_ids st" and i: "i \<noteq> []" "ar_SessionID r \<in> {i, []}"
    and s: "started r \<Longrightarrow> i \<in> started_ids st"
  shows "within c (put_session i r st1)" "started_ids (put_session i r st1) \<subseteq> started_ids st"
proof -
  show sub: "started_ids (put_session i r st1) \<subseteq> started_ids st" using s w(3) by (auto simp: started_put)
  have "card (started_ids (put_session i r st1)) \<le> card (started_ids st)" by (rule card_mono [OF finite_started sub])
  then show "within c (put_session i r st1)" using w(1,2) keyed_put [OF _ i, of st1] by (simp add: within_def)
qed

lemmas within_put = within_restore [OF _ _ subset_refl]

lemma within_drop: "within c st \<Longrightarrow> within c (drop_session i st)"
  using keyed_drop [of st i] card_mono [OF finite_started, of "started_ids st - {i}" st]
  by (auto simp: within_def started_drop intro: le_trans)

lemma within_keyed: "within c st \<Longrightarrow> keyed st"
  by (simp add: within_def)

lemma within_new:
  assumes w: "within c st" and i: "i \<noteq> []" "ar_SessionID r \<in> {i, []}" and a: "\<not> activeSessionsLocked st \<ge> cfg_maxSessions c"
  shows "within c (put_session i r st)"
proof -
  have "card (started_ids (put_session i r st)) \<le> Suc (card (started_ids st))"
    using card_mono [OF _ Diff_subset, of "started_ids st" "{i}"]
    by (auto simp: started_put finite_started card_insert_if intro: le_SucI)
  moreover have "Suc (card (started_ids st)) \<le> nat (cfg_maxSessions c)"
    using started_active [OF within_keyed [OF w]] a by linarith
  ultimately show ?thesis using w keyed_put [OF _ i, of st] by (simp add: within_def)
qed

subsection \<open>Sections\<close>

text \<open>A save after a put, and what the code puts after a save that failed.\<close>

lemma within_save_put:
  assumes w: "within c st" and save: "saveLocked c now res (put_session i r st) = (b, st1)"
    and i: "i \<noteq> []" "ar_SessionID r \<in> {i, []}" and s: "started r \<Longrightarrow> i \<in> started_ids st"
  shows "within c st1" "started_ids st1 \<subseteq> started_ids st"
    and "ar_SessionID r' \<in> {i, []} \<Longrightarrow> (started r' \<Longrightarrow> i \<in> started_ids st) \<Longrightarrow> within c (put_session i r' st1)"
proof -
  note p = within_put [OF w w i s]
  note e = saveLocked_within [OF save p(1)]
  show a: "within c st1" "started_ids st1 \<subseteq> started_ids st" using e p(2) by auto
  show "ar_SessionID r' \<in> {i, []} \<Longrightarrow> (started r' \<Longrightarrow> i \<in> started_ids st) \<Longrightarrow> within c (put_session i r' st1)"
    by (rule within_restore [OF w a i(1)])
qed

lemma start_begin_within:
  assumes "start_begin c q t now res st = (out, st')" "within c st" "cq_SessionID q \<noteq> []"
  shows "within c st'"
proof -
  let ?i = "cq_SessionID q" and ?r = "start_record q t"
  have r: "ar_SessionID ?r \<in> {?i, []}" by (simp add: start_record_def)
  consider "st' = st"
    | b st1 where "\<not> activeSessionsLocked st \<ge> cfg_maxSessions c" "saveLocked c now res (put_session ?i ?r st) = (b, st1)"
      "st' = (if b then st1 else drop_session ?i st1)"
    using assms(1) by (auto simp: start_begin_def Let_def split: option.splits if_splits prod.splits bool.splits)
  then show ?thesis
  proof cases
    case 2
    have "within c st1" by (rule saveLocked_within [OF 2(2) within_new [OF assms(2,3) r 2(1)]])
    then show ?thesis using 2(3) within_drop by simp
  qed (use assms(2) in simp)
qed

lemma start_end_within:
  assumes "start_end c i r now res st = (out, st')" "within c st"
  shows "within c st'"
proof -
  consider "st' = st"
    | x b where "session_of i st = Some x" "ar_Status x = AgentStarting" "saveLocked c now res (put_session i (running_record r x) st) = (b, st')"
    using assms(1) by (auto simp: start_end_def split: option.splits if_splits prod.splits bool.splits)
  then show ?thesis
  proof cases
    case 2
    have "i \<noteq> []" "ar_SessionID x \<in> {i, []}" using keyed_session [OF within_keyed [OF assms(2)] 2(1)] by simp_all
    then show ?thesis
      using within_save_put(1) [OF assms(2) 2(3)] 2(1,2) by (simp add: running_record_def started_ids_def started_def)
  qed (use assms(2) in simp)
qed

lemma failed_end_within:
  assumes "failed_end c i reason ok closedAt now res st = (b, st')" "within c st" "i \<noteq> []"
  shows "within c st'"
proof -
  define row0 where "row0 = (case session_of i st of None \<Rightarrow> zero_record\<lparr>ar_SessionID := i\<rparr> | Some r \<Rightarrow> r)"
  define row where "row = (if ok then row0\<lparr>ar_Status := AgentFailed, ar_ClosedAt := Some closedAt\<rparr>
      else row0\<lparr>ar_Status := AgentRevokeFailed\<rparr>)\<lparr>ar_CloseReason := reason\<rparr>"
  have r: "ar_SessionID row \<in> {i, []}" "\<not> started row"
    using keyed_session [OF within_keyed [OF assms(2)]] by (auto simp: row_def row0_def started_def split: option.splits)
  obtain st1 where save: "saveLocked c now res (put_session i row st) = (b, st1)"
    and st': "st' = (if b \<or> \<not> ok then st1 else put_session i (row\<lparr>ar_Status := AgentRevokeFailed, ar_ClosedAt := None\<rparr>) st1)"
    using assms(1) by (auto simp: failed_end_def Let_def row_def row0_def split: prod.splits bool.splits if_splits)
  then show ?thesis
    using within_save_put(1) [OF assms(2) save assms(3) r(1)] within_save_put(3) [OF assms(2) save assms(3) r(1), of "row\<lparr>ar_Status := AgentRevokeFailed, ar_ClosedAt := None\<rparr>"] r
    by (simp add: started_def)
qed

lemma stop_begin_within:
  assumes "stop_begin c i reason0 now0 now res st = (out, st')" "within c st" "i \<noteq> []"
  shows "within c st'"
proof -
  define row where "row = (case session_of i st of None \<Rightarrow> zero_record\<lparr>ar_SessionID := i\<rparr> | Some r \<Rightarrow> r)"
  have r: "ar_SessionID row \<in> {i, []}" using keyed_session [OF within_keyed [OF assms(2)]] by (auto simp: row_def split: option.splits)
  from assms(1) show ?thesis
  proof (cases rule: stop_begin_cases)
    case (saved reason b st1)
    note 2 = saved(2,3) [folded row_def]
    have w: "within c st1" and p: "\<And>r'. ar_SessionID r' \<in> {i, []} \<Longrightarrow> (started r' \<Longrightarrow> i \<in> started_ids st) \<Longrightarrow> within c (put_session i r' st1)"
      using within_save_put(1,3) [OF assms(2) 2(1) assms(3)] r by (simp_all add: started_def)
    have "within c (put_session i x st1)" if "session_of i st = Some x" for x
      using p [of x] that keyed_session [OF within_keyed [OF assms(2)] that] by (auto simp: started_ids_def)
    then show ?thesis using 2(2) w within_drop by (simp split: option.splits)
  qed (use assms(2) in simp)
qed

lemma stop_end_within:
  assumes "stop_end c i reason closedAt now res st = (b, st')" "within c st" "i \<noteq> []"
  shows "within c st'"
proof -
  define row where "row = (session_or_zero i st)\<lparr>ar_Status := terminalStatus reason, ar_CloseReason := reason, ar_ClosedAt := Some closedAt\<rparr>"
  have r: "ar_SessionID row \<in> {i, []}" "\<not> started row"
    using session_or_zero_id [OF within_keyed [OF assms(2)]] by (simp_all add: row_def started_def terminalStatus_def)
  obtain st1 where save: "saveLocked c now res (put_session i row st) = (b, st1)"
    "st' = (if b then st1 else put_session i (row\<lparr>ar_Status := AgentRevokeFailed, ar_ClosedAt := None\<rparr>) st1)"
    using assms(1) by (auto simp: stop_end_def Let_def row_def split: prod.splits bool.splits)
  then show ?thesis
    using within_save_put(1) [OF assms(2) save(1) assms(3) r(1)] within_save_put(3) [OF assms(2) save(1) assms(3) r(1), of "row\<lparr>ar_Status := AgentRevokeFailed, ar_ClosedAt := None\<rparr>"] r
    by (simp add: started_def)
qed

lemma markRevokeFailed_within:
  assumes "markRevokeFailed c i reason now res st = (b, st')" "within c st" "i \<noteq> []"
  shows "within c st'"
  using within_save_put(1) [OF assms(2) assms(1) [unfolded markRevokeFailed_def] assms(3)]
    session_or_zero_id [OF within_keyed [OF assms(2)]] by (simp add: started_def)

lemma prepareRecoveredRetry_within: "within c st \<Longrightarrow> i \<noteq> [] \<Longrightarrow> within c (prepareRecoveredRetry i reason st)"
  unfolding prepareRecoveredRetry_def
  by (rule within_put(1)) (use session_or_zero_id [OF within_keyed, of c st i] in \<open>simp_all add: started_def\<close>)

lemma get_end_within:
  assumes "get_end c i ended closedAt now res st = (b, st')" "within c st" "i \<noteq> []" "\<not> started (zero_record\<lparr>ar_Status := ended\<rparr>)"
  shows "within c st'"
proof -
  let ?x = "session_or_zero i st"
  let ?r = "?x\<lparr>ar_Status := ended, ar_CloseReason := ''controller_status'', ar_ClosedAt := Some closedAt\<rparr>"
  have r: "ar_SessionID ?r \<in> {i, []}" "ar_SessionID ?x \<in> {i, []}" "\<not> started ?r"
    using session_or_zero_id [OF within_keyed [OF assms(2)]] assms(4) by (simp_all add: started_def)
  consider "st' = st" | st1 b' where "ar_Status ?x = AgentRunning" "saveLocked c now res (put_session i ?r st) = (b', st1)"
      "st' = (if b' then st1 else put_session i ?x st1)"
    using assms(1) by (auto simp: get_end_def Let_def split: prod.splits bool.splits if_splits)
  then show ?thesis
  proof cases
    case 2
    have "session_of i st = Some ?x" using 2(1) by (auto simp: session_or_zero_def zero_record_def split: option.splits)
    then have "i \<in> started_ids st" using 2(1) by (simp add: started_ids_def started_def)
    then show ?thesis using within_save_put(1,3) [OF assms(2) 2(2) assms(3) r(1)] r 2(3) by simp
  qed (use assms(2) in simp)
qed

lemma recover_begin_within:
  assumes "recover_begin c now res st = (out, st')" "started_file st \<le> nat (cfg_maxSessions c)"
  shows "st' = st \<or> within c st'" "out = Inr records \<Longrightarrow> within c st'"
proof -
  let ?st = "st\<lparr>as_sessions := map (\<lambda>r. (ar_SessionID r, r)) (as_file st)\<rparr>"
  from assms(1) have "st' = st \<and> (\<forall>records. out \<noteq> Inr records) \<or> within c st'"
  proof (cases rule: recover_begin_cases)
    case (loaded b)
    have k: "keyed ?st" by (rule recovered_keyed [OF loaded(1,2)])
    have "within c ?st" using k started_count [OF k] assms(2) by (simp add: within_def started_file_def started_memory_def filter_map comp_def)
    then show ?thesis using saveLocked_within(1) [OF loaded(3)] by blast
  qed simp
  then show "st' = st \<or> within c st'" "out = Inr records \<Longrightarrow> within c st'" by auto
qed

subsection \<open>Steps\<close>

definition capacity_ok :: "agent_config \<Rightarrow> agent_conf \<Rightarrow> bool" where
  "capacity_ok c x \<longleftrightarrow> started_file (cf_state x) \<le> nat (cfg_maxSessions c) \<and>
     started_memory (cf_state x) \<le> nat (cfg_maxSessions c) \<and> (cf_up x \<longrightarrow> within c (cf_state x)) \<and>
     (\<forall>i ended. ActEnded i ended \<in> set (cf_acts x) \<longrightarrow> terminalSessionStatus ended)"

lemma within_bounds:
  "within c st \<Longrightarrow> started_file st \<le> nat (cfg_maxSessions c) \<and> started_memory st \<le> nat (cfg_maxSessions c)"
  using started_count [of st] by (simp add: within_def)

lemma capacity_okD:
  assumes "capacity_ok c x" "listeners_recorded x" "a \<in> set (cf_acts x)"
  shows "within c (cf_state x)" "i \<in> act_ids a \<Longrightarrow> i \<noteq> []"
  using assms recorded_up [OF assms(2,3)] recorded_acts(3) [OF assms(2,3)] by (auto simp: capacity_ok_def)

lemma capacity_okI:
  "within c st \<Longrightarrow> (\<And>i ended. ActEnded i ended \<in> set acts \<Longrightarrow> ActEnded i ended \<in> set (cf_acts x)) \<Longrightarrow>
   capacity_ok c x \<Longrightarrow> capacity_ok c (x\<lparr>cf_state := st, cf_acts := acts\<rparr>)"
  by (auto simp: capacity_ok_def dest: within_bounds)

lemma capacity_okI':
  "within c st \<Longrightarrow> capacity_ok c x \<Longrightarrow> capacity_ok c (x\<lparr>cf_state := st\<rparr>)"
  by (auto simp: capacity_ok_def dest: within_bounds)

lemma capacity_serving: "capacity_ok c x \<Longrightarrow> serving x \<Longrightarrow> within c (cf_state x)"
  by (simp add: capacity_ok_def serving_def)

lemma capacity_acts:
  "capacity_ok c x \<Longrightarrow> (\<And>i ended. ActEnded i ended \<in> set acts \<Longrightarrow> ActEnded i ended \<in> set (cf_acts x) \<or> terminalSessionStatus ended) \<Longrightarrow>
   capacity_ok c (x\<lparr>cf_acts := acts\<rparr>)"
  by (auto simp: capacity_ok_def)

lemma capacity_live [simp]: "capacity_ok c (x\<lparr>cf_live := l\<rparr>) = capacity_ok c x"
  by (simp add: capacity_ok_def)

lemma reported_end_terminal: "reported_end t = Some ended \<Longrightarrow> terminalSessionStatus ended"
  by (auto simp: reported_end_def terminalSessionStatus_def split: if_splits)

lemma capacity_get_done:
  assumes "capacity_ok c x" "listeners_recorded x" "ActEnded i ended \<in> set (cf_acts x)"
    "get_end c i ended closedAt now res (cf_state x) = (b, st)"
  shows "within c st"
proof (rule get_end_within [OF assms(4) capacity_okD(1) [OF assms(1-3)] capacity_okD(2) [OF assms(1-3)]])
  have "terminalSessionStatus ended" using assms(1,3) unfolding capacity_ok_def by blast
  then show "\<not> started (zero_record\<lparr>ar_Status := ended\<rparr>)" by (simp add: started_not_terminal)
qed simp

lemma capacity_recover_stop:
  assumes "capacity_ok c x" "listeners_recorded x" "ActRecover (r # rs) t \<in> set (cf_acts x)"
    "stop_begin c (ar_SessionID r) reason1 now0 now res
      (if prepare then prepareRecoveredRetry (ar_SessionID r) reason (cf_state x) else cf_state x) = (out, st)"
  shows "within c st"
proof -
  have i: "ar_SessionID r \<noteq> []" using capacity_okD(2) [OF assms(1-3)] by simp
  then show ?thesis
    using stop_begin_within [OF assms(4) _ i] prepareRecoveredRetry_within [OF _ i] capacity_okD(1) [OF assms(1-3)] by simp
qed

lemma step_capacity:
  assumes "agent_step c admit x y" and rec: "listeners_recorded x" and inv: "capacity_ok c x"
  shows "capacity_ok c y"
  using assms(1)
proof cases
  case (start_call now0 q t now res st)
  then show ?thesis using start_begin_within [OF start_call(5) capacity_serving [OF inv] valid_id] inv by (auto intro!: capacity_okI)
next
  case (start_answer now0 q t now res a st)
  then show ?thesis using start_begin_within [OF start_answer(5) capacity_serving [OF inv] valid_id] inv by (auto intro!: capacity_okI')
next
  case (start_done q t r completed s z now res st)
  then show ?thesis using start_end_within capacity_okD(1) [OF inv rec] inv by (auto intro!: capacity_okI dest: in_remove1)
next
  case (start_undone q t r completed s z now res reason st)
  then show ?thesis using start_end_within capacity_okD(1) [OF inv rec] inv by (auto intro!: capacity_okI dest: in_remove1)
next
  case (fail_done i reason ok closedAt now res b st)
  then show ?thesis using failed_end_within capacity_okD [OF inv rec] inv by (fastforce intro!: capacity_okI dest: in_remove1)
next
  case (stop_call i reason0 now0 now res reason st)
  then show ?thesis using stop_begin_within capacity_serving [OF inv] IsUUID_nonempty inv by (auto intro!: capacity_okI)
next
  case (stop_answer i reason0 now0 now res a st)
  then show ?thesis using stop_begin_within capacity_serving [OF inv] IsUUID_nonempty inv by (auto intro!: capacity_okI')
next
  case (stop_done i reason closedAt now res b st)
  then show ?thesis using stop_end_within capacity_okD [OF inv rec] inv by (fastforce intro!: capacity_okI dest: in_remove1)
next
  case (stop_failed i reason now res b st)
  then show ?thesis using markRevokeFailed_within capacity_okD [OF inv rec] inv by (fastforce intro!: capacity_okI dest: in_remove1)
next
  case (get_done i ended closedAt now res b st)
  then show ?thesis using capacity_get_done [OF inv rec] inv by (auto intro!: capacity_okI dest: in_remove1)
next
  case crash
  then show ?thesis using inv by (simp add: capacity_ok_def started_file_def started_memory_def)
next
  case (recover_call now res records st t)
  then show ?thesis using recover_begin_within(2) [of c now res "cf_state x" "Inr records" st records] inv by (auto simp: capacity_ok_def dest: within_bounds)
next
  case (recover_refused now res err st)
  then show ?thesis using recover_begin_within(1) [OF recover_refused(3)] inv by (auto simp: capacity_ok_def dest: within_bounds)
next
  case (recover_stop r rs t restorable reason prepare now0 now res out st)
  then show ?thesis
    using capacity_recover_stop [OF inv rec recover_stop(2,4)] inv
    by (auto intro!: capacity_okI dest: in_remove1 split: stop_outcome.splits)
next
  case (status_ended i report ended)
  then show ?thesis using inv reported_end_terminal by (auto intro!: capacity_acts dest: in_remove1)
qed (use inv in \<open>auto intro!: capacity_acts dest: in_remove1\<close>)

interpretation limiting: agent_invariant c admit "capacity_ok c" for c admit
proof
  show "capacity_ok c agent_init" by (simp add: capacity_ok_def agent_init_def started_file_def started_memory_def)
  show "capacity_ok c y" if "agent_runs c admit x" "capacity_ok c x" "agent_step c admit x y" for x y
    by (rule step_capacity [OF that(3) recording.always [OF that(1)] that(2)])
qed

text \<open>C11. However operations interleave, saves fail and the agent crashes, the sessions of an agent that are
  starting or running are at most as many as its limit, in memory and in the state file.\<close>

theorem agent_capacity_kept:
  assumes "agent_runs c admit x"
  shows "length (filter (\<lambda>e. ar_Status (snd e) \<in> {AgentStarting, AgentRunning}) (as_sessions (cf_state x))) \<le> nat (cfg_maxSessions c) \<and>
    length (filter (\<lambda>r. ar_Status r \<in> {AgentStarting, AgentRunning}) (as_file (cf_state x))) \<le> nat (cfg_maxSessions c)"
  using limiting.always [OF assms] by (simp add: capacity_ok_def started_file_def started_memory_def started_def [abs_def] comp_def)

end
