(* ===== verification/Restart.thy ===== *)
theory Restart
  imports Capacity
begin

text \<open>
  What an agent finds after a crash. \<open>Recover\<close> refuses the whole state file if one record in it does not
  validate, so every section must leave only valid records behind: \<open>restart_reads_state\<close> shows it for
  clients that are \<open>orderly\<close>, and \<open>web_only_start_blocks_recovery\<close> that a web-only session is an exception.
\<close>

definition params_ok :: "agent_record \<Rightarrow> bool" where
  "params_ok r \<longleftrightarrow> (hasAnySessionParameter r \<longrightarrow> validSessionParameters r)"

definition record_ok :: "string \<Rightarrow> agent_record \<Rightarrow> bool" where
  "record_ok i r \<longleftrightarrow> ar_SessionID r = i \<and> validateRecord r \<and> params_ok r"

definition valid_memory :: "agent_state \<Rightarrow> bool" where
  "valid_memory st \<longleftrightarrow> distinct (map fst (as_sessions st)) \<and> (\<forall>i r. session_of i st = Some r \<longrightarrow> record_ok i r)"

definition file_sound :: "agent_state \<Rightarrow> bool" where
  "file_sound st \<longleftrightarrow> distinct (map ar_SessionID (as_file st)) \<and> (\<forall>r\<in>set (as_file st). record_ok (ar_SessionID r) r)"

subsection \<open>Records\<close>

lemma ParseIP_zone: "ParseIP s = Some ip \<Longrightarrow> CHR ''%'' \<notin> set s"
proof
  assume p: "ParseIP s = Some ip" and z: "CHR ''%'' \<in> set s"
  have "parseIPv6 s = None" using z by (simp add: parseIPv6_def)
  then have "parseIPv4 s = Some ip" using p by (auto simp: ParseIP_def split: option.splits if_splits)
  then have "list_all (list_all digit) (split_on CHR ''.'' s)"
    by (auto simp: parseIPv4_def parseIPv4Fields_def octet_ok_def Let_def list_all_iff split: if_splits)
  then have "digit CHR ''%''" using set_split_on [of s "CHR ''.''"] z by (auto simp: list_all_iff)
  then show False by (simp add: digit_def in_range_def)
qed

lemma exact_address_stored: "exact_address s \<Longrightarrow> netParseIP_ok s"
proof -
  assume "exact_address s"
  then obtain ip where ip: "ParseIP s = Some ip" "\<not> IsUnspecified ip" "\<not> IsMulticast ip"
    by (auto simp: exact_address_def split: option.splits)
  have "dropWhile (\<lambda>c. c \<noteq> CHR ''%'') s = []" using ParseIP_zone [OF ip(1)] by (auto simp: dropWhile_eq_Nil_conv)
  then show ?thesis using ip by (auto simp: netParseIP_ok_def netip_ParseAddr_def netip_unspecified_def IsUnspecified_def split: if_splits)
qed

lemma no_control_bytes: "\<not> has_control s \<Longrightarrow> list_all (\<lambda>c. \<not> (byte c < 32 \<or> byte c = 127)) s"
  by (induction s) auto

lemma account_stored: "client_validTargetAccount s \<Longrightarrow> validTargetAccount s"
  using no_control_bytes by (simp add: client_validTargetAccount_def validTargetAccount_def)

text \<open>The status of a record decides what its validity requires.\<close>

lemma record_ok_status:
  assumes "record_ok i r" "IsUUID i"
  shows "ar_Status r' \<in> {AgentStopping, AgentRevokeFailed} \<Longrightarrow> r' = r\<lparr>ar_Status := s, ar_CloseReason := why, ar_ClosedAt := t\<rparr> \<Longrightarrow> record_ok i r'"
    "terminalSessionStatus s \<Longrightarrow> record_ok i (r\<lparr>ar_Status := s, ar_CloseReason := why, ar_ClosedAt := Some z\<rparr>)"
  using assms
  by (auto simp: record_ok_def validateRecord_def params_ok_def terminalSessionStatus_def hasAnySessionParameter_def validSessionParameters_def)

lemma start_record_ok:
  assumes v: "validateCreateRequest c now q = None" and w: "\<not> cq_WebOnly q" "\<And>e. cq_ExpiresAt q = Some e \<Longrightarrow> t < e"
  shows "record_ok (cq_SessionID q) (start_record q t)"
proof -
  have "validSessionParameters (start_record q t)" "IsUUID (cq_SessionID q)" "1 \<le> cq_TTLSeconds q"
    using v w(1) exact_address_stored account_stored
    by (auto simp: validateCreateRequest_def ValidateCreateRequest_def validSessionParameters_def start_record_def split: if_splits)
  then show ?thesis
    using w(2) by (auto simp: record_ok_def validateRecord_def params_ok_def start_record_def zero_record_def split: option.splits)
qed

lemma running_record_ok:
  assumes v: "validateCreateResponse q p t completed = Inr (s, z)" and r: "record_ok (cq_SessionID q) (start_record q t)"
  shows "record_ok (cq_SessionID q) (running_record (p\<lparr>cr_Status := ''running'', cr_StartedAt := s, cr_ExpiresAt := z\<rparr>) (start_record q t))"
proof -
  let ?r = "running_record (p\<lparr>cr_Status := ''running'', cr_StartedAt := s, cr_ExpiresAt := z\<rparr>) (start_record q t)"
  have "validRuntimeMetadata ?r" "s < z" "\<forall>e. cq_ExpiresAt q = Some e \<longrightarrow> e = z"
    using v by (auto simp: validateCreateResponse_def Let_def validRuntimeMetadata_def running_record_def split: if_splits option.splits)
  moreover have "validSessionParameters ?r"
    using r by (simp add: record_ok_def validateRecord_def running_record_def start_record_def validSessionParameters_def)
  ultimately show ?thesis
    using r by (auto simp: record_ok_def validateRecord_def params_ok_def running_record_def start_record_def zero_record_def)
qed

subsection \<open>Saving\<close>

lemma sound_session: "valid_memory st \<Longrightarrow> session_of i st = Some r \<Longrightarrow> record_ok i r"
  by (simp add: valid_memory_def)

lemma record_ok_uuid: "record_ok i r \<Longrightarrow> IsUUID i"
  by (auto simp: record_ok_def validateRecord_def)

lemma sound_keyed: "valid_memory st \<Longrightarrow> keyed st"
  using record_ok_uuid IsUUID_nonempty by (auto simp: valid_memory_def keyed_def record_ok_def)

lemma sound_put: "valid_memory st \<Longrightarrow> record_ok i r \<Longrightarrow> valid_memory (put_session i r st)"
  by (auto simp: valid_memory_def put_session_def distinct_update session_of_def update_conv)

lemma sound_drop: "valid_memory st \<Longrightarrow> valid_memory (drop_session i st)"
  by (auto simp: valid_memory_def drop_session_def distinct_delete session_of_def delete_conv)

lemma sound_entry: "valid_memory st \<Longrightarrow> r \<in> snd ` set (as_sessions st) \<Longrightarrow> record_ok (ar_SessionID r) r"
  by (force simp: valid_memory_def session_of_def record_ok_def)

lemma sound_ids: "valid_memory st \<Longrightarrow> distinct (map ar_SessionID (map snd (as_sessions st)))"
proof -
  assume s: "valid_memory st"
  have "map ar_SessionID (map snd (as_sessions st)) = map fst (as_sessions st)"
    using s by (auto simp: valid_memory_def session_of_def record_ok_def)
  then show ?thesis using s unfolding valid_memory_def by presburger
qed

lemma distinct_parts:
  assumes "distinct (map f xs)"
  shows "distinct (map f (filter P xs @ take n (sort_key g (filter (\<lambda>x. \<not> P x \<and> Q x) xs))))"
proof -
  let ?ys = "filter P xs @ take n (sort_key g (filter (\<lambda>x. \<not> P x \<and> Q x) xs))"
  have "distinct ?ys" using assms by (auto simp: distinct_map dest: in_set_takeD)
  moreover have sub: "set ?ys \<subseteq> set xs" by (auto dest: in_set_takeD)
  moreover have "inj_on f (set ?ys)" by (rule inj_on_subset [OF _ sub]) (use assms in \<open>simp add: distinct_map\<close>)
  ultimately show ?thesis by (simp only: distinct_map)
qed

lemma saved_sound:
  assumes "valid_memory st"
  shows "file_sound (store_Save (fst (recordsForPersistenceLocked c now (as_sessions st))) st')"
proof -
  let ?rs = "fst (recordsForPersistenceLocked c now (as_sessions st))"
  have "set ?rs \<subseteq> snd ` set (as_sessions st)"
    by (auto simp: recordsForPersistenceLocked_def sorted_terminals_def Let_def dest!: in_set_takeD)
  moreover have "distinct (map ar_SessionID ?rs)"
    using distinct_parts [OF sound_ids [OF assms], of "\<lambda>r. \<not> terminalSessionStatus (ar_Status r)"]
    by (simp add: recordsForPersistenceLocked_def sorted_terminals_def Let_def)
  ultimately show ?thesis using sound_entry [OF assms] by (auto simp: file_sound_def store_Save_def distinct_map)
qed

lemma saveLocked_sound:
  assumes "saveLocked c now res st = (b, st')" "valid_memory st" "file_sound st"
  shows "valid_memory st' \<and> file_sound st'"
proof -
  note e = saveLocked_effect [OF assms(1) sound_keyed [OF assms(2)]]
  have "valid_memory st'" using e(1,3) assms(2) by (auto simp: valid_memory_def keyed_def)
  moreover have "file_sound st'"
    using assms saved_sound [OF assms(2), of c now]
    by (auto simp: saveLocked_def Let_def file_sound_def drop_removed_def split: save_result.splits)
  ultimately show ?thesis by blast
qed

lemma file_sound_put [simp]: "file_sound (put_session i r st) = file_sound st" "file_sound (drop_session i st) = file_sound st"
  by (simp_all add: file_sound_def)

lemma sound_save_put:
  "saveLocked c now res (put_session i r st) = (b, st') \<Longrightarrow> valid_memory st \<Longrightarrow> file_sound st \<Longrightarrow> record_ok i r \<Longrightarrow> valid_memory st' \<and> file_sound st'"
  using saveLocked_sound sound_put file_sound_put by blast

subsection \<open>Sections\<close>

text \<open>A section leaves valid records in memory and in the file.\<close>

abbreviation both_sound :: "agent_state \<Rightarrow> bool" where
  "both_sound st \<equiv> valid_memory st \<and> file_sound st"

lemma start_begin_sound:
  assumes "start_begin c q t now res st = (out, st')" "both_sound st" "record_ok (cq_SessionID q) (start_record q t)"
  shows "both_sound st'"
proof -
  let ?i = "cq_SessionID q" and ?r = "start_record q t"
  consider "st' = st"
    | b st1 where "saveLocked c now res (put_session ?i ?r st) = (b, st1)" "st' = (if b then st1 else drop_session ?i st1)"
    using assms(1) by (auto simp: start_begin_def Let_def split: option.splits if_splits prod.splits bool.splits)
  then show ?thesis
  proof cases
    case 2
    then show ?thesis using sound_save_put [OF 2(1)] assms(2,3) sound_drop by simp
  qed (use assms(2) in simp)
qed

lemma start_end_sound:
  assumes "start_end c i r now res st = (out, st')" "both_sound st" "session_of i st = Some x" "record_ok i (running_record r x)"
  shows "both_sound st'"
proof -
  consider "st' = st" | b where "saveLocked c now res (put_session i (running_record r x) st) = (b, st')"
    using assms(1,3) by (auto simp: start_end_def split: option.splits if_splits prod.splits bool.splits)
  then show ?thesis by cases (use assms(2,4) sound_save_put in auto)
qed

lemma failed_end_sound:
  assumes "failed_end c i reason ok closedAt now res st = (b, st')" "both_sound st" "IsUUID i"
  shows "both_sound st'"
proof -
  define row0 where "row0 = (case session_of i st of None \<Rightarrow> zero_record\<lparr>ar_SessionID := i\<rparr> | Some r \<Rightarrow> r)"
  define row where "row = (if ok then row0\<lparr>ar_Status := AgentFailed, ar_ClosedAt := Some closedAt\<rparr>
      else row0\<lparr>ar_Status := AgentRevokeFailed\<rparr>)\<lparr>ar_CloseReason := reason\<rparr>"
  have r0: "ar_SessionID row0 = i" "params_ok row0"
    using sound_session assms(2) by (auto simp: row0_def record_ok_def params_ok_def hasAnySessionParameter_def zero_record_def split: option.splits)
  then have r: "record_ok i row" "record_ok i (row\<lparr>ar_Status := AgentRevokeFailed, ar_ClosedAt := None\<rparr>)"
    using assms(3)
    by (auto simp: row_def record_ok_def validateRecord_def params_ok_def hasAnySessionParameter_def validSessionParameters_def)
  obtain st1 where save: "saveLocked c now res (put_session i row st) = (b, st1)"
    and st': "st' = (if b \<or> \<not> ok then st1 else put_session i (row\<lparr>ar_Status := AgentRevokeFailed, ar_ClosedAt := None\<rparr>) st1)"
    using assms(1) by (auto simp: failed_end_def Let_def row_def row0_def split: prod.splits bool.splits if_splits)
  then show ?thesis using sound_save_put [OF save _ _ r(1)] sound_put [OF _ r(2)] assms(2) by simp
qed

lemma stop_begin_sound:
  assumes "stop_begin c i reason0 now0 now res st = (out, st')" "both_sound st" "IsUUID i"
  shows "both_sound st' \<and> (\<forall>why. out = StopCall why \<longrightarrow> (\<exists>r. session_of i st' = Some r \<and> ar_Status r = AgentStopping) \<and>
    (\<forall>r. session_of i st = Some r \<longrightarrow> ar_Status r \<notin> {AgentStarting, AgentStopping}))"
proof -
  define row where "row = (case session_of i st of None \<Rightarrow> zero_record\<lparr>ar_SessionID := i\<rparr> | Some r \<Rightarrow> r)"
  have r0: "ar_SessionID row = i" "params_ok row"
    using sound_session assms(2) by (auto simp: row_def record_ok_def params_ok_def hasAnySessionParameter_def zero_record_def split: option.splits)
  from assms(1) show ?thesis
  proof (cases rule: stop_begin_cases)
    case (saved reason b st1)
    note 2 = saved [folded row_def]
    let ?r = "row\<lparr>ar_Status := AgentStopping, ar_CloseReason := reason\<rparr>"
    have r: "record_ok i ?r"
      using r0 assms(3) by (auto simp: record_ok_def validateRecord_def params_ok_def hasAnySessionParameter_def validSessionParameters_def)
    have st1: "both_sound st1" by (rule sound_save_put [OF 2(2) _ _ r]) (use assms(2) in simp_all)
    have "session_of i st1 = Some ?r" by (rule save_put(3) [OF 2(2) sound_keyed _ _ unended_status])
      (use assms(2) r0 IsUUID_nonempty [OF assms(3)] in simp_all)
    moreover have "both_sound st'"
    proof (cases "session_of i st")
      case None
      then show ?thesis using 2(3) st1 sound_drop by simp
    next
      case (Some x)
      then show ?thesis using 2(3) st1 sound_put [OF _ sound_session [of st i x]] assms(2) by simp
    qed
    ultimately show ?thesis using 2(1,3,4) by simp
  qed (use assms(2) in simp)
qed

text \<open>The record of a session being stopped.\<close>

lemma stop_end_sound:
  assumes "stop_end c i reason closedAt now res st = (b, st')" "both_sound st" "session_of i st = Some r"
  shows "both_sound st'"
proof -
  define row where "row = r\<lparr>ar_Status := terminalStatus reason, ar_CloseReason := reason, ar_ClosedAt := Some closedAt\<rparr>"
  have ok: "record_ok i r" by (rule sound_session [OF conjunct1 [OF assms(2)] assms(3)])
  have r: "record_ok i row" "record_ok i (row\<lparr>ar_Status := AgentRevokeFailed, ar_ClosedAt := None\<rparr>)"
    using ok record_ok_uuid [OF ok]
    by (simp_all add: row_def terminalStatus_def record_ok_def validateRecord_def params_ok_def hasAnySessionParameter_def validSessionParameters_def)
  obtain st1 where save: "saveLocked c now res (put_session i row st) = (b, st1)"
    "st' = (if b then st1 else put_session i (row\<lparr>ar_Status := AgentRevokeFailed, ar_ClosedAt := None\<rparr>) st1)"
    using assms(1,3) by (auto simp: stop_end_def session_or_zero_def Let_def row_def split: prod.splits bool.splits)
  then show ?thesis using sound_save_put [OF save(1) _ _ r(1)] sound_put [OF _ r(2)] assms(2) by simp
qed

lemma revoke_failed_ok:
  assumes "valid_memory st" "session_of i st = Some r"
  shows "record_ok i (r\<lparr>ar_Status := AgentRevokeFailed, ar_CloseReason := reason\<rparr>)"
  using sound_session [OF assms] record_ok_uuid [OF sound_session [OF assms]]
  by (simp add: record_ok_def validateRecord_def params_ok_def hasAnySessionParameter_def validSessionParameters_def)

lemma markRevokeFailed_sound:
  assumes "markRevokeFailed c i reason now res st = (b, st')" "both_sound st" "session_of i st = Some r"
  shows "both_sound st'"
proof -
  have "saveLocked c now res (put_session i (r\<lparr>ar_Status := AgentRevokeFailed, ar_CloseReason := reason\<rparr>) st) = (b, st')"
    using assms(1,3) by (simp add: markRevokeFailed_def session_or_zero_def)
  then show ?thesis by (rule sound_save_put) (use assms(2) revoke_failed_ok [OF _ assms(3)] in simp_all)
qed

lemma prepareRecoveredRetry_sound:
  assumes "both_sound st" "session_of i st = Some r"
  shows "both_sound (prepareRecoveredRetry i reason st)"
  using sound_put [OF conjunct1 [OF assms(1)] revoke_failed_ok [OF conjunct1 [OF assms(1)] assms(2), of reason]] assms
  by (simp add: prepareRecoveredRetry_def session_or_zero_def)

lemma get_end_sound:
  assumes "get_end c i ended closedAt now res st = (b, st')" "both_sound st" "terminalSessionStatus ended"
  shows "both_sound st'"
proof -
  let ?x = "session_or_zero i st"
  let ?r = "?x\<lparr>ar_Status := ended, ar_CloseReason := ''controller_status'', ar_ClosedAt := Some closedAt\<rparr>"
  consider "st' = st" | st1 b' where "ar_Status ?x = AgentRunning" "saveLocked c now res (put_session i ?r st) = (b', st1)"
      "st' = (if b' then st1 else put_session i ?x st1)"
    using assms(1) by (auto simp: get_end_def Let_def split: prod.splits bool.splits if_splits)
  then show ?thesis
  proof cases
    case 2
    have "session_of i st = Some ?x" using 2(1) by (auto simp: session_or_zero_def zero_record_def split: option.splits)
    then have x: "record_ok i ?x" using sound_session assms(2) by blast
    then have "record_ok i ?r" using record_ok_status(2) [OF x record_ok_uuid [OF x] assms(3)] by simp
    then show ?thesis using 2(3) sound_save_put [OF 2(2)] sound_put [OF _ x] assms(2) by simp
  qed (use assms(2) in simp)
qed

lemma recover_begin_sound:
  assumes "recover_begin c now res st = (out, st')" "file_sound st"
  shows "file_sound st'" "out = Inr records \<Longrightarrow> valid_memory st'" "res = Saved \<Longrightarrow> \<exists>records. out = Inr records"
proof -
  let ?st = "st\<lparr>as_sessions := map (\<lambda>r. (ar_SessionID r, r)) (as_file st)\<rparr>"
  have v: "list_all validateRecord (as_file st)" "distinct (map ar_SessionID (as_file st))"
    using assms(2) by (auto simp: file_sound_def record_ok_def list_all_iff)
  have "valid_memory ?st" "file_sound ?st"
    using assms(2) by (auto simp: valid_memory_def file_sound_def session_of_def comp_def dest!: map_of_SomeD)
  moreover have checked: "check_records [] (as_file st) = None" using v by (simp add: check_records_ok)
  ultimately have s: "both_sound st'"
    using assms(1) saveLocked_sound [of c now res ?st _ st'] by (auto simp: recover_begin_def Let_def split: prod.splits bool.splits)
  then show "file_sound st'" "out = Inr records \<Longrightarrow> valid_memory st'" by simp_all
  show "res = Saved \<Longrightarrow> \<exists>records. out = Inr records"
    using assms(1) checked by (auto simp: recover_begin_def saveLocked_def Let_def)
qed

subsection \<open>Operations in flight\<close>

text \<open>Clients that start no web-only session, whose expiry is still ahead when the start is accepted, and that
  do not stop a session while its failed start is being cleaned up.\<close>

fun failing :: "activity \<Rightarrow> bool" where
  "failing (ActFail i reason) = True"
| "failing (ActFailed i reason ok) = True"
| "failing _ = False"

fun stopping :: "activity \<Rightarrow> bool" where
  "stopping (ActStop i reason) = True"
| "stopping (ActStopped i reason) = True"
| "stopping (ActStopFailed i reason) = True"
| "stopping _ = False"

fun orderly :: "agent_conf \<Rightarrow> agent_call \<Rightarrow> bool" where
  "orderly x (CallStart q t) \<longleftrightarrow> \<not> cq_WebOnly q \<and> (case cq_ExpiresAt q of None \<Rightarrow> True | Some e \<Rightarrow> t < e)"
| "orderly x (CallStop i) \<longleftrightarrow> list_all (\<lambda>a. failing a \<longrightarrow> i \<notin> act_ids a) (cf_acts x)"
| "orderly x (CallStatus i) \<longleftrightarrow> True"

text \<open>What an operation in flight relies on.\<close>

fun act_sound :: "agent_state \<Rightarrow> activity \<Rightarrow> bool" where
  "act_sound st (ActStart q t) \<longleftrightarrow> session_of (cq_SessionID q) st = Some (start_record q t)"
| "act_sound st (ActStop i reason) \<longleftrightarrow> (\<exists>r. session_of i st = Some r \<and> ar_Status r = AgentStopping)"
| "act_sound st (ActStopped i reason) \<longleftrightarrow> (\<exists>r. session_of i st = Some r \<and> ar_Status r = AgentStopping)"
| "act_sound st (ActStopFailed i reason) \<longleftrightarrow> (\<exists>r. session_of i st = Some r \<and> ar_Status r = AgentStopping)"
| "act_sound st _ \<longleftrightarrow> True"

definition undisturbed :: "agent_state \<Rightarrow> activity list \<Rightarrow> bool" where
  "undisturbed st acts \<longleftrightarrow> distinct (filter stopping acts) \<and>
     (\<forall>a\<in>set acts. act_sound st a \<and> (\<forall>i\<in>act_ids a. IsUUID i) \<and>
        (stopping a \<longrightarrow> (\<forall>b\<in>set acts. stopping b \<or> failing b \<longrightarrow> act_ids a \<inter> act_ids b \<noteq> {} \<longrightarrow> b = a)))"

definition restartable :: "agent_conf \<Rightarrow> bool" where
  "restartable x \<longleftrightarrow> file_sound (cf_state x) \<and> (cf_up x \<longrightarrow> valid_memory (cf_state x) \<and> undisturbed (cf_state x) (cf_acts x))"

definition untouched :: "string \<Rightarrow> activity \<Rightarrow> bool" where
  "untouched i a \<longleftrightarrow> (i \<in> act_ids a \<longrightarrow> \<not> stopping a \<and> (\<forall>q t. a \<noteq> ActStart q t))"

lemma start_record_unended: "unended (start_record q t)"
  by (simp add: start_record_def)

lemma act_sound_touches:
  assumes "act_sound st a" "touches i st st'" "untouched i a"
  shows "act_sound st' a"
  using assms start_record_unended by (cases a) (fastforce simp: touches_def untouched_def)+

lemma quietI:
  assumes "distinct (filter stopping acts)" "\<And>a. a \<in> set acts \<Longrightarrow> act_sound st a" "\<And>a i. a \<in> set acts \<Longrightarrow> i \<in> act_ids a \<Longrightarrow> IsUUID i"
    "\<And>a b i. a \<in> set acts \<Longrightarrow> stopping a \<Longrightarrow> b \<in> set acts \<Longrightarrow> stopping b \<or> failing b \<Longrightarrow> i \<in> act_ids a \<Longrightarrow> i \<in> act_ids b \<Longrightarrow> b = a"
  shows "undisturbed st acts"
  using assms unfolding undisturbed_def by blast

lemma quietD:
  assumes "undisturbed st acts" "a \<in> set acts"
  shows "act_sound st a" "i \<in> act_ids a \<Longrightarrow> IsUUID i"
    "stopping a \<Longrightarrow> b \<in> set acts \<Longrightarrow> stopping b \<or> failing b \<Longrightarrow> i \<in> act_ids a \<Longrightarrow> i \<in> act_ids b \<Longrightarrow> b = a"
  using assms unfolding undisturbed_def by blast+

lemma quiet_once: "undisturbed st acts \<Longrightarrow> stopping a \<Longrightarrow> a \<notin> set (remove1 a acts)"
proof -
  assume "undisturbed st acts" and a: "stopping a"
  then have "a \<notin> set (filter stopping (remove1 a acts))" by (simp add: undisturbed_def filter_remove1 set_remove1_eq)
  then show ?thesis using a by simp
qed

text \<open>A section on \<open>i\<close>, when no operation in flight relies on the record of \<open>i\<close>.\<close>

lemma quiet_section:
  assumes q: "undisturbed st acts" and t: "touches i st st'" and free: "\<And>b. b \<in> set acts \<Longrightarrow> untouched i b"
  shows "undisturbed st' acts"
proof (rule quietI)
  show "distinct (filter stopping acts)" using q by (simp add: undisturbed_def)
  show "act_sound st' a" if "a \<in> set acts" for a
    using act_sound_touches [OF quietD(1) [OF q that] t free [OF that]] .
  show "IsUUID j" if "a \<in> set acts" "j \<in> act_ids a" for a j using quietD(2) [OF q that] .
  show "b = a" if "a \<in> set acts" "stopping a" "b \<in> set acts" "stopping b \<or> failing b" "j \<in> act_ids a" "j \<in> act_ids b" for a b j
    by (rule quietD(3) [OF q that])
qed

lemma quiet_fewer:
  assumes q: "undisturbed st acts"
  shows "undisturbed st (remove1 a acts)"
proof (rule quietI)
  show "distinct (filter stopping (remove1 a acts))" using q by (simp add: undisturbed_def filter_remove1 distinct_remove1)
  show "act_sound st b" if "b \<in> set (remove1 a acts)" for b using quietD(1) [OF q in_remove1 [OF that]] .
  show "IsUUID j" if "b \<in> set (remove1 a acts)" "j \<in> act_ids b" for b j using quietD(2) [OF q in_remove1 [OF that(1)] that(2)] .
  show "d = b" if "b \<in> set (remove1 a acts)" "stopping b" "d \<in> set (remove1 a acts)" "stopping d \<or> failing d" "j \<in> act_ids b" "j \<in> act_ids d" for b d j
    by (rule quietD(3) [OF q in_remove1 [OF that(1)] that(2) in_remove1 [OF that(3)] that(4-)])
qed

lemma quiet_add:
  assumes q: "undisturbed st acts" and b: "act_sound st b" "\<And>i. i \<in> act_ids b \<Longrightarrow> IsUUID i"
    and s: "stopping b \<Longrightarrow> act_ids b \<noteq> {} \<and> (\<forall>a\<in>set acts. stopping a \<or> failing a \<longrightarrow> act_ids a \<inter> act_ids b = {})"
    and f: "failing b \<Longrightarrow> \<forall>a\<in>set acts. stopping a \<longrightarrow> act_ids a \<inter> act_ids b = {}"
  shows "undisturbed st (b # acts)"
proof (rule quietI)
  show "distinct (filter stopping (b # acts))" using q s by (auto simp: undisturbed_def)
  show "act_sound st a" if "a \<in> set (b # acts)" for a using that b(1) quietD(1) [OF q] by auto
  show "IsUUID j" if "a \<in> set (b # acts)" "j \<in> act_ids a" for a j using that b(2) quietD(2) [OF q] by auto
  show "d = a" if "a \<in> set (b # acts)" "stopping a" "d \<in> set (b # acts)" "stopping d \<or> failing d" "j \<in> act_ids a" "j \<in> act_ids d" for a d j
  proof (cases "a = b \<or> d = b")
    case True
    then show ?thesis using that s f by auto
  next
    case False
    then show ?thesis using that quietD(3) [OF q _ that(2) _ that(4-6)] by auto
  qed
qed

lemma restartableI:
  "cf_up x \<Longrightarrow> both_sound st \<Longrightarrow> undisturbed st acts \<Longrightarrow> restartable (x\<lparr>cf_state := st, cf_acts := acts\<rparr>)"
  by (simp add: restartable_def)

lemma restartableD:
  assumes "restartable x" "listeners_recorded x" "a \<in> set (cf_acts x)"
  shows "both_sound (cf_state x)" "undisturbed (cf_state x) (cf_acts x)" "cf_up x"
  using assms recorded_up [OF assms(2,3)] by (auto simp: restartable_def)

subsection \<open>Steps\<close>

lemma owner_alone:
  assumes "listeners_recorded x" "a \<in> set (cf_acts x)" "owns a" "i \<in> act_ids a" "b \<in> set (remove1 a (cf_acts x))"
  shows "i \<notin> act_ids b"
proof
  assume "i \<in> act_ids b"
  then have "b = a" using recorded_acts(4) [OF assms(1-3) in_remove1 [OF assms(5)] assms(4)] by simp
  then show False using owns_once [OF assms(1,3)] assms(5) by simp
qed

lemma untouched_status:
  assumes "undisturbed st acts" "b \<in> set acts" "\<And>r. session_of i st = Some r \<Longrightarrow> ar_Status r \<notin> {AgentStarting, AgentStopping}"
  shows "untouched i b"
  using quietD(1) [OF assms(1,2)] assms(3) by (cases b) (auto simp: untouched_def start_record_def)

lemma untouched_ending:
  assumes inv: "listeners_recorded x" "undisturbed (cf_state x) (cf_acts x)" and a: "a \<in> set (cf_acts x)" "stopping a \<or> failing a" "i \<in> act_ids a"
    and b: "b \<in> set (remove1 a (cf_acts x))"
  shows "untouched i b"
  unfolding untouched_def
proof (intro impI conjI allI notI)
  assume i: "i \<in> act_ids b"
  show False if "stopping b"
  proof -
    have "a = b" by (rule quietD(3) [OF inv(2) in_remove1 [OF b] that a(1,2) i a(3)])
    then show False using quiet_once [OF inv(2) that] b by simp
  qed
  show False if "b = ActStart q t" for q t
    using recorded_acts(4) [OF inv(1) in_remove1 [OF b] _ a(1) i a(3)] that a(2) by auto
qed

text \<open>An operation on \<open>i\<close> that ends the session, or is cleaning up, takes its last section.\<close>

lemma restartable_done:
  assumes inv: "restartable x" "listeners_recorded x" and a: "a \<in> set (cf_acts x)" "stopping a \<or> failing a" "i \<in> act_ids a"
    and t: "touches i (cf_state x) st" "both_sound st"
  shows "restartable (x\<lparr>cf_state := st, cf_acts := remove1 a (cf_acts x)\<rparr>)"
proof (rule restartableI)
  note d = restartableD [OF inv a(1)]
  show "cf_up x" "both_sound st" using d(3) t(2) by simp_all
  show "undisturbed st (remove1 a (cf_acts x))"
    by (rule quiet_section [OF quiet_fewer [OF d(2)] t(1)]) (rule untouched_ending [OF inv(2) d(2) a])
qed

text \<open>An operation gets an answer and goes on to \<open>b\<close>.\<close>

lemma restartable_answer:
  assumes inv: "restartable x" "listeners_recorded x" and a: "a \<in> set (cf_acts x)" "act_ids b \<subseteq> act_ids a" "act_sound (cf_state x) b"
    and b: "stopping b \<longrightarrow> stopping a \<and> act_ids b \<noteq> {}" "failing b \<longrightarrow> failing a \<or> owns a"
  shows "restartable (x\<lparr>cf_acts := b # remove1 a (cf_acts x)\<rparr>)"
proof -
  note d = restartableD [OF inv a(1)]
  have "undisturbed (cf_state x) (b # remove1 a (cf_acts x))"
  proof (rule quiet_add [OF quiet_fewer [OF d(2)] a(3)])
    show "IsUUID i" if "i \<in> act_ids b" for i using quietD(2) [OF d(2) a(1)] a(2) that by blast
    show "act_ids b \<noteq> {} \<and> (\<forall>z\<in>set (remove1 a (cf_acts x)). stopping z \<or> failing z \<longrightarrow> act_ids z \<inter> act_ids b = {})" if s: "stopping b"
    proof -
      have "act_ids z \<inter> act_ids a = {}" if z: "z \<in> set (remove1 a (cf_acts x))" "stopping z \<or> failing z" for z
      proof (rule ccontr)
        assume "act_ids z \<inter> act_ids a \<noteq> {}"
        then have "z = a" using quietD(3) [OF d(2) a(1) _ in_remove1 [OF z(1)] z(2)] b(1) s by auto
        then show False using quiet_once [OF d(2)] z(1) b(1) s by simp
      qed
      then show ?thesis using a(2) b(1) s by blast
    qed
    show "\<forall>z\<in>set (remove1 a (cf_acts x)). stopping z \<longrightarrow> act_ids z \<inter> act_ids b = {}" if f: "failing b"
    proof (intro ballI impI)
      fix z assume z: "z \<in> set (remove1 a (cf_acts x))" "stopping z"
      have "i \<notin> act_ids z" if i: "i \<in> act_ids a" for i
      proof (cases "owns a")
        case True
        then show ?thesis using owner_alone [OF inv(2) a(1) _ i z(1)] by blast
      next
        case False
        then show ?thesis using untouched_ending [OF inv(2) d(2) a(1) _ i z(1)] b(2) f z(2) by (auto simp: untouched_def)
      qed
      then show "act_ids z \<inter> act_ids b = {}" using a(2) by blast
    qed
  qed
  then show ?thesis using inv(1) d by (simp add: restartable_def)
qed

lemma restartable_fewer: "restartable x \<Longrightarrow> restartable (x\<lparr>cf_acts := remove1 a (cf_acts x)\<rparr>)"
  using quiet_fewer by (simp add: restartable_def)

lemma restartable_live [simp]:
  "restartable (x\<lparr>cf_live := l\<rparr>) = restartable x"
  "restartable (x\<lparr>cf_live := l, cf_acts := acts\<rparr>) = restartable (x\<lparr>cf_acts := acts\<rparr>)"
  by (simp_all add: restartable_def)

lemma restartable_stop_answer:
  assumes "restartable x" "listeners_recorded x" "ActStop i reason \<in> set (cf_acts x)"
  shows "restartable (x\<lparr>cf_acts := ActStopped i reason # remove1 (ActStop i reason) (cf_acts x)\<rparr>)"
    "restartable (x\<lparr>cf_acts := ActStopFailed i reason # remove1 (ActStop i reason) (cf_acts x)\<rparr>)"
  by (rule restartable_answer [OF assms]; use quietD(1) [OF restartableD(2) [OF assms] assms(3)] in simp)+

text \<open>A call of a client that finds no operation relying on the record.\<close>

lemma restartable_call:
  assumes inv: "restartable x" "cf_up x" and t: "st = cf_state x \<or> touches i (cf_state x) st \<and>
      (\<forall>r. session_of i (cf_state x) = Some r \<longrightarrow> ar_Status r \<notin> {AgentStarting, AgentStopping})" "both_sound st"
  shows "restartable (x\<lparr>cf_state := st\<rparr>)"
proof -
  have q: "undisturbed (cf_state x) (cf_acts x)" using inv by (simp add: restartable_def)
  have "undisturbed st (cf_acts x)" using t(1)
  proof
    assume "touches i (cf_state x) st \<and> (\<forall>r. session_of i (cf_state x) = Some r \<longrightarrow> ar_Status r \<notin> {AgentStarting, AgentStopping})"
    then show ?thesis using quiet_section [OF q] untouched_status [OF q] by blast
  qed (use q in simp)
  then show ?thesis using inv t(2) by (simp add: restartable_def)
qed

lemma restartable_add:
  assumes "restartable x" "cf_up x" "act_sound (cf_state x) b" "\<And>i. i \<in> act_ids b \<Longrightarrow> IsUUID i" "\<not> failing b"
    "stopping b \<Longrightarrow> act_ids b \<noteq> {} \<and> (\<forall>a\<in>set (cf_acts x). stopping a \<or> failing a \<longrightarrow> act_ids a \<inter> act_ids b = {})"
  shows "restartable (x\<lparr>cf_acts := b # cf_acts x\<rparr>)"
  using assms quiet_add [of "cf_state x" "cf_acts x" b] by (simp add: restartable_def)

lemma restartable_start_call:
  assumes inv: "restartable x" "serving x" and v: "validateCreateRequest c now0 q = None" "orderly x (CallStart q t)"
    and b: "start_begin c q t now res (cf_state x) = (StartCall, st)" "cq_SessionID q \<notin> pending x"
  shows "restartable (x\<lparr>cf_state := st, cf_acts := ActStart q t # cf_acts x\<rparr>)"
proof -
  have up: "cf_up x" using inv(2) by (simp add: serving_def)
  then have s: "both_sound (cf_state x)" using inv(1) by (simp add: restartable_def)
  have r: "record_ok (cq_SessionID q) (start_record q t)" by (rule start_record_ok [OF v(1)]) (use v(2) in \<open>auto split: option.splits\<close>)
  note e = start_begin_call [OF b(1) sound_keyed [OF conjunct1 [OF s]] valid_id [OF v(1)]]
  have "restartable (x\<lparr>cf_state := st\<rparr>)"
    by (rule restartable_call [OF inv(1) up, of _ "cq_SessionID q"]) (use e start_begin_sound [OF b(1) s r] in auto)
  then show ?thesis using restartable_add [of "x\<lparr>cf_state := st\<rparr>" "ActStart q t"] up e record_ok_uuid [OF r] by simp
qed

lemma restartable_start_answer:
  assumes inv: "restartable x" "serving x" and v: "validateCreateRequest c now0 q = None" "orderly x (CallStart q t)"
    and b: "start_begin c q t now res (cf_state x) = (StartAnswer a, st)"
  shows "restartable (x\<lparr>cf_state := st\<rparr>)"
proof -
  have up: "cf_up x" using inv(2) by (simp add: serving_def)
  then have s: "both_sound (cf_state x)" using inv(1) by (simp add: restartable_def)
  have r: "record_ok (cq_SessionID q) (start_record q t)" by (rule start_record_ok [OF v(1)]) (use v(2) in \<open>auto split: option.splits\<close>)
  show ?thesis
    by (rule restartable_call [OF inv(1) up, of _ "cq_SessionID q"])
       (use start_begin_answer [OF b sound_keyed [OF conjunct1 [OF s]] valid_id [OF v(1)]] start_begin_sound [OF b s r] in auto)
qed

lemma restartable_start_end:
  assumes inv: "restartable x" "listeners_recorded x" "ActStart q t \<in> set (cf_acts x)"
    and v: "validateCreateResponse q p t completed = Inr (s, z)"
    and e: "start_end c (cq_SessionID q) (p\<lparr>cr_Status := ''running'', cr_StartedAt := s, cr_ExpiresAt := z\<rparr>) now res (cf_state x) = (out, st)"
    and new: "new = [] \<or> new = [ActFail (cq_SessionID q) reason]"
  shows "restartable (x\<lparr>cf_state := st, cf_acts := new @ remove1 (ActStart q t) (cf_acts x)\<rparr>)"
proof (rule restartableI)
  let ?i = "cq_SessionID q" and ?a = "ActStart q t"
  note d = restartableD [OF inv]
  show "cf_up x" by (rule d(3))
  have r: "session_of ?i (cf_state x) = Some (start_record q t)" using quietD(1) [OF d(2) inv(3)] by simp
  have "record_ok ?i (start_record q t)" using sound_session [OF conjunct1 [OF d(1)] r] .
  then show "both_sound st" by (rule start_end_sound [OF e d(1) r running_record_ok [OF v]])
  have free: "?i \<notin> act_ids b" if "b \<in> set (remove1 ?a (cf_acts x))" for b using owner_alone [OF inv(2,3)] that by simp
  have "touches ?i (cf_state x) st"
    using start_end_effect [OF e sound_keyed [OF conjunct1 [OF d(1)]] _ r] recorded_acts(1) [OF inv(2,3)] by (simp add: start_record_def)
  then have q: "undisturbed st (remove1 ?a (cf_acts x))"
    using quiet_section [OF quiet_fewer [OF d(2)]] free by (simp add: untouched_def)
  have "IsUUID ?i" using quietD(2) [OF d(2) inv(3)] by simp
  then show "undisturbed st (new @ remove1 ?a (cf_acts x))" using new q quiet_add [OF q, of "ActFail ?i reason"] free by auto
qed

lemma restartable_stop_begin:
  assumes inv: "restartable x" "serving x" and i: "IsUUID i" "orderly x (CallStop i)"
    and b: "stop_begin c i reason0 now0 now res (cf_state x) = (out, st)"
    and new: "new = [] \<or> out = StopCall reason \<and> new = [ActStop i reason]"
  shows "restartable (x\<lparr>cf_state := st, cf_acts := new @ cf_acts x\<rparr>)"
proof -
  have up: "cf_up x" using inv(2) by (simp add: serving_def)
  then have s: "both_sound (cf_state x)" and q: "undisturbed (cf_state x) (cf_acts x)" using inv(1) by (simp_all add: restartable_def)
  note e = stop_begin_sound [OF b s i(1)]
  have t: "st = cf_state x \<or> touches i (cf_state x) st \<and> (\<forall>r. session_of i (cf_state x) = Some r \<longrightarrow> ar_Status r \<notin> {AgentStarting, AgentStopping})"
    using b stop_begin_effect [OF b sound_keyed [OF conjunct1 [OF s]] IsUUID_nonempty [OF i(1)]]
    by (cases rule: stop_begin_cases) auto
  have x: "restartable (x\<lparr>cf_state := st\<rparr>)" by (rule restartable_call [OF inv(1) up t]) (use e in simp)
  show ?thesis using new
  proof
    assume n: "out = StopCall reason \<and> new = [ActStop i reason]"
    have "act_ids a \<inter> {i} = {}" if "a \<in> set (cf_acts x)" "stopping a \<or> failing a" for a
      using untouched_status [OF q that(1), of i] e n i(2) that by (auto simp: untouched_def list_all_iff)
    then show ?thesis using restartable_add [OF x, of "ActStop i reason"] up e n i(1) by simp
  qed (use x in simp)
qed

lemma restartable_get_done:
  assumes inv: "restartable x" "listeners_recorded x" "capacity_ok c x" and a: "ActEnded i ended \<in> set (cf_acts x)"
    and e: "get_end c i ended closedAt now res (cf_state x) = (b, st)"
  shows "restartable (x\<lparr>cf_state := st, cf_acts := remove1 (ActEnded i ended) (cf_acts x)\<rparr>)"
proof -
  note d = restartableD [OF inv(1,2) a]
  have "terminalSessionStatus ended" using inv(3) a unfolding capacity_ok_def by blast
  then have s: "both_sound st" by (rule get_end_sound [OF e d(1)])
  have i: "i \<noteq> []" using recorded_acts(3) [OF inv(2) a] by auto
  have "restartable (x\<lparr>cf_state := st\<rparr>)"
    by (rule restartable_call [OF inv(1) d(3), of _ i]) (use get_end_effect [OF e sound_keyed [OF conjunct1 [OF d(1)]] i] s in auto)
  then show ?thesis using restartable_fewer by fastforce
qed

lemma restartable_stop_done:
  assumes inv: "restartable x" "listeners_recorded x" and a: "ActStopped i reason \<in> set (cf_acts x)"
    and e: "stop_end c i reason closedAt now res (cf_state x) = (b, st)"
  shows "restartable (x\<lparr>cf_state := st, cf_acts := remove1 (ActStopped i reason) (cf_acts x)\<rparr>)"
proof -
  note d = restartableD [OF inv a]
  obtain r where r: "session_of i (cf_state x) = Some r" using quietD(1) [OF d(2) a] by auto
  show ?thesis
    by (rule restartable_done [OF inv a, of i])
       (use stop_end_effect [OF e sound_keyed [OF conjunct1 [OF d(1)]]] stop_end_sound [OF e d(1) r] recorded_acts(3) [OF inv(2) a] in auto)
qed

lemma restartable_stop_failed:
  assumes inv: "restartable x" "listeners_recorded x" and a: "ActStopFailed i reason \<in> set (cf_acts x)"
    and e: "markRevokeFailed c i reason now res (cf_state x) = (b, st)"
  shows "restartable (x\<lparr>cf_state := st, cf_acts := remove1 (ActStopFailed i reason) (cf_acts x)\<rparr>)"
proof -
  note d = restartableD [OF inv a]
  obtain r where r: "session_of i (cf_state x) = Some r" using quietD(1) [OF d(2) a] by auto
  show ?thesis
    by (rule restartable_done [OF inv a, of i])
       (use markRevokeFailed_effect [OF e sound_keyed [OF conjunct1 [OF d(1)]]] markRevokeFailed_sound [OF e d(1) r] recorded_acts(3) [OF inv(2) a] in auto)
qed

lemma restartable_fail_done:
  assumes inv: "restartable x" "listeners_recorded x" and a: "ActFailed i reason ok \<in> set (cf_acts x)"
    and e: "failed_end c i reason ok closedAt now res (cf_state x) = (b, st)"
  shows "restartable (x\<lparr>cf_state := st, cf_acts := remove1 (ActFailed i reason ok) (cf_acts x)\<rparr>)"
proof -
  note d = restartableD [OF inv a]
  have i: "IsUUID i" using quietD(2) [OF d(2) a] by simp
  show ?thesis
    by (rule restartable_done [OF inv a, of i])
       (use failed_end_effect [OF e sound_keyed [OF conjunct1 [OF d(1)]] IsUUID_nonempty [OF i]] failed_end_sound [OF e d(1) i] in auto)
qed

lemma restartable_recover_call:
  assumes "restartable x" "recover_begin c now res (cf_state x) = (Inr records, st)"
  shows "restartable (x\<lparr>cf_state := st, cf_acts := [ActRecover records t], cf_up := True\<rparr>)"
proof -
  have f: "file_sound (cf_state x)" using assms(1) by (simp add: restartable_def)
  have "records = as_file (cf_state x)" using recover_begin_effect(2) [OF assms(2) refl] by blast
  then have "undisturbed st [ActRecover records t]"
    using f record_ok_uuid by (intro quietI) (auto simp: file_sound_def)
  then show ?thesis using recover_begin_sound [OF assms(2) f] by (simp add: restartable_def)
qed

lemma restartable_recover_stop:
  assumes inv: "restartable x" "listeners_recorded x" and a: "ActRecover (r # rs) t \<in> set (cf_acts x)" and u: "unended r"
    and b: "stop_begin c (ar_SessionID r) reason1 now0 now res
      (if prepare then prepareRecoveredRetry (ar_SessionID r) reason (cf_state x) else cf_state x) = (out, st)"
  shows "restartable (x\<lparr>cf_state := st, cf_acts := (case out of StopCall why \<Rightarrow> [ActStop (ar_SessionID r) why] | StopAnswer _ \<Rightarrow> []) @
      ActRecover rs t # remove1 (ActRecover (r # rs) t) (cf_acts x)\<rparr>)"
proof (rule restartableI)
  let ?i = "ar_SessionID r" and ?a = "ActRecover (r # rs) t" and ?rest = "remove1 (ActRecover (r # rs) t) (cf_acts x)"
  let ?st = "if prepare then prepareRecoveredRetry (ar_SessionID r) reason (cf_state x) else cf_state x"
  note d = restartableD [OF inv a]
  show "cf_up x" by (rule d(3))
  have k: "keyed (cf_state x)" by (rule sound_keyed [OF conjunct1 [OF d(1)]])
  have r: "session_of ?i (cf_state x) = Some r" "safe (cf_state x) ?i" "distinct (map ar_SessionID (r # rs))"
    using recorded_acts(1) [OF inv(2) a] u by auto
  have i: "IsUUID ?i" using quietD(2) [OF d(2) a] by simp
  have p: "touches ?i (cf_state x) ?st" "both_sound ?st"
    using prepareRecoveredRetry_effect [OF k r(1,2)] prepareRecoveredRetry_sound [OF d(1) r(1)] touches_refl [OF k] d(1) by auto
  note e = stop_begin_sound [OF b p(2) i]
  show "both_sound st" using e by blast
  have "touches ?i ?st st"
    using stop_begin_effect [OF b sound_keyed [OF conjunct1 [OF p(2)]] IsUUID_nonempty [OF i]] touches_refl [OF sound_keyed [OF conjunct1 [OF p(2)]]] by fast
  then have t: "touches ?i (cf_state x) st" using touches_trans p(1) by blast
  have free: "?i \<notin> act_ids z" if "z \<in> set ?rest" for z using owner_alone [OF inv(2) a] that by simp
  have "undisturbed st ?rest" by (rule quiet_section [OF quiet_fewer [OF d(2)] t]) (use free in \<open>simp add: untouched_def\<close>)
  then have q: "undisturbed st (ActRecover rs t # ?rest)" using quiet_add [of st ?rest "ActRecover rs t"] quietD(2) [OF d(2) a] by auto
  show "undisturbed st ((case out of StopCall why \<Rightarrow> [ActStop ?i why] | StopAnswer _ \<Rightarrow> []) @ ActRecover rs t # ?rest)"
  proof (cases out)
    case (StopCall why)
    then have "undisturbed st (ActStop ?i why # ActRecover rs t # ?rest)" using quiet_add [OF q, of "ActStop ?i why"] e i free by auto
    then show ?thesis using StopCall by simp
  qed (use q in simp)
qed

lemma restartable_recover_next:
  assumes inv: "restartable x" "listeners_recorded x" and a: "ActRecover (r # rs) t \<in> set (cf_acts x)"
  shows "restartable (x\<lparr>cf_acts := ActRecover rs t # remove1 (ActRecover (r # rs) t) (cf_acts x)\<rparr>)"
  by (rule restartable_answer [OF inv a]) auto

lemma restartable_status_call:
  "restartable x \<Longrightarrow> serving x \<Longrightarrow> IsUUID i \<Longrightarrow> restartable (x\<lparr>cf_acts := ActStatus i # cf_acts x\<rparr>)"
  using restartable_add [of x "ActStatus i"] by (simp add: serving_def)

lemma restartable_crash:
  "restartable x \<Longrightarrow> restartable (x\<lparr>cf_state := (cf_state x)\<lparr>as_sessions := []\<rparr>, cf_acts := [], cf_up := False\<rparr>)"
  by (simp add: restartable_def file_sound_def)

lemma restartable_recover_refused:
  "restartable x \<Longrightarrow> \<not> cf_up x \<Longrightarrow> recover_begin c now res (cf_state x) = (Inl err, st) \<Longrightarrow> restartable (x\<lparr>cf_state := st\<rparr>)"
  using recover_begin_sound(1) by (simp add: restartable_def)

lemma step_restartable:
  assumes "agent_step c orderly x y" and rec: "listeners_recorded x" "capacity_ok c x" and inv: "restartable x"
  shows "restartable y"
  using assms(1)
proof cases
  case (start_done q t r completed s z now res st)
  then show ?thesis using restartable_start_end [OF inv rec(1) start_done(2,3,4), of "[]"] by simp
next
  case (start_undone q t r completed s z now res reason st)
  then show ?thesis using restartable_start_end [OF inv rec(1) start_undone(2,3,4), of "[ActFail (cq_SessionID q) reason]" reason] by simp
next
  case (start_refused q t reason)
  then show ?thesis using restartable_answer [OF inv rec(1) start_refused(2), of "ActFail (cq_SessionID q) reason"] by simp
next
  case (fail_stopped i reason)
  then show ?thesis using restartable_answer [OF inv rec(1) fail_stopped(2), of "ActFailed i reason True"] by simp
next
  case (fail_not_stopped i reason)
  then show ?thesis using restartable_answer [OF inv rec(1) fail_not_stopped(2), of "ActFailed i reason False"] by simp
next
  case (stop_call i reason0 now0 now res reason st)
  then show ?thesis using restartable_stop_begin [OF inv stop_call(2-5), of "[ActStop i reason]" reason] by simp
next
  case (stop_answer i reason0 now0 now res a st)
  then show ?thesis using restartable_stop_begin [OF inv stop_answer(2-5), of "[]"] by simp
next
  case (start_answer now0 q t now res a st)
  then show ?thesis using restartable_start_answer [OF inv start_answer(2-5)] by simp
next
  case (status_ended i report ended)
  then show ?thesis using restartable_answer [OF inv rec(1) status_ended(2), of "ActEnded i ended"] by simp
next
  case (recover_stop r rs t restorable reason prepare now0 now res out st)
  then have "unended r" using recovery_unended [of c t _ r reason prepare] by blast
  then show ?thesis using restartable_recover_stop [OF inv rec(1)] recover_stop by blast
qed (use inv rec in \<open>simp_all add: restartable_start_call restartable_stop_answer restartable_fail_done restartable_stop_done
       restartable_stop_failed restartable_get_done restartable_status_call restartable_crash restartable_recover_call
       restartable_recover_refused restartable_recover_next restartable_fewer\<close>)

interpretation restarting: agent_invariant c orderly restartable for c
proof
  show "restartable agent_init" by (simp add: restartable_def agent_init_def file_sound_def)
  show "restartable y" if "agent_runs c orderly x" "restartable x" "agent_step c orderly x y" for x y
    by (rule step_restartable [OF that(3) recording.always [OF that(1)] limiting.always [OF that(1)] that(2)])
qed

subsection \<open>Reading the file back\<close>


text \<open>C26. A web-only session carries no source address, but the validation of the state file asks for one. As soon
  as the start of such a session has been recorded, a restart of the agent refuses the whole file.\<close>

theorem web_only_start_blocks_recovery:
  assumes "validateCreateRequest c now0 q = None" "cq_WebOnly q" "start_begin c q t now Saved st = (StartCall, st')"
  shows "\<exists>err. recover_begin c later res (st'\<lparr>as_sessions := []\<rparr>) = (Inl err, st'\<lparr>as_sessions := []\<rparr>)"
proof -
  let ?i = "cq_SessionID q" and ?r = "start_record q t"
  have "cq_SourceIP q = []"
    using assms(1,2) by (auto simp: validateCreateRequest_def ValidateCreateRequest_def split: if_splits)
  then have bad: "\<not> validateRecord ?r"
    by (simp add: validateRecord_def validSessionParameters_def start_record_def netParseIP_ok_def netip_ParseAddr_def ParseIP_def)
  have save: "saveLocked c now Saved (put_session ?i ?r st) = (True, st')"
    using assms(3) by (auto simp: start_begin_def Let_def split: option.splits if_splits prod.splits bool.splits)
  have "?r \<in> snd ` set (as_sessions (put_session ?i ?r st))"
    using session_of_put [of ?i ?i ?r st] by (force simp: session_of_def dest!: map_of_SomeD)
  moreover have "\<not> terminalSessionStatus (ar_Status ?r)" by (simp add: start_record_def terminalSessionStatus_def)
  moreover have "as_file st' = sort_key ar_SessionID (fst (recordsForPersistenceLocked c now (as_sessions (put_session ?i ?r st))))"
    using save by (auto simp: saveLocked_def store_Save_def drop_removed_def Let_def)
  ultimately have "?r \<in> set (as_file st')" by (simp add: recordsForPersistenceLocked_def Let_def)
  then have "check_records [] (as_file st') \<noteq> None" using bad by (auto simp: check_records_ok list_all_iff)
  then show ?thesis by (auto simp: recover_begin_def)
qed

end
