(* ===== verification/Sweeps.thy ===== *)
theory Sweeps
  imports Restart
begin

text \<open>
  Whole operations of the session manager when nothing interferes: a retried start answers with the session
  that is running, and a sweep ends every session it has to end.
\<close>

subsection \<open>Sections in a row\<close>

definition alone :: "agent_env \<Rightarrow> bool" where
  "alone e \<longleftrightarrow> (\<forall>p st. ae_others e p st = st)"

definition saving :: "agent_env \<Rightarrow> bool" where
  "saving e \<longleftrightarrow> (\<forall>p. ae_save e p = Saved)"

text \<open>The controller confirms every stop; the manager reads the clock next to judge the answer.\<close>

definition stops :: "agent_env \<Rightarrow> bool" where
  "stops e \<longleftrightarrow> (\<forall>p i. stop_error i (ae_stop e p i) (ae_clock e (Suc p)) = None)"

lemma locked_alone:
  "alone e \<Longrightarrow> locked e f w = (case f (ae_clock e (aw_pos w)) (ae_save e (aw_pos w)) (aw_state w) of
     (x, st) \<Rightarrow> (x, w\<lparr>aw_state := st, aw_pos := Suc (aw_pos w)\<rparr>))"
  by (simp add: locked_def alone_def Let_def)

lemmas runA = bindA_def returnA_def readA_def

subsection \<open>A retried start\<close>

definition same_session :: "create_response \<Rightarrow> create_response \<Rightarrow> bool" where
  "same_session p p' \<longleftrightarrow> p\<lparr>cr_ConnectionMode := []\<rparr> = p'\<lparr>cr_ConnectionMode := []\<rparr>"

lemma start_begin_running:
  assumes "session_of (cq_SessionID q) st = Some r" "ar_Status r = AgentRunning" "sameSessionParameters r (start_record q t)"
  shows "start_begin c q t now res st = (StartAnswer (Inr (responseFromRecord r)), st)"
  using assms by (simp add: start_begin_def Let_def)

lemma same_parameters_later: "sameSessionParameters r (start_record q t) \<Longrightarrow> sameSessionParameters r (start_record q t')"
  by (simp add: sameSessionParameters_def start_record_def)

text \<open>A start that answers with a session leaves its running record behind.\<close>

definition running_as :: "agent_request \<Rightarrow> create_response \<Rightarrow> agent_state \<Rightarrow> bool" where
  "running_as q p st \<longleftrightarrow> (\<exists>r. session_of (cq_SessionID q) st = Some r \<and> ar_Status r = AgentRunning \<and>
     (\<forall>t. sameSessionParameters r (start_record q t)) \<and> same_session p (responseFromRecord r))"

lemma start_answer_running:
  assumes "start_begin c q t now res st = (StartAnswer (Inr p), st')"
  shows "running_as q p st' \<and> st' = st"
proof -
  obtain r where r: "session_of (cq_SessionID q) st = Some r" "sameSessionParameters r (start_record q t)" "ar_Status r = AgentRunning"
      "p = responseFromRecord r" "st' = st"
    using assms by (auto simp: start_begin_def Let_def split: option.splits if_splits prod.splits bool.splits)
  then show ?thesis using same_parameters_later [OF r(2)] by (auto simp: running_as_def same_session_def)
qed

lemma start_end_running:
  assumes "start_end c (cq_SessionID q) p now res st = (None, st')" "session_of (cq_SessionID q) st = Some (start_record q t)" "keyed st"
    "cr_SessionID p = cq_SessionID q" "cr_Status p = ''running''" "cq_SessionID q \<noteq> []"
  shows "running_as q p st'"
proof -
  let ?r = "running_record p (start_record q t)"
  have "saveLocked c now res (put_session (cq_SessionID q) ?r st) = (True, st')"
    using assms(1,2) by (auto simp: start_end_def split: if_splits prod.splits bool.splits)
  then have "session_of (cq_SessionID q) st' = Some ?r"
    by (rule save_put(3) [OF _ assms(3,6)]) (simp_all add: running_record_def start_record_def)
  then show ?thesis
    using assms(4,5) by (auto simp: running_as_def same_session_def responseFromRecord_def running_record_def sameSessionParameters_def start_record_def)
qed

lemma failed_start_answer: "failed_start e c i reason err w \<noteq> (Inr p, w')"
  by (simp add: failed_start_def runA split: prod.splits)

lemma Start_running:
  assumes e: "alone e" and k: "keyed (aw_state w)" and s: "Start e c q w = (Inr p, w')"
  shows "running_as q p (aw_state w')"
proof -
  define w0 where "w0 = snd ((if cq_ExpiresAt q = None then returnA 0 else readA (ae_clock e)) w)"
  define now where "now = fst ((if cq_ExpiresAt q = None then returnA 0 else readA (ae_clock e)) w)"
  have w0: "aw_state w0 = aw_state w" by (simp add: w0_def runA)
  have v: "validateCreateRequest c now q = None"
    using s by (auto simp: Start_def runA now_def split: option.splits if_splits)
  define t where "t = ae_clock e (aw_pos w0)"
  obtain out st where b: "start_begin c q t (ae_clock e (Suc (aw_pos w0))) (ae_save e (Suc (aw_pos w0))) (aw_state w) = (out, st)" by fastforce
  define w1 where "w1 = w0\<lparr>aw_pos := Suc (Suc (aw_pos w0)), aw_state := st\<rparr>"
  show ?thesis
  proof (cases out)
    case (StartAnswer a)
    then have "a = Inr p" "aw_state w' = st"
      using s v b w0 by (auto simp: Start_def runA locked_alone [OF e] now_def w0_def t_def split: if_splits)
    then show ?thesis using start_answer_running b StartAnswer by blast
  next
    case StartCall
    note c = start_begin_call [OF b [unfolded StartCall] k valid_id [OF v]]
    have "keyed st" using c by (simp add: touches_def)
    define n where "n = Suc (Suc (aw_pos w0))"
    obtain r0 s z where r: "validateCreateResponse q r0 t (ae_clock e (Suc n)) = Inr (s, z)"
      "p = r0\<lparr>cr_Status := ''running'', cr_StartedAt := s, cr_ExpiresAt := z\<rparr>"
      "start_end c (cq_SessionID q) p (ae_clock e (Suc (Suc n))) (ae_save e (Suc (Suc n))) st = (None, aw_state w')"
      using s v b w0 StartCall
      by (auto simp: Start_def runA locked_alone [OF e] now_def w0_def t_def n_def failed_start_answer Let_def
          split: if_splits sum.splits option.splits prod.splits)
    then have "cr_SessionID p = cq_SessionID q" by (auto simp: validateCreateResponse_def split: if_splits)
    then show ?thesis using start_end_running [OF r(3) _ \<open>keyed st\<close>] c r(2) valid_id [OF v] by simp
  qed
qed

text \<open>C25. A start that is sent again after it succeeded, while the session runs and nothing else happens, answers
  with the same session (the same process, ports, exposure, certificate, start and expiry) and changes
  nothing.\<close>

theorem start_retry_same_session:
  assumes "\<forall>p st. ae_others e p st = st" "distinct (map fst (as_sessions (aw_state w)))"
    "\<forall>k r. map_of (as_sessions (aw_state w)) k = Some r \<longrightarrow> ar_SessionID r = k \<and> k \<noteq> []"
    and "Start e c q w = (Inr p, w')" "validateCreateRequest c (if cq_ExpiresAt q = None then 0 else ae_clock e (aw_pos w')) q = None"
  shows "\<exists>p' w''. Start e c q w' = (Inr p', w'') \<and> p'\<lparr>cr_ConnectionMode := []\<rparr> = p\<lparr>cr_ConnectionMode := []\<rparr> \<and>
    aw_state w'' = aw_state w'"
proof -
  have e: "alone e" using assms(1) by (simp add: alone_def)
  have k: "keyed (aw_state w)" using assms(2,3) by (simp add: keyed_def session_of_def)
  obtain r where r: "session_of (cq_SessionID q) (aw_state w') = Some r" "ar_Status r = AgentRunning"
      "\<And>t. sameSessionParameters r (start_record q t)" "same_session p (responseFromRecord r)"
    using Start_running [OF e k assms(4)] by (auto simp: running_as_def)
  note b = start_begin_running [OF r(1,2,3)]
  show ?thesis
  proof (cases "cq_ExpiresAt q = None")
    case True
    then show ?thesis using assms(5) b r(4) by (simp add: Start_def runA locked_alone [OF e] same_session_def)
  next
    case False
    then obtain x where "cq_ExpiresAt q = Some x" by auto
    then show ?thesis using assms(5) b r(4) by (simp add: Start_def runA locked_alone [OF e] same_session_def)
  qed
qed

subsection \<open>A sweep\<close>

text \<open>A section on \<open>i\<close> brings no other session into being.\<close>

definition narrow :: "string \<Rightarrow> agent_state \<Rightarrow> agent_state \<Rightarrow> bool" where
  "narrow i st st' \<longleftrightarrow> touches i st st' \<and> (\<forall>j r. j \<noteq> i \<longrightarrow> session_of j st' = Some r \<longrightarrow> session_of j st = Some r)"

definition gone :: "string \<Rightarrow> agent_state \<Rightarrow> bool" where
  "gone i st \<longleftrightarrow> (\<forall>r. session_of i st = Some r \<longrightarrow> terminalSessionStatus (ar_Status r))"

lemma narrow_save_put:
  assumes "saveLocked c now res (put_session i r st) = (b, st')" "keyed st" "i \<noteq> []" "ar_SessionID r \<in> {i, []}"
  shows "narrow i st st'"
  using save_put(1) [OF assms] saveLocked_effect(3) [OF assms(1) keyed_put [OF assms(2-)]] by (fastforce simp: narrow_def)

lemma narrow_trans: "narrow i st st' \<Longrightarrow> narrow i st' st'' \<Longrightarrow> narrow i st st''"
  using touches_trans by (fastforce simp: narrow_def)

lemma narrow_keyed: "narrow i st st' \<Longrightarrow> keyed st'"
  by (simp add: narrow_def touches_def)

lemma saved: "saveLocked c now Saved st = (b, st') \<Longrightarrow> b"
  by (auto simp: saveLocked_def Let_def)

lemma stop_begin_saved:
  assumes "stop_begin c i reason0 now0 now Saved st = (out, st')" "keyed st" "session_of i st = Some r"
    "ar_Status r \<in> {AgentRunning, AgentRevokeFailed}" "ar_SessionID r = i"
  shows "\<exists>why. out = StopCall why \<and> narrow i st st'"
  using assms(1)
proof (cases rule: stop_begin_cases)
  case (answer a)
  then show ?thesis using assms by (auto simp: stop_begin_def Let_def terminalSessionStatus_def saveLocked_def split: if_splits)
next
  case (saved reason b st1)
  have i: "i \<noteq> []" using keyed_session [OF assms(2,3)] by simp
  show ?thesis using saved Sweeps.saved [OF saved(2)] narrow_save_put [OF saved(2) assms(2) i] assms(3,5) by simp
qed

lemma stop_end_saved:
  assumes "stop_end c i reason closedAt now Saved st = (b, st')" "keyed st" "i \<noteq> []"
  shows "b \<and> narrow i st st' \<and> gone i st'"
proof -
  let ?r = "(session_or_zero i st)\<lparr>ar_Status := terminalStatus reason, ar_CloseReason := reason, ar_ClosedAt := Some closedAt\<rparr>"
  have r: "ar_SessionID ?r \<in> {i, []}" "terminalSessionStatus (ar_Status ?r)"
    using session_or_zero_id [OF assms(2)] by (simp_all add: terminalStatus_def terminalSessionStatus_def)
  obtain b' st1 where s: "saveLocked c now Saved (put_session i ?r st) = (b', st1)" by fastforce
  then have eq: "b" "st' = st1" using assms(1) saved [OF s] by (auto simp: stop_end_def Let_def)
  have "gone i st1" using saveLocked_effect(3) [OF s keyed_put [OF assms(2,3) r(1)], of i] r(2) by (fastforce simp: gone_def)
  then show ?thesis using eq narrow_save_put [OF s assms(2,3) r(1)] by simp
qed

lemma stopped_at_confirmed: "stop_error i a now = None \<Longrightarrow> \<exists>t. stopped_at i a now = Inr t"
  by (auto simp: stop_error_def stopped_at_def split: sum.splits)

lemma Stop_ends:
  assumes e: "alone e" "saving e" "stops e" and k: "keyed (aw_state w)" and r: "session_of i (aw_state w) = Some r"
    "ar_Status r \<in> {AgentRunning, AgentRevokeFailed}" "ar_SessionID r = i" "IsUUID i"
  shows "\<exists>a w'. Stop e c i reason w = (Inr a, w') \<and> narrow i (aw_state w) (aw_state w') \<and> gone i (aw_state w')"
proof -
  define n where "n = aw_pos w"
  have sv: "\<And>p. ae_save e p = Saved" using e(2) by (simp add: saving_def)
  obtain out st1 where b: "stop_begin c i (normalizeCloseReason reason) (ae_clock e n) (ae_clock e (Suc n)) Saved (aw_state w) = (out, st1)" by fastforce
  then obtain why where why: "out = StopCall why" "narrow i (aw_state w) st1" using stop_begin_saved [OF b k r(1-3)] by blast
  obtain t where t: "stopped_at i (ae_stop e (Suc (Suc n)) i) (ae_clock e (Suc (Suc (Suc n)))) = Inr t"
    using e(3) stopped_at_confirmed by (fastforce simp: stops_def)
  let ?m = "Suc (Suc (Suc (Suc n)))"
  obtain ok st2 where s: "stop_end c i why t (ae_clock e ?m) Saved st1 = (ok, st2)" by fastforce
  have "i \<noteq> []" using IsUUID_nonempty r(4) .
  then have "ok" "narrow i (aw_state w) st2" "gone i st2"
    using stop_end_saved [OF s narrow_keyed [OF why(2)]] narrow_trans [OF why(2)] by blast+
  then show ?thesis
    using r(4) b why(1) t s by (simp add: Stop_def runA locked_alone [OF e(1)] sv n_def)
qed

text \<open>The sessions of a list that a sweep works through, and what it leaves of the others.\<close>

definition sweepable :: "(string \<times> string) list \<Rightarrow> agent_state \<Rightarrow> bool" where
  "sweepable rs st \<longleftrightarrow> distinct (map fst rs) \<and> (\<forall>i\<in>fst ` set rs. \<exists>r. session_of i st = Some r \<and>
     ar_Status r \<in> {AgentRunning, AgentRevokeFailed} \<and> ar_SessionID r = i \<and> IsUUID i)"

definition swept :: "string set \<Rightarrow> agent_state \<Rightarrow> agent_state \<Rightarrow> bool" where
  "swept S st st' \<longleftrightarrow> (\<forall>i\<in>S. gone i st') \<and> (\<forall>j r. j \<notin> S \<longrightarrow>
     (session_of j st = Some r \<and> unended r \<longrightarrow> session_of j st' = Some r) \<and> (session_of j st' = Some r \<longrightarrow> session_of j st = Some r))"

lemma sweepable_next:
  assumes s: "sweepable ((i, why) # rs) st" and n: "narrow i st st'"
  shows "sweepable rs st'"
proof -
  have "\<exists>r. session_of j st' = Some r \<and> ar_Status r \<in> {AgentRunning, AgentRevokeFailed} \<and> ar_SessionID r = j \<and> IsUUID j"
    if j: "j \<in> fst ` set rs" for j
  proof -
    have "i \<notin> fst ` set rs" using s by (simp add: sweepable_def)
    then have "j \<noteq> i" using j by blast
    moreover obtain r where r: "session_of j st = Some r" "ar_Status r \<in> {AgentRunning, AgentRevokeFailed}" "ar_SessionID r = j" "IsUUID j"
      using s j by (auto simp: sweepable_def)
    moreover have "unended r" using r(2) by (intro unended_status) blast
    moreover have "touches i st st'" using n by (simp add: narrow_def)
    ultimately have "session_of j st' = Some r" unfolding touches_def by blast
    then show ?thesis using r by blast
  qed
  then show ?thesis using s by (simp add: sweepable_def)
qed

lemma swept_Cons:
  assumes "narrow i st st'" "gone i st'" "swept S st' st''" "i \<notin> S"
  shows "swept (insert i S) st st''"
proof -
  have "gone i st''" using assms(2-4) unfolding swept_def gone_def by blast
  moreover have "gone j st''" if "j \<in> S" for j using assms(3) that by (simp add: swept_def)
  moreover have "session_of j st'' = Some r" if "j \<notin> insert i S" "session_of j st = Some r \<and> unended r" for j r
  proof -
    have "session_of j st' = Some r" using assms(1) that unfolding narrow_def touches_def by blast
    then show ?thesis using assms(3) that unfolding swept_def by blast
  qed
  moreover have "session_of j st = Some r" if "j \<notin> insert i S" "session_of j st'' = Some r" for j r
  proof -
    have "session_of j st' = Some r" using assms(3) that unfolding swept_def by blast
    then show ?thesis using assms(1) that unfolding narrow_def by blast
  qed
  ultimately show ?thesis unfolding swept_def by blast
qed

lemma sweep_ends:
  assumes e: "alone e" "saving e" "stops e"
  shows "keyed (aw_state w) \<Longrightarrow> sweepable rs (aw_state w) \<Longrightarrow>
    \<exists>es w'. mapA (sweep_one e c) rs w = (es, w') \<and> concat es = [] \<and> keyed (aw_state w') \<and>
      swept (fst ` set rs) (aw_state w) (aw_state w')"
proof (induction rs arbitrary: w)
  case Nil
  then show ?case by (simp add: returnA_def swept_def)
next
  case (Cons x rs)
  obtain i why where x: "x = (i, why)" by (cases x)
  obtain r where r: "session_of i (aw_state w) = Some r" "ar_Status r \<in> {AgentRunning, AgentRevokeFailed}" "ar_SessionID r = i" "IsUUID i"
    using Cons.prems(2) x by (auto simp: sweepable_def)
  obtain a w1 where s: "Stop e c i why w = (Inr a, w1)" "narrow i (aw_state w) (aw_state w1)" "gone i (aw_state w1)"
    using Stop_ends [OF e Cons.prems(1) r] by blast
  obtain es w2 where m: "mapA (sweep_one e c) rs w1 = (es, w2)" "concat es = []" "swept (fst ` set rs) (aw_state w1) (aw_state w2)" "keyed (aw_state w2)"
    using Cons.IH [OF narrow_keyed [OF s(2)] sweepable_next [OF Cons.prems(2) [unfolded x] s(2)]] by blast
  have "i \<notin> fst ` set rs" using Cons.prems(2) x by (simp add: sweepable_def)
  then have "swept (insert i (fst ` set rs)) (aw_state w) (aw_state w2)" by (rule swept_Cons [OF s(2,3) m(3)])
  moreover have "sweep_one e c x w = ([], w1)" using s(1) x by (simp add: sweep_one_def runA)
  ultimately show ?case using m x by (simp add: runA)
qed

lemma retry_keys: "y \<in> set (retry_of now k) \<Longrightarrow> fst y = fst k"
  by (auto simp: retry_of_def Let_def split: if_splits)

lemma retry_distinct: "distinct (map fst ks) \<Longrightarrow> distinct (map fst (concat (map (retry_of now) ks)))"
proof (induction ks)
  case (Cons k ks)
  have "length (retry_of now k) \<le> 1" by (simp add: retry_of_def Let_def)
  then have "distinct (map fst (retry_of now k))" by (cases "retry_of now k") auto
  moreover have "fst ` set (retry_of now k) \<inter> fst ` set (concat (map (retry_of now) ks)) = {}"
    using Cons.prems by (auto dest!: retry_keys) (metis fst_conv image_eqI)
  ultimately show ?case using Cons by simp
qed simp

lemma retries_sweepable:
  assumes "keyed st" "\<And>i r. session_of i st = Some r \<Longrightarrow> ar_SessionID r = i \<and> IsUUID i"
  shows "sweepable (retries now st) st"
proof -
  have d: "distinct (map fst (as_sessions st))" using assms(1) by (simp add: keyed_def)
  have "\<exists>r. session_of (fst y) st = Some r \<and> ar_Status r \<in> {AgentRunning, AgentRevokeFailed}" if y: "y \<in> set (retries now st)" for y
  proof -
    obtain k r where k: "(k, r) \<in> set (as_sessions st)" "y \<in> set (retry_of now (k, r))" using y by (fastforce simp: retries_def)
    then show ?thesis using d retry_keys [OF k(2)] by (auto simp: session_of_def retry_of_def Let_def split: if_splits)
  qed
  moreover have "distinct (map fst (retries now st))"
    using retry_distinct [OF d] distinct_sort [of fst] by (simp add: retries_def distinct_map)
  ultimately show ?thesis using assms(2) unfolding sweepable_def by fastforce
qed

lemma retries_entry:
  assumes "distinct (map fst (as_sessions st))" "session_of i st = Some r" "i \<in> fst ` set (retries now st)"
  shows "retry_of now (i, r) \<noteq> []"
proof -
  obtain y k x where y: "(k, x) \<in> set (as_sessions st)" "y \<in> set (retry_of now (k, x))" "i = fst y"
    using assms(3) by (fastforce simp: retries_def)
  then have "k = i" using retry_keys [OF y(2)] by simp
  then have "x = r" using eq_key_imp_eq_value [OF assms(1)] y(1) map_of_SomeD [OF assms(2) [unfolded session_of_def]] by blast
  then show ?thesis using y(2) \<open>k = i\<close> by auto
qed

lemma retries_empty: "retries now st = [] \<longleftrightarrow> (\<forall>k\<in>set (as_sessions st). retry_of now k = [])"
  by (metis (no_types, lifting) concat_eq_Nil_conv list.set_map imageE image_eqI retries_def length_0_conv length_sort)

lemma swept_retries:
  assumes s: "swept (fst ` set (retries now st)) st st'" and k: "keyed st'"
  shows "retries now st' = []"
  unfolding retries_empty
proof
  fix x assume m: "x \<in> set (as_sessions st')"
  obtain i r where x: "x = (i, r)" by (cases x)
  have "session_of i st' = Some r" using k m unfolding x(1) keyed_def session_of_def by simp
  note x = x this
  show "retry_of now x = []"
  proof (cases "i \<in> fst ` set (retries now st)")
    case True
    then have "terminalSessionStatus (ar_Status r)" using s x(2) by (auto simp: swept_def gone_def)
    then show ?thesis using x(1) by (auto simp: retry_of_def terminalSessionStatus_def)
  next
    case False
    then have "session_of i st = Some r" using s x(2) unfolding swept_def by blast
    then have "(i, r) \<in> set (as_sessions st)" by (simp add: session_of_def map_of_SomeD)
    then have "fst y \<in> fst ` set (retries now st)" if "y \<in> set (retry_of now (i, r))" for y using that by (auto simp: retries_def)
    then show ?thesis using False retry_keys [of _ now "(i, r)"] x(1) by (cases "retry_of now x") auto
  qed
qed

text \<open>C12. When the controller confirms every stop, saves succeed and nothing else happens, a sweep returns without an
  error and leaves no running session past its expiry and no session whose revocation had failed; a
  session that was not due keeps its record.\<close>

theorem sweep_ends_overdue:
  assumes "\<forall>p st. ae_others e p st = st" "\<forall>p. ae_save e p = Saved"
    "\<forall>p i. stop_error i (ae_stop e p i) (ae_clock e (Suc p)) = None"
    "distinct (map fst (as_sessions (aw_state w)))" "\<forall>k\<in>set (as_sessions (aw_state w)). ar_SessionID (snd k) = fst k \<and> IsUUID (fst k)"
  shows "\<exists>w'. agent_ReapExpired e c w = (None, w') \<and>
    (\<forall>k\<in>set (as_sessions (aw_state w')). ar_Status (snd k) \<noteq> AgentRevokeFailed \<and>
      \<not> (ar_Status (snd k) = AgentRunning \<and> overdue (ae_clock e (aw_pos w)) (snd k))) \<and>
    (\<forall>k\<in>set (as_sessions (aw_state w)). ar_Status (snd k) = AgentRunning \<and> \<not> overdue (ae_clock e (aw_pos w)) (snd k) \<longrightarrow>
      k \<in> set (as_sessions (aw_state w')))"
proof -
  let ?now = "ae_clock e (aw_pos w)" and ?st = "aw_state w" and ?w = "w\<lparr>aw_pos := Suc (Suc (aw_pos w))\<rparr>"
  have e: "alone e" "saving e" "stops e" using assms(1-3) by (simp_all add: alone_def saving_def stops_def)
  have ids: "ar_SessionID r = i \<and> IsUUID i" if "session_of i ?st = Some r" for i r
    using assms(5) map_of_SomeD [OF that [unfolded session_of_def]] by fastforce
  then have k: "keyed ?st" using assms(4) IsUUID_nonempty unfolding keyed_def by blast
  obtain es w' where m: "mapA (sweep_one e c) (retries ?now ?st) ?w = (es, w')" "concat es = []" "keyed (aw_state w')"
      "swept (fst ` set (retries ?now ?st)) ?st (aw_state w')"
    using sweep_ends [OF e, of ?w "retries ?now ?st" c] k retries_sweepable [OF k ids] by auto
  have "agent_ReapExpired e c w = (None, w')" using m(1) by (simp add: m(2) agent_ReapExpired_def runA locked_alone [OF e(1)])
  moreover have "ar_Status (snd z) \<noteq> AgentRevokeFailed \<and> \<not> (ar_Status (snd z) = AgentRunning \<and> overdue ?now (snd z))"
    if "z \<in> set (as_sessions (aw_state w'))" for z
    using swept_retries [OF m(4,3)] that by (auto simp: retries_empty retry_of_def Let_def split: if_splits)
  moreover have "z \<in> set (as_sessions (aw_state w'))"
    if z: "z \<in> set (as_sessions ?st)" "ar_Status (snd z) = AgentRunning \<and> \<not> overdue ?now (snd z)" for z
  proof -
    have s: "session_of (fst z) ?st = Some (snd z)" using assms(4) z(1) by (cases z) (simp add: session_of_def)
    have "fst z \<notin> fst ` set (retries ?now ?st)"
    proof
      assume "fst z \<in> fst ` set (retries ?now ?st)"
      then have "retry_of ?now (fst z, snd z) \<noteq> []" by (rule retries_entry [OF assms(4) s])
      then show False using z(2) by (simp add: retry_of_def)
    qed
    then have "session_of (fst z) (aw_state w') = Some (snd z)"
      using m(4) s z(2) unended_status [of "snd z"] unfolding swept_def by blast
    then show ?thesis by (cases z) (simp add: session_of_def map_of_SomeD)
  qed
  ultimately show ?thesis by blast
qed

end
