(* ===== verification/Operations.thy ===== *)
theory Operations
  imports Sweeps
begin

text \<open>
  The operations of the session manager as paths of the step relation. \<open>Interleaving\<close> states every locked
  section and every answer of the controller as a step of its own; here the operations of \<open>Agent\<close>, which
  follow the code, are shown to be such paths, so that the invariants of the steps hold for them.
\<close>

definition conf :: "agent_state \<Rightarrow> string set \<Rightarrow> activity list \<Rightarrow> agent_conf" where
  "conf st live acts = \<lparr>cf_state = st, cf_live = live, cf_acts = acts, cf_up = True\<rparr>"

abbreviation any_call :: "agent_conf \<Rightarrow> agent_call \<Rightarrow> bool" where
  "any_call x a \<equiv> True"

abbreviation steps :: "agent_config \<Rightarrow> agent_conf \<Rightarrow> agent_conf \<Rightarrow> bool" where
  "steps c \<equiv> (agent_step c any_call)\<^sup>*\<^sup>*"

lemma conf_simps [simp]:
  "cf_state (conf st live acts) = st" "cf_live (conf st live acts) = live" "cf_acts (conf st live acts) = acts" "cf_up (conf st live acts)"
  "(conf st live acts)\<lparr>cf_state := st'\<rparr> = conf st' live acts" "(conf st live acts)\<lparr>cf_live := live'\<rparr> = conf st live' acts"
  "(conf st live acts)\<lparr>cf_acts := acts'\<rparr> = conf st live acts'" "serving (conf st live [])" "pending (conf st live []) = {}"
  by (simp_all add: conf_def serving_def pending_def)

subsection \<open>Ends of operations\<close>

lemma failed_steps:
  assumes "failed_end c i reason ok closedAt now res st = (b, st')"
  shows "steps c (conf st live (ActFail i reason # acts)) (conf st' (if ok then live - {i} else live) acts)"
proof -
  have "agent_step c any_call (conf st live (ActFail i reason # acts)) (conf st (if ok then live - {i} else live) (ActFailed i reason ok # acts))"
    using agent_step.fail_stopped [of i reason "conf st live (ActFail i reason # acts)" c any_call]
      agent_step.fail_not_stopped [of i reason "conf st live (ActFail i reason # acts)" c any_call] by simp
  moreover have "agent_step c any_call (conf st live' (ActFailed i reason ok # acts)) (conf st' live' acts)" for live'
    using agent_step.fail_done [of i reason ok "conf st live' (ActFailed i reason ok # acts)" c closedAt now res b st' any_call] assms by simp
  ultimately show ?thesis by (meson converse_rtranclp_into_rtranclp r_into_rtranclp)
qed

lemma stop_failed_steps:
  assumes "markRevokeFailed c i why now res st = (b, st')"
  shows "steps c (conf st live (ActStop i why # acts)) (conf st' live acts)"
proof -
  have "agent_step c any_call (conf st live (ActStop i why # acts)) (conf st live (ActStopFailed i why # acts))"
    using agent_step.stop_not_stopped [of i why "conf st live (ActStop i why # acts)" c any_call] by simp
  moreover have "agent_step c any_call (conf st live (ActStopFailed i why # acts)) (conf st' live acts)"
    using agent_step.stop_failed [of i why "conf st live (ActStopFailed i why # acts)" c now res b st' any_call] assms by simp
  ultimately show ?thesis by (meson converse_rtranclp_into_rtranclp r_into_rtranclp)
qed

lemma stopped_steps:
  assumes "stop_end c i why closedAt now res st = (b, st')"
  shows "steps c (conf st live (ActStop i why # acts)) (conf st' (live - {i}) acts)"
proof -
  have "agent_step c any_call (conf st live (ActStop i why # acts)) (conf st (live - {i}) (ActStopped i why # acts))"
    using agent_step.stop_stopped [of i why "conf st live (ActStop i why # acts)" c any_call] by simp
  moreover have "agent_step c any_call (conf st (live - {i}) (ActStopped i why # acts)) (conf st' (live - {i}) acts)"
    using agent_step.stop_done [of i why "conf st (live - {i}) (ActStopped i why # acts)" c closedAt now res b st' any_call] assms by simp
  ultimately show ?thesis by (meson converse_rtranclp_into_rtranclp r_into_rtranclp)
qed

subsection \<open>Stop\<close>

text \<open>\<open>Stop\<close> after its first section.\<close>

definition stop_rest :: "agent_env \<Rightarrow> agent_config \<Rightarrow> string \<Rightarrow> stop_outcome \<Rightarrow> (agent_err + agent_close) A" where
  "stop_rest e c i outcome = (case outcome of
       StopAnswer a \<Rightarrow> returnA a
     | StopCall reason \<Rightarrow>
         bindA (readA (\<lambda>p. ae_stop e p i)) (\<lambda>answer.
         bindA (readA (ae_clock e)) (\<lambda>completedAt.
         case stopped_at i answer completedAt of
           Inl stopErr \<Rightarrow>
             bindA (locked e (markRevokeFailed c i reason)) (\<lambda>persisted.
             returnA (Inl (if persisted then stopErr else AgentJoined stopErr AgentStore)))
         | Inr closedAt \<Rightarrow>
             bindA (locked e (stop_end c i reason closedAt)) (\<lambda>saved.
             returnA (if saved then Inr \<lparr>ac_SessionID = i, ac_Status = status_text (terminalStatus reason), ac_ClosedAt = closedAt\<rparr>
               else Inl AgentStore)))))"

lemma Stop_rest:
  "Stop e c i reason = (if \<not> IsUUID i then returnA (Inl AgentInvalidInput) else bindA (readA (ae_clock e)) (\<lambda>now.
     bindA (locked e (stop_begin c i (normalizeCloseReason reason) now)) (stop_rest e c i)))"
  by (simp add: Stop_def stop_rest_def [abs_def])

definition stop_acts :: "string \<Rightarrow> stop_outcome \<Rightarrow> activity list" where
  "stop_acts i out = (case out of StopCall why \<Rightarrow> [ActStop i why] | StopAnswer _ \<Rightarrow> [])"

lemma stop_rest_steps:
  assumes "alone e" "stop_rest e c i out w = (a, w')"
  shows "\<exists>live'. steps c (conf (aw_state w) live (stop_acts i out @ acts)) (conf (aw_state w') live' acts)"
proof (cases out)
  case (StopAnswer b)
  then show ?thesis using assms(2) by (auto simp: stop_rest_def stop_acts_def returnA_def)
next
  case (StopCall why)
  define n where "n = aw_pos w"
  show ?thesis
  proof (cases "stopped_at i (ae_stop e n i) (ae_clock e (Suc n))")
    case (Inl err)
    obtain b st where m: "markRevokeFailed c i why (ae_clock e (Suc (Suc n))) (ae_save e (Suc (Suc n))) (aw_state w) = (b, st)" by fastforce
    have "aw_state w' = st"
      using assms(2) Inl StopCall m by (auto simp: stop_rest_def runA locked_alone [OF assms(1)] n_def)
    then show ?thesis using stop_failed_steps [OF m, of live acts] StopCall by (auto simp: stop_acts_def)
  next
    case (Inr t)
    obtain b st where m: "stop_end c i why t (ae_clock e (Suc (Suc n))) (ae_save e (Suc (Suc n))) (aw_state w) = (b, st)" by fastforce
    have "aw_state w' = st"
      using assms(2) Inr StopCall m by (auto simp: stop_rest_def runA locked_alone [OF assms(1)] n_def)
    then show ?thesis using stopped_steps [OF m, of live acts] StopCall by (auto simp: stop_acts_def)
  qed
qed

lemma Stop_steps:
  assumes "alone e" "Stop e c i reason w = (a, w')"
  shows "\<exists>live'. steps c (conf (aw_state w) live []) (conf (aw_state w') live' [])"
proof (cases "IsUUID i")
  case True
  define n where "n = aw_pos w"
  obtain out st where b: "stop_begin c i (normalizeCloseReason reason) (ae_clock e n) (ae_clock e (Suc n)) (ae_save e (Suc n)) (aw_state w) = (out, st)"
    by fastforce
  have "agent_step c any_call (conf (aw_state w) live []) (conf st live (stop_acts i out))"
    using b True agent_step.stop_call [of "conf (aw_state w) live []" i any_call c reason "ae_clock e n" "ae_clock e (Suc n)" "ae_save e (Suc n)" _ st]
      agent_step.stop_answer [of "conf (aw_state w) live []" i any_call c reason "ae_clock e n" "ae_clock e (Suc n)" "ae_save e (Suc n)" _ st]
    by (cases out) (auto simp: stop_acts_def)
  moreover have "\<exists>live'. steps c (conf st live (stop_acts i out)) (conf (aw_state w') live' [])"
    using stop_rest_steps [OF assms(1), of c i out "w\<lparr>aw_state := st, aw_pos := Suc (Suc n)\<rparr>" a w' live "[]"] assms(2) b True
    by (simp add: Stop_rest runA locked_alone [OF assms(1)] n_def)
  ultimately show ?thesis by (meson converse_rtranclp_into_rtranclp)
qed (use assms(2) in \<open>auto simp: Stop_def returnA_def\<close>)

subsection \<open>Start\<close>

lemma failed_start_steps:
  assumes e: "alone e" and f: "failed_start e c i reason err w = (a, w')"
  shows "\<exists>live'. steps c (conf (aw_state w) live (ActFail i reason # acts)) (conf (aw_state w') live' acts)"
proof -
  define n where "n = aw_pos w"
  let ?ok = "stop_error i (ae_stop e n i) (ae_clock e (Suc n)) = None"
  obtain b st where m: "failed_end c i reason ?ok (ae_clock e (Suc n)) (ae_clock e (Suc (Suc n))) (ae_save e (Suc (Suc n))) (aw_state w) = (b, st)"
    by fastforce
  then have "aw_state w' = st" using f by (auto simp: failed_start_def finishFailedStart_def runA locked_alone [OF e] n_def Let_def)
  then show ?thesis using failed_steps [OF m, of live acts] by auto
qed

lemma start_call_steps:
  assumes "validateCreateRequest c now0 q = None" "start_begin c q t now res st = (StartCall, st')"
  shows "steps c (conf st live []) (conf st' (insert (cq_SessionID q) live) [ActStart q t])"
proof -
  have "agent_step c any_call (conf st live []) (conf st' live [ActStart q t])"
    using agent_step.start_call [of "conf st live []" c now0 q any_call t now res st'] assms by simp
  moreover have "agent_step c any_call (conf st' live [ActStart q t]) (conf st' (insert (cq_SessionID q) live) [ActStart q t])"
    using agent_step.listener_up [of q t "conf st' live [ActStart q t]" c any_call] by simp
  ultimately show ?thesis by (meson converse_rtranclp_into_rtranclp r_into_rtranclp)
qed

lemma start_refused_steps:
  assumes "alone e" "failed_start e c (cq_SessionID q) reason err w = (a, w')"
  shows "\<exists>live'. steps c (conf (aw_state w) live [ActStart q t]) (conf (aw_state w') live' [])"
proof -
  have "agent_step c any_call (conf (aw_state w) live [ActStart q t]) (conf (aw_state w) live [ActFail (cq_SessionID q) reason])"
    using agent_step.start_refused [of q t "conf (aw_state w) live [ActStart q t]" c any_call reason] by simp
  then show ?thesis using failed_start_steps [OF assms, of live "[]"] by (meson converse_rtranclp_into_rtranclp)
qed

lemma start_end_steps:
  assumes "validateCreateResponse q r t completed = Inr (s, z)"
    "start_end c (cq_SessionID q) (r\<lparr>cr_Status := ''running'', cr_StartedAt := s, cr_ExpiresAt := z\<rparr>) now res st = (out, st')"
  shows "agent_step c any_call (conf st live [ActStart q t])
    (conf st' live (case out of None \<Rightarrow> [] | Some reason \<Rightarrow> [ActFail (cq_SessionID q) reason]))"
  using agent_step.start_done [of q t "conf st live [ActStart q t]" r completed s z c now res st' any_call]
    agent_step.start_undone [of q t "conf st live [ActStart q t]" r completed s z c now res _ st' any_call] assms
  by (cases out) simp_all

text \<open>\<open>Start\<close> after its first section.\<close>

definition start_rest :: "agent_env \<Rightarrow> agent_config \<Rightarrow> agent_request \<Rightarrow> int \<Rightarrow> (agent_err + create_response) A" where
  "start_rest e c q acceptedAt =
     bindA (readA (\<lambda>p. ae_start e p q)) (\<lambda>answer.
     case answer of
       Inl err \<Rightarrow> failed_start e c (cq_SessionID q) ''controller_start_failed'' err
     | Inr response0 \<Rightarrow>
         bindA (readA (ae_clock e)) (\<lambda>completedAt.
         case validateCreateResponse q response0 acceptedAt completedAt of
           Inl err \<Rightarrow> failed_start e c (cq_SessionID q) ''invalid_controller_response'' err
         | Inr (startedAt, expiresAt) \<Rightarrow>
             let response = response0\<lparr>cr_Status := ''running'', cr_StartedAt := startedAt, cr_ExpiresAt := expiresAt\<rparr> in
             bindA (locked e (start_end c (cq_SessionID q) response)) (\<lambda>failure.
             case failure of
               None \<Rightarrow> returnA (Inr response)
             | Some reason \<Rightarrow>
                 failed_start e c (cq_SessionID q) reason
                   (if reason = ''persist_running_failed'' then AgentStore else AgentSessionConflict))))"

lemma Start_rest:
  "Start e c q = bindA (if cq_ExpiresAt q = None then returnA 0 else readA (ae_clock e)) (\<lambda>now.
     case validateCreateRequest c now q of
       Some err \<Rightarrow> returnA (Inl err)
     | None \<Rightarrow> bindA (readA (ae_clock e)) (\<lambda>acceptedAt. bindA (locked e (start_begin c q acceptedAt)) (\<lambda>outcome.
         case outcome of StartAnswer a \<Rightarrow> returnA a | StartCall \<Rightarrow> start_rest e c q acceptedAt)))"
  unfolding Start_def start_rest_def by (rule refl)

lemma start_rest_steps:
  assumes e: "alone e" and s: "start_rest e c q t w = (a, w')"
  shows "\<exists>live'. steps c (conf (aw_state w) live [ActStart q t]) (conf (aw_state w') live' [])"
proof (cases "ae_start e (aw_pos w) q")
  case (Inl err)
  then have "failed_start e c (cq_SessionID q) ''controller_start_failed'' err (w\<lparr>aw_pos := Suc (aw_pos w)\<rparr>) = (a, w')"
    using s by (simp add: start_rest_def runA)
  then show ?thesis using start_refused_steps [OF e, of c q _ _ _ a w' live t] by fastforce
next
  case (Inr r)
  let ?w = "w\<lparr>aw_pos := Suc (Suc (aw_pos w))\<rparr>"
  show ?thesis
  proof (cases "validateCreateResponse q r t (ae_clock e (Suc (aw_pos w)))")
    case (Inl err)
    then have "failed_start e c (cq_SessionID q) ''invalid_controller_response'' err ?w = (a, w')"
      using s Inr by (simp add: start_rest_def runA)
    then show ?thesis using start_refused_steps [OF e, of c q _ _ _ a w' live t] by fastforce
  next
    case (Inr sz)
    obtain s1 z where sz: "sz = (s1, z)" by (cases sz)
    let ?r = "r\<lparr>cr_Status := ''running'', cr_StartedAt := s1, cr_ExpiresAt := z\<rparr>"
    obtain out st where m: "start_end c (cq_SessionID q) ?r (ae_clock e (Suc (Suc (aw_pos w)))) (ae_save e (Suc (Suc (aw_pos w)))) (aw_state w) = (out, st)"
      by fastforce
    note step = start_end_steps [OF Inr [unfolded sz] m, of live]
    show ?thesis
    proof (cases out)
      case None
      then have "aw_state w' = st"
        using s Inr \<open>ae_start e (aw_pos w) q = Inr r\<close> sz m by (auto simp: start_rest_def runA locked_alone [OF e] Let_def)
      then show ?thesis using step None by auto
    next
      case (Some reason)
      then have "failed_start e c (cq_SessionID q) reason (if reason = ''persist_running_failed'' then AgentStore else AgentSessionConflict)
          (w\<lparr>aw_state := st, aw_pos := Suc (Suc (Suc (aw_pos w)))\<rparr>) = (a, w')"
        using s Inr \<open>ae_start e (aw_pos w) q = Inr r\<close> sz m by (simp add: start_rest_def runA locked_alone [OF e] Let_def)
      then have "\<exists>live'. steps c (conf st live [ActFail (cq_SessionID q) reason]) (conf (aw_state w') live' [])"
        using failed_start_steps [OF e, of c _ reason _ _ a w' live "[]"] by fastforce
      then show ?thesis using step Some by (auto intro: converse_rtranclp_into_rtranclp)
    qed
  qed
qed

lemma Start_steps:
  assumes e: "alone e" and s: "Start e c q w = (a, w')"
  shows "\<exists>live'. steps c (conf (aw_state w) live []) (conf (aw_state w') live' [])"
proof -
  obtain now w0 where w0: "(if cq_ExpiresAt q = None then returnA 0 else readA (ae_clock e)) w = (now, w0)" "aw_state w0 = aw_state w"
    by (cases "cq_ExpiresAt q = None") (auto simp: runA)
  show ?thesis
  proof (cases "validateCreateRequest c now q")
    case None
    let ?t = "ae_clock e (aw_pos w0)"
    define n where "n = Suc (aw_pos w0)"
    obtain out st where b: "start_begin c q ?t (ae_clock e n) (ae_save e n) (aw_state w) = (out, st)" by fastforce
    let ?w = "w0\<lparr>aw_state := st, aw_pos := Suc n\<rparr>"
    have run: "Start e c q w = (case out of StartAnswer a \<Rightarrow> (a, ?w) | StartCall \<Rightarrow> start_rest e c q ?t ?w)"
      unfolding Start_rest bindA_def w0(1) using None b w0(2)
      by (simp add: runA locked_alone [OF e] n_def split: start_outcome.splits)
    show ?thesis
    proof (cases out)
      case (StartAnswer z)
      have "agent_step c any_call (conf (aw_state w) live []) (conf st live [])"
        using agent_step.start_answer [of "conf (aw_state w) live []" c now q any_call ?t _ _ z st] None b StartAnswer by auto
      moreover have "aw_state w' = st" using s run StartAnswer by auto
      ultimately show ?thesis by auto
    next
      case StartCall
      then have "start_rest e c q ?t ?w = (a, w')" using s run by simp
      then have "\<exists>live'. steps c (conf st (insert (cq_SessionID q) live) [ActStart q ?t]) (conf (aw_state w') live' [])"
        using start_rest_steps [OF e, of c q ?t ?w a w'] by simp
      then show ?thesis using start_call_steps [OF None b [unfolded StartCall], of live] by (meson rtranclp_trans)
    qed
  qed (use s w0 in \<open>auto simp: Start_rest bindA_def returnA_def\<close>)
qed

subsection \<open>Status and sweeps\<close>

lemma get_end_steps:
  assumes "session_of i st = Some r" "ar_Status r = AgentRunning" "IsUUID i" "reported_end report = Some ended"
    "get_end c i ended closedAt now res st = (b, st')"
  shows "steps c (conf st live []) (conf st' (live - {i}) [])"
proof -
  have "agent_step c any_call (conf st live []) (conf st live [ActStatus i])"
    using agent_step.status_call [of "conf st live []" i any_call r c] assms(1-3) by simp
  moreover have "agent_step c any_call (conf st live [ActStatus i]) (conf st (live - {i}) [ActEnded i ended])"
    using agent_step.status_ended [of i "conf st live [ActStatus i]" report ended c any_call] assms(4) by simp
  moreover have "agent_step c any_call (conf st (live - {i}) [ActEnded i ended]) (conf st' (live - {i}) [])"
    using agent_step.get_done [of i ended "conf st (live - {i}) [ActEnded i ended]" c closedAt now res b st' any_call] assms(5) by simp
  ultimately show ?thesis by (meson converse_rtranclp_into_rtranclp r_into_rtranclp)
qed

text \<open>\<open>Get\<close> changes the state only through \<open>Stop\<close> and through its own last section.\<close>

lemma agent_Get_cases:
  assumes e: "alone e" and g: "agent_Get e c i w = (a, w')"
  obtains (same) "aw_state w' = aw_state w"
    | (stop) b w1 w2 where "Stop e c i ''ttl_expired'' w1 = (b, w2)" "aw_state w1 = aw_state w" "aw_state w' = aw_state w2"
    | (ended) r report ended closedAt now res b where "session_of i (aw_state w) = Some r" "ar_Status r = AgentRunning" "IsUUID i"
        "reported_end report = Some ended" "get_end c i ended closedAt now res (aw_state w) = (b, aw_state w')"
proof (cases "IsUUID i \<and> (\<exists>r. session_of i (aw_state w) = Some r \<and> ar_Status r = AgentRunning)")
  case False
  then have "aw_state w' = aw_state w"
    using g by (auto simp: agent_Get_def runA locked_alone [OF e] split: if_splits option.splits)
  then show ?thesis by (rule same)
next
  case True
  then obtain r where r: "IsUUID i" "session_of i (aw_state w) = Some r" "ar_Status r = AgentRunning" by blast
  let ?w0 = "w\<lparr>aw_pos := Suc (aw_pos w)\<rparr>"
  obtain now w1 where w1: "(if ar_ExpiresAt r = None then returnA 0 else readA (ae_clock e)) ?w0 = (now, w1)" "aw_state w1 = aw_state w"
    by (cases "ar_ExpiresAt r = None") (auto simp: runA)
  have st: "w\<lparr>aw_state := aw_state w, aw_pos := Suc (aw_pos w)\<rparr> = ?w0" by simp
  show ?thesis
  proof (cases "overdue now r")
    case True
    obtain b w2 where s: "Stop e c i ''ttl_expired'' w1 = (b, w2)" by fastforce
    then have "aw_state w' = aw_state w2"
      using g r w1 True by (auto simp: agent_Get_def bindA_def locked_alone [OF e] returnA_def)
    then show ?thesis using stop [OF s w1(2)] by blast
  next
    case False
    show ?thesis
    proof (cases "\<exists>remote ended. ae_status e (aw_pos w1) i = Inr remote \<and> rp_SessionID remote = i \<and> rp_Status remote \<noteq> ''running'' \<and>
        reported_end (rp_Status remote) = Some ended")
      case True
      then obtain remote en where t: "ae_status e (aw_pos w1) i = Inr remote" "rp_SessionID remote = i" "rp_Status remote \<noteq> ''running''"
          "reported_end (rp_Status remote) = Some en" by blast
      define n where "n = Suc (aw_pos w1)"
      obtain b st where m: "get_end c i en (ae_clock e n) (ae_clock e (Suc n)) (ae_save e (Suc n)) (aw_state w) = (b, st)" by fastforce
      have "aw_state w' = st"
        using g r w1 \<open>\<not> overdue now r\<close> t m by (auto simp: agent_Get_def bindA_def locked_alone [OF e] returnA_def readA_def n_def)
      then show ?thesis using ended [OF r(2,3,1) t(4)] m by blast
    next
      case no: False
      have "aw_state w' = aw_state w"
        using g r w1 \<open>\<not> overdue now r\<close> no
        by (auto simp: agent_Get_def bindA_def locked_alone [OF e] returnA_def readA_def split: sum.splits if_splits option.splits)
      then show ?thesis by (rule same)
    qed
  qed
qed

lemma agent_Get_steps:
  assumes e: "alone e" and g: "agent_Get e c i w = (a, w')"
  shows "\<exists>live'. steps c (conf (aw_state w) live []) (conf (aw_state w') live' [])"
  using assms
proof (cases rule: agent_Get_cases)
  case (stop b w1 w2)
  then show ?thesis using Stop_steps [OF e stop(1), of live] by simp
next
  case (ended r report en closedAt now res b)
  then show ?thesis using get_end_steps [OF ended, of live] by blast
qed auto

lemma sweep_steps:
  assumes e: "alone e"
  shows "mapA (sweep_one e c) rs w = (es, w') \<Longrightarrow> \<exists>live'. steps c (conf (aw_state w) live []) (conf (aw_state w') live' [])"
proof (induction rs arbitrary: w es live)
  case (Cons x rs)
  obtain b w1 where s: "Stop e c (fst x) (snd x) w = (b, w1)" by fastforce
  then have "\<exists>ys. sweep_one e c x w = (ys, w1)" by (simp add: sweep_one_def runA)
  then obtain ys where m: "mapA (sweep_one e c) rs w1 = (ys, w')" using Cons.prems by (auto simp: runA split: prod.splits)
  show ?case using Stop_steps [OF e s, of live] Cons.IH [OF m] by (meson rtranclp_trans)
qed (auto simp: returnA_def)

lemma Reap_steps:
  assumes e: "alone e" and r: "agent_ReapExpired e c w = (a, w')"
  shows "\<exists>live'. steps c (conf (aw_state w) live []) (conf (aw_state w') live' [])"
proof -
  let ?w = "w\<lparr>aw_pos := Suc (Suc (aw_pos w))\<rparr>"
  obtain es where "mapA (sweep_one e c) (retries (ae_clock e (aw_pos w)) (aw_state w)) ?w = (es, w')"
    using r by (auto simp: agent_ReapExpired_def runA locked_alone [OF e] split: prod.splits)
  then show ?thesis using sweep_steps [OF e, of c _ ?w es w' live] by simp
qed

lemma Run_steps:
  assumes e: "alone e"
  shows "agent_Run e c n w = (a, w') \<Longrightarrow> \<exists>live'. steps c (conf (aw_state w) live []) (conf (aw_state w') live' [])"
proof (induction n arbitrary: w live)
  case (Suc n)
  obtain b w1 where r: "agent_ReapExpired e c w = (b, w1)" by fastforce
  then have "agent_Run e c n w1 = (a, w')" using Suc.prems by (simp add: bindA_def)
  then show ?case using Reap_steps [OF e r, of live] Suc.IH by (meson rtranclp_trans)
qed (auto simp: returnA_def)

subsection \<open>Recovery\<close>

lemma recover_stop_steps:
  assumes e: "alone e" and i: "IsUUID (ar_SessionID r)" and s: "recover_stop e c (ar_SessionID r) reason prepare w = (es, w')"
    and why: "recovery_of c t restorable r = RecoverStop reason prepare \<or>
      recovery_of c t True r = RecoverRestore \<and> reason = ''runtime_restore_failed'' \<and> prepare"
  shows "\<exists>live'. steps c (conf (aw_state w) live [ActRecover (r # rs) t]) (conf (aw_state w') live' [ActRecover rs t])"
proof -
  let ?i = "ar_SessionID r"
  let ?st = "if prepare then prepareRecoveredRetry ?i reason (aw_state w) else aw_state w"
  obtain u w1 where w1: "(if prepare then locked e (\<lambda>_ _ st. ((), prepareRecoveredRetry ?i reason st)) else returnA ()) w = (u, w1)"
      "aw_state w1 = ?st"
    by (cases prepare) (auto simp: locked_alone [OF e] returnA_def)
  define n where "n = aw_pos w1"
  obtain out st where b: "stop_begin c ?i (normalizeCloseReason reason) (ae_clock e n) (ae_clock e (Suc n)) (ae_save e (Suc n)) ?st = (out, st)"
    by fastforce
  let ?w = "w1\<lparr>aw_state := st, aw_pos := Suc (Suc n)\<rparr>"
  obtain a where rest: "stop_rest e c ?i out ?w = (a, w')"
    using s w1 b i unfolding recover_stop_def Stop_rest bindA_def w1(1)
    by (auto simp: runA locked_alone [OF e] n_def split: prod.splits)
  have "agent_step c any_call (conf (aw_state w) live [ActRecover (r # rs) t]) (conf st live (stop_acts ?i out @ [ActRecover rs t]))"
    using agent_step.recover_stop [of r rs t "conf (aw_state w) live [ActRecover (r # rs) t]" c restorable reason prepare
        "ae_clock e n" "ae_clock e (Suc n)" "ae_save e (Suc n)" out st any_call] why b
    by (cases prepare) (simp_all add: stop_acts_def)
  moreover have "\<exists>live'. steps c (conf st live (stop_acts ?i out @ [ActRecover rs t])) (conf (aw_state w') live' [ActRecover rs t])"
    using stop_rest_steps [OF e rest, of live "[ActRecover rs t]"] by simp
  ultimately show ?thesis by (meson converse_rtranclp_into_rtranclp)
qed

lemma recover_keep_steps:
  assumes "recovery_of c t restorable r \<in> {RecoverKeep, RecoverRestore}"
  shows "steps c (conf st live [ActRecover (r # rs) t]) (conf st live [ActRecover rs t])"
  using agent_step.recover_keep [of r rs t "conf st live [ActRecover (r # rs) t]" c restorable any_call] assms by (simp add: r_into_rtranclp)

lemma recover_one_steps:
  assumes e: "alone e" and i: "IsUUID (ar_SessionID r)" and s: "recover_one e c t r w = (es, w')"
  shows "\<exists>live'. steps c (conf (aw_state w) live [ActRecover (r # rs) t]) (conf (aw_state w') live' [ActRecover rs t])"
proof (cases "recovery_of c t (ae_restore e \<noteq> None) r")
  case RecoverKeep
  then show ?thesis using s recover_keep_steps [of c t _ r "aw_state w" live rs] by (auto simp: recover_one_def returnA_def)
next
  case (RecoverStop reason prepare)
  then have "recover_stop e c (ar_SessionID r) reason prepare w = (es, w')" using s by (simp add: recover_one_def)
  then show ?thesis by (rule recover_stop_steps [OF e i]) (use RecoverStop in blast)
next
  case RecoverRestore
  show ?thesis
  proof (cases "ae_restore e")
    case None
    then show ?thesis using s RecoverRestore recover_keep_steps [of c t _ r "aw_state w" live rs] by (auto simp: recover_one_def returnA_def)
  next
    case (Some restore)
    let ?w = "w\<lparr>aw_pos := Suc (aw_pos w)\<rparr>" and ?answer = "restore (aw_pos w) r"
    show ?thesis
    proof (cases "case ?answer of Inl _ \<Rightarrow> False | Inr p \<Rightarrow> sameRecoveredExposure r p")
      case True
      then have "aw_state w' = aw_state w" using s RecoverRestore Some by (auto simp: recover_one_def runA)
      then show ?thesis using RecoverRestore recover_keep_steps [of c t _ r "aw_state w" live rs] by auto
    next
      case False
      obtain zs w2 where z: "recover_stop e c (ar_SessionID r) ''runtime_restore_failed'' True ?w = (zs, w2)" by fastforce
      then have "w' = w2" using s RecoverRestore Some False by (auto simp: recover_one_def runA)
      then show ?thesis using recover_stop_steps [OF e i z, of t False live rs] RecoverRestore Some by simp
    qed
  qed
qed

lemma recover_loop_steps:
  assumes e: "alone e"
  shows "\<forall>r\<in>set rs. IsUUID (ar_SessionID r) \<Longrightarrow> mapA (recover_one e c t) rs w = (es, w') \<Longrightarrow>
    \<exists>live'. steps c (conf (aw_state w) live [ActRecover rs t]) (conf (aw_state w') live' [])"
proof (induction rs arbitrary: w es live)
  case Nil
  then show ?case
    using agent_step.recover_end [of t "conf (aw_state w) live [ActRecover [] t]" c any_call] by (auto simp: returnA_def)
next
  case (Cons r rs)
  obtain xs w1 where s: "recover_one e c t r w = (xs, w1)" by fastforce
  then obtain ys where m: "mapA (recover_one e c t) rs w1 = (ys, w')" using Cons.prems(2) by (auto simp: runA split: prod.splits)
  have i: "IsUUID (ar_SessionID r)" using Cons.prems(1) by simp
  show ?case using recover_one_steps [OF e i s, of live rs] Cons.IH [OF _ m] Cons.prems(1) by (meson list.set_intros(2) rtranclp_trans)
qed

definition down :: "agent_state \<Rightarrow> string set \<Rightarrow> agent_conf" where
  "down st live = \<lparr>cf_state = st, cf_live = live, cf_acts = [], cf_up = False\<rparr>"

lemma Recover_steps:
  assumes e: "alone e" and r: "Recover e c w = (a, w')"
  shows "\<exists>y. steps c (down (aw_state w) live) y \<and> cf_state y = aw_state w' \<and> cf_acts y = [] \<and> (a = None \<longrightarrow> cf_up y)"
proof (cases "ae_load e (aw_pos w)")
  case (Some err)
  have "a = Some err" "aw_state w' = aw_state w" using r by (auto simp: Recover_def runA Some)
  then show ?thesis by (auto simp: down_def)
next
  case None
  define n where "n = Suc (aw_pos w)"
  obtain out st where b: "recover_begin c (ae_clock e n) (ae_save e n) (aw_state w) = (out, st)" by fastforce
  show ?thesis
  proof (cases out)
    case (Inl err)
    then have "aw_state w' = st" "a \<noteq> None" using r None b by (auto simp: Recover_def runA locked_alone [OF e] n_def)
    moreover have "agent_step c any_call (down (aw_state w) live) (down st live)"
      using agent_step.recover_refused [of "down (aw_state w) live" c _ _ err st any_call] b Inl by (simp add: down_def)
    ultimately show ?thesis by (auto simp: down_def)
  next
    case (Inr records)
    let ?t = "ae_clock e (Suc n)" and ?w = "w\<lparr>aw_state := st, aw_pos := Suc (Suc n)\<rparr>"
    obtain es where m: "mapA (recover_one e c ?t) records ?w = (es, w')"
      using r None b Inr by (auto simp: Recover_def runA locked_alone [OF e] n_def split: prod.splits)
    have ids: "\<forall>z\<in>set records. IsUUID (ar_SessionID z)"
      using b Inr by (cases rule: recover_begin_cases) (auto simp: list_all_iff validateRecord_def split: if_splits)
    have "agent_step c any_call (down (aw_state w) live) (conf st live [ActRecover records ?t])"
      using agent_step.recover_call [of "down (aw_state w) live" c _ _ records st any_call ?t] b Inr by (simp add: down_def conf_def)
    moreover have "\<exists>live'. steps c (conf st live [ActRecover records ?t]) (conf (aw_state w') live' [])"
      using recover_loop_steps [OF e ids m, of live] by simp
    ultimately have "\<exists>live'. steps c (down (aw_state w) live) (conf (aw_state w') live' [])" by (meson converse_rtranclp_into_rtranclp)
    then show ?thesis by (metis conf_simps(1,3,4))
  qed
qed

text \<open>An operation takes an idle agent to an idle agent.\<close>

definition runs_as_steps :: "agent_config \<Rightarrow> 'a A \<Rightarrow> bool" where
  "runs_as_steps c m \<longleftrightarrow> (\<forall>w live. \<exists>live'. (agent_step c (\<lambda>_ _. True))\<^sup>*\<^sup>* (conf (aw_state w) live []) (conf (aw_state (snd (m w))) live' []))"

lemma runs_as_stepsI:
  "(\<And>w a w' live. m w = (a, w') \<Longrightarrow> \<exists>live'. steps c (conf (aw_state w) live []) (conf (aw_state w') live' [])) \<Longrightarrow> runs_as_steps c m"
  unfolding runs_as_steps_def by (metis prod.collapse)


end
