(* ===== verification/AgentSamples.thy ===== *)
theory AgentSamples
  imports Operations "HOL-Library.Code_Target_Nat"
begin

text \<open>
  An agent with one asset in its catalogue, a clock that stands still, a disk that takes every save and a
  controller that obeys. The theorems on the session manager are applied to it.
\<close>

subsection \<open>The agent\<close>

definition session1 :: string where "session1 = ''aaaaaaaa-0000-4000-8000-000000000001''"
definition target1 :: string where "target1 = ''eeeeeeee-0000-4000-8000-000000000005''"

definition sample_config :: agent_config where
  "sample_config = \<lparr>cfg_maxTTL = 3600 * second, cfg_maxSessions = 2, cfg_terminalRetention = 7200 * second,
     cfg_maxTerminalRecords = 10, cfg_allowed = [(target1, [22])]\<rparr>"

definition sample_create :: agent_request where
  "sample_create = \<lparr>cq_ConnectionMode = ''native'', cq_AuditPolicy = \<lparr>audit_Profile = [], audit_Revision = [], audit_Protocol = []\<rparr>,
     cq_SessionID = session1, cq_TargetID = target1, cq_TargetPort = 22, cq_SourceIP = ''10.0.0.7'', cq_WebOnly = False,
     cq_TargetAccount = ''root'', cq_TTLSeconds = 600, cq_ExpiresAt = None, cq_MaxConnections = 5, cq_ClientPublicKey = []\<rparr>"

definition web_create :: agent_request where
  "web_create = sample_create\<lparr>cq_ConnectionMode := ''audit'', cq_SourceIP := [], cq_WebOnly := True,
     cq_AuditPolicy := \<lparr>audit_Profile = [], audit_Revision = [], audit_Protocol = ''ssh''\<rparr>\<rparr>"

definition sample_response :: create_response where
  "sample_response = \<lparr>cr_ConnectionMode = ''native'', cr_ServerCertificate = [], cr_SessionID = session1, cr_Status = ''running'',
     cr_ProcessID = ''p1'', cr_ListenerPort = 40000, cr_ExternalPort = 40000, cr_ExposureMode = ''direct'',
     cr_ExposureRef = ''p1'', cr_StartedAt = 0, cr_ExpiresAt = 0\<rparr>"

definition sample_env :: agent_env where
  "sample_env = \<lparr>ae_clock = (\<lambda>_. 1000 * second), ae_save = (\<lambda>_. Saved), ae_start = (\<lambda>_ _. Inr sample_response),
     ae_stop = (\<lambda>_ i. Inr \<lparr>ac_SessionID = i, ac_Status = ''closed'', ac_ClosedAt = 0\<rparr>),
     ae_status = (\<lambda>_ _. Inl AgentController), ae_restore = None, ae_load = (\<lambda>_. None), ae_others = (\<lambda>_ st. st)\<rparr>"

definition blank :: agent_state where
  "blank = \<lparr>as_sessions = [], as_file = []\<rparr>"

definition sample_begun :: agent_state where
  "sample_begun = \<lparr>as_sessions = [(session1, start_record sample_create (1000 * second))],
     as_file = [start_record sample_create (1000 * second)]\<rparr>"

lemma sample_create_valid: "validateCreateRequest sample_config (1000 * second) sample_create = None"
  "validateCreateRequest sample_config 0 sample_create = None" "validateCreateRequest sample_config 0 web_create = None"
  by code_simp+

lemma sample_start_begin: "start_begin sample_config sample_create (1000 * second) (1000 * second) Saved blank = (StartCall, sample_begun)"
  by code_simp

lemma web_start_begin: "\<exists>st'. start_begin sample_config web_create (1000 * second) (1000 * second) Saved blank = (StartCall, st')"
proof -
  have "fst (start_begin sample_config web_create (1000 * second) (1000 * second) Saved blank) = StartCall" by code_simp
  then show ?thesis by (metis prod.collapse)
qed

text \<open>The agent starts with an empty file, accepts the request, and the controller opens the listener.\<close>

definition open_agent :: agent_conf where
  "open_agent = conf sample_begun {session1} [ActStart sample_create (1000 * second)]"

lemma sample_runs_agent: "agent_runs sample_config orderly open_agent"
proof -
  let ?a = "ActStart sample_create (1000 * second)"
  have ids: "cq_SessionID sample_create = session1" "orderly (conf blank {} []) (CallStart sample_create (1000 * second))"
    by (simp_all add: sample_create_def)
  have "recover_begin sample_config (1000 * second) Saved blank = (Inr [], blank)" by code_simp
  then have "agent_step sample_config orderly agent_init (conf blank {} [ActRecover [] 0])"
    using agent_step.recover_call [of agent_init sample_config "1000 * second" Saved "[]" blank orderly 0]
    by (simp add: agent_init_def blank_def conf_def)
  moreover have "agent_step sample_config orderly (conf blank {} [ActRecover [] 0]) (conf blank {} [])"
    using agent_step.recover_end [of 0 "conf blank {} [ActRecover [] 0]" sample_config orderly] by simp
  moreover have "agent_step sample_config orderly (conf blank {} []) (conf sample_begun {} [?a])"
    using agent_step.start_call [of "conf blank {} []" sample_config 0 sample_create orderly "1000 * second" "1000 * second" Saved sample_begun]
      sample_create_valid(2) sample_start_begin ids by simp
  moreover have "agent_step sample_config orderly (conf sample_begun {} [?a]) (conf sample_begun {session1} [?a])"
    using agent_step.listener_up [of sample_create "1000 * second" "conf sample_begun {} [?a]" sample_config orderly] ids by simp
  ultimately show ?thesis unfolding open_agent_def by (meson rtranclp.rtrancl_refl rtranclp.rtrancl_into_rtrancl)
qed

definition sample_agent :: agent_world where
  "sample_agent = \<lparr>aw_state = blank, aw_pos = 0\<rparr>"

definition late_record :: agent_record where
  "late_record = (running_record sample_response (start_record sample_create 0))\<lparr>ar_StartedAt := Some 0, ar_ExpiresAt := Some (600 * second)\<rparr>"

definition late_agent :: agent_world where
  "late_agent = \<lparr>aw_state = \<lparr>as_sessions = [(session1, late_record)], as_file = [late_record]\<rparr>, aw_pos = 0\<rparr>"

lemma sample_alone: "\<forall>p st. ae_others sample_env p st = st" "\<forall>p. ae_save sample_env p = Saved"
  "\<forall>p i. stop_error i (ae_stop sample_env p i) (ae_clock sample_env (Suc p)) = None"
  by (simp_all add: sample_env_def stop_error_def validateCloseResponse_def)

subsection \<open>Witnesses\<close>

lemma open_agent_live: "session1 \<in> cf_live open_agent"
  by (simp add: open_agent_def)


theorem agent_capacity_kept_witness:
  "agent_runs sample_config orderly open_agent \<and> as_sessions (cf_state open_agent) \<noteq> [] \<and>
    length (filter (\<lambda>e. ar_Status (snd e) \<in> {AgentStarting, AgentRunning}) (as_sessions (cf_state open_agent))) \<le> 2 \<and>
    length (filter (\<lambda>r. ar_Status r \<in> {AgentStarting, AgentRunning}) (as_file (cf_state open_agent))) \<le> 2"
proof -
  have "nat (cfg_maxSessions sample_config) = 2" "as_sessions (cf_state open_agent) \<noteq> []"
    by (simp_all add: sample_config_def open_agent_def sample_begun_def)
  then show ?thesis using sample_runs_agent agent_capacity_kept [OF sample_runs_agent] by simp
qed


theorem web_only_start_blocks_recovery_witness:
  "cq_WebOnly web_create \<and> (\<exists>st'. start_begin sample_config web_create (1000 * second) (1000 * second) Saved blank = (StartCall, st') \<and>
    isl (fst (recover_begin sample_config (2000 * second) Saved (st'\<lparr>as_sessions := []\<rparr>))))"
proof -
  have w: "cq_WebOnly web_create" by (simp add: web_create_def)
  obtain st' where st': "start_begin sample_config web_create (1000 * second) (1000 * second) Saved blank = (StartCall, st')"
    using web_start_begin by blast
  show ?thesis using web_only_start_blocks_recovery [OF sample_create_valid(3) w st', of "2000 * second" Saved] w st' by auto
qed

theorem start_retry_same_session_witness:
  "\<exists>p w' p' w''. Start sample_env sample_config sample_create sample_agent = (Inr p, w') \<and>
    Start sample_env sample_config sample_create w' = (Inr p', w'') \<and>
    p'\<lparr>cr_ConnectionMode := []\<rparr> = p\<lparr>cr_ConnectionMode := []\<rparr> \<and> aw_state w'' = aw_state w'"
proof -
  have "\<not> isl (fst (Start sample_env sample_config sample_create sample_agent))" by code_simp
  then obtain p w' where s: "Start sample_env sample_config sample_create sample_agent = (Inr p, w')"
    by (metis prod.collapse sum.collapse(2))
  have v: "validateCreateRequest sample_config (if cq_ExpiresAt sample_create = None then 0 else ae_clock sample_env (aw_pos w')) sample_create = None"
    using sample_create_valid(2) by (simp add: sample_create_def)
  show ?thesis
    using start_retry_same_session [OF sample_alone(1) _ _ s v] s by (force simp: sample_agent_def blank_def)
qed

theorem sweep_ends_overdue_witness:
  "(session1, late_record) \<in> set (as_sessions (aw_state late_agent)) \<and> ar_Status late_record = AgentRunning \<and>
   overdue (ae_clock sample_env (aw_pos late_agent)) late_record \<and>
   (\<exists>w'. agent_ReapExpired sample_env sample_config late_agent = (None, w') \<and>
     (\<forall>k\<in>set (as_sessions (aw_state w')). ar_Status (snd k) \<noteq> AgentRevokeFailed \<and>
       \<not> (ar_Status (snd k) = AgentRunning \<and> overdue (1000 * second) (snd k))))"
proof -
  have i: "IsUUID session1" by code_simp
  have d: "distinct (map fst (as_sessions (aw_state late_agent)))"
    "\<forall>k\<in>set (as_sessions (aw_state late_agent)). ar_SessionID (snd k) = fst k \<and> IsUUID (fst k)"
    using i by (simp_all add: late_agent_def late_record_def running_record_def start_record_def sample_create_def)
  have "ae_clock sample_env (aw_pos late_agent) = 1000 * second" by (simp add: sample_env_def)
  then show ?thesis
    using sweep_ends_overdue [OF sample_alone d, of sample_config]
    by (auto simp: late_agent_def late_record_def running_record_def overdue_def)
qed


end
