(* ===== verification/Spec2Isabelle.thy ===== *)
theory Spec2Isabelle
  imports Witnesses AgentSamples
begin

text \<open>
  A verification library of the access gateway, a control plane that hands out time-limited network
  access to assets. A user asks for access to a port of an asset; the approvers of the asset's
  workflow vote level by level; an approved request becomes a session, which a worker opens on a
  gateway; the session ends when its time is over, when its owner or an administrator closes it, or
  when the user, the asset, the gateway or the region is withdrawn. Commands to gateways and
  notifications go through a transactional outbox, and every change leaves an audit event.

  \<^bold>\<open>Parts and theories.\<close> Paths are relative to \<open>src/internal\<close>.
  \<^item> \<open>Prelude\<close>, \<open>Gostd\<close>: the parts of Go's standard library the code uses, on byte strings.
  \<^item> \<open>Labels\<close> (\<open>label\<close>): labels, their validation, selectors with parser, printer and matching.
  \<^item> \<open>Iam\<close> (\<open>authz\<close>, \<open>iam\<close>): permissions, built-in policy, roles, bindings and the resolver.
  \<^item> \<open>Approvalflow\<close> (\<open>approvalflow\<close>): workflow definitions, ownership rules and snapshots.
  \<^item> \<open>Domain\<close> (\<open>domain\<close>, \<open>operationaudit\<close>, \<open>id\<close>): entities, statuses, events and errors.
  \<^item> \<open>Store\<close>: the database \<open>db\<close> with one row list per table, the service \<open>svc\<close>, the monad \<open>M\<close> of
    fallible, state-changing code, statements and transactions (\<open>service/transaction.go\<close>).
  \<^item> \<open>Repository\<close> (\<open>repository\<close>): one definition per SQL statement.
  \<^item> \<open>Workflow\<close>, \<open>Metadata\<close>, \<open>Service\<close> (\<open>service\<close>): approval progress, the sanitiser of event
    metadata, authorisation, audit, notifications and the outbox.
  \<^item> \<open>Approval\<close>, \<open>Requests\<close>, \<open>Provision\<close>, \<open>Revoke\<close>, \<open>Outbox\<close>, \<open>Evidence\<close>, \<open>Governance\<close>, \<open>Views\<close>
    (\<open>service\<close>): the handlers and workers. A definition has the name of the Go function; the body of
    a transaction is a definition of its own, with suffix \<open>_tx\<close>.
  \<^item> \<open>Frames\<close>, \<open>Steps\<close>, \<open>Lifecycle\<close>, \<open>Grants\<close>: the proof library. \<open>keeps R m\<close> says that \<open>m\<close> moves the
    database along \<open>R\<close>; the locale \<open>db_relation\<close> gives the rules for a preorder \<open>R\<close>, and is
    interpreted for each relation of interest. \<open>db_step\<close> has one rule per statement.
  \<^item> \<open>System\<close>: the control plane as a whole. \<open>control_step\<close> has one rule per handler and worker.
  \<^item> \<open>Queueing\<close>, \<open>Guarantees\<close>: the loops that queue revocations, and guarantees of single handlers.
  \<^item> \<open>Agent\<close> (\<open>gatewayagent\<close>, validation of \<open>gateway/client.go\<close>): the session manager of an agent, with the
    map of sessions and the state file as \<open>agent_state\<close>. A section under the manager's lock is a
    definition (\<open>start_begin\<close>, \<open>stop_end\<close>, ...), and the operations are composed of them.
  \<^item> \<open>Interleaving\<close>: the manager with all its goroutines. \<open>agent_step\<close> has one rule per section, per answer
    of the controller, and for crash and recovery; the locale \<open>agent_invariant\<close> carries invariants to
    all runs, and is interpreted in \<open>Interleaving\<close>, \<open>Capacity\<close> and \<open>Restart\<close>.
  \<^item> \<open>Sweeps\<close>, \<open>Operations\<close>: whole operations without interference, and as paths of \<open>agent_step\<close>.
  \<^item> \<open>Samples\<close>, \<open>Witnesses\<close>, \<open>AgentSamples\<close>: a small installation and a small agent, executed,
    on which the theorems are applied.

  \<^bold>\<open>State and effects.\<close> \<open>'a M\<close> maps a \<open>world\<close> (tables, position, transaction time) to an error or a
  value and the next world. \<open>svc\<close> is the receiver of the Go methods. What it observes from outside is
  a function of the position, which grows with each observation: the clock, random bytes, whether a
  statement or a commit fails, the answers of gateways, and what other workers commit before the next
  transaction. A theorem for all \<open>svc\<close> holds for all of these. A transaction runs on its own: row
  locks and advisory locks of the code serialise the decisions, so their order is the order of the
  transactions; a failed body or commit leaves the tables as they were. Between transactions other
  workers may do what \<open>peers\<close> allows, the statements of the code itself.

  \<^bold>\<open>What the lemmas show.\<close>
  \<^item> Of every state reached from an empty database, with any failures and interleavings: no session
    without a complete approval, sessions start only while everything is in service and within the
    approved time, one active session per applicant and port, nobody asked about a request of their
    own, bounded requests and sessions (\<open>Grants\<close>, \<open>System\<close>, \<open>Guarantees\<close>).
  \<^item> Of every run: sessions, requests, approvals and outbox commands move along their state machines,
    final states are final, the logs are append-only (\<open>Lifecycle\<close>, \<open>System\<close>); the session table
    refines an abstract machine (\<open>Guarantees\<close>).
  \<^item> Of single operations: exact authorisation, voting in turn, materialised approval chains,
    capacity, leases, the last administrator, failed commands without effect.
  \<^item> Of the agent, for every interleaving, failed save and crash: no listener without an unended record in
    the state file, no more started sessions than the limit, and a state file that the next start
    accepts, web-only sessions excepted; a sweep ends what is overdue, a retried start answers the same.
  \<^item> Of pure code: parsing and printing of selectors, resolver against direct membership, the
    sanitiser, identifiers.

  \<^bold>\<open>Bounds and termination.\<close> All definitions are total and executable; the sweep loop of the agent runs
  for a given number of ticks. The only other loop of the code that
  need not end is \<open>enqueueRevocationBatches\<close>; it is a \<open>partial_function\<close> with \<open>None\<close> for not
  returning, and it is proved to return while other workers keep queued commands active. Integers
  are unbounded where the code checks ranges before it computes; times are nanoseconds.

  \<^bold>\<open>Assumptions on the agent.\<close> A listener opens only while the controller handles a start or a restore, and a
  stop that the controller confirms, or an end that it reports, means that the listener is gone. A save
  that fails may have replaced the file (\<open>save_result\<close>); a crash loses the memory, not the file. No
  client starts a session whose record was dropped while an older call for it is still in flight.
  Requests are served after recovery. Only tests construct the manager at present.

  \<^bold>\<open>Parameters.\<close> The controller, the disk and the clock of the agent are \<open>agent_env\<close>. The Casbin enforcer, the gateway client, the notifier, the encrypted audit
  configuration, the certificate registry, error texts and the mail address parser are fields of
  \<open>svc\<close>, listed in theory \<open>Store\<close>. A theorem that relies on one states it as a hypothesis.

  \<^bold>\<open>Not modelled.\<close> The HTTP transport, start-up and configuration; login, invitations and one-time
  passwords; cloud and CMDB synchronisation; the controllers of the agent, listeners, protocol proxies
  and containers; cryptography; the browser application. They do not change the tables that the
  theorems are about, or only tables outside the access lifecycle, except for the catalogue of assets
  and users, which the step relation lets change in any way.
\<close>

end
